(* ===== verification/Go_Prelude.thy ===== *)
theory Go_Prelude
  imports Main "HOL-Library.Word"
begin

text \<open>
  The vocabulary every component shares: Go errors, byte slices with their nil value,
  and the functions of the packages \<open>strings\<close> and \<open>fmt\<close> that the program calls.
  A Go string and a Go byte slice are both a \<^typ>\<open>string\<close> here (a list of characters,
  each of them one byte); a slice whose nil value matters is a \<^typ>\<open>string option\<close>.
  The collections \<open>go_simps\<close> and \<open>slice_simps\<close> gather the equations that the
  proofs about the components hand to the simplifier.
\<close>

named_theorems go_simps \<open>evaluation of the string functions\<close>
named_theorems slice_simps \<open>facts about nil and non-nil slices\<close>

section \<open>Errors\<close>

text \<open>
  A Go \<open>error\<close> value. The program only distinguishes an API error whose reason is
  NotFound from every other error; beyond that it prints the text.
\<close>

datatype gerr = Err string | NotFound string

fun err_text :: "gerr \<Rightarrow> string" where
  "err_text (Err s) = s"
| "err_text (NotFound s) = s"

fun IsNotFound :: "gerr \<Rightarrow> bool" where
  "IsNotFound (NotFound s) = True"
| "IsNotFound (Err s) = False"

fun IgnoreNotFound :: "gerr \<Rightarrow> gerr option" where
  "IgnoreNotFound e = (if IsNotFound e then None else Some e)"

section \<open>Byte slices\<close>

type_synonym slice = "string option"

fun slice_bytes :: "slice \<Rightarrow> string" where
  "slice_bytes None = []"
| "slice_bytes (Some s) = s"

definition slice_len :: "slice \<Rightarrow> nat" where
  "slice_len s = length (slice_bytes s)"

text \<open>\<open>append(a, b...)\<close>: appending nothing to nil leaves nil.\<close>

definition slice_append :: "slice \<Rightarrow> slice \<Rightarrow> slice" where
  "slice_append a b =
     (if slice_bytes b = [] then a else Some (slice_bytes a @ slice_bytes b))"

lemma slice_len_simps [simp, slice_simps]:
  "slice_len None = 0" "slice_len (Some s) = length s"
  by (simp_all add: slice_len_def)

lemma slice_len_0_iff [simp, slice_simps]: "slice_len s = 0 \<longleftrightarrow> slice_bytes s = []"
  by (simp add: slice_len_def)

lemma slice_bytes_append [simp, slice_simps]:
  "slice_bytes (slice_append a b) = slice_bytes a @ slice_bytes b"
  by (simp add: slice_append_def)

lemma slice_append_nil_iff [slice_simps]:
  "slice_append a b = None \<longleftrightarrow> a = None \<and> slice_bytes b = []"
  by (auto simp: slice_append_def)

section \<open>Strings\<close>

text \<open>
  \<open>strings.ToLower\<close>, as far as a comparison with an ASCII constant can observe it: the
  upper case ASCII letters, and the two code points outside ASCII whose lower case form is
  an ASCII letter, U+0130 (bytes C4 B0) and U+212A (bytes E2 84 AA). Every other code point
  outside ASCII stays outside ASCII under the Go function and is left as it is here.
\<close>

definition to_lower_char :: "char \<Rightarrow> char" where
  "to_lower_char c =
     (let n = (of_char c :: nat) in if 65 \<le> n \<and> n \<le> 90 then char_of (n + 32) else c)"

fun ToLower :: "string \<Rightarrow> string" where
  "ToLower [] = []"
| "ToLower (c # s) =
     (case s of
        d # t \<Rightarrow>
          if c = CHR 0xC4 \<and> d = CHR 0xB0 then CHR ''i'' # ToLower t
          else (case t of
                  e # u \<Rightarrow>
                    if c = CHR 0xE2 \<and> d = CHR 0x84 \<and> e = CHR 0xAA then CHR ''k'' # ToLower u
                    else to_lower_char c # ToLower s
                | [] \<Rightarrow> to_lower_char c # ToLower s)
      | [] \<Rightarrow> [to_lower_char c])"

text \<open>\<open>strings.Split(s, sep)\<close> for a separator of one byte: never the empty list.\<close>

fun Split :: "string \<Rightarrow> char \<Rightarrow> string list" where
  "Split [] sep = [[]]"
| "Split (c # s) sep =
     (if c = sep then [] # Split s sep
      else (case Split s sep of [] \<Rightarrow> [[c]] | x # xs \<Rightarrow> (c # x) # xs))"

lemma Split_neq_Nil [simp]: "Split s sep \<noteq> []"
  by (induction s) (auto split: list.splits)

lemma Split_hd: "hd (Split s sep) = takeWhile (\<lambda>c. c \<noteq> sep) s"
proof (induction s)
  case (Cons c s)
  then show ?case
    by (cases "Split s sep") (simp_all add: Split_neq_Nil)
qed simp

text \<open>Printing a list of strings with the verb \<open>%s\<close>: the elements in brackets.\<close>

fun join_sp :: "string list \<Rightarrow> string" where
  "join_sp [] = []"
| "join_sp [x] = x"
| "join_sp (x # xs) = x @ '' '' @ join_sp xs"

definition fmt_strings :: "string list \<Rightarrow> string" where
  "fmt_strings xs = ''['' @ join_sp xs @ '']''"

text \<open>
  \<open>fmt.Sprintf\<close> for string operands and the verbs \<open>%s\<close>, \<open>%v\<close> and \<open>%%\<close>, with
  the texts Go prints for a missing operand and for operands left over. The program calls
  its status function with constant formats that hold no other verb.
\<close>

fun join_extra :: "string list \<Rightarrow> string" where
  "join_extra [] = []"
| "join_extra [x] = ''string='' @ x"
| "join_extra (x # xs) = ''string='' @ x @ '', '' @ join_extra xs"

fun Sprintf :: "string \<Rightarrow> string list \<Rightarrow> string" where
  "Sprintf [] [] = []"
| "Sprintf [] args = ''%!(EXTRA '' @ join_extra args @ '')''"
| "Sprintf (c # f) args =
     (if c = CHR ''%'' then
        (case f of
           [] \<Rightarrow> ''%!(NOVERB)'' @ Sprintf [] args
         | v # g \<Rightarrow>
             if v = CHR ''%'' then CHR ''%'' # Sprintf g args
             else (case args of
                     [] \<Rightarrow> ''%!'' @ [v] @ ''(MISSING)'' @ Sprintf g []
                   | a # as \<Rightarrow>
                       if v = CHR ''s'' \<or> v = CHR ''v'' then a @ Sprintf g as
                       else ''%!'' @ [v] @ ''(string='' @ a @ '')'' @ Sprintf g as))
      else c # Sprintf f args)"

lemma Sprintf_plain [go_simps]: "CHR ''%'' \<notin> set f \<Longrightarrow> Sprintf f [] = f"
  by (induction f) auto

lemma Sprintf_percent_s [go_simps]: "Sprintf ''%s'' [a] = a"
  by simp

text \<open>A constant ASCII format without a percent sign prints itself.\<close>

lemma ToLower_ascii:
  assumes "\<forall>c \<in> set s. (of_char c :: nat) < 128"
  shows "ToLower s = map to_lower_char s"
  using assms by (induction s rule: ToLower.induct) (auto split: list.splits)

section \<open>Lists searched from the left\<close>

text \<open>The first success of an option-valued function along a list.\<close>

fun first_some :: "('a \<Rightarrow> 'b option) \<Rightarrow> 'a list \<Rightarrow> 'b option" where
  "first_some f [] = None"
| "first_some f (x # xs) = (case f x of None \<Rightarrow> first_some f xs | Some y \<Rightarrow> Some y)"

lemma first_some_None_iff: "first_some f xs = None \<longleftrightarrow> (\<forall>x \<in> set xs. f x = None)"
  by (induction xs) (auto split: option.splits)

lemma first_some_SomeD: "first_some f xs = Some y \<Longrightarrow> \<exists>x \<in> set xs. f x = Some y"
  by (induction xs) (auto split: option.splits)

lemma first_some_ex: "x \<in> set xs \<Longrightarrow> f x = Some y \<Longrightarrow> \<exists>z. first_some f xs = Some z"
  by (induction xs) (auto split: option.splits)

end
