(* ===== verification/Api_Types.thy ===== *)
theory Api_Types
  imports Go_Prelude
begin

text \<open>
  The API objects: the types of \<open>src/api/v1\<close>, field by field, and the fields of the
  Kubernetes and cert-manager objects that the program reads or writes. Fields carry a
  prefix because HOL selectors are global: \<open>ar_\<close> for AdcsRequest, \<open>ai_\<close> for
  AdcsIssuer, \<open>cai_\<close> for ClusterAdcsIssuer, \<open>cr_\<close> for CertificateRequest.
\<close>

section \<open>Names, references and metadata\<close>

text \<open>\<open>client.ObjectKey\<close>: a namespace and a name.\<close>

record ObjectKey =
  key_Namespace :: string
  key_Name :: string

record IssuerReference =
  ref_Name :: string
  ref_Kind :: string
  ref_Group :: string

record OwnerReference =
  own_APIVersion :: string
  own_Kind :: string
  own_Name :: string
  own_UID :: string
  own_Controller :: bool

record ObjectMeta =
  meta_Name :: string
  meta_Namespace :: string
  meta_UID :: string
  meta_OwnerReferences :: "OwnerReference list"

definition key_of :: "ObjectMeta \<Rightarrow> ObjectKey" where
  "key_of m = \<lparr>key_Namespace = meta_Namespace m, key_Name = meta_Name m\<rparr>"

record LocalObjectReference =
  lor_Name :: string

record CABundleReference =
  cab_Name :: string
  cab_Kind :: string
  cab_Key :: string
  cab_Keys :: "string list"

text \<open>\<open>GroupVersion\<close> of groupversion_info.go.\<close>

definition GroupVersion_Group :: string where
  "GroupVersion_Group = ''adcs.certmanager.csf.nokia.com''"

definition GroupVersion_Version :: string where
  "GroupVersion_Version = ''v1''"

section \<open>AdcsRequest\<close>

text \<open>\<open>State\<close> is a string type in the code, so any other string is a value of it too.\<close>

type_synonym State = string

definition StateUnknown :: State where "StateUnknown = ''''"
definition StatePending :: State where "StatePending = ''pending''"
definition StateReady :: State where "StateReady = ''ready''"
definition StateErrored :: State where "StateErrored = ''errored''"
definition StateRejected :: State where "StateRejected = ''rejected''"

lemmas State_defs = StateUnknown_def StatePending_def StateReady_def
  StateErrored_def StateRejected_def

lemma State_distinct [simp]:
  "StateUnknown \<noteq> StatePending" "StateUnknown \<noteq> StateReady" "StateUnknown \<noteq> StateErrored"
  "StateUnknown \<noteq> StateRejected" "StatePending \<noteq> StateUnknown" "StatePending \<noteq> StateReady"
  "StatePending \<noteq> StateErrored" "StatePending \<noteq> StateRejected" "StateReady \<noteq> StateUnknown"
  "StateReady \<noteq> StatePending" "StateReady \<noteq> StateErrored" "StateReady \<noteq> StateRejected"
  "StateErrored \<noteq> StateUnknown" "StateErrored \<noteq> StatePending" "StateErrored \<noteq> StateReady"
  "StateErrored \<noteq> StateRejected" "StateRejected \<noteq> StateUnknown" "StateRejected \<noteq> StatePending"
  "StateRejected \<noteq> StateReady" "StateRejected \<noteq> StateErrored"
  by (simp_all add: State_defs)

record AdcsRequestSpec =
  ar_CSRPEM :: slice
  ar_IssuerRef :: IssuerReference

record AdcsRequestStatus =
  ar_Id :: string
  ar_State :: State
  ar_Reason :: string

record AdcsRequest =
  ar_meta :: ObjectMeta
  ar_Spec :: AdcsRequestSpec
  ar_Status :: AdcsRequestStatus

text \<open>The status of an object that was created without one.\<close>

definition zero_status :: AdcsRequestStatus where
  "zero_status = \<lparr>ar_Id = '''', ar_State = StateUnknown, ar_Reason = ''''\<rparr>"

section \<open>AdcsIssuer and ClusterAdcsIssuer\<close>

record AdcsIssuerSpec =
  ai_URL :: string
  ai_CredentialsRef :: LocalObjectReference
  ai_CABundle :: slice
  ai_CABundleRef :: CABundleReference
  ai_StatusCheckInterval :: string
  ai_RetryInterval :: string
  ai_TemplateName :: string

record AdcsIssuer =
  ai_meta :: ObjectMeta
  ai_Spec :: AdcsIssuerSpec

record ClusterAdcsIssuerSpec =
  cai_URL :: string
  cai_CredentialsRef :: LocalObjectReference
  cai_CABundle :: slice
  cai_CABundleRef :: CABundleReference
  cai_StatusCheckInterval :: string
  cai_RetryInterval :: string
  cai_TemplateName :: string

record ClusterAdcsIssuer =
  cai_meta :: ObjectMeta
  cai_Spec :: ClusterAdcsIssuerSpec

section \<open>Kubernetes and cert-manager objects\<close>

record Secret =
  secret_Data :: "string \<rightharpoonup> string"

record ConfigMap =
  configmap_Data :: "string \<rightharpoonup> string"

type_synonym time = int

record CertificateRequestCondition =
  cond_Type :: string
  cond_Status :: string
  cond_Reason :: string
  cond_Message :: string
  cond_LastTransitionTime :: "time option"

record CertificateRequestSpec =
  cr_Request :: slice
  cr_IssuerRef :: IssuerReference

record CertificateRequestStatus =
  cr_Conditions :: "CertificateRequestCondition list"
  cr_Certificate :: slice
  cr_CA :: slice
  cr_FailureTime :: "time option"

record CertificateRequest =
  cr_meta :: ObjectMeta
  cr_Spec :: CertificateRequestSpec
  cr_Status :: CertificateRequestStatus

text \<open>The constants of cert-manager's API that the program uses.\<close>

definition ConditionTrue :: string where "ConditionTrue = ''True''"
definition ConditionFalse :: string where "ConditionFalse = ''False''"
definition ConditionReady :: string where "ConditionReady = ''Ready''"
definition ReasonPending :: string where "ReasonPending = ''Pending''"
definition ReasonFailed :: string where "ReasonFailed = ''Failed''"
definition ReasonIssued :: string where "ReasonIssued = ''Issued''"
definition ReasonDenied :: string where "ReasonDenied = ''Denied''"

lemmas cm_consts = ConditionTrue_def ConditionFalse_def ConditionReady_def
  ReasonPending_def ReasonFailed_def ReasonIssued_def ReasonDenied_def

lemma cm_consts_distinct [simp]:
  "ConditionTrue \<noteq> ConditionFalse" "ConditionFalse \<noteq> ConditionTrue"
  by (simp_all add: cm_consts)

end
