(* ===== verification/Effects.thy ===== *)
theory Effects
  imports Api_Types
begin

text \<open>
  Programs with effects. What the code does beyond computing (HTTP exchanges with the
  ADCS web service, calls of the Kubernetes API, events, the clock, the environment, the
  Kerberos library) is a \<^emph>\<open>call\<close>, and a Go function that makes calls is a tree: at
  each node a call, and for every answer the rest of the function. Whatever the other side
  of a call does is then an arbitrary answer, so a fact about all runs of a program holds
  for every behaviour of the servers and of the library.

  \<open>Ret\<close> is a normal return, \<open>Panic\<close> a run-time panic. \<open>run\<close> replays a program
  against a trace of calls and answers; \<open>runs_sat p Q\<close> says that every complete run of
  \<open>p\<close>, whatever the answers, satisfies \<open>Q\<close> of its trace and its outcome. The
  equations collected in \<open>runs\<close> compute \<open>runs_sat\<close> along the structure of a program.
\<close>

section \<open>Calls and answers\<close>

text \<open>
  The HTTP client a request is sent with: its TLS root certificates (None stands for the
  system's), whether verification is switched off, and how it authenticates.
\<close>

datatype http_auth = PlainTransport | NtlmNegotiator | SpnegoClient string string

record http_client =
  hc_auth :: http_auth
  hc_RootCAs :: "string list option"
  hc_InsecureSkipVerify :: bool

record http_request =
  rq_Method :: string
  rq_URL :: string
  rq_BasicAuth :: "(string \<times> string) option"
  rq_Header :: "(string \<times> string) list"
  rq_Body :: string

text \<open>
  A response. \<open>rs_ContentType\<close> is what \<open>Header.Get\<close> returns for the content type.
  Reading the whole body yields \<open>rs_Body\<close> and, when the stream breaks off, the read
  error \<open>rs_ReadErr\<close> with the bytes received until then.
\<close>

record http_response =
  rs_StatusCode :: int
  rs_Status :: string
  rs_ContentType :: string
  rs_Body :: string
  rs_ReadErr :: "gerr option"

datatype robject = OAR AdcsRequest | OCR CertificateRequest

datatype call =
    CHttp http_client http_request
  | CCloseBody http_response
  | CGetenv string
  | CGetAR ObjectKey
  | CGetCR ObjectKey
  | CGetAI ObjectKey
  | CGetCAI ObjectKey
  | CGetSecret ObjectKey
  | CGetConfigMap ObjectKey
  | CCreateAR AdcsRequest
  | CDeleteAR AdcsRequest
  | CUpdateARStatus AdcsRequest
  | CUpdateCRStatus CertificateRequest
  | CEvent robject string string string
  | CNow
  | CKrbLoadConfig string
  | CKrbLogin string string string
  | CSystemCertPool

datatype answer =
    is_AHttp: AHttp "gerr + http_response"
  | is_ADone: ADone
  | is_AErr: AErr "gerr option"
  | is_AString: AString string
  | is_AGetAR: AGetAR "gerr + AdcsRequest"
  | is_AGetCR: AGetCR "gerr + CertificateRequest"
  | is_AGetAI: AGetAI "gerr + AdcsIssuer"
  | is_AGetCAI: AGetCAI "gerr + ClusterAdcsIssuer"
  | is_AGetSecret: AGetSecret "gerr + Secret"
  | is_AGetConfigMap: AGetConfigMap "gerr + ConfigMap"
  | is_ATime: ATime time
  | is_APool: APool "gerr + string list"

text \<open>Which answers a call can have.\<close>

primrec answers :: "call \<Rightarrow> answer \<Rightarrow> bool" where
  "answers (CHttp cl rq) = is_AHttp"
| "answers (CCloseBody res) = is_ADone"
| "answers (CGetenv v) = is_AString"
| "answers (CGetAR k) = is_AGetAR"
| "answers (CGetCR k) = is_AGetCR"
| "answers (CGetAI k) = is_AGetAI"
| "answers (CGetCAI k) = is_AGetCAI"
| "answers (CGetSecret k) = is_AGetSecret"
| "answers (CGetConfigMap k) = is_AGetConfigMap"
| "answers (CCreateAR ar) = is_AErr"
| "answers (CDeleteAR ar) = is_AErr"
| "answers (CUpdateARStatus ar) = is_AErr"
| "answers (CUpdateCRStatus cr) = is_AErr"
| "answers (CEvent obj et rs msg) = is_ADone"
| "answers CNow = is_ATime"
| "answers (CKrbLoadConfig path) = is_AErr"
| "answers (CKrbLogin user realm pass) = is_AErr"
| "answers CSystemCertPool = is_APool"

section \<open>Programs\<close>

datatype 'a prog =
    Ret 'a
  | Panic string
  | Call call "answer \<Rightarrow> 'a prog"

datatype 'a outcome = Returned 'a | Panicked string

primrec bind :: "'a prog \<Rightarrow> ('a \<Rightarrow> 'b prog) \<Rightarrow> 'b prog" where
  "bind (Ret a) f = f a"
| "bind (Panic s) f = Panic s"
| "bind (Call c k) f = Call c (\<lambda>r. bind (k r) f)"

lemma bind_Ret_right [simp]: "bind p Ret = p"
  by (induction p) auto

lemma bind_assoc: "bind (bind p f) g = bind p (\<lambda>a. bind (f a) g)"
  by (induction p) auto

text \<open>\<open>defer res.Body.Close()\<close>: the body is closed when the function returns or panics.\<close>

primrec defer_close :: "http_response \<Rightarrow> 'a prog \<Rightarrow> 'a prog" where
  "defer_close res (Ret a) = Call (CCloseBody res) (\<lambda>_. Ret a)"
| "defer_close res (Panic s) = Call (CCloseBody res) (\<lambda>_. Panic s)"
| "defer_close res (Call c k) = Call c (\<lambda>r. defer_close res (k r))"

section \<open>One wrapper per kind of call\<close>

text \<open>
  The wrappers give a call its typed answer. An answer of another kind does not occur
  (\<open>answers\<close> rules it out of every run), so the last branch is never taken.
\<close>

definition http_Do :: "http_client \<Rightarrow> http_request \<Rightarrow> (gerr + http_response) prog" where
  "http_Do cl rq = Call (CHttp cl rq)
     (\<lambda>a. case a of AHttp r \<Rightarrow> Ret r | _ \<Rightarrow> Panic ''answer'')"

definition Getenv :: "string \<Rightarrow> string prog" where
  "Getenv v = Call (CGetenv v) (\<lambda>a. case a of AString s \<Rightarrow> Ret s | _ \<Rightarrow> Panic ''answer'')"

definition GetAR :: "ObjectKey \<Rightarrow> (gerr + AdcsRequest) prog" where
  "GetAR k = Call (CGetAR k) (\<lambda>a. case a of AGetAR r \<Rightarrow> Ret r | _ \<Rightarrow> Panic ''answer'')"

definition GetCR :: "ObjectKey \<Rightarrow> (gerr + CertificateRequest) prog" where
  "GetCR k = Call (CGetCR k) (\<lambda>a. case a of AGetCR r \<Rightarrow> Ret r | _ \<Rightarrow> Panic ''answer'')"

definition GetAI :: "ObjectKey \<Rightarrow> (gerr + AdcsIssuer) prog" where
  "GetAI k = Call (CGetAI k) (\<lambda>a. case a of AGetAI r \<Rightarrow> Ret r | _ \<Rightarrow> Panic ''answer'')"

definition GetCAI :: "ObjectKey \<Rightarrow> (gerr + ClusterAdcsIssuer) prog" where
  "GetCAI k = Call (CGetCAI k) (\<lambda>a. case a of AGetCAI r \<Rightarrow> Ret r | _ \<Rightarrow> Panic ''answer'')"

definition GetSecret :: "ObjectKey \<Rightarrow> (gerr + Secret) prog" where
  "GetSecret k = Call (CGetSecret k)
     (\<lambda>a. case a of AGetSecret r \<Rightarrow> Ret r | _ \<Rightarrow> Panic ''answer'')"

definition GetConfigMap :: "ObjectKey \<Rightarrow> (gerr + ConfigMap) prog" where
  "GetConfigMap k = Call (CGetConfigMap k)
     (\<lambda>a. case a of AGetConfigMap r \<Rightarrow> Ret r | _ \<Rightarrow> Panic ''answer'')"

definition err_call :: "call \<Rightarrow> gerr option prog" where
  "err_call c = Call c (\<lambda>a. case a of AErr e \<Rightarrow> Ret e | _ \<Rightarrow> Panic ''answer'')"

definition CreateAR :: "AdcsRequest \<Rightarrow> gerr option prog" where
  "CreateAR ar = err_call (CCreateAR ar)"

definition DeleteAR :: "AdcsRequest \<Rightarrow> gerr option prog" where
  "DeleteAR ar = err_call (CDeleteAR ar)"

definition UpdateARStatus :: "AdcsRequest \<Rightarrow> gerr option prog" where
  "UpdateARStatus ar = err_call (CUpdateARStatus ar)"

definition UpdateCRStatus :: "CertificateRequest \<Rightarrow> gerr option prog" where
  "UpdateCRStatus cr = err_call (CUpdateCRStatus cr)"

definition KrbLoadConfig :: "string \<Rightarrow> gerr option prog" where
  "KrbLoadConfig path = err_call (CKrbLoadConfig path)"

definition KrbLogin :: "string \<Rightarrow> string \<Rightarrow> string \<Rightarrow> gerr option prog" where
  "KrbLogin user realm pass = err_call (CKrbLogin user realm pass)"

definition SystemCertPool :: "(gerr + string list) prog" where
  "SystemCertPool = Call CSystemCertPool (\<lambda>a. case a of APool r \<Rightarrow> Ret r | _ \<Rightarrow> Panic ''answer'')"

definition Recorder_Event :: "robject \<Rightarrow> string \<Rightarrow> string \<Rightarrow> string \<Rightarrow> unit prog" where
  "Recorder_Event obj etype reason msg = Call (CEvent obj etype reason msg) (\<lambda>_. Ret ())"

definition Now :: "time prog" where
  "Now = Call CNow (\<lambda>a. case a of ATime t \<Rightarrow> Ret t | _ \<Rightarrow> Panic ''answer'')"

lemmas call_defs = http_Do_def Getenv_def GetAR_def GetCR_def GetAI_def GetCAI_def GetSecret_def
  GetConfigMap_def err_call_def CreateAR_def DeleteAR_def UpdateARStatus_def UpdateCRStatus_def
  KrbLoadConfig_def KrbLogin_def SystemCertPool_def Recorder_Event_def Now_def

text \<open>The nil pointer dereference of a method call on a nil pointer or a nil error.\<close>

definition nil_deref :: string where
  "nil_deref = ''invalid memory address or nil pointer dereference''"

definition err_Error :: "gerr option \<Rightarrow> string prog" where
  "err_Error e = (case e of None \<Rightarrow> Panic nil_deref | Some x \<Rightarrow> Ret (err_text x))"

section \<open>Runs\<close>

type_synonym trace = "(call \<times> answer) list"

primrec run :: "trace \<Rightarrow> 'a prog \<Rightarrow> 'a outcome option" where
  "run [] p = (case p of Ret a \<Rightarrow> Some (Returned a) | Panic s \<Rightarrow> Some (Panicked s)
               | Call c k \<Rightarrow> None)"
| "run (e # tr) p = (case p of
       Call c k \<Rightarrow> if fst e = c \<and> answers c (snd e) then run tr (k (snd e)) else None
     | _ \<Rightarrow> None)"

definition runs_sat :: "'a prog \<Rightarrow> (trace \<Rightarrow> 'a outcome \<Rightarrow> bool) \<Rightarrow> bool" where
  "runs_sat p Q = (\<forall>tr o'. run tr p = Some o' \<longrightarrow> Q tr o')"

named_theorems runs \<open>weakest preconditions of programs\<close>

lemma run_Call_iff:
  "run tr (Call c k) = Some z \<longleftrightarrow>
     (\<exists>r tr'. tr = (c, r) # tr' \<and> answers c r \<and> run tr' (k r) = Some z)"
  by (cases tr) auto

lemma run_Ret_iff [simp]: "run tr (Ret a) = Some z \<longleftrightarrow> tr = [] \<and> z = Returned a"
  by (cases tr) auto

lemma run_Panic_iff [simp]: "run tr (Panic s) = Some z \<longleftrightarrow> tr = [] \<and> z = Panicked s"
  by (cases tr) auto

lemma runs_satD: "runs_sat p Q \<Longrightarrow> run tr p = Some z \<Longrightarrow> Q tr z"
  by (simp add: runs_sat_def)

lemma runs_satI: "(\<And>tr z. run tr p = Some z \<Longrightarrow> Q tr z) \<Longrightarrow> runs_sat p Q"
  by (simp add: runs_sat_def)

lemma runs_sat_Ret [runs]: "runs_sat (Ret a) Q \<longleftrightarrow> Q [] (Returned a)"
  by (auto simp: runs_sat_def)

lemma runs_sat_Panic [runs]: "runs_sat (Panic s) Q \<longleftrightarrow> Q [] (Panicked s)"
  by (auto simp: runs_sat_def)

lemma runs_sat_Call:
  "runs_sat (Call c k) Q \<longleftrightarrow>
     (\<forall>r. answers c r \<longrightarrow> runs_sat (k r) (\<lambda>tr. Q ((c, r) # tr)))"
  by (auto simp: runs_sat_def run_Call_iff)

lemma runs_sat_bind:
  "runs_sat (bind p f) Q \<longleftrightarrow>
     runs_sat p (\<lambda>tr z. case z of
        Returned a \<Rightarrow> runs_sat (f a) (\<lambda>tr'. Q (tr @ tr'))
      | Panicked s \<Rightarrow> Q tr (Panicked s))"
  by (induction p arbitrary: Q) (simp_all add: runs_sat_Ret runs_sat_Panic runs_sat_Call)

lemma runs_sat_bindI:
  assumes "runs_sat p P"
    and "\<And>tr a. P tr (Returned a) \<Longrightarrow> runs_sat (f a) (\<lambda>tr'. Q (tr @ tr'))"
    and "\<And>tr s. P tr (Panicked s) \<Longrightarrow> Q tr (Panicked s)"
  shows "runs_sat (bind p f) Q"
  using assms by (auto simp: runs_sat_bind runs_sat_def [of p] split: outcome.splits)

lemma runs_sat_mono:
  "runs_sat p P \<Longrightarrow> (\<And>tr z. P tr z \<Longrightarrow> Q tr z) \<Longrightarrow> runs_sat p Q"
  by (simp add: runs_sat_def)

lemma runs_sat_conj: "runs_sat p (\<lambda>tr z. P tr z \<and> Q tr z) \<longleftrightarrow> runs_sat p P \<and> runs_sat p Q"
  by (auto simp: runs_sat_def)

lemma runs_sat_True [simp]: "runs_sat p (\<lambda>_ _. True)"
  by (simp add: runs_sat_def)

lemma runs_sat_if [runs]:
  "runs_sat (if b then p else q) Q \<longleftrightarrow> (if b then runs_sat p Q else runs_sat q Q)"
  by simp

lemma runs_sat_let [runs]: "runs_sat (let x = e in f x) Q \<longleftrightarrow> runs_sat (f e) Q"
  by (simp add: Let_def)

text \<open>A run of a sequence is a run of its first part followed by one of the second.\<close>

lemma run_bind_iff:
  "run tr (bind p f) = Some z \<longleftrightarrow>
     (\<exists>tr1 tr2 a. tr = tr1 @ tr2 \<and> run tr1 p = Some (Returned a) \<and> run tr2 (f a) = Some z) \<or>
     (\<exists>s. run tr p = Some (Panicked s) \<and> z = Panicked s)"
proof (induction p arbitrary: tr)
  case (Call c k)
  show ?case
    by (simp add: run_Call_iff Call, auto simp: Cons_eq_append_conv) (metis append_Cons)+
qed auto

lemma run_bind_seq: "run tr p = Some (Returned a) \<Longrightarrow> run (tr @ tr') (bind p f) = run tr' (f a)"
proof (induction p arbitrary: tr)
  case (Call c k)
  then show ?case by (auto simp: run_Call_iff)
qed auto

lemma run_bind_cases:
  assumes "run tr (bind p f) = Some z"
  obtains (returned) tr1 tr2 a where "tr = tr1 @ tr2" "run tr1 p = Some (Returned a)"
      "run tr2 (f a) = Some z"
  | (panicked) s where "run tr p = Some (Panicked s)" "z = Panicked s"
  using assms by (auto simp: run_bind_iff)

text \<open>Each wrapper: for every typed answer, the rest.\<close>

lemma all_answers [simp]:
  "(\<forall>r. is_AHttp r \<longrightarrow> P r) \<longleftrightarrow> (\<forall>x. P (AHttp x))"
  "(\<forall>r. is_AErr r \<longrightarrow> P r) \<longleftrightarrow> (\<forall>x. P (AErr x))"
  "(\<forall>r. is_AString r \<longrightarrow> P r) \<longleftrightarrow> (\<forall>x. P (AString x))"
  "(\<forall>r. is_AGetAR r \<longrightarrow> P r) \<longleftrightarrow> (\<forall>x. P (AGetAR x))"
  "(\<forall>r. is_AGetCR r \<longrightarrow> P r) \<longleftrightarrow> (\<forall>x. P (AGetCR x))"
  "(\<forall>r. is_AGetAI r \<longrightarrow> P r) \<longleftrightarrow> (\<forall>x. P (AGetAI x))"
  "(\<forall>r. is_AGetCAI r \<longrightarrow> P r) \<longleftrightarrow> (\<forall>x. P (AGetCAI x))"
  "(\<forall>r. is_AGetSecret r \<longrightarrow> P r) \<longleftrightarrow> (\<forall>x. P (AGetSecret x))"
  "(\<forall>r. is_AGetConfigMap r \<longrightarrow> P r) \<longleftrightarrow> (\<forall>x. P (AGetConfigMap x))"
  "(\<forall>r. is_ATime r \<longrightarrow> P r) \<longleftrightarrow> (\<forall>x. P (ATime x))"
  "(\<forall>r. is_APool r \<longrightarrow> P r) \<longleftrightarrow> (\<forall>x. P (APool x))"
  "(\<forall>r. is_ADone r \<longrightarrow> P r) \<longleftrightarrow> P ADone"
  by (auto simp: is_ADone_def, (metis answer.collapse)+)

lemma runs_sat_http_Do [runs]:
  "runs_sat (bind (http_Do cl rq) f) Q \<longleftrightarrow>
     (\<forall>x. runs_sat (f x) (\<lambda>tr. Q ((CHttp cl rq, AHttp x) # tr)))"
  by (simp add: call_defs runs_sat_Call runs_sat_Ret)

lemma runs_sat_Getenv [runs]:
  "runs_sat (bind (Getenv v) f) Q \<longleftrightarrow>
     (\<forall>x. runs_sat (f x) (\<lambda>tr. Q ((CGetenv v, AString x) # tr)))"
  by (simp add: call_defs runs_sat_Call runs_sat_Ret)

lemma runs_sat_GetAR [runs]:
  "runs_sat (bind (GetAR k) f) Q \<longleftrightarrow>
     (\<forall>x. runs_sat (f x) (\<lambda>tr. Q ((CGetAR k, AGetAR x) # tr)))"
  by (simp add: call_defs runs_sat_Call runs_sat_Ret)

lemma runs_sat_GetCR [runs]:
  "runs_sat (bind (GetCR k) f) Q \<longleftrightarrow>
     (\<forall>x. runs_sat (f x) (\<lambda>tr. Q ((CGetCR k, AGetCR x) # tr)))"
  by (simp add: call_defs runs_sat_Call runs_sat_Ret)

lemma runs_sat_GetAI [runs]:
  "runs_sat (bind (GetAI k) f) Q \<longleftrightarrow>
     (\<forall>x. runs_sat (f x) (\<lambda>tr. Q ((CGetAI k, AGetAI x) # tr)))"
  by (simp add: call_defs runs_sat_Call runs_sat_Ret)

lemma runs_sat_GetCAI [runs]:
  "runs_sat (bind (GetCAI k) f) Q \<longleftrightarrow>
     (\<forall>x. runs_sat (f x) (\<lambda>tr. Q ((CGetCAI k, AGetCAI x) # tr)))"
  by (simp add: call_defs runs_sat_Call runs_sat_Ret)

lemma runs_sat_GetSecret [runs]:
  "runs_sat (bind (GetSecret k) f) Q \<longleftrightarrow>
     (\<forall>x. runs_sat (f x) (\<lambda>tr. Q ((CGetSecret k, AGetSecret x) # tr)))"
  by (simp add: call_defs runs_sat_Call runs_sat_Ret)

lemma runs_sat_GetConfigMap [runs]:
  "runs_sat (bind (GetConfigMap k) f) Q \<longleftrightarrow>
     (\<forall>x. runs_sat (f x) (\<lambda>tr. Q ((CGetConfigMap k, AGetConfigMap x) # tr)))"
  by (simp add: call_defs runs_sat_Call runs_sat_Ret)

lemma runs_sat_CreateAR [runs]:
  "runs_sat (bind (CreateAR ar) f) Q \<longleftrightarrow>
     (\<forall>x. runs_sat (f x) (\<lambda>tr. Q ((CCreateAR ar, AErr x) # tr)))"
  by (simp add: call_defs runs_sat_Call runs_sat_Ret)

lemma runs_sat_DeleteAR [runs]:
  "runs_sat (bind (DeleteAR ar) f) Q \<longleftrightarrow>
     (\<forall>x. runs_sat (f x) (\<lambda>tr. Q ((CDeleteAR ar, AErr x) # tr)))"
  by (simp add: call_defs runs_sat_Call runs_sat_Ret)

lemma runs_sat_UpdateARStatus [runs]:
  "runs_sat (bind (UpdateARStatus ar) f) Q \<longleftrightarrow>
     (\<forall>x. runs_sat (f x) (\<lambda>tr. Q ((CUpdateARStatus ar, AErr x) # tr)))"
  by (simp add: call_defs runs_sat_Call runs_sat_Ret)

lemma runs_sat_UpdateCRStatus [runs]:
  "runs_sat (bind (UpdateCRStatus cr) f) Q \<longleftrightarrow>
     (\<forall>x. runs_sat (f x) (\<lambda>tr. Q ((CUpdateCRStatus cr, AErr x) # tr)))"
  by (simp add: call_defs runs_sat_Call runs_sat_Ret)

lemma runs_sat_KrbLoadConfig [runs]:
  "runs_sat (bind (KrbLoadConfig path) f) Q \<longleftrightarrow>
     (\<forall>x. runs_sat (f x) (\<lambda>tr. Q ((CKrbLoadConfig path, AErr x) # tr)))"
  by (simp add: call_defs runs_sat_Call runs_sat_Ret)

lemma runs_sat_KrbLogin [runs]:
  "runs_sat (bind (KrbLogin user realm pass) f) Q \<longleftrightarrow>
     (\<forall>x. runs_sat (f x) (\<lambda>tr. Q ((CKrbLogin user realm pass, AErr x) # tr)))"
  by (simp add: call_defs runs_sat_Call runs_sat_Ret)

lemma runs_sat_SystemCertPool [runs]:
  "runs_sat (bind (SystemCertPool) f) Q \<longleftrightarrow>
     (\<forall>x. runs_sat (f x) (\<lambda>tr. Q ((CSystemCertPool, APool x) # tr)))"
  by (simp add: call_defs runs_sat_Call runs_sat_Ret)

lemma runs_sat_Now [runs]:
  "runs_sat (bind (Now) f) Q \<longleftrightarrow>
     (\<forall>x. runs_sat (f x) (\<lambda>tr. Q ((CNow, ATime x) # tr)))"
  by (simp add: call_defs runs_sat_Call runs_sat_Ret)

lemma runs_sat_Recorder_Event [runs]:
  "runs_sat (bind (Recorder_Event obj et rs msg) f) Q \<longleftrightarrow>
     runs_sat (f ()) (\<lambda>tr. Q ((CEvent obj et rs msg, ADone) # tr))"
  by (simp add: call_defs runs_sat_Call)

lemma runs_sat_err_Error [runs]:
  "runs_sat (bind (err_Error e) f) Q \<longleftrightarrow>
     (case e of None \<Rightarrow> Q [] (Panicked nil_deref) | Some x \<Rightarrow> runs_sat (f (err_text x)) Q)"
  by (simp add: err_Error_def runs_sat_Panic split: option.split)

lemma runs_sat_defer_close [runs]:
  "runs_sat (defer_close res p) Q \<longleftrightarrow>
     runs_sat p (\<lambda>tr. Q (tr @ [(CCloseBody res, ADone)]))"
  by (induction p arbitrary: Q)
     (simp_all add: runs_sat_Ret runs_sat_Panic runs_sat_Call)

section \<open>The wrappers in a run\<close>

named_theorems run_iffs \<open>runs of programs, computed along their structure\<close>

declare run_Ret_iff [run_iffs] run_Panic_iff [run_iffs]

lemma run_http_Do [run_iffs]:
  "run tr (bind (http_Do cl rq) f) = Some z \<longleftrightarrow>
     (\<exists>x tr'. tr = (CHttp cl rq, AHttp x) # tr' \<and> run tr' (f x) = Some z)"
  by (auto simp: call_defs run_Call_iff is_AHttp_def)

lemma run_Getenv [run_iffs]:
  "run tr (bind (Getenv v) f) = Some z \<longleftrightarrow>
     (\<exists>x tr'. tr = (CGetenv v, AString x) # tr' \<and> run tr' (f x) = Some z)"
  by (auto simp: call_defs run_Call_iff is_AString_def)

lemma run_GetAR [run_iffs]:
  "run tr (bind (GetAR k) f) = Some z \<longleftrightarrow>
     (\<exists>x tr'. tr = (CGetAR k, AGetAR x) # tr' \<and> run tr' (f x) = Some z)"
  by (auto simp: call_defs run_Call_iff is_AGetAR_def)

lemma run_GetCR [run_iffs]:
  "run tr (bind (GetCR k) f) = Some z \<longleftrightarrow>
     (\<exists>x tr'. tr = (CGetCR k, AGetCR x) # tr' \<and> run tr' (f x) = Some z)"
  by (auto simp: call_defs run_Call_iff is_AGetCR_def)

lemma run_GetAI [run_iffs]:
  "run tr (bind (GetAI k) f) = Some z \<longleftrightarrow>
     (\<exists>x tr'. tr = (CGetAI k, AGetAI x) # tr' \<and> run tr' (f x) = Some z)"
  by (auto simp: call_defs run_Call_iff is_AGetAI_def)

lemma run_GetCAI [run_iffs]:
  "run tr (bind (GetCAI k) f) = Some z \<longleftrightarrow>
     (\<exists>x tr'. tr = (CGetCAI k, AGetCAI x) # tr' \<and> run tr' (f x) = Some z)"
  by (auto simp: call_defs run_Call_iff is_AGetCAI_def)

lemma run_GetSecret [run_iffs]:
  "run tr (bind (GetSecret k) f) = Some z \<longleftrightarrow>
     (\<exists>x tr'. tr = (CGetSecret k, AGetSecret x) # tr' \<and> run tr' (f x) = Some z)"
  by (auto simp: call_defs run_Call_iff is_AGetSecret_def)

lemma run_CreateAR [run_iffs]:
  "run tr (bind (CreateAR ar) f) = Some z \<longleftrightarrow>
     (\<exists>x tr'. tr = (CCreateAR ar, AErr x) # tr' \<and> run tr' (f x) = Some z)"
  by (auto simp: call_defs run_Call_iff is_AErr_def)

lemma run_DeleteAR [run_iffs]:
  "run tr (bind (DeleteAR ar) f) = Some z \<longleftrightarrow>
     (\<exists>x tr'. tr = (CDeleteAR ar, AErr x) # tr' \<and> run tr' (f x) = Some z)"
  by (auto simp: call_defs run_Call_iff is_AErr_def)

lemma run_UpdateARStatus [run_iffs]:
  "run tr (bind (UpdateARStatus ar) f) = Some z \<longleftrightarrow>
     (\<exists>x tr'. tr = (CUpdateARStatus ar, AErr x) # tr' \<and> run tr' (f x) = Some z)"
  by (auto simp: call_defs run_Call_iff is_AErr_def)

lemma run_UpdateCRStatus [run_iffs]:
  "run tr (bind (UpdateCRStatus cr) f) = Some z \<longleftrightarrow>
     (\<exists>x tr'. tr = (CUpdateCRStatus cr, AErr x) # tr' \<and> run tr' (f x) = Some z)"
  by (auto simp: call_defs run_Call_iff is_AErr_def)

lemma run_Now [run_iffs]:
  "run tr (bind (Now) f) = Some z \<longleftrightarrow>
     (\<exists>x tr'. tr = (CNow, ATime x) # tr' \<and> run tr' (f x) = Some z)"
  by (auto simp: call_defs run_Call_iff is_ATime_def)

lemma run_Recorder_Event [run_iffs]:
  "run tr (bind (Recorder_Event obj et rs msg) f) = Some z \<longleftrightarrow>
     (\<exists>tr'. tr = (CEvent obj et rs msg, ADone) # tr' \<and> run tr' (f ()) = Some z)"
  by (auto simp: call_defs run_Call_iff is_ADone_def)

lemma run_defer_close [run_iffs]:
  "run tr (defer_close res p) = Some z \<longleftrightarrow>
     (\<exists>tr'. tr = tr' @ [(CCloseBody res, ADone)] \<and> run tr' p = Some z)"
proof (induction p arbitrary: tr)
  case (Call c k)
  show ?case
    by (simp add: run_Call_iff Call, auto)
qed (auto simp: run_Call_iff is_ADone_def)

section \<open>Replaying a concrete trace\<close>

text \<open>
  The equations \<open>replay\<close> step through a program along a concrete trace; with the
  congruence \<open>bind_step\<close> the simplifier leaves the continuation alone until it is
  reached. Every theorem about runs is applied to a concrete run in this way.
\<close>

declare run.simps [simp del]

lemma run_end [simp]: "run [] (Ret a) = Some (Returned a)" "run [] (Panic s) = Some (Panicked s)"
  by (simp_all add: run.simps)

named_theorems replay \<open>steps of a program along a trace\<close>

lemma bind_step: "p = q \<Longrightarrow> bind p f = bind q f"
  by simp

lemma Call_step: "c = d \<Longrightarrow> Call c k = Call d k"
  by simp

lemma replay_calls [replay]:
  "c = CHttp cl rq \<Longrightarrow> run ((c, AHttp x1) # tr) (bind (http_Do cl rq) f1) = run tr (f1 x1)"
  "c = CGetenv v \<Longrightarrow> run ((c, AString x2) # tr) (bind (Getenv v) f2) = run tr (f2 x2)"
  "c = CGetAR k3 \<Longrightarrow> run ((c, AGetAR x3) # tr) (bind (GetAR k3) f3) = run tr (f3 x3)"
  "c = CGetCR k4 \<Longrightarrow> run ((c, AGetCR x4) # tr) (bind (GetCR k4) f4) = run tr (f4 x4)"
  "c = CGetAI k5 \<Longrightarrow> run ((c, AGetAI x5) # tr) (bind (GetAI k5) f5) = run tr (f5 x5)"
  "c = CGetCAI k6 \<Longrightarrow> run ((c, AGetCAI x6) # tr) (bind (GetCAI k6) f6) = run tr (f6 x6)"
  "c = CGetSecret k7 \<Longrightarrow> run ((c, AGetSecret x7) # tr) (bind (GetSecret k7) f7) = run tr (f7 x7)"
  "c = CGetConfigMap k8 \<Longrightarrow> run ((c, AGetConfigMap x8) # tr) (bind (GetConfigMap k8) f8) = run tr (f8 x8)"
  "c = CCreateAR ar \<Longrightarrow> run ((c, AErr x9) # tr) (bind (CreateAR ar) f9) = run tr (f9 x9)"
  "c = CDeleteAR ar \<Longrightarrow> run ((c, AErr x10) # tr) (bind (DeleteAR ar) f10) = run tr (f10 x10)"
  "c = CUpdateARStatus ar \<Longrightarrow> run ((c, AErr x11) # tr) (bind (UpdateARStatus ar) f11) = run tr (f11 x11)"
  "c = CUpdateCRStatus cr \<Longrightarrow> run ((c, AErr x12) # tr) (bind (UpdateCRStatus cr) f12) = run tr (f12 x12)"
  "c = CKrbLoadConfig p \<Longrightarrow> run ((c, AErr x13) # tr) (bind (KrbLoadConfig p) f13) = run tr (f13 x13)"
  "c = CKrbLogin u r w \<Longrightarrow> run ((c, AErr x14) # tr) (bind (KrbLogin u r w) f14) = run tr (f14 x14)"
  "c = CSystemCertPool \<Longrightarrow> run ((c, APool x15) # tr) (bind (SystemCertPool) f15) = run tr (f15 x15)"
  "c = CNow \<Longrightarrow> run ((c, ATime x16) # tr) (bind (Now) f16) = run tr (f16 x16)"
  by (simp_all add: call_defs run.simps)

lemma replay_effects [replay]:
  "c = CEvent obj et rs msg \<Longrightarrow> run ((c, ADone) # tr) (bind (Recorder_Event obj et rs msg) f) = run tr (f ())"
  "c = CCloseBody res \<Longrightarrow> run ((c, ADone) # tr) (Call (CCloseBody res) k) = run tr (k ADone)"
  by (simp_all add: call_defs run.simps)

lemma replay_defer [replay]:
  "c = CHttp cl rq \<Longrightarrow> run ((c, AHttp x) # tr) (defer_close res (bind (http_Do cl rq) f)) =
     run tr (defer_close res (f x))"
  "c = CHttp cl rq \<Longrightarrow> run ((c, AHttp x) # tr) (bind (defer_close res (bind (http_Do cl rq) f)) g) =
     run tr (bind (defer_close res (f x)) g)"
  by (simp_all add: call_defs run.simps)

declare bind_assoc [replay]

section \<open>Programs restricted to some calls\<close>

primrec only_calls :: "(call \<Rightarrow> bool) \<Rightarrow> 'a prog \<Rightarrow> bool" where
  "only_calls C (Ret a) = True"
| "only_calls C (Panic s) = True"
| "only_calls C (Call c k) = (C c \<and> (\<forall>r. answers c r \<longrightarrow> only_calls C (k r)))"

lemma only_calls_runs: "only_calls C p \<Longrightarrow> runs_sat p (\<lambda>tr _. \<forall>e \<in> set tr. C (fst e))"
  by (induction p) (auto simp: runs_sat_Ret runs_sat_Panic runs_sat_Call intro: runs_sat_mono)

lemma only_calls_run: "only_calls C p \<Longrightarrow> run tr p = Some z \<Longrightarrow> e \<in> set tr \<Longrightarrow> C (fst e)"
  by (blast dest: only_calls_runs runs_satD)

lemma only_calls_mono: "only_calls C p \<Longrightarrow> (\<And>c. C c \<Longrightarrow> D c) \<Longrightarrow> only_calls D p"
  by (induction p) auto

lemma only_calls_bind: "only_calls C p \<Longrightarrow> (\<And>a. only_calls C (f a)) \<Longrightarrow> only_calls C (bind p f)"
  by (induction p) auto

text \<open>The wrappers under a restriction of the calls.\<close>

lemma only_calls_http_Do [simp]:
  "only_calls C (bind (http_Do cl rq) f) \<longleftrightarrow> C (CHttp cl rq) \<and> (\<forall>x. only_calls C (f x))"
  by (simp add: call_defs)

lemma only_calls_Getenv [simp]:
  "only_calls C (bind (Getenv v) f) \<longleftrightarrow> C (CGetenv v) \<and> (\<forall>x. only_calls C (f x))"
  by (simp add: call_defs)

lemma only_calls_GetAR [simp]:
  "only_calls C (bind (GetAR k) f) \<longleftrightarrow> C (CGetAR k) \<and> (\<forall>x. only_calls C (f x))"
  by (simp add: call_defs)

lemma only_calls_GetCR [simp]:
  "only_calls C (bind (GetCR k) f) \<longleftrightarrow> C (CGetCR k) \<and> (\<forall>x. only_calls C (f x))"
  by (simp add: call_defs)

lemma only_calls_GetAI [simp]:
  "only_calls C (bind (GetAI k) f) \<longleftrightarrow> C (CGetAI k) \<and> (\<forall>x. only_calls C (f x))"
  by (simp add: call_defs)

lemma only_calls_GetCAI [simp]:
  "only_calls C (bind (GetCAI k) f) \<longleftrightarrow> C (CGetCAI k) \<and> (\<forall>x. only_calls C (f x))"
  by (simp add: call_defs)

lemma only_calls_GetSecret [simp]:
  "only_calls C (bind (GetSecret k) f) \<longleftrightarrow> C (CGetSecret k) \<and> (\<forall>x. only_calls C (f x))"
  by (simp add: call_defs)

lemma only_calls_GetConfigMap [simp]:
  "only_calls C (bind (GetConfigMap k) f) \<longleftrightarrow> C (CGetConfigMap k) \<and> (\<forall>x. only_calls C (f x))"
  by (simp add: call_defs)

lemma only_calls_CreateAR [simp]:
  "only_calls C (bind (CreateAR ar) f) \<longleftrightarrow> C (CCreateAR ar) \<and> (\<forall>x. only_calls C (f x))"
  by (simp add: call_defs)

lemma only_calls_DeleteAR [simp]:
  "only_calls C (bind (DeleteAR ar) f) \<longleftrightarrow> C (CDeleteAR ar) \<and> (\<forall>x. only_calls C (f x))"
  by (simp add: call_defs)

lemma only_calls_UpdateARStatus [simp]:
  "only_calls C (bind (UpdateARStatus ar) f) \<longleftrightarrow> C (CUpdateARStatus ar) \<and> (\<forall>x. only_calls C (f x))"
  by (simp add: call_defs)

lemma only_calls_UpdateCRStatus [simp]:
  "only_calls C (bind (UpdateCRStatus cr) f) \<longleftrightarrow> C (CUpdateCRStatus cr) \<and> (\<forall>x. only_calls C (f x))"
  by (simp add: call_defs)

lemma only_calls_KrbLoadConfig [simp]:
  "only_calls C (bind (KrbLoadConfig path) f) \<longleftrightarrow> C (CKrbLoadConfig path) \<and> (\<forall>x. only_calls C (f x))"
  by (simp add: call_defs)

lemma only_calls_KrbLogin [simp]:
  "only_calls C (bind (KrbLogin user realm pass) f) \<longleftrightarrow> C (CKrbLogin user realm pass) \<and> (\<forall>x. only_calls C (f x))"
  by (simp add: call_defs)

lemma only_calls_SystemCertPool [simp]:
  "only_calls C (bind (SystemCertPool) f) \<longleftrightarrow> C (CSystemCertPool) \<and> (\<forall>x. only_calls C (f x))"
  by (simp add: call_defs)

lemma only_calls_Now [simp]:
  "only_calls C (bind (Now) f) \<longleftrightarrow> C (CNow) \<and> (\<forall>x. only_calls C (f x))"
  by (simp add: call_defs)

lemma only_calls_bare [simp]:
  "only_calls C (http_Do cl rq) \<longleftrightarrow> C (CHttp cl rq)"
  "only_calls C (GetSecret k) \<longleftrightarrow> C (CGetSecret k)"
  "only_calls C (GetConfigMap k) \<longleftrightarrow> C (CGetConfigMap k)"
  "only_calls C (UpdateARStatus ar) \<longleftrightarrow> C (CUpdateARStatus ar)"
  "only_calls C (UpdateCRStatus cr) \<longleftrightarrow> C (CUpdateCRStatus cr)"
  "only_calls C (CreateAR ar) \<longleftrightarrow> C (CCreateAR ar)"
  by (auto simp: call_defs)

lemma only_calls_Recorder_Event [simp]:
  "only_calls C (bind (Recorder_Event obj et rs msg) f) \<longleftrightarrow>
     C (CEvent obj et rs msg) \<and> only_calls C (f ())"
  by (auto simp: call_defs is_ADone_def)

lemma only_calls_err_Error [simp]: "only_calls C (err_Error e)"
  by (simp add: err_Error_def split: option.split)

lemma only_calls_defer_close [simp]:
  "C (CCloseBody res) \<Longrightarrow> only_calls C (defer_close res p) \<longleftrightarrow> only_calls C p"
  by (induction p) auto

section \<open>Two programs on the same answers\<close>

text \<open>
  \<open>feed\<close> runs a program on a list of answers without looking at the calls; two programs
  that agree under \<open>feed\<close> draw the same conclusions from the same answers.
\<close>

primrec feed :: "answer list \<Rightarrow> 'a prog \<Rightarrow> 'a outcome option" where
  "feed [] p = (case p of Ret a \<Rightarrow> Some (Returned a) | Panic s \<Rightarrow> Some (Panicked s)
                | Call c k \<Rightarrow> None)"
| "feed (x # xs) p = (case p of Call c k \<Rightarrow> if answers c x then feed xs (k x) else None | _ \<Rightarrow> None)"

lemma feed_run: "run tr p = Some z \<Longrightarrow> feed (map snd tr) p = Some z"
  by (induction tr arbitrary: p) (auto split: prog.splits if_splits simp: run.simps)

lemma feed_Ret [simp]: "feed xs (Ret a) = (if xs = [] then Some (Returned a) else None)"
  by (cases xs) auto

lemma feed_Panic [simp]: "feed xs (Panic s) = (if xs = [] then Some (Panicked s) else None)"
  by (cases xs) auto

lemma feed_Call: "feed xs (Call c k) =
    (case xs of [] \<Rightarrow> None | x # xs' \<Rightarrow> if answers c x then feed xs' (k x) else None)"
  by (cases xs) auto

declare feed.simps [simp del]

lemma feed_bind_iff:
  "feed xs (bind p f) = Some z \<longleftrightarrow>
     (\<exists>ys zs a. xs = ys @ zs \<and> feed ys p = Some (Returned a) \<and> feed zs (f a) = Some z) \<or>
     (\<exists>s. feed xs p = Some (Panicked s) \<and> z = Panicked s)"
proof (induction p arbitrary: xs)
  case (Call c k)
  show ?case
  proof (cases xs)
    case (Cons x xs')
    have "(\<exists>ys zs a. xs = ys @ zs \<and> feed ys (Call c k) = Some (Returned a) \<and> feed zs (f a) = Some z) \<longleftrightarrow>
        answers c x \<and>
        (\<exists>ys zs a. xs' = ys @ zs \<and> feed ys (k x) = Some (Returned a) \<and> feed zs (f a) = Some z)"
      (is "?L \<longleftrightarrow> ?R")
    proof
      assume ?L
      then obtain ys zs a where ys: "xs = ys @ zs" "feed ys (Call c k) = Some (Returned a)"
          "feed zs (f a) = Some z" by blast
      with Cons show ?R
        by (cases ys) (auto simp: feed_Call split: if_splits)
    next
      assume ?R
      then obtain ys zs a where "answers c x" "xs' = ys @ zs" "feed ys (k x) = Some (Returned a)"
          "feed zs (f a) = Some z" by blast
      with Cons show ?L
        by (intro exI [of _ "x # ys"] exI [of _ zs] exI [of _ a]) (simp add: feed_Call)
    qed
    with Cons Call show ?thesis
      by (auto simp: feed_Call)
  qed (auto simp: feed_Call)
qed (auto split: if_splits)

definition alike :: "'a prog \<Rightarrow> 'a prog \<Rightarrow> bool" where
  "alike p q = (\<forall>xs. feed xs p = feed xs q)"

lemma alike_refl [simp, intro]: "alike p p"
  by (simp add: alike_def)

lemma alike_bind:
  assumes "alike p q" and "\<And>a. alike (f a) (g a)"
  shows "alike (bind p f) (bind q g)"
proof -
  have "feed xs (bind p f) = Some z \<longleftrightarrow> feed xs (bind q g) = Some z" for xs z
    using assms unfolding feed_bind_iff alike_def by simp
  then show ?thesis
    unfolding alike_def by (metis not_None_eq)
qed

lemma alike_calls:
  "alike (GetSecret k) (GetSecret k')" "alike (GetConfigMap m) (GetConfigMap m')"
  by (auto simp: alike_def call_defs feed_Call split: list.split)

lemma feed_http_Do:
  "feed xs (bind (http_Do cl rq) f) =
     (case xs of AHttp r # xs' \<Rightarrow> feed xs' (f r) | _ \<Rightarrow> None)"
  by (auto simp: call_defs feed_Call is_AHttp_def split: list.split answer.split)

section \<open>Running against an environment\<close>

text \<open>
  An environment with its own state answers every call. Every program comes to an outcome
  against every environment, and what it did is one of its runs.
\<close>

primrec interp :: "('w \<Rightarrow> call \<Rightarrow> answer \<times> 'w) \<Rightarrow> 'a prog \<Rightarrow> 'w \<Rightarrow> trace \<times> 'a outcome \<times> 'w" where
  "interp env (Ret a) w = ([], Returned a, w)"
| "interp env (Panic s) w = ([], Panicked s, w)"
| "interp env (Call c k) w =
     (let (r, w') = env w c; (tr, z, w'') = interp env (k r) w' in ((c, r) # tr, z, w''))"

lemma interp_run:
  assumes "\<And>w c. answers c (fst (env w c))"
  shows "run (fst (interp env p w)) p = Some (fst (snd (interp env p w)))"
proof (induction p arbitrary: w)
  case (Call c k)
  have "answers c (fst (env w c))" by (rule assms)
  with Call [of "k (fst (env w c))" "snd (env w c)"] show ?case
    by (simp add: split_beta Let_def run.simps)
qed (simp_all add: run.simps)

end
