(* ===== verification/Go_Regexp.thy ===== *)
theory Go_Regexp
  imports Go_Prelude
begin

text \<open>
  Regular expressions with the search order of Go's package \<open>regexp\<close>: a match starts as
  far to the left as possible, and among the matches from there the one a backtracking
  search finds first is taken (greedy repetition, left alternative first). \<open>matches\<close>
  lists every match at the start of a string in that order; a match is the matched text,
  the captured groups from left to right, and the rest of the string.

  Strings are bytes. The dot matches one rune, as Go decodes UTF-8: a well-formed sequence, or
  a single byte where there is none. Otherwise the expressions of the program only use ASCII
  literals, classes of ASCII characters and repeated complements of such classes, so
  matching byte by byte and matching rune by rune capture the same bytes. No expression whose
  groups the program reads has an optional group.
\<close>

section \<open>Expressions\<close>

datatype cclass =
    Lit char
  | OneOf "char list"
  | NoneOf "char list"

fun in_class :: "cclass \<Rightarrow> char \<Rightarrow> bool" where
  "in_class (Lit d) c = (c = d)"
| "in_class (OneOf ds) c = List.member ds c"
| "in_class (NoneOf ds) c = (\<not> List.member ds c)"

datatype re =
    Eps
  | Cls cclass
  | Seq re re
  | Alt re re
  | Star re
  | Grp re
  | any_char

definition Plus :: "re \<Rightarrow> re" where
  "Plus r = Seq r (Star r)"

fun lit :: "string \<Rightarrow> re" where
  "lit [] = Eps"
| "lit (c # s) = Seq (Cls (Lit c)) (lit s)"

section \<open>Runes\<close>

text \<open>
  \<open>utf8.DecodeRune\<close>: the number of bytes of a rune by its first byte, with the range of the
  second byte (which excludes overlong forms, surrogates and numbers above 0x10FFFF), and the width
  of the rune at the start of a string; a malformed sequence has width 1.
\<close>

definition rune_lead :: "nat \<Rightarrow> nat \<times> nat \<times> nat" where
  "rune_lead b =
     (if 0xC2 \<le> b \<and> b \<le> 0xDF then (2, 0x80, 0xBF)
      else if b = 0xE0 then (3, 0xA0, 0xBF)
      else if b = 0xED then (3, 0x80, 0x9F)
      else if 0xE1 \<le> b \<and> b \<le> 0xEF then (3, 0x80, 0xBF)
      else if b = 0xF0 then (4, 0x90, 0xBF)
      else if 0xF1 \<le> b \<and> b \<le> 0xF3 then (4, 0x80, 0xBF)
      else if b = 0xF4 then (4, 0x80, 0x8F)
      else (1, 0, 0))"

fun rune_width :: "string \<Rightarrow> nat" where
  "rune_width (b # c # s) =
     (let (n, lo, hi) = rune_lead (of_char b);
          following = take (n - 2) s
      in if 2 \<le> n \<and> lo \<le> of_char c \<and> of_char c \<le> hi \<and> length following = n - 2 \<and>
            list_all (\<lambda>x. 0x80 \<le> (of_char x :: nat) \<and> of_char x \<le> (0xBF :: nat)) following
         then n else 1)"
| "rune_width _ = 1"

lemma rune_width_pos: "1 \<le> rune_width s"
  by (cases s rule: rune_width.cases) (simp_all add: Let_def split: prod.split)

declare rune_width.simps(1) [simp del]

section \<open>All matches in search order\<close>

type_synonym rmatch = "string \<times> string list \<times> string"

text \<open>A repetition goes on only when the last round consumed something.\<close>

function (sequential) matches :: "re \<Rightarrow> string \<Rightarrow> rmatch list" where
  "matches Eps s = [([], [], s)]"
| "matches (Cls c) s = (case s of [] \<Rightarrow> [] | x # t \<Rightarrow> if in_class c x then [([x], [], t)] else [])"
| "matches (Seq a b) s =
     concat (map (\<lambda>(m, g, t). map (\<lambda>(m', g', t'). (m @ m', g @ g', t')) (matches b t))
       (matches a s))"
| "matches (Alt a b) s = matches a s @ matches b s"
| "matches (Star r) s =
     concat (map (\<lambda>(m, g, t).
         if length t < length s
         then map (\<lambda>(m', g', t'). (m @ m', g @ g', t')) (matches (Star r) t)
         else [])
       (matches r s)) @ [([], [], s)]"
| "matches (Grp r) s = map (\<lambda>(m, g, t). (m, m # g, t)) (matches r s)"
| "matches any_char s = (case s of [] \<Rightarrow> [] | x # t \<Rightarrow>
     if x = CHR 0x0A then [] else [(take (rune_width s) s, [], drop (rune_width s) s)])"
  by pat_completeness auto
termination
  by (relation "measures [\<lambda>(r, s). size r, \<lambda>(r, s). length s]") auto

declare matches.simps(5) [simp del]

text \<open>\<open>FindStringSubmatch\<close>: nil, or the match and its groups.\<close>

fun FindStringSubmatch :: "re \<Rightarrow> string \<Rightarrow> string list" where
  "FindStringSubmatch r [] =
     (case matches r [] of [] \<Rightarrow> [] | (m, g, t) # _ \<Rightarrow> m # g)"
| "FindStringSubmatch r (c # s) =
     (case matches r (c # s) of
        [] \<Rightarrow> FindStringSubmatch r s
      | (m, g, t) # _ \<Rightarrow> m # g)"

definition MatchString :: "re \<Rightarrow> string \<Rightarrow> bool" where
  "MatchString r s = (FindStringSubmatch r s \<noteq> [])"

section \<open>What a match is\<close>

lemma matches_Seq_iff:
  "(m, g, t) \<in> set (matches (Seq a b) s) \<longleftrightarrow>
     (\<exists>m1 g1 s1 m2 g2. (m1, g1, s1) \<in> set (matches a s) \<and> (m2, g2, t) \<in> set (matches b s1) \<and>
        m = m1 @ m2 \<and> g = g1 @ g2)"
  by (simp only: matches.simps set_concat set_map) (force simp: image_iff)

lemma matches_Star_iff:
  "(m, g, t) \<in> set (matches (Star r) s) \<longleftrightarrow>
     m = [] \<and> g = [] \<and> t = s \<or>
     (\<exists>m1 g1 s1 m2 g2. (m1, g1, s1) \<in> set (matches r s) \<and> length s1 < length s \<and>
        (m2, g2, t) \<in> set (matches (Star r) s1) \<and> m = m1 @ m2 \<and> g = g1 @ g2)"
  by (subst matches.simps(5)) (force simp: image_iff split: if_splits)

lemma matches_Grp_iff:
  "(m, g, t) \<in> set (matches (Grp r) s) \<longleftrightarrow>
     (\<exists>g'. g = m # g' \<and> (m, g', t) \<in> set (matches r s))"
  by (force simp: image_iff)

lemma matches_Cls_iff:
  "(m, g, t) \<in> set (matches (Cls c) s) \<longleftrightarrow> (\<exists>x. m = [x] \<and> g = [] \<and> s = x # t \<and> in_class c x)"
  by (cases s) auto

lemma matches_any_char: "matches any_char s \<noteq> [] \<longleftrightarrow> (\<exists>x t. s = x # t \<and> x \<noteq> CHR 0x0A)"
  by (cases s) auto

declare matches.simps(3,6) [simp del]

lemma matches_split: "(m, g, t) \<in> set (matches r s) \<Longrightarrow> s = m @ t"
proof (induction r s arbitrary: m g t rule: matches.induct)
  case (2 c s)
  then show ?case by (auto simp: matches_Cls_iff simp del: matches.simps)
next
  case (3 a b s)
  then show ?case by (fastforce simp: matches_Seq_iff)
next
  case (4 a b s)
  then show ?case by auto
next
  case (5 r s)
  from "5.prems" consider "m = [] \<and> t = s"
    | m1 g1 t1 m2 g2 where "(m1, g1, t1) \<in> set (matches r s)" "length t1 < length s"
        "(m2, g2, t) \<in> set (matches (Star r) t1)" "m = m1 @ m2"
    by (subst (asm) matches_Star_iff) blast
  then show ?case
  proof cases
    case 2
    from "5.IH"(1)[OF 2(1)] "5.IH"(2)[OF 2(1) refl refl 2(2,3)] 2(4) show ?thesis by simp
  qed simp
next
  case (6 r s)
  then show ?case by (auto simp: matches_Grp_iff)
qed (auto split: list.splits if_splits)

text \<open>A search finds something exactly when some suffix has a match.\<close>

lemma FindStringSubmatch_Nil_iff:
  "FindStringSubmatch r s = [] \<longleftrightarrow> (\<forall>pre post. s = pre @ post \<longrightarrow> matches r post = [])"
proof (induction s)
  case Nil
  then show ?case by (auto split: list.splits)
next
  case (Cons c s)
  have "(\<forall>pre post. c # s = pre @ post \<longrightarrow> matches r post = []) \<longleftrightarrow>
      matches r (c # s) = [] \<and> (\<forall>pre post. s = pre @ post \<longrightarrow> matches r post = [])"
    (is "?L = ?R")
  proof
    assume ?L
    then show ?R by (metis append_Cons append_Nil)
  next
    assume ?R
    then show ?L by (metis append_eq_Cons_conv)
  qed
  with Cons show ?case by (auto split: list.splits)
qed

lemma MatchString_iff: "MatchString r s \<longleftrightarrow> (\<exists>pre post. s = pre @ post \<and> matches r post \<noteq> [])"
  unfolding MatchString_def by (auto simp: FindStringSubmatch_Nil_iff)

text \<open>What is found is the first match of some suffix.\<close>

lemma FindStringSubmatch_matches:
  assumes "FindStringSubmatch r s = x # g"
  obtains pre post t where "s = pre @ post" "(x, g, t) \<in> set (matches r post)"
  using assms
proof (induction r s arbitrary: thesis rule: FindStringSubmatch.induct)
  case (1 r)
  then show ?case by (cases "matches r []") auto
next
  case (2 r c s)
  show ?case
  proof (cases "matches r (c # s)")
    case Nil
    with "2.prems" "2.IH" show ?thesis by (metis append_Cons FindStringSubmatch.simps(2) list.simps(4))
  next
    case (Cons a as)
    with "2.prems" show ?thesis
      by (cases a) (metis (mono_tags, lifting) FindStringSubmatch.simps(2) append_Nil list.inject list.set_intros(1) list.simps(5) old.prod.case)
  qed
qed

section \<open>How many groups a match has\<close>

text \<open>An expression without repetition over its groups captures each group exactly once.\<close>

fun groups :: "re \<Rightarrow> nat" where
  "groups (Seq a b) = groups a + groups b"
| "groups (Alt a b) = groups a + groups b"
| "groups (Star r) = groups r"
| "groups (Grp r) = Suc (groups r)"
| "groups _ = 0"

fun regular_groups :: "re \<Rightarrow> bool" where
  "regular_groups (Seq a b) = (regular_groups a \<and> regular_groups b)"
| "regular_groups (Alt a b) =
     (groups a = 0 \<and> groups b = 0 \<and> regular_groups a \<and> regular_groups b)"
| "regular_groups (Star r) = (groups r = 0 \<and> regular_groups r)"
| "regular_groups (Grp r) = regular_groups r"
| "regular_groups _ = True"

lemma matches_groups:
  "regular_groups r \<Longrightarrow> (m, g, t) \<in> set (matches r s) \<Longrightarrow> length g = groups r"
proof (induction r s arbitrary: m g t rule: matches.induct)
  case (2 c s)
  then show ?case by (auto simp: matches_Cls_iff simp del: matches.simps)
next
  case (3 a b s)
  then show ?case by (auto simp: matches_Seq_iff)
next
  case (4 a b s)
  then show ?case by auto
next
  case (5 r s)
  from "5.prems"(2) consider "g = []"
    | m1 g1 t1 m2 g2 where "(m1, g1, t1) \<in> set (matches r s)" "length t1 < length s"
        "(m2, g2, t) \<in> set (matches (Star r) t1)" "g = g1 @ g2"
    by (subst (asm) matches_Star_iff) blast
  then show ?case
  proof cases
    case 1
    with "5.prems" show ?thesis by simp
  next
    case 2
    from "5.prems"(1) have r: "groups r = 0" "regular_groups r" by simp_all
    from "5.IH"(1)[OF r(2) 2(1)] "5.IH"(2)[OF 2(1) refl refl 2(2) "5.prems"(1) 2(3)] r 2(4)
    show ?thesis by simp
  qed
next
  case (6 r s)
  then show ?case by (auto simp: matches_Grp_iff)
qed (auto split: list.splits if_splits)

text \<open>
  So the slice \<open>FindStringSubmatch\<close> returns is empty or has one element more than the
  expression has groups. In particular, for an expression with a group, it never has
  exactly one element.
\<close>

lemma FindStringSubmatch_length:
  assumes "regular_groups r"
  shows "length (FindStringSubmatch r s) = 0 \<or> length (FindStringSubmatch r s) = Suc (groups r)"
proof (cases "FindStringSubmatch r s")
  case (Cons x g)
  then obtain pre post t where "(x, g, t) \<in> set (matches r post)"
    by (rule FindStringSubmatch_matches)
  from matches_groups [OF assms this] Cons show ?thesis by simp
qed simp

section \<open>Literals and repeated classes\<close>

lemma matches_lit: "matches (lit p) s =
    (if take (length p) s = p then [(p, [], drop (length p) s)] else [])"
  by (induction p arbitrary: s) (auto simp: matches.simps(3) split: list.splits if_splits)

lemma groups_lit [simp]: "groups (lit p) = 0" "regular_groups (lit p)"
  by (induction p) auto

declare lit.simps [simp del]

lemma groups_Plus [simp]: "groups (Plus r) = groups r + groups r"
  "regular_groups (Plus r) \<longleftrightarrow> regular_groups r \<and> groups r = 0"
  by (auto simp: Plus_def)

text \<open>The first match of a literal followed by \<open>r\<close> at a place where the literal stands.\<close>

lemma matches_lit_Seq:
  "matches (Seq (lit p) r) (p @ s) = map (\<lambda>(m, g, t). (p @ m, g, t)) (matches r s)"
  by (simp add: matches.simps(3) matches_lit)

lemma matches_lit_Seq_Nil: "take (length p) s \<noteq> p \<Longrightarrow> matches (Seq (lit p) r) s = []"
  by (simp add: matches.simps(3) matches_lit)

text \<open>Repeating a class takes the longest run first, then one character less, and so on.\<close>

fun class_runs :: "cclass \<Rightarrow> string \<Rightarrow> (string \<times> string) list" where
  "class_runs c [] = [([], [])]"
| "class_runs c (x # s) =
     (if in_class c x then map (\<lambda>(m, t). (x # m, t)) (class_runs c s) @ [([], x # s)]
      else [([], x # s)])"

lemma matches_Star_Cls:
  "matches (Star (Cls c)) s = map (\<lambda>(m, t). (m, [], t)) (class_runs c s)"
  by (induction s) (auto simp: matches.simps(5))

lemma class_runs_hd:
  "\<exists>rest. class_runs c s = (takeWhile (in_class c) s, dropWhile (in_class c) s) # rest"
  by (induction s) auto

lemma class_runs_all: "(m, t) \<in> set (class_runs c s) \<Longrightarrow> list_all (in_class c) m"
  by (induction s arbitrary: m t) (auto split: if_splits)

lemma class_runs_mem: "list_all (in_class c) m \<Longrightarrow> (m, t) \<in> set (class_runs c (m @ t))"
proof (induction m)
  case Nil
  show ?case by (cases t) (auto)
next
  case (Cons x m)
  then show ?case by (force)
qed

lemma matches_Plus_Cls_iff:
  "(m, g, t) \<in> set (matches (Plus (Cls c)) s) \<longleftrightarrow>
     s = m @ t \<and> g = [] \<and> m \<noteq> [] \<and> list_all (in_class c) m" (is "?L \<longleftrightarrow> ?R")
proof
  assume L: ?L
  then have "s = m @ t" by (rule matches_split)
  moreover from L have "g = [] \<and> m \<noteq> [] \<and> list_all (in_class c) m"
    unfolding Plus_def matches_Seq_iff matches_Cls_iff matches_Star_Cls
    by (auto dest: class_runs_all)
  ultimately show ?R by simp
next
  assume R: ?R
  then obtain x m' where m: "m = x # m'" by (cases m) auto
  with R have "(m', t) \<in> set (class_runs c (m' @ t))" by (auto intro: class_runs_mem)
  with R m show ?L
    unfolding Plus_def matches_Seq_iff matches_Cls_iff matches_Star_Cls by force
qed

lemma matches_capture_Plus:
  "(m, g, t) \<in> set (matches (Grp (Plus (Cls c))) s) \<longleftrightarrow>
     s = m @ t \<and> g = [m] \<and> m \<noteq> [] \<and> list_all (in_class c) m"
  unfolding matches_Grp_iff matches_Plus_Cls_iff by auto

end
