(* ===== verification/Go_Url.thy ===== *)
theory Go_Url
  imports Go_Prelude "HOL-Library.List_Lexorder" "HOL-Library.Char_ord"
begin

text \<open>
  The part of \<open>net/url\<close> the program uses: form encoding of the request parameters.
  \<open>Values_Encode\<close> is \<open>Values.Encode\<close> (keys in sorted order, every key and value
  through \<open>QueryEscape\<close>); \<open>QueryUnescape\<close> is the decoding a server applies to a
  form field, used to state that the fields arrive unchanged.
\<close>

section \<open>Escaping\<close>

definition unreserved :: "char \<Rightarrow> bool" where
  "unreserved c =
     (let n = (of_char c :: nat) in
       48 \<le> n \<and> n \<le> 57 \<or> 65 \<le> n \<and> n \<le> 90 \<or> 97 \<le> n \<and> n \<le> 122 \<or>
       List.member ''-_.~'' c)"

definition hex_digit :: "nat \<Rightarrow> char" where
  "hex_digit n = char_of (if n < 10 then 48 + n else 55 + n)"

definition escape_char :: "char \<Rightarrow> string" where
  "escape_char c =
     (if unreserved c then [c]
      else if c = CHR '' '' then ''+''
      else [CHR ''%'', hex_digit (of_char c div 16), hex_digit (of_char c mod 16)])"

definition QueryEscape :: "string \<Rightarrow> string" where
  "QueryEscape s = concat (map escape_char s)"

section \<open>Form encoding\<close>

type_synonym Values = "(string \<times> string) list"

fun join_amp :: "string list \<Rightarrow> string" where
  "join_amp [] = []"
| "join_amp [x] = x"
| "join_amp (x # xs) = x @ ''&'' @ join_amp xs"

definition Values_Encode :: "Values \<Rightarrow> string" where
  "Values_Encode vs =
     join_amp (map (\<lambda>(k, v). QueryEscape k @ ''='' @ QueryEscape v) (sort_key fst vs))"

section \<open>Decoding gives the text back\<close>

lemma of_char_lt_256: "(of_char c :: nat) < 256"
  using nat_of_char_less_256 [of c] by simp

definition hex_value :: "char \<Rightarrow> nat option" where
  "hex_value c =
     (let n = (of_char c :: nat) in
       if 48 \<le> n \<and> n \<le> 57 then Some (n - 48)
       else if 65 \<le> n \<and> n \<le> 70 then Some (n - 55)
       else if 97 \<le> n \<and> n \<le> 102 then Some (n - 87)
       else None)"

fun QueryUnescape :: "string \<Rightarrow> string option" where
  "QueryUnescape [] = Some []"
| "QueryUnescape (c # s) =
     (if c = CHR ''%'' then
        (case s of
           a # b # t \<Rightarrow>
             (case (hex_value a, hex_value b) of
                (Some x, Some y) \<Rightarrow> map_option (Cons (char_of (16 * x + y))) (QueryUnescape t)
              | _ \<Rightarrow> None)
         | _ \<Rightarrow> None)
      else map_option (Cons (if c = CHR ''+'' then CHR '' '' else c)) (QueryUnescape s))"

lemma hex_value_digit: "n < 16 \<Longrightarrow> hex_value (hex_digit n) = Some n"
  by (auto simp: hex_value_def hex_digit_def Let_def)

lemma not_unreserved_marks: "\<not> unreserved CHR ''%''" "\<not> unreserved CHR ''+''"
  by (simp_all add: unreserved_def)

lemma QueryUnescape_escape_char:
  "QueryUnescape (escape_char c @ s) = map_option (Cons c) (QueryUnescape s)"
proof -
  have lt: "(of_char c :: nat) div 16 < 16"
    using of_char_lt_256 [of c] by (simp add: less_mult_imp_div_less)
  have "c \<noteq> CHR ''%''" "c \<noteq> CHR ''+''" if "unreserved c"
    using that not_unreserved_marks by auto
  with lt show ?thesis
    by (auto simp: escape_char_def hex_value_digit)
qed

lemma QueryUnescape_escape_append:
  "QueryUnescape (QueryEscape s @ t) = map_option ((@) s) (QueryUnescape t)"
  by (induction s)
     (simp_all add: QueryEscape_def QueryUnescape_escape_char option.map_comp comp_def
        option.map_ident)

lemma QueryUnescape_QueryEscape: "QueryUnescape (QueryEscape s) = Some s"
  using QueryUnescape_escape_append [of s "[]"] by simp

lemma QueryEscape_inj: "QueryEscape s = QueryEscape t \<longleftrightarrow> s = t"
  by (metis QueryUnescape_QueryEscape option.inject)

text \<open>An escaped text holds no separator of the form syntax.\<close>

lemma hex_digit_not_sep: "n < 16 \<Longrightarrow> hex_digit n \<noteq> CHR ''&'' \<and> hex_digit n \<noteq> CHR ''=''"
  by (auto simp: hex_digit_def char_of_eq_iff take_bit_nat_eq_self)

lemma escape_char_no_sep: "CHR ''&'' \<notin> set (escape_char c)" "CHR ''='' \<notin> set (escape_char c)"
proof -
  have lt: "(of_char c :: nat) div 16 < 16" "(of_char c :: nat) mod 16 < 16"
    using of_char_lt_256 [of c] by (simp_all add: less_mult_imp_div_less)
  have "c \<noteq> CHR ''&'' \<and> c \<noteq> CHR ''=''" if "unreserved c"
    using that by (auto simp: unreserved_def)
  with hex_digit_not_sep [OF lt(1)] hex_digit_not_sep [OF lt(2)]
  show "CHR ''&'' \<notin> set (escape_char c)" "CHR ''='' \<notin> set (escape_char c)"
    by (auto simp: escape_char_def)
qed

lemma QueryEscape_no_sep: "CHR ''&'' \<notin> set (QueryEscape s)" "CHR ''='' \<notin> set (QueryEscape s)"
  by (auto simp: QueryEscape_def escape_char_no_sep)

section \<open>A server's view of an encoded form\<close>

text \<open>
  \<open>ParseQuery\<close> restricted to what an encoder produces: fields separated by \<open>&\<close>, each
  a key and a value around the first \<open>=\<close>.
\<close>

definition parse_field :: "string \<Rightarrow> (string \<times> string) option" where
  "parse_field f =
     (case (QueryUnescape (takeWhile (\<lambda>c. c \<noteq> CHR ''='') f),
            QueryUnescape (tl (dropWhile (\<lambda>c. c \<noteq> CHR ''='') f))) of
        (Some k, Some v) \<Rightarrow> Some (k, v) | _ \<Rightarrow> None)"

definition parse_form :: "string \<Rightarrow> (string \<times> string) option list" where
  "parse_form b = map parse_field (Split b CHR ''&'')"

lemma Split_no_sep: "sep \<notin> set x \<Longrightarrow> Split x sep = [x]"
  by (induction x) auto

lemma Split_append: "sep \<notin> set x \<Longrightarrow> Split (x @ sep # y) sep = x # Split y sep"
  by (induction x) auto

lemma Split_join_amp:
  "xs \<noteq> [] \<Longrightarrow> \<forall>x \<in> set xs. CHR ''&'' \<notin> set x \<Longrightarrow> Split (join_amp xs) CHR ''&'' = xs"
  by (induction xs rule: join_amp.induct) (auto simp: Split_no_sep Split_append)

lemma parse_field_encoded: "parse_field (QueryEscape k @ ''='' @ QueryEscape v) = Some (k, v)"
proof -
  have "\<forall>c \<in> set (QueryEscape k). c \<noteq> CHR ''=''"
    using QueryEscape_no_sep(2) by metis
  then show ?thesis
    by (simp add: parse_field_def takeWhile_append2 dropWhile_append2 QueryUnescape_QueryEscape)
qed

lemma parse_form_Values_Encode:
  assumes "vs \<noteq> []"
  shows "parse_form (Values_Encode vs) = map Some (sort_key fst vs)"
proof -
  let ?fs = "map (\<lambda>(k, v). QueryEscape k @ ''='' @ QueryEscape v) (sort_key fst vs)"
  have "sort_key fst vs \<noteq> []" using assms by (metis set_sort set_empty)
  then have "Split (join_amp ?fs) CHR ''&'' = ?fs"
    using QueryEscape_no_sep(1) by (intro Split_join_amp) auto
  then show ?thesis
    using parse_field_encoded
    by (simp add: parse_form_def Values_Encode_def case_prod_beta comp_def)
qed

end
