(* ===== verification/Library_Params.thy ===== *)
theory Library_Params
  imports Api_Types
begin

text \<open>
  Functions the program calls whose code is outside the repository and is not modelled:
  the record \<open>lib\<close> is an argument of every definition that uses one of them. A theorem
  that mentions a \<open>lib\<close> without a hypothesis on it holds whatever these functions
  compute.

  \<^item> \<open>url_Parse\<close>: the error of \<open>http.NewRequest\<close> for a URL that does not parse.
  \<^item> \<open>strconv_Quote\<close>: the verb \<open>%q\<close>.
  \<^item> \<open>pem_Decode\<close>: the bytes of the first PEM block of the input.
  \<^item> \<open>x509_ParseCertificate\<close>: its error on DER bytes.
  \<^item> \<open>pkcs7_Parse\<close>: the raw certificates of a PKCS7 structure.
  \<^item> \<open>AppendCertsFromPEM\<close>: the certificates it adds to a pool (it reports success exactly
    when it adds one).
  \<^item> \<open>float_frac\<close>: \<open>uint64(float64(f) * (float64(unit) / scale))\<close>, the nanoseconds of
    a fraction, from the digits \<open>f\<close>, the scale \<open>10 ^ k\<close> (as \<open>k\<close>) and the unit.
  \<^item> \<open>cm_HasCondition\<close>, \<open>cm_IsDenied\<close>, \<open>cm_IsApproved\<close>, \<open>cm_SetCondition\<close>:
    cert-manager's \<open>CertificateRequestHasCondition\<close> (type, status and reason, an empty
    reason standing for any), \<open>CertificateRequestIsDenied\<close>,
    \<open>CertificateRequestIsApproved\<close> and \<open>SetCertificateRequestCondition\<close> (time, type,
    status, reason, message).
  \<^item> \<open>NewControllerRef\<close>: the controller reference to a CertificateRequest.
\<close>

record lib =
  url_Parse :: "string \<Rightarrow> gerr option"
  strconv_Quote :: "string \<Rightarrow> string"
  pem_Decode :: "string \<Rightarrow> string option"
  x509_ParseCertificate :: "string \<Rightarrow> gerr option"
  pkcs7_Parse :: "string \<Rightarrow> gerr + string list"
  AppendCertsFromPEM :: "string \<Rightarrow> string list"
  float_frac :: "nat \<Rightarrow> nat \<Rightarrow> nat \<Rightarrow> nat"
  cm_HasCondition :: "CertificateRequest \<Rightarrow> string \<Rightarrow> string \<Rightarrow> string \<Rightarrow> bool"
  cm_IsDenied :: "CertificateRequest \<Rightarrow> bool"
  cm_IsApproved :: "CertificateRequest \<Rightarrow> bool"
  cm_SetCondition ::
    "time \<Rightarrow> CertificateRequest \<Rightarrow> string \<Rightarrow> string \<Rightarrow> string \<Rightarrow> string \<Rightarrow> CertificateRequest"
  NewControllerRef :: "CertificateRequest \<Rightarrow> OwnerReference"

end
