(* ===== verification/Certsrv.thy ===== *)
theory Certsrv
  imports Effects Go_Regexp Go_Url Library_Params
begin

text \<open>
  The package \<open>adcs\<close> without its two clients: the constants of consts.go, the interface
  \<open>AdcsCertsrv\<close> of certsrv.go as a record of methods and as a locale that states what its
  users rely on, the regular expressions with which both clients read the pages of the
  ADCS web service, and the construction of HTTP requests.
\<close>

section \<open>Constants\<close>

definition certnew_cer :: string where "certnew_cer = ''certnew.cer''"
definition certnew_p7b :: string where "certnew_p7b = ''certnew.p7b''"
definition certcarc :: string where "certcarc = ''certcarc.asp''"
definition certfnsh :: string where "certfnsh = ''certfnsh.asp''"
definition ct_pkix :: string where "ct_pkix = ''application/pkix-cert''"
definition ct_pkcs7 :: string where "ct_pkcs7 = ''application/x-pkcs7-certificates''"
definition ct_html :: string where "ct_html = ''text/html''"
definition ct_urlenc :: string where "ct_urlenc = ''application/x-www-form-urlencoded''"

lemmas ct_defs = ct_pkix_def ct_pkcs7_def ct_html_def ct_urlenc_def
lemmas page_defs = certnew_cer_def certnew_p7b_def certcarc_def certfnsh_def

lemma ct_distinct [simp]: "ct_html \<noteq> ct_pkix" "ct_pkix \<noteq> ct_html"
  by (simp_all add: ct_defs)

definition StatusOK :: int where "StatusOK = 200"

section \<open>The interface\<close>

datatype AdcsResponseStatus = Unknown | Pending | Ready | Errored | Rejected

text \<open>Status, certificate or description, request id, error.\<close>

type_synonym cert_result = "AdcsResponseStatus \<times> string \<times> string \<times> gerr option"

record AdcsCertsrv =
  RequestCertificate :: "string \<Rightarrow> string \<Rightarrow> cert_result prog"
  GetExistingCertificate :: "string \<Rightarrow> cert_result prog"
  GetCaCertificate :: "(string \<times> gerr option) prog"
  GetCaCertificateChain :: "(string \<times> gerr option) prog"

text \<open>A client of the web service exchanges HTTP messages and closes response bodies.\<close>

fun web_call :: "call \<Rightarrow> bool" where
  "web_call (CHttp cl rq) = True"
| "web_call (CCloseBody res) = True"
| "web_call _ = False"

text \<open>
  A submission is an HTTP POST: it makes ADCS open a new request. The other calls of a
  client only read.
\<close>

fun is_post :: "call \<Rightarrow> bool" where
  "is_post (CHttp cl rq) = (rq_Method rq = ''POST'')"
| "is_post _ = False"

definition reading_call :: "call \<Rightarrow> bool" where
  "reading_call c = (web_call c \<and> \<not> is_post c)"

definition submissions :: "trace \<Rightarrow> nat" where
  "submissions tr = length (filter (\<lambda>e. is_post (fst e)) tr)"

lemma reading_call_simps [simp]:
  "reading_call (CHttp cl rq) \<longleftrightarrow> rq_Method rq \<noteq> ''POST''"
  "reading_call (CCloseBody res)"
  by (simp_all add: reading_call_def)

lemma submissions_simps [simp]:
  "submissions [] = 0"
  "submissions (e # tr) = (if is_post (fst e) then Suc (submissions tr) else submissions tr)"
  "submissions (tr @ tr') = submissions tr + submissions tr'"
  by (simp_all add: submissions_def)

lemma only_calls_submissions:
  "only_calls C p \<Longrightarrow> (\<And>c. C c \<Longrightarrow> \<not> is_post c) \<Longrightarrow> run tr p = Some z \<Longrightarrow> submissions tr = 0"
  by (auto simp: submissions_def filter_empty_conv dest: only_calls_run)

lemma reading_submissions:
  "only_calls reading_call p \<Longrightarrow> run tr p = Some z \<Longrightarrow> submissions tr = 0"
  by (erule only_calls_submissions) (simp add: reading_call_def)

lemma reading_web: "only_calls reading_call p \<Longrightarrow> only_calls web_call p"
  by (erule only_calls_mono) (simp add: reading_call_def)

text \<open>A request id of ADCS is a non-empty decimal number.\<close>

definition digits :: "char list" where
  "digits = ''0123456789''"

definition is_request_id :: "string \<Rightarrow> bool" where
  "is_request_id i = (i \<noteq> [] \<and> list_all (in_class (OneOf digits)) i)"

text \<open>
  What certsrv.go promises of a result: the status is Unknown exactly when there is an
  error. Results of a check of a request carry its id; results of a new request with
  a known status carry a request id, or the text none with a certificate.
\<close>

definition status_contract :: "cert_result \<Rightarrow> bool" where
  "status_contract = (\<lambda>(st, desc, i, err). (st = Unknown) = (err \<noteq> None))"

definition existing_contract :: "string \<Rightarrow> cert_result \<Rightarrow> bool" where
  "existing_contract rid = (\<lambda>(st, desc, i, err). (st = Unknown) = (err \<noteq> None) \<and> i = rid)"

definition request_contract :: "cert_result \<Rightarrow> bool" where
  "request_contract = (\<lambda>(st, desc, i, err). (st = Unknown) = (err \<noteq> None) \<and>
     (st \<noteq> Unknown \<longrightarrow> is_request_id i \<or> st = Ready \<and> i = ''none''))"

definition returns_sat :: "'a prog \<Rightarrow> ('a \<Rightarrow> bool) \<Rightarrow> bool" where
  "returns_sat p P = runs_sat p (\<lambda>tr z. \<forall>a. z = Returned a \<longrightarrow> P a)"

lemma returns_sat_Ret [simp]: "returns_sat (Ret a) P \<longleftrightarrow> P a"
  by (simp add: returns_sat_def runs)

lemma returns_sat_Panic [simp]: "returns_sat (Panic s) P"
  by (simp add: returns_sat_def runs)

lemma returns_sat_bind:
  "returns_sat p R \<Longrightarrow> (\<And>a. R a \<Longrightarrow> returns_sat (f a) P) \<Longrightarrow> returns_sat (bind p f) P"
  unfolding returns_sat_def by (erule runs_sat_bindI) auto

lemma returns_sat_any: "(\<And>a. returns_sat (f a) P) \<Longrightarrow> returns_sat (bind p f) P"
  by (rule returns_sat_bind [of p "\<lambda>_. True"]) (simp_all add: returns_sat_def)

lemma returns_sat_run: "returns_sat p P \<Longrightarrow> run tr p = Some (Returned a) \<Longrightarrow> P a"
  by (auto simp: returns_sat_def dest: runs_satD)

text \<open>
  A new request is submitted at most once, and exactly once when the answer is not an
  error.
\<close>

definition submits_once :: "cert_result prog \<Rightarrow> bool" where
  "submits_once p = runs_sat p (\<lambda>tr z. submissions tr \<le> 1 \<and>
     (\<forall>st desc i. z = Returned (st, desc, i, None) \<longrightarrow> submissions tr = 1))"

text \<open>
  What ADCS must be able to read from a submission: the fields of the form, decoded as a
  server decodes them.
\<close>

definition wanted_fields :: "string \<Rightarrow> string \<Rightarrow> (string \<times> string) list" where
  "wanted_fields csr template =
     [(''Mode'', ''newreq''), (''CertRequest'', csr),
      (''CertAttrib'', ''CertificateTemplate:'' @ template)]"

definition carries :: "string \<Rightarrow> string \<Rightarrow> call \<Rightarrow> bool" where
  "carries csr template c =
     (\<forall>cl rq. c = CHttp cl rq \<longrightarrow> rq_Method rq = ''POST'' \<longrightarrow>
        (\<forall>f \<in> set (wanted_fields csr template). Some f \<in> set (parse_form (rq_Body rq))) \<and>
        (''Content-type'', ct_urlenc) \<in> set (rq_Header rq))"

lemma reading_carries: "reading_call c \<Longrightarrow> carries csr template c"
  by (auto simp: carries_def)

lemma reads_carries: "only_calls reading_call p \<Longrightarrow> only_calls (carries csr template) p"
  by (erule only_calls_mono) (rule reading_carries)

text \<open>
  The contract: reading the state of a request or the CA chain never submits anything,
  a new request is one submission, and the results keep the promises above.
\<close>

locale adcs_certsrv =
  fixes srv :: AdcsCertsrv
  assumes existing_reads: "only_calls reading_call (GetExistingCertificate srv rid)"
    and chain_reads: "only_calls reading_call (GetCaCertificateChain srv)"
    and request_web: "only_calls web_call (RequestCertificate srv csr template)"
    and request_carries: "only_calls (carries csr template) (RequestCertificate srv csr template)"
    and request_submits: "submits_once (RequestCertificate srv csr template)"
    and existing_ok: "returns_sat (GetExistingCertificate srv rid) (existing_contract rid)"
    and request_ok: "returns_sat (RequestCertificate srv csr template) request_contract"
begin

lemma existing_web: "only_calls web_call (GetExistingCertificate srv rid)"
  by (rule reading_web, rule existing_reads)

lemma chain_web: "only_calls web_call (GetCaCertificateChain srv)"
  by (rule reading_web, rule chain_reads)

lemma request_submissions:
  assumes "run tr (RequestCertificate srv csr template) = Some z"
  shows "submissions tr \<le> 1" "z = Returned (st, desc, i, None) \<Longrightarrow> submissions tr = 1"
  using request_submits [of csr template] assms by (auto simp: submits_once_def dest: runs_satD)

end

section \<open>Regular expressions of the web pages\<close>

definition re_disposition :: re where
  "re_disposition =
     Seq (lit ''Disposition message:'') (Seq (Plus (Cls (NoneOf [CHR 0x09])))
       (Seq (lit [CHR 0x09, CHR 0x09]) (Grp (Plus (Cls (NoneOf [CHR 0x0D, CHR 0x0A]))))))"

definition re_pending :: re where
  "re_pending = Seq (Star any_char) (Seq (lit ''Taken Under Submissio'')
     (Seq (Star (Cls (Lit CHR ''n''))) any_char))"

definition re_rejected :: re where
  "re_rejected = Seq (Star any_char) (Seq (lit ''Denied b'')
     (Seq (Star (Cls (Lit CHR ''y''))) any_char))"

definition re_last_status :: re where
  "re_last_status =
     Seq (lit ''LastStatus:'') (Seq (Plus (Cls (NoneOf [CHR 0x09])))
       (Seq (lit [CHR 0x09, CHR 0x09]) (Grp (Plus (Cls (NoneOf [CHR 0x0D, CHR 0x0A]))))))"

definition re_certnew :: re where
  "re_certnew = Seq (Seq (lit ''certnew'') (Seq any_char (lit ''cer?ReqID='')))
     (Seq (Grp (Plus (Cls (OneOf digits)))) (lit ''&''))"

definition re_request_id :: re where
  "re_request_id = Seq (lit ''Your Request Id is '')
     (Seq (Grp (Plus (Cls (OneOf digits)))) any_char)"

definition re_disposition_is :: re where
  "re_disposition_is = Seq (lit (''The disposition message is '' @ [CHR 0x22]))
     (Grp (Plus (Cls (NoneOf [CHR 0x22]))))"

definition re_renewals :: re where
  "re_renewals = Seq (lit ''var nRenewals='')
     (Seq (Grp (Plus (Cls (OneOf digits)))) (lit '';''))"

lemmas re_defs = re_disposition_def re_pending_def re_rejected_def re_last_status_def
  re_certnew_def re_request_id_def re_disposition_is_def re_renewals_def

lemma re_groups [simp]:
  "regular_groups re_disposition" "groups re_disposition = 1"
  "regular_groups re_last_status" "groups re_last_status = 1"
  "regular_groups re_certnew" "groups re_certnew = 1"
  "regular_groups re_request_id" "groups re_request_id = 1"
  "regular_groups re_disposition_is" "groups re_disposition_is = 1"
  "regular_groups re_renewals" "groups re_renewals = 1"
  by (simp_all add: re_defs)

text \<open>An expression with one group finds nothing or a match with its group, never one string.\<close>

lemma found_cases:
  assumes "regular_groups r" and "groups r = 1"
  obtains "FindStringSubmatch r s = []"
  | x g where "FindStringSubmatch r s = [x, g]"
  using FindStringSubmatch_length [OF assms(1), of s] assms(2)
  by (auto simp: length_Suc_conv numeral_2_eq_2)

text \<open>What a captured repetition of a class holds.\<close>

lemma found_capture:
  assumes "FindStringSubmatch (Seq a (Seq (Grp (Plus (Cls c))) b)) s = [x, g]"
    and "regular_groups a" "groups a = 0"
  shows "g \<noteq> [] \<and> list_all (in_class c) g"
proof -
  obtain pre post t where "(x, [g], t) \<in> set (matches (Seq a (Seq (Grp (Plus (Cls c))) b)) post)"
    using FindStringSubmatch_matches [OF assms(1)] by metis
  then obtain m1 g1 s1 m2 g2 where
      1: "(m1, g1, s1) \<in> set (matches a post)"
    and 2: "(m2, g2, t) \<in> set (matches (Seq (Grp (Plus (Cls c))) b) s1)"
    and g: "[g] = g1 @ g2"
    unfolding matches_Seq_iff [of x "[g]"] by metis
  from matches_groups [OF assms(2) 1] assms(3) g have "g2 = [g]" by simp
  with 2 show ?thesis
    unfolding matches_Seq_iff [of m2] matches_capture_Plus by auto
qed

lemma re_certnew_id: "FindStringSubmatch re_certnew s = [x, g] \<Longrightarrow> is_request_id g"
  unfolding re_certnew_def is_request_id_def by (rule found_capture, assumption) simp_all

lemma re_request_id_id: "FindStringSubmatch re_request_id s = [x, g] \<Longrightarrow> is_request_id g"
  unfolding re_request_id_def is_request_id_def by (rule found_capture, assumption) simp_all

lemma re_renewals_id: "FindStringSubmatch re_renewals s = [x, g] \<Longrightarrow> is_request_id g"
  unfolding re_renewals_def is_request_id_def by (rule found_capture, assumption) simp_all

section \<open>What the classification of a page looks for\<close>

lemma MatchString_Star_any: "MatchString (Seq (Star r) q) s \<longleftrightarrow> MatchString q s"
proof
  assume "MatchString (Seq (Star r) q) s"
  then obtain pre post m g t where "s = pre @ post" "(m, g, t) \<in> set (matches (Seq (Star r) q) post)"
    unfolding MatchString_iff by (metis list.set_intros(1) neq_Nil_conv prod_cases3)
  then obtain m1 g1 s1 m2 g2 where "(m1, g1, s1) \<in> set (matches (Star r) post)"
    "(m2, g2, t) \<in> set (matches q s1)" "s = pre @ post"
    unfolding matches_Seq_iff by metis
  then show "MatchString q s"
    unfolding MatchString_iff
    by (metis matches_split append.assoc empty_iff list.set(1))
next
  assume "MatchString q s"
  then obtain pre post m g t where "s = pre @ post" "(m, g, t) \<in> set (matches q post)"
    unfolding MatchString_iff by (metis list.set_intros(1) neq_Nil_conv prod_cases3)
  then have "(m, g, t) \<in> set (matches (Seq (Star r) q) post)"
    unfolding matches_Seq_iff matches_Star_iff [of _ _ _ r post]
    by (metis append_Nil)
  with \<open>s = pre @ post\<close> show "MatchString (Seq (Star r) q) s"
    unfolding MatchString_iff by (metis empty_iff list.set(1))
qed

lemma MatchString_lit:
  "MatchString (Seq (lit p) r) s \<longleftrightarrow> (\<exists>pre post. s = pre @ p @ post \<and> matches r post \<noteq> [])"
proof
  assume "MatchString (Seq (lit p) r) s"
  then obtain pre post where s: "s = pre @ post" "matches (Seq (lit p) r) post \<noteq> []"
    unfolding MatchString_iff by blast
  then have "take (length p) post = p" by (metis matches_lit_Seq_Nil)
  then obtain q where "post = p @ q" by (metis append_take_drop_id)
  with s show "\<exists>pre post. s = pre @ p @ post \<and> matches r post \<noteq> []"
    by (auto simp: matches_lit_Seq)
next
  assume "\<exists>pre post. s = pre @ p @ post \<and> matches r post \<noteq> []"
  then obtain pre post where "s = pre @ (p @ post)" "matches (Seq (lit p) r) (p @ post) \<noteq> []"
    by (auto simp: matches_lit_Seq)
  then show "MatchString (Seq (lit p) r) s"
    unfolding MatchString_iff by blast
qed

lemma matches_Star_any_char:
  assumes "x \<noteq> CHR 0x0A"
  shows "matches (Seq (Star (Cls (Lit x))) any_char) s \<noteq> [] \<longleftrightarrow> (\<exists>c t. s = c # t \<and> c \<noteq> CHR 0x0A)"
    (is "?L \<longleftrightarrow> ?R")
proof
  assume ?L
  then obtain m g t where "(m, g, t) \<in> set (matches (Seq (Star (Cls (Lit x))) any_char) s)"
    by (metis list.set_intros(1) neq_Nil_conv prod_cases3)
  then obtain m1 g1 s1 m2 g2 where 1: "(m1, g1, s1) \<in> set (matches (Star (Cls (Lit x))) s)"
      and 2: "(m2, g2, t) \<in> set (matches any_char s1)"
    unfolding matches_Seq_iff by blast
  from 2 have "matches any_char s1 \<noteq> []" by (metis empty_iff list.set(1))
  then obtain y t1 where y: "s1 = y # t1" "y \<noteq> CHR 0x0A"
    unfolding matches_any_char by blast
  from 1 have "list_all (in_class (Lit x)) m1"
    by (auto simp: matches_Star_Cls dest: class_runs_all)
  with assms y matches_split [OF 1] show ?R
    by (cases m1) auto
next
  assume ?R
  then obtain c t where s: "s = c # t" "c \<noteq> CHR 0x0A" by blast
  have "([], [], s) \<in> set (matches (Star (Cls (Lit x))) s)"
    by (subst matches_Star_iff) simp
  moreover from s obtain m u where "(m, [], u) \<in> set (matches any_char s)" by auto
  ultimately have "(m, [], u) \<in> set (matches (Seq (Star (Cls (Lit x))) any_char) s)"
    unfolding matches_Seq_iff by (metis append_Nil)
  then show ?L by (metis empty_iff list.set(1))
qed

lemma re_pending_iff:
  "MatchString re_pending s \<longleftrightarrow>
     (\<exists>pre c post. s = pre @ ''Taken Under Submissio'' @ c # post \<and> c \<noteq> CHR 0x0A)"
  unfolding re_pending_def MatchString_Star_any MatchString_lit
  by (auto simp: matches_Star_any_char)

lemma re_rejected_iff:
  "MatchString re_rejected s \<longleftrightarrow>
     (\<exists>pre c post. s = pre @ ''Denied b'' @ c # post \<and> c \<noteq> CHR 0x0A)"
  unfolding re_rejected_def MatchString_Star_any MatchString_lit
  by (auto simp: matches_Star_any_char)

section \<open>HTTP requests\<close>

text \<open>
  \<open>http.NewRequest\<close> fails when the URL does not parse. Where the code drops its error,
  the request is nil, and the next method call on it panics.
\<close>

definition NewRequest :: "lib \<Rightarrow> string \<Rightarrow> string \<Rightarrow> string \<Rightarrow> gerr + http_request" where
  "NewRequest L verb url body =
     (case url_Parse L url of
        Some e \<Rightarrow> Inl e
      | None \<Rightarrow> Inr \<lparr>rq_Method = verb, rq_URL = url, rq_BasicAuth = None, rq_Header = [],
                    rq_Body = body\<rparr>)"

fun ignore_request_error :: "gerr + http_request \<Rightarrow> http_request prog" where
  "ignore_request_error (Inl e) = Panic nil_deref"
| "ignore_request_error (Inr rq) = Ret rq"

definition SetBasicAuth :: "string \<Rightarrow> string \<Rightarrow> http_request \<Rightarrow> http_request" where
  "SetBasicAuth u p rq = rq\<lparr>rq_BasicAuth := Some (u, p)\<rparr>"

definition Header_Set :: "string \<Rightarrow> string \<Rightarrow> http_request \<Rightarrow> http_request" where
  "Header_Set k v rq = rq\<lparr>rq_Header := filter (\<lambda>(k', _). k' \<noteq> k) (rq_Header rq) @ [(k, v)]\<rparr>"

text \<open>Headers and credentials do not change what is asked for.\<close>

lemma prepared_request [simp]:
  "rq_Method (Header_Set k v rq) = rq_Method rq"
  "rq_URL (Header_Set k v rq) = rq_URL rq"
  "rq_Body (Header_Set k v rq) = rq_Body rq"
  "rq_Method (SetBasicAuth u p rq) = rq_Method rq"
  "rq_URL (SetBasicAuth u p rq) = rq_URL rq"
  "rq_Body (SetBasicAuth u p rq) = rq_Body rq"
  by (simp_all add: Header_Set_def SetBasicAuth_def)

lemma NewRequest_Inr:
  "NewRequest L verb url body = Inr rq \<Longrightarrow>
     rq_Method rq = verb \<and> rq_URL rq = url \<and> rq_Body rq = body"
  by (auto simp: NewRequest_def split: option.splits)

text \<open>A request that cannot be built is not sent.\<close>

lemma only_calls_NewRequest:
  "(\<And>rq. NewRequest L verb url body = Inr rq \<Longrightarrow> only_calls C (f rq)) \<Longrightarrow>
     only_calls C (bind (ignore_request_error (NewRequest L verb url body)) f)"
  by (cases "NewRequest L verb url body") auto

text \<open>One exchange and then only reading: the shape of every new request.\<close>

lemma submits_once_post:
  assumes "rq_Method rq = ''POST''" and "\<And>x. only_calls reading_call (f x)"
  shows "submits_once (bind (http_Do cl rq) f)"
  using assms
  by (auto simp: submits_once_def runs_sat_http_Do intro!: runs_satI dest: reading_submissions)

lemma submits_once_error [simp]: "submits_once (Ret (st, desc, i, Some e))"
  by (simp add: submits_once_def runs_sat_Ret)

text \<open>The form of a new request carries what is wanted.\<close>

lemma carries_post:
  assumes "vs \<noteq> []" "rq_Body rq = Values_Encode vs"
    and "set (wanted_fields csr template) \<subseteq> set vs"
    and "(''Content-type'', ct_urlenc) \<in> set (rq_Header rq)"
  shows "carries csr template (CHttp cl rq)"
  using assms by (auto simp: carries_def parse_form_Values_Encode)

lemma Header_Set_mem [simp]: "(k, v) \<in> set (rq_Header (Header_Set k v rq))"
  by (simp add: Header_Set_def)

text \<open>The dot of a pattern takes a character of two bytes whole.\<close>

lemma certnew_rune:
  "FindStringSubmatch re_certnew (''certnew'' @ [CHR 0xC3, CHR 0xA9] @ ''cer?ReqID=7&'') ! 1 = ''7''"
  by code_simp

end
