(* ===== verification/Go_Pem.thy ===== *)
theory Go_Pem
  imports Go_Prelude
begin

text \<open>
  \<open>pem.EncodeToMemory\<close> for a block without headers: the two marker lines and between them
  the standard base64 encoding of the bytes in lines of 64 characters. \<open>read_pem\<close> is the
  reading of RFC 7468 (drop the markers, join the lines, decode), used to state that the
  encoded block carries the bytes it was made from.
\<close>

section \<open>Base64\<close>

definition b64_alphabet :: string where
  "b64_alphabet = ''ABCDEFGHIJKLMNOPQRSTUVWXYZabcdefghijklmnopqrstuvwxyz0123456789+/''"

definition b64_char :: "nat \<Rightarrow> char" where
  "b64_char n = b64_alphabet ! n"

fun b64_encode :: "string \<Rightarrow> string" where
  "b64_encode [] = []"
| "b64_encode [a] =
     (let x = of_char a :: nat
      in [b64_char (x div 4), b64_char (x mod 4 * 16), CHR ''='', CHR ''=''])"
| "b64_encode [a, b] =
     (let x = of_char a :: nat; y = of_char b :: nat
      in [b64_char (x div 4), b64_char (x mod 4 * 16 + y div 16),
          b64_char (y mod 16 * 4), CHR ''=''])"
| "b64_encode (a # b # c # s) =
     (let x = of_char a :: nat; y = of_char b :: nat; z = of_char c :: nat
      in b64_char (x div 4) # b64_char (x mod 4 * 16 + y div 16) #
         b64_char (y mod 16 * 4 + z div 64) # b64_char (z mod 64) # b64_encode s)"

definition b64_value :: "char \<Rightarrow> nat option" where
  "b64_value c =
     (let n = (of_char c :: nat) in
      if 65 \<le> n \<and> n \<le> 90 then Some (n - 65)
      else if 97 \<le> n \<and> n \<le> 122 then Some (n - 71)
      else if 48 \<le> n \<and> n \<le> 57 then Some (n + 4)
      else if n = 43 then Some 62
      else if n = 47 then Some 63
      else None)"

fun b64_decode :: "string \<Rightarrow> string option" where
  "b64_decode [] = Some []"
| "b64_decode (p # q # r # t # s) =
     (case (b64_value p, b64_value q) of
        (Some a, Some b) \<Rightarrow>
          (if r = CHR ''='' then
             (if t = CHR ''='' \<and> s = [] then Some [char_of (a * 4 + b div 16)] else None)
           else (case b64_value r of
             None \<Rightarrow> None
           | Some c \<Rightarrow>
               if t = CHR ''='' then
                 (if s = [] then Some [char_of (a * 4 + b div 16), char_of (b mod 16 * 16 + c div 4)]
                  else None)
               else (case b64_value t of
                 None \<Rightarrow> None
               | Some d \<Rightarrow> map_option
                   (\<lambda>u. char_of (a * 4 + b div 16) # char_of (b mod 16 * 16 + c div 4) #
                         char_of (c mod 4 * 64 + d) # u) (b64_decode s))))
      | _ \<Rightarrow> None)"
| "b64_decode _ = None"

lemma b64_chars:
  "list_all (\<lambda>n. b64_value (b64_char n) = Some n \<and> b64_char n \<noteq> CHR ''='' \<and>
     b64_char n \<noteq> CHR 0x0A \<and> b64_char n \<noteq> CHR ''-'') [0..<64]"
  by (simp add: b64_char_def b64_alphabet_def b64_value_def upt_conv_Cons)

lemma b64_char_facts:
  assumes "n < 64"
  shows "b64_value (b64_char n) = Some n" "b64_char n \<noteq> CHR ''=''"
    "b64_char n \<noteq> CHR 0x0A" "b64_char n \<noteq> CHR ''-''"
  using b64_chars assms by (auto simp: list_all_iff)

text \<open>Three bytes as four groups of six bits, and back.\<close>

lemma sextets_lt:
  fixes x y z :: nat
  assumes "x < 256" "y < 256" "z < 256"
  shows "x div 4 < 64" "x mod 4 * 16 + y div 16 < 64" "y mod 16 * 4 + z div 64 < 64"
    "x mod 4 * 16 < 64" "y mod 16 * 4 < 64"
proof -
  have "x mod 4 < 4" "y mod 16 < 16" "y div 16 < 16" "z div 64 < 4" "x div 4 < 64"
    using assms by (auto simp: less_mult_imp_div_less)
  then show "x div 4 < 64" "x mod 4 * 16 + y div 16 < 64" "y mod 16 * 4 + z div 64 < 64"
    "x mod 4 * 16 < 64" "y mod 16 * 4 < 64" by linarith+
qed

lemma sextets_join:
  fixes x y z :: nat
  assumes "y < 256" "z < 256"
  shows "x div 4 * 4 + (x mod 4 * 16 + y div 16) div 16 = x"
    "(x mod 4 * 16 + y div 16) mod 16 * 16 + (y mod 16 * 4 + z div 64) div 4 = y"
    "(y mod 16 * 4 + z div 64) mod 4 * 64 + z mod 64 = z"
proof -
  have "y div 16 < 16" "z div 64 < 4"
    using assms by (auto simp: less_mult_imp_div_less)
  then show "x div 4 * 4 + (x mod 4 * 16 + y div 16) div 16 = x"
    "(x mod 4 * 16 + y div 16) mod 16 * 16 + (y mod 16 * 4 + z div 64) div 4 = y"
    "(y mod 16 * 4 + z div 64) mod 4 * 64 + z mod 64 = z"
    by (simp_all add: div_add1_eq [of "x mod 4 * 16"] mod_mult_self3)
qed

lemma octets [simp]:
  "(of_char a :: nat) div 4 < 64"
  "(of_char a :: nat) mod 4 * 16 + of_char b div 16 < 64"
  "(of_char b :: nat) mod 16 * 4 + of_char c div 64 < 64"
  "(of_char a :: nat) mod 4 * 16 < 64"
  "(of_char b :: nat) mod 16 * 4 < 64"
  using sextets_lt [of "of_char a" "of_char b" "of_char c"] by simp_all

lemma octets_join:
  "char_of ((of_char a :: nat) div 4 * 4 + (of_char a mod 4 * 16 + of_char b div 16) div 16) = a"
  "char_of (((of_char a :: nat) mod 4 * 16 + of_char b div 16) mod 16 * 16 +
     (of_char b mod 16 * 4 + of_char c div 64) div 4) = b"
  "char_of (((of_char b :: nat) mod 16 * 4 + of_char c div 64) mod 4 * 64 + of_char c mod 64) = c"
proof -
  note b = sextets_join [OF nat_of_char_less_256 [of b] nat_of_char_less_256 [of c]]
  show "char_of ((of_char a :: nat) div 4 * 4 + (of_char a mod 4 * 16 + of_char b div 16) div 16) = a"
    "char_of (((of_char a :: nat) mod 4 * 16 + of_char b div 16) mod 16 * 16 +
       (of_char b mod 16 * 4 + of_char c div 64) div 4) = b"
    "char_of (((of_char b :: nat) mod 16 * 4 + of_char c div 64) mod 4 * 64 + of_char c mod 64) = c"
    by (simp_all only: b char_of_char)
qed

lemma b64_roundtrip: "b64_decode (b64_encode s) = Some s"
proof (induction s rule: b64_encode.induct)
  case (2 a)
  have "char_of ((of_char a :: nat) div 4 * 4 + of_char a mod 4 * 16 div 16) = a"
    using octets_join(1) [of a "char_of (0 :: nat)"] by simp
  then show ?case by (simp only: b64_encode.simps Let_def) (simp add: b64_char_facts del: char_of_mod_256)
next
  case (3 a b)
  have y: "char_of (((of_char a :: nat) mod 4 * 16 + of_char b div 16) mod 16 * 16 +
      of_char b mod 16 * 4 div 4) = b"
    using octets_join(2) [of a b "char_of (0 :: nat)"] by simp
  show ?case
    unfolding b64_encode.simps Let_def b64_decode.simps
    by (simp only: b64_char_facts octets option.case prod.case y octets_join(1) if_True if_False
        simp_thms)
next
  case (4 a b c s)
  then show ?case
    unfolding b64_encode.simps Let_def b64_decode.simps
    by (simp only: b64_char_facts octets octets_join option.case prod.case if_True if_False
        simp_thms option.map pos_mod_bound mod_less_divisor zero_less_numeral)
qed simp

lemma b64_encode_chars:
  "c \<in> set (b64_encode s) \<Longrightarrow> c \<noteq> CHR 0x0A \<and> c \<noteq> CHR ''-''"
  by (induction s rule: b64_encode.induct) (auto simp: Let_def b64_char_facts)

section \<open>The encoded block\<close>

fun lines64 :: "string \<Rightarrow> string" where
  "lines64 s = (if s = [] then [] else take 64 s @ CHR 0x0A # lines64 (drop 64 s))"

declare lines64.simps [simp del]

definition pem_begin :: "string \<Rightarrow> string" where
  "pem_begin t = ''-----BEGIN '' @ t @ ''-----'' @ [CHR 0x0A]"

definition pem_end :: "string \<Rightarrow> string" where
  "pem_end t = ''-----END '' @ t @ ''-----'' @ [CHR 0x0A]"

definition EncodeToMemory :: "string \<Rightarrow> string \<Rightarrow> string" where
  "EncodeToMemory t b = pem_begin t @ lines64 (b64_encode b) @ pem_end t"

lemma EncodeToMemory_neq_Nil [simp]: "EncodeToMemory t b \<noteq> []"
  by (simp add: EncodeToMemory_def pem_begin_def)

section \<open>Reading it back\<close>

definition read_pem :: "string \<Rightarrow> string \<Rightarrow> string option" where
  "read_pem t s =
     (if take (length (pem_begin t)) s = pem_begin t then
        (let r = drop (length (pem_begin t)) s;
             body = takeWhile (\<lambda>c. c \<noteq> CHR ''-'') r
         in if drop (length body) r = pem_end t
            then b64_decode (filter (\<lambda>c. c \<noteq> CHR 0x0A) body) else None)
      else None)"

lemma filter_lines64: "filter (\<lambda>c. c \<noteq> CHR 0x0A) (lines64 s) = filter (\<lambda>c. c \<noteq> CHR 0x0A) s"
proof (induction s rule: lines64.induct)
  case (1 s)
  have "filter (\<lambda>c. c \<noteq> CHR 0x0A) (take 64 s) @ filter (\<lambda>c. c \<noteq> CHR 0x0A) (drop 64 s) =
      filter (\<lambda>c. c \<noteq> CHR 0x0A) s"
    by (metis append_take_drop_id filter_append)
  with 1 show ?case
    by (subst lines64.simps) simp
qed

lemma lines64_chars: "c \<in> set (lines64 s) \<Longrightarrow> c \<in> set s \<or> c = CHR 0x0A"
proof (induction s rule: lines64.induct)
  case (1 s)
  then show ?case
    by (subst (asm) (2) lines64.simps) (auto split: if_splits dest: in_set_takeD in_set_dropD)
qed

lemma read_pem_EncodeToMemory: "read_pem t (EncodeToMemory t b) = Some b"
proof -
  have no_dash: "\<forall>c \<in> set (lines64 (b64_encode b)). c \<noteq> CHR ''-''"
    using lines64_chars b64_encode_chars by fastforce
  have "takeWhile (\<lambda>c. c \<noteq> CHR ''-'') (lines64 (b64_encode b) @ pem_end t) =
      lines64 (b64_encode b) @ takeWhile (\<lambda>c. c \<noteq> CHR ''-'') (pem_end t)"
    by (rule takeWhile_append2) (use no_dash in auto)
  then have "takeWhile (\<lambda>c. c \<noteq> CHR ''-'') (lines64 (b64_encode b) @ pem_end t) =
      lines64 (b64_encode b)"
    by (simp add: pem_end_def)
  moreover have "filter (\<lambda>c. c \<noteq> CHR 0x0A) (b64_encode b) = b64_encode b"
    using b64_encode_chars by (simp add: filter_id_conv)
  ultimately show ?thesis
    by (simp add: read_pem_def EncodeToMemory_def filter_lines64 b64_roundtrip)
qed

end
