(* ===== verification/Go_Duration.thy ===== *)
theory Go_Duration
  imports Library_Params
begin

text \<open>
  \<open>time.ParseDuration\<close>, which turns the interval strings of an issuer into nanoseconds.
  The sum of the terms and the product with the unit are unsigned 64 bit words, as in Go;
  the digits are read as a natural number because the code checks the bound 2 ^ 63 before a
  digit could wrap. The contribution of a decimal fraction is computed by Go in floating
  point and is the parameter \<open>float_frac\<close>. A result is a signed 64 bit word (read it with
  \<open>sint\<close>), None an error.
\<close>

type_synonym Duration = "64 word"

definition is_digit :: "char \<Rightarrow> bool" where
  "is_digit c = (let n = (of_char c :: nat) in 48 \<le> n \<and> n \<le> 57)"

definition digit_value :: "char \<Rightarrow> nat" where
  "digit_value c = of_char c - 48"

fun leadingInt :: "nat \<Rightarrow> string \<Rightarrow> (nat \<times> string) option" where
  "leadingInt x [] = Some (x, [])"
| "leadingInt x (c # s) =
     (if \<not> is_digit c then Some (x, c # s)
      else if x > 2 ^ 63 div 10 then None
      else (let y = x * 10 + digit_value c in if y > 2 ^ 63 then None else leadingInt y s))"

text \<open>The digits that are read, how many they are, and the rest.\<close>

fun leadingFraction :: "nat \<Rightarrow> nat \<Rightarrow> bool \<Rightarrow> string \<Rightarrow> nat \<times> nat \<times> string" where
  "leadingFraction x k overflow [] = (x, k, [])"
| "leadingFraction x k overflow (c # s) =
     (if \<not> is_digit c then (x, k, c # s)
      else if overflow then leadingFraction x k overflow s
      else if x > (2 ^ 63 - 1) div 10 then leadingFraction x k True s
      else (let y = x * 10 + digit_value c in
            if y > 2 ^ 63 then leadingFraction x k True s
            else leadingFraction y (Suc k) overflow s))"

definition unitMap :: "string \<Rightarrow> nat option" where
  "unitMap u =
     (if u = ''ns'' then Some 1
      else if u = ''us'' \<or> u = [CHR 0xC2, CHR 0xB5, CHR ''s''] \<or> u = [CHR 0xCE, CHR 0xBC, CHR ''s'']
        then Some 1000
      else if u = ''ms'' then Some 1000000
      else if u = ''s'' then Some 1000000000
      else if u = ''m'' then Some 60000000000
      else if u = ''h'' then Some 3600000000000
      else None)"

definition unit_char :: "char \<Rightarrow> bool" where
  "unit_char c = (c \<noteq> CHR ''.'' \<and> \<not> is_digit c)"

text \<open>One term: digits, perhaps a fraction, a unit.\<close>

definition parse_term :: "lib \<Rightarrow> string \<Rightarrow> (64 word \<times> string) option" where
  "parse_term L s =
     (case s of [] \<Rightarrow> None
      | c # _ \<Rightarrow>
        if \<not> (c = CHR ''.'' \<or> is_digit c) then None
        else (case leadingInt 0 s of
          None \<Rightarrow> None
        | Some (v, s1) \<Rightarrow>
           (let pre = (length s \<noteq> length s1);
                (f, k, s2, post) =
                  (if s1 \<noteq> [] \<and> hd s1 = CHR ''.'' then
                     (let (f, k, t) = leadingFraction 0 0 False (tl s1)
                      in (f, k, t, length (tl s1) \<noteq> length t))
                   else (0, 0, s1, False));
                u = takeWhile unit_char s2
            in if \<not> pre \<and> \<not> post then None
               else if u = [] then None
               else (case unitMap u of
                 None \<Rightarrow> None
               | Some unit \<Rightarrow>
                   if v > 2 ^ 63 div unit then None
                   else (let w = of_nat v * of_nat unit :: 64 word;
                             w' = (if f > 0 then w + of_nat (float_frac L f k unit) else w)
                         in if f > 0 \<and> unat w' > 2 ^ 63 then None
                            else Some (w', dropWhile unit_char s2))))))"

lemma leadingInt_length: "leadingInt x s = Some (v, t) \<Longrightarrow> length t \<le> length s"
  by (induction x s rule: leadingInt.induct) (auto simp: Let_def split: if_splits)

lemma leadingFraction_length: "leadingFraction x k ov s = (f, j, t) \<Longrightarrow> length t \<le> length s"
  by (induction x k ov s rule: leadingFraction.induct)
     (auto simp: Let_def le_SucI split: if_splits)

lemma dropWhile_unit_length:
  "takeWhile P s \<noteq> [] \<Longrightarrow> length (dropWhile P s) < length s"
  by (cases s) (auto simp: le_imp_less_Suc length_dropWhile_le split: if_splits)

lemma parse_term_length: "parse_term L s = Some (w, t) \<Longrightarrow> length t < length s"
  by (fastforce simp: parse_term_def Let_def
      dest!: leadingInt_length leadingFraction_length dropWhile_unit_length
      split: list.splits option.splits if_splits prod.splits)

function parse_terms :: "lib \<Rightarrow> 64 word \<Rightarrow> string \<Rightarrow> 64 word option" where
  "parse_terms L d s =
     (if s = [] then Some d
      else (case parse_term L s of
              None \<Rightarrow> None
            | Some (v, t) \<Rightarrow>
                let d' = d + v in if unat d' > 2 ^ 63 then None else parse_terms L d' t))"
  by pat_completeness auto
termination
  by (relation "measure (\<lambda>(L, d, s). length s)") (auto dest: parse_term_length)

declare parse_terms.simps [simp del]

definition ParseDuration :: "lib \<Rightarrow> string \<Rightarrow> Duration option" where
  "ParseDuration L orig =
     (let neg = (orig \<noteq> [] \<and> hd orig = CHR ''-'');
          s = (if orig \<noteq> [] \<and> (hd orig = CHR ''-'' \<or> hd orig = CHR ''+'') then tl orig else orig)
      in if s = ''0'' then Some 0
         else if s = [] then None
         else (case parse_terms L 0 s of
                 None \<Rightarrow> None
               | Some d \<Rightarrow> if neg then Some (- d)
                          else if unat d > 2 ^ 63 - 1 then None else Some d))"

section \<open>Results\<close>

lemma sint_nonneg:
  fixes d :: "64 word"
  assumes "unat d \<le> 2 ^ 63 - 1"
  shows "0 \<le> sint d"
proof -
  have "uint d = int (unat d)" by (rule uint_nat)
  moreover from assms have "unat d \<le> 9223372036854775807" by simp
  ultimately have "0 \<le> uint d" "uint d < 9223372036854775808" by linarith+
  then have "uint d div 2 ^ 63 = 0" by simp
  then have "\<not> bit (uint d) 63" by (simp only: bit_iff_odd even_zero not_not)
  then show ?thesis by (simp add: sint_uint)
qed

lemma ParseDuration_nonneg:
  assumes "ParseDuration L s = Some d" and "s = [] \<or> hd s \<noteq> CHR ''-''"
  shows "0 \<le> sint d"
  using assms by (auto simp: ParseDuration_def Let_def intro!: sint_nonneg split: option.splits if_splits)

lemma ParseDuration_6h: "ParseDuration L ''6h'' = Some 21600000000000"
  by (simp add: ParseDuration_def parse_terms.simps parse_term_def is_digit_def digit_value_def
      unit_char_def unitMap_def)

lemma ParseDuration_1h: "ParseDuration L ''1h'' = Some 3600000000000"
  by (simp add: ParseDuration_def parse_terms.simps parse_term_def is_digit_def digit_value_def
      unit_char_def unitMap_def)

end
