(* ===== verification/Issuer.thy ===== *)
theory Issuer
  imports Certsrv Go_Pem Go_Duration
begin

text \<open>
  The issuer (\<open>src/issuers/issuer.go\<close>): \<open>Issue\<close>, which asks ADCS for a certificate or
  for the state of a pending request and records the answer in the AdcsRequest, and the
  normalisation of the CA chain. Go passes the AdcsRequest by pointer, so the model returns
  it with the results, changed even where an error is returned after the change.

  The life cycle of an AdcsRequest status is specified by the relation \<open>lifecycle\<close>; that
  \<open>Issue\<close> implements it is proved inside the locale of the interface, for every
  client that keeps the interface's contract.
\<close>

section \<open>The issuer\<close>

record Issuer =
  certServ :: AdcsCertsrv
  RetryInterval :: Duration
  StatusCheckInterval :: Duration
  iss_AdcsTemplateName :: string

section \<open>The CA chain\<close>

definition tryParseX509 :: "lib \<Rightarrow> string \<Rightarrow> gerr + string" where
  "tryParseX509 L block =
     (case x509_ParseCertificate L block of
        None \<Rightarrow> Inr block
      | Some _ \<Rightarrow>
          (case pkcs7_Parse L block of
             Inl err \<Rightarrow> Inl (Err (''parsing PKCS7: '' @ err_text err))
           | Inr certificates \<Rightarrow>
               if length certificates = 0 then Inl (Err ''expected one or more certificates'')
               else (case find (\<lambda>raw. length raw \<noteq> 0) certificates of
                       Some raw \<Rightarrow> Inr raw
                     | None \<Rightarrow> Inl (Err ''expected at least one certificate to have a value''))))"

definition parseCaCert :: "lib \<Rightarrow> string \<Rightarrow> gerr + string" where
  "parseCaCert L cc =
     (case pem_Decode L cc of
        None \<Rightarrow> Inl (Err ''error decoding the pem block'')
      | Some block \<Rightarrow>
          (case tryParseX509 L block of
             Inl err \<Rightarrow> Inl err
           | Inr b \<Rightarrow> Inr (EncodeToMemory ''CERTIFICATE'' b)))"

section \<open>Issue\<close>

text \<open>The request with its new status, certificate, CA certificate, error.\<close>

type_synonym issue_result = "AdcsRequest \<times> slice \<times> slice \<times> gerr option"

definition set_status :: "AdcsRequest \<Rightarrow> State \<Rightarrow> string \<Rightarrow> string \<Rightarrow> AdcsRequest" where
  "set_status ar st rid reason =
     ar\<lparr>ar_Status := \<lparr>ar_Id = rid, ar_State = st, ar_Reason = reason\<rparr>\<rparr>"

definition record_response ::
    "AdcsRequest \<Rightarrow> AdcsResponseStatus \<Rightarrow> string \<Rightarrow> string \<Rightarrow> AdcsRequest \<times> slice" where
  "record_response ar adcsResponseStatus desc rid =
     (case adcsResponseStatus of
        Pending \<Rightarrow> (set_status ar StatePending rid desc, None)
      | Ready \<Rightarrow> (set_status ar StateReady rid ''certificate obtained successfully'', Some desc)
      | Rejected \<Rightarrow> (set_status ar StateRejected rid desc, None)
      | Errored \<Rightarrow> (set_status ar StateErrored rid desc, None)
      | Unknown \<Rightarrow> (ar, None))"

definition issue_chain :: "lib \<Rightarrow> Issuer \<Rightarrow> AdcsRequest \<Rightarrow> slice \<Rightarrow> issue_result prog" where
  "issue_chain L i ar cert =
     bind (GetCaCertificateChain (certServ i)) (\<lambda>(certChain, err). case err of
       Some e \<Rightarrow> Ret (ar, None, None, Some e)
     | None \<Rightarrow>
         if length certChain = 0 then
           Ret (ar, None, None, Some (Err ''unable to get cert-chain from cert server''))
         else (case parseCaCert L certChain of
           Inl e \<Rightarrow> Ret (ar, None, None, Some e)
         | Inr ca \<Rightarrow>
             if length ca = 0 then
               Ret (ar, None, None, Some (Err ''cacert empty after parsing x509''))
             else Ret (ar, cert, Some ca, None)))"

definition issue_response ::
    "lib \<Rightarrow> Issuer \<Rightarrow> AdcsRequest \<Rightarrow> cert_result \<Rightarrow> issue_result prog" where
  "issue_response L i ar = (\<lambda>(adcsResponseStatus, desc, rid, err). case err of
       Some e \<Rightarrow> Ret (ar, None, None, Some e)
     | None \<Rightarrow>
         (let (ar', cert) = record_response ar adcsResponseStatus desc rid
          in issue_chain L i ar' cert))"

definition Issue :: "lib \<Rightarrow> Issuer \<Rightarrow> AdcsRequest \<Rightarrow> issue_result prog" where
  "Issue L i ar =
     (if ar_State (ar_Status ar) \<noteq> StateUnknown then
        (if ar_State (ar_Status ar) = StatePending then
           (if ar_Id (ar_Status ar) = '''' then
              Ret (ar, None, None, Some (Err ''adcs id not set''))
            else bind (GetExistingCertificate (certServ i) (ar_Id (ar_Status ar)))
                   (issue_response L i ar))
         else Ret (ar, None, None, None))
      else bind (RequestCertificate (certServ i) (slice_bytes (ar_CSRPEM (ar_Spec ar)))
                   (iss_AdcsTemplateName i))
             (issue_response L i ar))"

section \<open>The CA chain: what is returned\<close>

lemma tryParseX509_Inr:
  "tryParseX509 L b = Inr raw \<Longrightarrow>
     raw = b \<and> x509_ParseCertificate L b = None \<or>
     (\<exists>certs. pkcs7_Parse L b = Inr certs \<and> raw \<in> set certs \<and> raw \<noteq> [])"
  by (auto simp: tryParseX509_def find_Some_iff in_set_conv_nth
      split: option.splits sum.splits if_splits)

lemma parseCaCert_Inr:
  "parseCaCert L cc = Inr ca \<longleftrightarrow>
     (\<exists>block raw. pem_Decode L cc = Some block \<and> tryParseX509 L block = Inr raw \<and>
        ca = EncodeToMemory ''CERTIFICATE'' raw)"
  by (auto simp: parseCaCert_def split: option.splits sum.splits)

lemma parseCaCert_neq_Nil: "parseCaCert L cc = Inr ca \<Longrightarrow> ca \<noteq> []"
  by (auto simp: parseCaCert_Inr)

section \<open>The life cycle of a request\<close>

text \<open>
  A new request gets a known state with the id ADCS gave it (or the text none with an
  immediate certificate); a pending request keeps its id; every other state is final.
\<close>

definition known_states :: "State list" where
  "known_states = [StatePending, StateReady, StateErrored, StateRejected]"

inductive lifecycle :: "AdcsRequestStatus \<Rightarrow> AdcsRequestStatus \<Rightarrow> bool" where
  stay: "lifecycle s s"
| submit: "ar_State s = StateUnknown \<Longrightarrow> List.member known_states (ar_State t) \<Longrightarrow>
     is_request_id (ar_Id t) \<or> ar_State t = StateReady \<and> ar_Id t = ''none'' \<Longrightarrow> lifecycle s t"
| recheck: "ar_State s = StatePending \<Longrightarrow> List.member known_states (ar_State t) \<Longrightarrow>
     ar_Id t = ar_Id s \<Longrightarrow> lifecycle s t"

inductive_simps lifecycle_iff: "lifecycle s t"

lemma known_states_simps [simp]:
  "st \<in> set known_states \<longleftrightarrow>
     st = StatePending \<or> st = StateReady \<or> st = StateErrored \<or> st = StateRejected"
  by (simp add: known_states_def)

lemma lifecycle_trans: "lifecycle s t \<Longrightarrow> lifecycle t u \<Longrightarrow> lifecycle s u"
  unfolding lifecycle_iff by (auto simp: is_request_id_def)

text \<open>The progress of a request as an order: new, waiting, settled.\<close>

datatype phase = New | Waiting | Settled

fun phase_rank :: "phase \<Rightarrow> nat" where
  "phase_rank New = 0"
| "phase_rank Waiting = 1"
| "phase_rank Settled = 2"

lemma phase_rank_inj: "phase_rank p = phase_rank q \<longleftrightarrow> p = q"
  by (cases p; cases q) auto

instantiation phase :: linorder
begin

definition less_eq_phase :: "phase \<Rightarrow> phase \<Rightarrow> bool" where
  "less_eq_phase p q = (phase_rank p \<le> phase_rank q)"

definition less_phase :: "phase \<Rightarrow> phase \<Rightarrow> bool" where
  "less_phase p q = (phase_rank p < phase_rank q)"

instance
  by standard (auto simp: less_eq_phase_def less_phase_def phase_rank_inj)

end

definition phase_of :: "AdcsRequestStatus \<Rightarrow> phase" where
  "phase_of s = (if ar_State s = StateUnknown then New
                 else if ar_State s = StatePending then Waiting else Settled)"

lemma lifecycle_phase: "lifecycle s t \<Longrightarrow> phase_of s \<le> phase_of t"
  unfolding lifecycle_iff by (auto simp: phase_of_def less_eq_phase_def)

lemma lifecycle_settled: "lifecycle s t \<Longrightarrow> phase_of s = Settled \<Longrightarrow> t = s"
  unfolding lifecycle_iff by (auto simp: phase_of_def split: if_splits)

lemma lifecycle_id: "lifecycle s t \<Longrightarrow> phase_of s \<noteq> New \<Longrightarrow> ar_Id t = ar_Id s"
  unfolding lifecycle_iff by (auto simp: phase_of_def split: if_splits)

section \<open>Issue implements the life cycle\<close>

text \<open>
  What a caller of \<open>Issue\<close> relies on: the name, namespace and specification of the request
  are untouched; its status follows the life cycle; without an error, an open request ends
  in a known state, there is a certificate exactly when this state is ready, and there is a
  CA certificate; a settled request is left alone; with an error there is no certificate.
\<close>

definition issue_post :: "AdcsRequest \<Rightarrow> issue_result \<Rightarrow> bool" where
  "issue_post ar = (\<lambda>(ar', cert, ca, err).
     ar_meta ar' = ar_meta ar \<and> ar_Spec ar' = ar_Spec ar \<and>
     lifecycle (ar_Status ar) (ar_Status ar') \<and>
     (case err of
        Some e \<Rightarrow> cert = None \<and> ca = None
      | None \<Rightarrow>
          (if phase_of (ar_Status ar) = Settled then ar' = ar \<and> cert = None \<and> ca = None
           else List.member known_states (ar_State (ar_Status ar')) \<and>
                (cert \<noteq> None) = (ar_State (ar_Status ar') = StateReady) \<and>
                slice_bytes ca \<noteq> [])))"

lemma issue_chain_post:
  assumes "phase_of (ar_Status ar) \<noteq> Settled"
    and "ar_meta ar' = ar_meta ar" "ar_Spec ar' = ar_Spec ar"
    and "lifecycle (ar_Status ar) (ar_Status ar')"
    and "List.member known_states (ar_State (ar_Status ar'))"
    and "(cert \<noteq> None) = (ar_State (ar_Status ar') = StateReady)"
  shows "returns_sat (issue_chain L i ar' cert) (issue_post ar)"
  using assms unfolding returns_sat_def issue_chain_def
  by (auto simp: runs runs_sat_bind issue_post_def intro!: runs_satI
      split: outcome.split option.split sum.split)

context adcs_certsrv
begin

lemma issue_response_post:
  assumes "ar_State (ar_Status ar) = StateUnknown \<and> request_contract r \<or>
      ar_State (ar_Status ar) = StatePending \<and> existing_contract (ar_Id (ar_Status ar)) r"
  shows "returns_sat (issue_response L i ar r) (issue_post ar)"
proof -
  obtain st desc rid err where r: "r = (st, desc, rid, err)" by (cases r)
  show ?thesis
  proof (cases err)
    case (Some e)
    with r show ?thesis
      by (simp add: issue_response_def returns_sat_def runs issue_post_def lifecycle.stay)
  next
    case None
    with assms r have "st \<noteq> Unknown"
      by (auto simp: request_contract_def existing_contract_def)
    with assms r None show ?thesis
      by (cases st)
         (auto simp: issue_response_def record_response_def set_status_def Let_def
            request_contract_def existing_contract_def lifecycle_iff phase_of_def
            intro!: issue_chain_post)
  qed
qed

lemma Issue_post:
  assumes "certServ i = srv"
  shows "returns_sat (Issue L i ar) (issue_post ar)"
proof -
  have stay: "issue_post ar (ar, None, None, Some e)" for e
    by (simp add: issue_post_def lifecycle.stay)
  have settled: "issue_post ar (ar, None, None, None)"
    if "ar_State (ar_Status ar) \<noteq> StateUnknown" "ar_State (ar_Status ar) \<noteq> StatePending"
    using that by (simp add: issue_post_def lifecycle.stay phase_of_def)
  have existing: "returns_sat (bind (GetExistingCertificate srv (ar_Id (ar_Status ar)))
      (issue_response L i ar)) (issue_post ar)" if "ar_State (ar_Status ar) = StatePending"
    using existing_ok [of "ar_Id (ar_Status ar)"] issue_response_post that
    unfolding returns_sat_def
    by (elim runs_sat_bindI) (auto elim: runs_sat_mono)
  have request: "returns_sat (bind (RequestCertificate srv csr t)
      (issue_response L i ar)) (issue_post ar)" if "ar_State (ar_Status ar) = StateUnknown" for csr t
    using request_ok [of csr t] issue_response_post that
    unfolding returns_sat_def
    by (elim runs_sat_bindI) (auto elim: runs_sat_mono)
  show ?thesis
    using stay settled existing request
    by (simp add: Issue_def assms returns_sat_def runs)
qed

text \<open>
  Issue only talks to the web service; it submits at most one new request, and none at all
  unless the request is new.
\<close>

lemma issue_response_reads:
  assumes "certServ i = srv"
  shows "only_calls reading_call (issue_response L i ar r)"
  using chain_reads
  by (auto simp: issue_response_def issue_chain_def assms Let_def case_prod_beta
      intro!: only_calls_bind split: option.split sum.split)

lemma Issue_web:
  assumes "certServ i = srv"
  shows "only_calls web_call (Issue L i ar)"
  using existing_web request_web reading_web [OF issue_response_reads [OF assms]]
  by (auto simp: Issue_def assms intro!: only_calls_bind)

lemma Issue_carries:
  assumes "certServ i = srv"
  shows "only_calls (carries (slice_bytes (ar_CSRPEM (ar_Spec ar))) (iss_AdcsTemplateName i))
    (Issue L i ar)"
  using existing_reads request_carries issue_response_reads [OF assms]
  by (auto simp: Issue_def assms intro!: only_calls_bind intro: reads_carries)

lemma Issue_submissions:
  assumes srv: "certServ i = srv" and run: "run tr (Issue L i ar) = Some z"
  shows "submissions tr \<le> 1"
    and "ar_State (ar_Status ar) \<noteq> StateUnknown \<Longrightarrow> submissions tr = 0"
    and "ar_State (ar_Status ar) = StateUnknown \<Longrightarrow> z = Returned (ar', cert, ca, None) \<Longrightarrow>
      submissions tr = 1"
proof -
  have old: "only_calls reading_call (Issue L i ar)" if "ar_State (ar_Status ar) \<noteq> StateUnknown"
    using that existing_reads issue_response_reads [OF srv]
    by (auto simp: Issue_def srv intro!: only_calls_bind)
  show 2: "submissions tr = 0" if "ar_State (ar_Status ar) \<noteq> StateUnknown"
    using reading_submissions [OF old [OF that] run] .
  have new: "submissions tr \<le> 1 \<and> (\<forall>ar' cert ca. z = Returned (ar', cert, ca, None) \<longrightarrow> submissions tr = 1)"
    if "ar_State (ar_Status ar) = StateUnknown"
  proof -
    from run that have "run tr (bind (RequestCertificate srv (slice_bytes (ar_CSRPEM (ar_Spec ar)))
        (iss_AdcsTemplateName i)) (issue_response L i ar)) = Some z"
      by (simp add: Issue_def srv)
    then show ?thesis
    proof (cases rule: run_bind_cases)
      case (returned tr1 tr2 a)
      then have rest: "submissions tr2 = 0"
        using reading_submissions [OF issue_response_reads [OF srv]] by blast
      obtain st desc rid err where a: "a = (st, desc, rid, err)" by (cases a)
      show ?thesis
      proof (cases err)
        case None
        with returned a have "submissions tr1 = 1"
          using request_submissions(2) by blast
        with returned rest show ?thesis by simp
      next
        case (Some e)
        with returned a have "z = Returned (ar, None, None, Some e)"
          by (simp add: issue_response_def)
        with returned rest show ?thesis
          using request_submissions(1) by fastforce
      qed
    next
      case (panicked s)
      then show ?thesis using request_submissions(1) by fastforce
    qed
  qed
  show "submissions tr \<le> 1" using 2 new by fastforce
  show "submissions tr = 1"
    if "ar_State (ar_Status ar) = StateUnknown" "z = Returned (ar', cert, ca, None)"
    using new that by blast
qed

end

end
