(* ===== verification/Ntlm_Certsrv.thy ===== *)
theory Ntlm_Certsrv
  imports Certsrv
begin

text \<open>
  The NTLM client (\<open>src/adcs/ntlm_certsrv.go\<close>): its construction and verification, the
  four methods of the interface, and the proof that it keeps the interface's contract.
  Logging is left out; a response body that the code closes with \<open>defer\<close> is closed by
  \<open>defer_close\<close>, and where the code does not close it there is no such call.
\<close>

section \<open>The client and its construction\<close>

record NtlmCertsrv =
  ntlm_url :: string
  ntlm_username :: string
  ntlm_password :: string
  ntlm_httpClient :: http_client

definition ntlm_http_client :: "string \<Rightarrow> string \<Rightarrow> string list option \<Rightarrow> http_client" where
  "ntlm_http_client username password caCertPool =
     \<lparr>hc_auth = (if username \<noteq> '''' \<and> password \<noteq> '''' then NtlmNegotiator else PlainTransport),
      hc_RootCAs = caCertPool, hc_InsecureSkipVerify = False\<rparr>"

definition verifyNtlm :: "lib \<Rightarrow> NtlmCertsrv \<Rightarrow> (bool \<times> gerr option) prog" where
  "verifyNtlm L s =
     bind (ignore_request_error (NewRequest L ''GET'' (ntlm_url s) '''')) (\<lambda>req.
     bind (http_Do (ntlm_httpClient s) (SetBasicAuth (ntlm_username s) (ntlm_password s) req))
       (\<lambda>r. case r of
          Inl err \<Rightarrow> Ret (False, Some err)
        | Inr res \<Rightarrow> Ret (True, None)))"

definition NewNtlmCertsrv ::
    "lib \<Rightarrow> string \<Rightarrow> string \<Rightarrow> string \<Rightarrow> string list option \<Rightarrow> bool \<Rightarrow>
       (NtlmCertsrv option \<times> gerr option) prog" where
  "NewNtlmCertsrv L url username password caCertPool verify =
     (let c = \<lparr>ntlm_url = url, ntlm_username = username, ntlm_password = password,
               ntlm_httpClient = ntlm_http_client username password caCertPool\<rparr>
      in if verify
         then bind (verifyNtlm L c) (\<lambda>(success, err).
                if \<not> success then Ret (None, err) else Ret (Some c, None))
         else Ret (Some c, None))"

text \<open>The headers and credentials every request of this client carries.\<close>

definition ntlm_prepare :: "NtlmCertsrv \<Rightarrow> http_request \<Rightarrow> http_request" where
  "ntlm_prepare s req =
     Header_Set ''User-agent'' ''Mozilla''
       (SetBasicAuth (ntlm_username s) (ntlm_password s) req)"

section \<open>GetExistingCertificate\<close>

text \<open>An HTML page: denied, pending, another disposition, or not understood.\<close>

definition ntlm_status_page :: "string \<Rightarrow> string \<Rightarrow> cert_result" where
  "ntlm_status_page rid bodyString =
     (let found = FindStringSubmatch re_disposition bodyString;
          (certStatus, dispositionMessage, err) =
            (if length found > 1 then
               (if MatchString re_pending bodyString then Pending
                else if MatchString re_rejected bodyString then Rejected
                else Errored,
                found ! 1, None)
             else
               (let disp = (if length found = 1 then found ! 0 else bodyString)
                in (Unknown, ''unknown'', Some (Err (''disposition message unknown: '' @ disp)))));
          found2 = FindStringSubmatch re_last_status bodyString;
          lastStatusMessage = (if length found2 > 1 then '' '' @ found2 ! 1 else '''')
      in (certStatus, dispositionMessage @ lastStatusMessage, rid, err))"

definition ntlm_existing_response :: "string \<Rightarrow> http_response \<Rightarrow> cert_result prog" where
  "ntlm_existing_response rid res =
     (if rs_StatusCode res = StatusOK then
        (let ct = Split (rs_ContentType res) CHR '';'' in
         if hd ct = ct_html then
           (case rs_ReadErr res of
              Some err \<Rightarrow> Ret (Unknown, '''', rid, Some err)
            | None \<Rightarrow> Ret (ntlm_status_page rid (rs_Body res)))
         else if hd ct = ct_pkix then
           (case rs_ReadErr res of
              Some err \<Rightarrow> Ret (Unknown, '''', rid, Some err)
            | None \<Rightarrow> Ret (Ready, rs_Body res, rid, None))
         else Ret (Unknown, '''', rid,
                Some (Err (''unexpected content type '' @ fmt_strings ct))))
      else
        bind (err_Error None) (\<lambda>text.
          Ret (Unknown, '''', rid,
            Some (Err (''ADCS Certsrv response status '' @ rs_Status res @ ''. Error: '' @ text)))))"

definition ntlm_GetExistingCertificate :: "lib \<Rightarrow> NtlmCertsrv \<Rightarrow> string \<Rightarrow> cert_result prog" where
  "ntlm_GetExistingCertificate L s rid =
     (let url = ntlm_url s @ ''/'' @ certnew_cer @ ''?ReqID='' @ rid @ ''&ENC=b64'' in
      bind (ignore_request_error (NewRequest L ''GET'' url '''')) (\<lambda>req.
      bind (http_Do (ntlm_httpClient s) (ntlm_prepare s req)) (\<lambda>r. case r of
          Inl err \<Rightarrow> Ret (Unknown, '''', rid, Some err)
        | Inr res \<Rightarrow> defer_close res (ntlm_existing_response rid res))))"

section \<open>RequestCertificate\<close>

definition ntlm_params :: "string \<Rightarrow> string \<Rightarrow> Values" where
  "ntlm_params csr template =
     [(''Mode'', ''newreq''),
      (''CertRequest'', csr),
      (''CertAttrib'', ''CertificateTemplate:'' @ template),
      (''FriendlyType'', ''Saved-Request Certificate''),
      (''TargetStoreFlags'', ''0''),
      (''SaveCert'', ''yes''),
      (''CertificateTemplate'', template)]"

definition ntlm_request_response ::
    "lib \<Rightarrow> NtlmCertsrv \<Rightarrow> http_response \<Rightarrow> cert_result prog" where
  "ntlm_request_response L s res =
     (let bodyString = rs_Body res in
      if rs_ContentType res = ct_pkix then Ret (Ready, bodyString, ''none'', None)
      else (case rs_ReadErr res of
        Some err \<Rightarrow> Ret (Unknown, '''', '''', Some err)
      | None \<Rightarrow>
          (let found = FindStringSubmatch re_certnew bodyString in
           if length found > 1 then ntlm_GetExistingCertificate L s (found ! 1)
           else
             (let found = FindStringSubmatch re_request_id bodyString in
              if length found > 1 then ntlm_GetExistingCertificate L s (found ! 1)
              else
                (let found = FindStringSubmatch re_disposition_is bodyString;
                     errorString = (if length found > 1 then found ! 1
                                    else ''Unknown error occurred'')
                 in Ret (Unknown, '''', '''', Some (Err errorString)))))))"

definition ntlm_RequestCertificate ::
    "lib \<Rightarrow> NtlmCertsrv \<Rightarrow> string \<Rightarrow> string \<Rightarrow> cert_result prog" where
  "ntlm_RequestCertificate L s csr template =
     (let url = ntlm_url s @ ''/'' @ certfnsh in
      case NewRequest L ''POST'' url (Values_Encode (ntlm_params csr template)) of
        Inl err \<Rightarrow> Ret (Unknown, '''', '''', Some err)
      | Inr req \<Rightarrow>
          bind (http_Do (ntlm_httpClient s)
                 (Header_Set ''Content-type'' ct_urlenc (ntlm_prepare s req)))
            (\<lambda>r. case r of
               Inl err \<Rightarrow> Ret (Unknown, '''', '''', Some err)
             | Inr res \<Rightarrow> ntlm_request_response L s res))"

section \<open>CA certificate and chain\<close>

definition ntlm_ca_response :: "lib \<Rightarrow> string \<Rightarrow> http_response \<Rightarrow> (string \<times> gerr option) prog" where
  "ntlm_ca_response L expectedContentType res2 =
     (if rs_StatusCode res2 = StatusOK then
        (let ct = rs_ContentType res2 in
         if expectedContentType \<noteq> ct then
           Ret ('''', Some (Err (''unexpected content type: got '' @ strconv_Quote L ct @
                                 '', expected '' @ strconv_Quote L expectedContentType)))
         else (case rs_ReadErr res2 of
                 Some err \<Rightarrow> Ret ('''', Some err)
               | None \<Rightarrow> Ret (rs_Body res2, None)))
      else Ret ('''', Some (Err (''ADCS Certsrv response status '' @ rs_Status res2))))"

definition renewal_of :: "string \<Rightarrow> string" where
  "renewal_of body =
     (let found = FindStringSubmatch re_renewals body
      in if length found > 1 then found ! 1 else ''0'')"

definition ntlm_obtainCaCertificate ::
    "lib \<Rightarrow> NtlmCertsrv \<Rightarrow> string \<Rightarrow> string \<Rightarrow> (string \<times> gerr option) prog" where
  "ntlm_obtainCaCertificate L s certPage expectedContentType =
     (case NewRequest L ''GET'' (ntlm_url s @ ''/'' @ certcarc) '''' of
        Inl err \<Rightarrow> Ret ('''', Some err)
      | Inr req \<Rightarrow>
          bind (http_Do (ntlm_httpClient s) (ntlm_prepare s req)) (\<lambda>r1. case r1 of
            Inl err \<Rightarrow> Ret ('''', Some err)
          | Inr res1 \<Rightarrow> defer_close res1 (case rs_ReadErr res1 of
              Some err \<Rightarrow> Ret ('''', Some err)
            | None \<Rightarrow>
                (let url = ntlm_url s @ ''/'' @ certPage @ ''?ReqID=CACert&ENC=b64&Renewal='' @
                           renewal_of (rs_Body res1) in
                 case NewRequest L ''GET'' url '''' of
                   Inl err \<Rightarrow> Ret ('''', Some err)
                 | Inr req \<Rightarrow>
                     bind (http_Do (ntlm_httpClient s) (ntlm_prepare s req)) (\<lambda>r2. case r2 of
                       Inl err \<Rightarrow> Ret ('''', Some err)
                     | Inr res2 \<Rightarrow>
                         defer_close res2 (ntlm_ca_response L expectedContentType res2))))))"

definition ntlm_GetCaCertificate :: "lib \<Rightarrow> NtlmCertsrv \<Rightarrow> (string \<times> gerr option) prog" where
  "ntlm_GetCaCertificate L s = ntlm_obtainCaCertificate L s certnew_cer ct_pkix"

definition ntlm_GetCaCertificateChain :: "lib \<Rightarrow> NtlmCertsrv \<Rightarrow> (string \<times> gerr option) prog" where
  "ntlm_GetCaCertificateChain L s = ntlm_obtainCaCertificate L s certnew_p7b ct_pkcs7"

text \<open>The client as a value of the interface type.\<close>

definition ntlm_iface :: "lib \<Rightarrow> NtlmCertsrv \<Rightarrow> AdcsCertsrv" where
  "ntlm_iface L s =
     \<lparr>RequestCertificate = ntlm_RequestCertificate L s,
      GetExistingCertificate = ntlm_GetExistingCertificate L s,
      GetCaCertificate = ntlm_GetCaCertificate L s,
      GetCaCertificateChain = ntlm_GetCaCertificateChain L s\<rparr>"

section \<open>The contract of the interface\<close>

lemma ntlm_status_page_contract: "existing_contract rid (ntlm_status_page rid body)"
  by (rule found_cases [of re_disposition body])
     (auto simp: ntlm_status_page_def existing_contract_def Let_def)

lemma ntlm_existing_response_contract:
  "returns_sat (ntlm_existing_response rid res) (existing_contract rid)"
  using ntlm_status_page_contract [of rid "rs_Body res"]
  by (auto simp: returns_sat_def ntlm_existing_response_def runs existing_contract_def
      split: option.split)

lemma ntlm_GetExistingCertificate_contract:
  "returns_sat (ntlm_GetExistingCertificate L s rid) (existing_contract rid)"
  using ntlm_existing_response_contract [of rid]
  by (auto simp: returns_sat_def ntlm_GetExistingCertificate_def NewRequest_def runs
      existing_contract_def Let_def split: option.split sum.split)

lemma ntlm_prepare_simps [simp]:
  "rq_Method (ntlm_prepare s rq) = rq_Method rq" "rq_URL (ntlm_prepare s rq) = rq_URL rq"
  "rq_Body (ntlm_prepare s rq) = rq_Body rq"
  by (simp_all add: ntlm_prepare_def)

lemma ntlm_only_reads [simp]:
  "only_calls reading_call (ntlm_existing_response rid res)"
  "only_calls reading_call (ntlm_GetExistingCertificate L s rid)"
  "only_calls reading_call (ntlm_request_response L s res)"
  "only_calls reading_call (ntlm_obtainCaCertificate L s page ct)"
proof -
  show 1: "only_calls reading_call (ntlm_existing_response rid res)" for rid res
    by (auto simp: ntlm_existing_response_def Let_def intro!: only_calls_bind split: option.split)
  then show 2: "only_calls reading_call (ntlm_GetExistingCertificate L s rid)" for L s rid
    by (auto simp: ntlm_GetExistingCertificate_def Let_def
        intro!: only_calls_NewRequest dest!: NewRequest_Inr split: sum.split)
  then show "only_calls reading_call (ntlm_request_response L s res)"
    by (auto simp: ntlm_request_response_def Let_def split: option.split)
  show "only_calls reading_call (ntlm_obtainCaCertificate L s page ct)"
    by (auto simp: ntlm_obtainCaCertificate_def ntlm_ca_response_def Let_def dest!: NewRequest_Inr
        split: sum.split option.split)
qed

lemma ntlm_RequestCertificate_web [simp]:
  "only_calls web_call (ntlm_RequestCertificate L s csr template)"
  by (auto simp: ntlm_RequestCertificate_def Let_def intro: reading_web split: sum.split)

lemma ntlm_RequestCertificate_carries:
  "only_calls (carries csr template) (ntlm_RequestCertificate L s csr template)"
proof -
  have "carries csr template (CHttp (ntlm_httpClient s)
      (Header_Set ''Content-type'' ct_urlenc (ntlm_prepare s rq)))"
    if "NewRequest L ''POST'' url (Values_Encode (ntlm_params csr template)) = Inr rq" for rq url
    using NewRequest_Inr [OF that]
    by (intro carries_post [of "ntlm_params csr template"])
       (auto simp: ntlm_params_def wanted_fields_def)
  moreover have "carries csr template (CCloseBody res)" for res
    by (simp add: carries_def)
  ultimately show ?thesis
    by (auto simp: ntlm_RequestCertificate_def Let_def intro: reads_carries split: sum.split)
qed

lemma ntlm_RequestCertificate_submits: "submits_once (ntlm_RequestCertificate L s csr template)"
  by (auto simp: ntlm_RequestCertificate_def Let_def intro!: submits_once_post
      dest!: NewRequest_Inr split: sum.split)

lemma ntlm_request_response_contract:
  "returns_sat (ntlm_request_response L s res) request_contract"
proof -
  have existing: "returns_sat (ntlm_GetExistingCertificate L s rid) request_contract"
    if "is_request_id rid" for rid
    using ntlm_GetExistingCertificate_contract [of L s rid]
    unfolding returns_sat_def
    by (rule runs_sat_mono) (use that in \<open>auto simp: existing_contract_def request_contract_def\<close>)
  show ?thesis
  proof (cases "rs_ContentType res = ct_pkix \<or> rs_ReadErr res \<noteq> None")
    case True
    then show ?thesis
      by (auto simp: ntlm_request_response_def request_contract_def returns_sat_def runs)
  next
    case False
    consider (certnew) x g where "FindStringSubmatch re_certnew (rs_Body res) = [x, g]"
      | (request_id) x g where "FindStringSubmatch re_certnew (rs_Body res) = []"
          "FindStringSubmatch re_request_id (rs_Body res) = [x, g]"
      | (neither) "FindStringSubmatch re_certnew (rs_Body res) = []"
          "FindStringSubmatch re_request_id (rs_Body res) = []"
      by (metis found_cases re_groups(5,6,7,8))
    then show ?thesis
      using False existing
      by cases (auto simp: ntlm_request_response_def request_contract_def returns_sat_def runs
          dest: re_certnew_id re_request_id_id)
  qed
qed

lemma ntlm_RequestCertificate_contract:
  "returns_sat (ntlm_RequestCertificate L s csr template) request_contract"
  using ntlm_request_response_contract [of L s]
  by (auto simp: returns_sat_def ntlm_RequestCertificate_def NewRequest_def runs
      request_contract_def Let_def split: option.split sum.split)

interpretation ntlm: adcs_certsrv "ntlm_iface L s" for L s
  by unfold_locales
     (simp_all add: ntlm_iface_def ntlm_GetCaCertificateChain_def ntlm_RequestCertificate_submits ntlm_RequestCertificate_carries
        ntlm_GetExistingCertificate_contract ntlm_RequestCertificate_contract)

end
