(* ===== verification/Kerberos_Certsrv.thy ===== *)
theory Kerberos_Certsrv
  imports Ntlm_Certsrv
begin

text \<open>
  The Kerberos client (\<open>src/adcs/kerberos_certsrv.go\<close>), translated on its own from its
  file, and its contract. It reads the pages of the web service as the NTLM client does
  (\<open>krb_existing_response_eq\<close>), closes every response body, sends no basic
  authentication, and panics where the NTLM client's CA download reports the status.
\<close>

section \<open>The client and its construction\<close>

record KerberosCertsrv =
  krb_url :: string
  krb_httpClient :: http_client

definition verifyKerberos :: "lib \<Rightarrow> KerberosCertsrv \<Rightarrow> (bool \<times> gerr option) prog" where
  "verifyKerberos L s =
     (case NewRequest L ''GET'' (krb_url s) '''' of
        Inl err \<Rightarrow> Ret (False, Some err)
      | Inr req \<Rightarrow>
          bind (http_Do (krb_httpClient s) req) (\<lambda>r. case r of
            Inl err \<Rightarrow> Ret (False, Some err)
          | Inr res \<Rightarrow> defer_close res (Ret (True, None))))"

text \<open>The construction after the login: the certificate pool, the client, the verification.\<close>

definition krb_finish ::
    "lib \<Rightarrow> string \<Rightarrow> string \<Rightarrow> string \<Rightarrow> bool \<Rightarrow> string list \<Rightarrow>
       (KerberosCertsrv option \<times> gerr option) prog" where
  "krb_finish L url username realm verify caPool =
     (let c = \<lparr>krb_url = url,
               krb_httpClient = \<lparr>hc_auth = SpnegoClient username realm, hc_RootCAs = Some caPool,
                                 hc_InsecureSkipVerify = False\<rparr>\<rparr>
      in if verify
         then bind (verifyKerberos L c) (\<lambda>(success, err).
                if \<not> success then Ret (None, err) else Ret (Some c, None))
         else Ret (Some c, None))"

definition NewKerberosCertsrv ::
    "lib \<Rightarrow> string \<Rightarrow> string \<Rightarrow> string \<Rightarrow> string \<Rightarrow> string list option \<Rightarrow> bool \<Rightarrow>
       (KerberosCertsrv option \<times> gerr option) prog" where
  "NewKerberosCertsrv L url username realm password caCertPool verify =
     bind (KrbLoadConfig ''/etc/krb5.conf'') (\<lambda>e. case e of
       Some err \<Rightarrow> Ret (None, Some err)
     | None \<Rightarrow>
         bind (KrbLogin username realm password) (\<lambda>e. case e of
           Some err \<Rightarrow> Ret (None, Some err)
         | None \<Rightarrow>
             (case caCertPool of
                Some caPool \<Rightarrow> krb_finish L url username realm verify caPool
              | None \<Rightarrow>
                  bind SystemCertPool (\<lambda>r. case r of
                    Inl err \<Rightarrow> Ret (None, Some err)
                  | Inr caPool \<Rightarrow> krb_finish L url username realm verify caPool))))"

definition krb_prepare :: "http_request \<Rightarrow> http_request" where
  "krb_prepare req = Header_Set ''User-agent'' ''Mozilla'' req"

section \<open>GetExistingCertificate\<close>

definition krb_status_page :: "string \<Rightarrow> string \<Rightarrow> cert_result" where
  "krb_status_page rid bodyString =
     (let found = FindStringSubmatch re_disposition bodyString;
          (certStatus, dispositionMessage, err) =
            (if length found > 1 then
               (if MatchString re_pending bodyString then Pending
                else if MatchString re_rejected bodyString then Rejected
                else Errored,
                found ! 1, None)
             else
               (let disp = (if length found = 1 then found ! 0 else bodyString)
                in (Unknown, ''unknown'', Some (Err (''disposition message unknown: '' @ disp)))));
          found2 = FindStringSubmatch re_last_status bodyString;
          lastStatusMessage = (if length found2 > 1 then '' '' @ found2 ! 1 else '''')
      in (certStatus, dispositionMessage @ lastStatusMessage, rid, err))"

definition krb_existing_response :: "string \<Rightarrow> http_response \<Rightarrow> cert_result prog" where
  "krb_existing_response rid res =
     (if rs_StatusCode res = StatusOK then
        (let ct = Split (rs_ContentType res) CHR '';'' in
         if hd ct = ct_html then
           (case rs_ReadErr res of
              Some err \<Rightarrow> Ret (Unknown, '''', rid, Some err)
            | None \<Rightarrow> Ret (krb_status_page rid (rs_Body res)))
         else if hd ct = ct_pkix then
           (case rs_ReadErr res of
              Some err \<Rightarrow> Ret (Unknown, '''', rid, Some err)
            | None \<Rightarrow> Ret (Ready, rs_Body res, rid, None))
         else Ret (Unknown, '''', rid,
                Some (Err (''unexpected content type '' @ fmt_strings ct))))
      else
        bind (err_Error None) (\<lambda>text.
          Ret (Unknown, '''', rid,
            Some (Err (''ADCS Certsrv response status '' @ rs_Status res @ ''. Error: '' @ text)))))"

definition krb_GetExistingCertificate :: "lib \<Rightarrow> KerberosCertsrv \<Rightarrow> string \<Rightarrow> cert_result prog" where
  "krb_GetExistingCertificate L s rid =
     (let url = krb_url s @ ''/'' @ certnew_cer @ ''?ReqID='' @ rid @ ''&ENC=b64'' in
      bind (ignore_request_error (NewRequest L ''GET'' url '''')) (\<lambda>req.
      bind (http_Do (krb_httpClient s) (krb_prepare req)) (\<lambda>r. case r of
          Inl err \<Rightarrow> Ret (Unknown, '''', rid, Some err)
        | Inr res \<Rightarrow> defer_close res (krb_existing_response rid res))))"

section \<open>RequestCertificate\<close>

definition krb_params :: "string \<Rightarrow> string \<Rightarrow> Values" where
  "krb_params csr template =
     [(''Mode'', ''newreq''),
      (''CertRequest'', csr),
      (''CertAttrib'', ''CertificateTemplate:'' @ template),
      (''FriendlyType'', ''Saved-Request Certificate''),
      (''TargetStoreFlags'', ''0''),
      (''SaveCert'', ''yes''),
      (''CertificateTemplate'', template)]"

definition krb_request_response ::
    "lib \<Rightarrow> KerberosCertsrv \<Rightarrow> http_response \<Rightarrow> cert_result prog" where
  "krb_request_response L s res =
     (let body = rs_Body res in
      if rs_ContentType res = ct_pkix then Ret (Ready, body, ''none'', None)
      else (case rs_ReadErr res of
        Some err \<Rightarrow> Ret (Unknown, '''', '''', Some err)
      | None \<Rightarrow>
          (let found = FindStringSubmatch re_certnew body in
           if length found > 1 then krb_GetExistingCertificate L s (found ! 1)
           else
             (let found = FindStringSubmatch re_request_id body in
              if length found > 1 then krb_GetExistingCertificate L s (found ! 1)
              else
                (let found = FindStringSubmatch re_disposition_is body;
                     errorString = (if length found > 1 then found ! 1
                                    else ''Unknown error occured'')
                 in Ret (Unknown, '''', '''', Some (Err errorString)))))))"

definition krb_RequestCertificate ::
    "lib \<Rightarrow> KerberosCertsrv \<Rightarrow> string \<Rightarrow> string \<Rightarrow> cert_result prog" where
  "krb_RequestCertificate L s csr template =
     (let url = krb_url s @ ''/'' @ certfnsh in
      case NewRequest L ''POST'' url (Values_Encode (krb_params csr template)) of
        Inl err \<Rightarrow> Ret (Unknown, '''', '''', Some err)
      | Inr req \<Rightarrow>
          bind (http_Do (krb_httpClient s)
                 (Header_Set ''Content-type'' ct_urlenc (krb_prepare req)))
            (\<lambda>r. case r of
               Inl err \<Rightarrow> Ret (Unknown, '''', '''', Some err)
             | Inr res \<Rightarrow> defer_close res (krb_request_response L s res)))"

section \<open>CA certificate and chain\<close>

definition krb_ca_response :: "string \<Rightarrow> http_response \<Rightarrow> (string \<times> gerr option) prog" where
  "krb_ca_response expectedContentType res2 =
     (if rs_StatusCode res2 = StatusOK then
        (let ct = rs_ContentType res2 in
         if expectedContentType \<noteq> ct then
           Ret ('''', Some (Err ''unexpected content type''))
         else (case rs_ReadErr res2 of
                 Some err \<Rightarrow> Ret ('''', Some err)
               | None \<Rightarrow> Ret (rs_Body res2, None)))
      else bind (err_Error None) (\<lambda>text.
             Ret ('''', Some (Err (''ADCS Certsrv response status '' @ rs_Status res2 @
                                   ''. Error: '' @ text)))))"

definition krb_obtainCaCertificate ::
    "lib \<Rightarrow> KerberosCertsrv \<Rightarrow> string \<Rightarrow> string \<Rightarrow> (string \<times> gerr option) prog" where
  "krb_obtainCaCertificate L s certPage expectedContentType =
     bind (ignore_request_error (NewRequest L ''GET'' (krb_url s @ ''/'' @ certcarc) '''')) (\<lambda>req.
     bind (http_Do (krb_httpClient s) (krb_prepare req)) (\<lambda>r1. case r1 of
       Inl err \<Rightarrow> Ret ('''', Some err)
     | Inr res1 \<Rightarrow> defer_close res1 (case rs_ReadErr res1 of
         Some err \<Rightarrow> Ret ('''', Some err)
       | None \<Rightarrow>
           (let found = FindStringSubmatch re_renewals (rs_Body res1);
                renewal = (if length found > 1 then found ! 1 else ''0'');
                url = krb_url s @ ''/'' @ certPage @ ''?ReqID=CACert&ENC=b64&Renewal='' @ renewal in
            bind (ignore_request_error (NewRequest L ''GET'' url '''')) (\<lambda>req.
            bind (http_Do (krb_httpClient s) (krb_prepare req)) (\<lambda>r2. case r2 of
              Inl err \<Rightarrow> Ret ('''', Some err)
            | Inr res2 \<Rightarrow> defer_close res2 (krb_ca_response expectedContentType res2)))))))"

definition krb_GetCaCertificate :: "lib \<Rightarrow> KerberosCertsrv \<Rightarrow> (string \<times> gerr option) prog" where
  "krb_GetCaCertificate L s = krb_obtainCaCertificate L s certnew_cer ct_pkix"

definition krb_GetCaCertificateChain ::
    "lib \<Rightarrow> KerberosCertsrv \<Rightarrow> (string \<times> gerr option) prog" where
  "krb_GetCaCertificateChain L s = krb_obtainCaCertificate L s certnew_p7b ct_pkcs7"

definition krb_iface :: "lib \<Rightarrow> KerberosCertsrv \<Rightarrow> AdcsCertsrv" where
  "krb_iface L s =
     \<lparr>RequestCertificate = krb_RequestCertificate L s,
      GetExistingCertificate = krb_GetExistingCertificate L s,
      GetCaCertificate = krb_GetCaCertificate L s,
      GetCaCertificateChain = krb_GetCaCertificateChain L s\<rparr>"

section \<open>The contract of the interface\<close>

lemma krb_status_page_eq: "krb_status_page = ntlm_status_page"
  by (intro ext) (simp add: krb_status_page_def ntlm_status_page_def)

lemma krb_existing_response_eq: "krb_existing_response = ntlm_existing_response"
  unfolding krb_existing_response_def [abs_def] ntlm_existing_response_def [abs_def] krb_status_page_eq ..

lemma krb_GetExistingCertificate_contract:
  "returns_sat (krb_GetExistingCertificate L s rid) (existing_contract rid)"
  using ntlm_existing_response_contract [of rid]
  by (auto simp: returns_sat_def krb_GetExistingCertificate_def NewRequest_def runs
      existing_contract_def krb_existing_response_eq Let_def split: option.split sum.split)

lemma krb_prepare_simps [simp]:
  "rq_Method (krb_prepare rq) = rq_Method rq" "rq_URL (krb_prepare rq) = rq_URL rq"
  "rq_Body (krb_prepare rq) = rq_Body rq"
  by (simp_all add: krb_prepare_def)

lemma krb_only_reads [simp]:
  "only_calls reading_call (krb_GetExistingCertificate L s rid)"
  "only_calls reading_call (krb_request_response L s res)"
  "only_calls reading_call (krb_obtainCaCertificate L s page ct)"
proof -
  show 1: "only_calls reading_call (krb_GetExistingCertificate L s rid)" for L s rid
    by (auto simp: krb_GetExistingCertificate_def krb_existing_response_eq Let_def
        intro!: only_calls_NewRequest dest!: NewRequest_Inr split: sum.split)
  then show "only_calls reading_call (krb_request_response L s res)"
    by (auto simp: krb_request_response_def Let_def split: option.split)
  have "only_calls reading_call (krb_ca_response ct res)" for res
    by (auto simp: krb_ca_response_def Let_def intro!: only_calls_bind split: option.split)
  then show "only_calls reading_call (krb_obtainCaCertificate L s page ct)"
    by (auto simp: krb_obtainCaCertificate_def Let_def
        intro!: only_calls_NewRequest dest!: NewRequest_Inr split: sum.split option.split)
qed

lemma krb_RequestCertificate_web [simp]:
  "only_calls web_call (krb_RequestCertificate L s csr template)"
  by (auto simp: krb_RequestCertificate_def Let_def intro: reading_web split: sum.split)

lemma krb_RequestCertificate_carries:
  "only_calls (carries csr template) (krb_RequestCertificate L s csr template)"
proof -
  have "carries csr template (CHttp (krb_httpClient s)
      (Header_Set ''Content-type'' ct_urlenc (krb_prepare rq)))"
    if "NewRequest L ''POST'' url (Values_Encode (krb_params csr template)) = Inr rq" for rq url
    using NewRequest_Inr [OF that]
    by (intro carries_post [of "krb_params csr template"])
       (auto simp: krb_params_def wanted_fields_def)
  moreover have "carries csr template (CCloseBody res)" for res
    by (simp add: carries_def)
  ultimately show ?thesis
    by (auto simp: krb_RequestCertificate_def Let_def intro: reads_carries split: sum.split)
qed

lemma krb_RequestCertificate_submits: "submits_once (krb_RequestCertificate L s csr template)"
  by (auto simp: krb_RequestCertificate_def Let_def intro!: submits_once_post
      dest!: NewRequest_Inr split: sum.split)

lemma krb_request_response_contract:
  "returns_sat (krb_request_response L s res) request_contract"
proof (cases "rs_ContentType res = ct_pkix \<or> rs_ReadErr res \<noteq> None")
  case True
  then show ?thesis
    by (auto simp: krb_request_response_def request_contract_def returns_sat_def runs)
next
  case False
  have existing: "returns_sat (krb_GetExistingCertificate L s rid) request_contract"
    if "is_request_id rid" for rid
    using krb_GetExistingCertificate_contract [of L s rid]
    unfolding returns_sat_def
    by (rule runs_sat_mono) (use that in \<open>auto simp: existing_contract_def request_contract_def\<close>)
  consider (certnew) x g where "FindStringSubmatch re_certnew (rs_Body res) = [x, g]"
    | (request_id) x g where "FindStringSubmatch re_certnew (rs_Body res) = []"
        "FindStringSubmatch re_request_id (rs_Body res) = [x, g]"
    | (neither) "FindStringSubmatch re_certnew (rs_Body res) = []"
        "FindStringSubmatch re_request_id (rs_Body res) = []"
    by (metis found_cases re_groups(5,6,7,8))
  then show ?thesis
    using False existing
    by cases (auto simp: krb_request_response_def request_contract_def returns_sat_def runs
        dest: re_certnew_id re_request_id_id)
qed

lemma krb_RequestCertificate_contract:
  "returns_sat (krb_RequestCertificate L s csr template) request_contract"
  using krb_request_response_contract [of L s]
  by (auto simp: returns_sat_def krb_RequestCertificate_def NewRequest_def runs
      request_contract_def Let_def split: option.split sum.split)

interpretation krb: adcs_certsrv "krb_iface L s" for L s
  by unfold_locales
     (simp_all add: krb_iface_def krb_GetCaCertificateChain_def krb_RequestCertificate_submits krb_RequestCertificate_carries
        krb_GetExistingCertificate_contract krb_RequestCertificate_contract)

end
