(* ===== verification/Issuer_Factory.thy ===== *)
theory Issuer_Factory
  imports Issuer Kerberos_Certsrv
begin

text \<open>
  The factory (\<open>src/issuers/issuer_factory.go\<close>): from an issuer reference to an
  \<open>Issuer\<close>, reading the AdcsIssuer or ClusterAdcsIssuer, its credentials and its CA bundle
  from the Kubernetes API and choosing the client by the environment variable
  ADCS_AUTH_MODE.
\<close>

record IssuerFactory =
  ClusterResourceNamespace :: string
  fac_AdcsTemplateName :: string

definition defaultStatusCheckInterval :: string where "defaultStatusCheckInterval = ''6h''"
definition defaultRetryInterval :: string where "defaultRetryInterval = ''1h''"

section \<open>Intervals\<close>

text \<open>A result of \<open>time.ParseDuration\<close> whose error is dropped is 0 in the error case.\<close>

definition getInterval :: "lib \<Rightarrow> string \<Rightarrow> string \<Rightarrow> Duration" where
  "getInterval L specValue def =
     (let interval = (case ParseDuration L def of Some d \<Rightarrow> d | None \<Rightarrow> 0) in
      if specValue \<noteq> '''' then
        (case ParseDuration L specValue of None \<Rightarrow> interval | Some i \<Rightarrow> i)
      else interval)"

section \<open>Credentials\<close>

definition getUserPassword ::
    "string \<Rightarrow> string \<Rightarrow> (gerr + string \<times> string \<times> string) prog" where
  "getUserPassword secretName ns =
     bind (GetSecret \<lparr>key_Namespace = ns, key_Name = secretName\<rparr>) (\<lambda>r. case r of
       Inl err \<Rightarrow> Ret (Inl err)
     | Inr secret \<Rightarrow>
         (case secret_Data secret ''username'' of
            None \<Rightarrow> Ret (Inl (Err ''user name not set in secret''))
          | Some username \<Rightarrow>
         (case secret_Data secret ''password'' of
            None \<Rightarrow> Ret (Inl (Err ''password not set in secret''))
          | Some password \<Rightarrow>
              bind (Getenv ''ADCS_AUTH_MODE'') (\<lambda>authMode.
                if secret_Data secret ''realm'' = None \<and> authMode = ''kerberos'' then
                  Ret (Inl (Err ''realm not set in secret''))
                else Ret (Inr (username, password,
                       case secret_Data secret ''realm'' of None \<Rightarrow> '''' | Some r \<Rightarrow> r))))))"

section \<open>The CA bundle\<close>

text \<open>The loop over the keys: the values in the listed order, or the first missing key.\<close>

fun collect_keys ::
    "(string \<rightharpoonup> string) \<Rightarrow> string \<Rightarrow> string \<Rightarrow> slice \<Rightarrow> string list \<Rightarrow> gerr + slice" where
  "collect_keys data kind name caBundle [] = Inr caBundle"
| "collect_keys data kind name caBundle (k # ks) =
     (case data k of
        None \<Rightarrow> Inl (Err (k @ '' not set in '' @ kind @ '' '' @ name))
      | Some v \<Rightarrow> collect_keys data kind name (slice_append caBundle (Some v)) ks)"

definition bundle_keys :: "CABundleReference \<Rightarrow> string list" where
  "bundle_keys ref =
     (let key = (if length (cab_Keys ref) = 0 \<and> cab_Key ref = '''' then ''ca.crt'' else cab_Key ref)
      in if length (cab_Keys ref) = 0 then [key] else cab_Keys ref)"

definition getCaBundle :: "lib \<Rightarrow> CABundleReference \<Rightarrow> string \<Rightarrow> (gerr + slice) prog" where
  "getCaBundle L ref ns =
     (let kind = (if cab_Kind ref = '''' then ''Secret'' else cab_Kind ref);
          keys = bundle_keys ref;
          objectKey = \<lparr>key_Namespace = ns, key_Name = cab_Name ref\<rparr>
      in if ToLower kind = ''secret'' then
           bind (GetSecret objectKey) (\<lambda>r. case r of
             Inl err \<Rightarrow> Ret (Inl err)
           | Inr secret \<Rightarrow> Ret (collect_keys (secret_Data secret) ''Secret'' (cab_Name ref) None keys))
         else if ToLower kind = ''configmap'' then
           bind (GetConfigMap objectKey) (\<lambda>r. case r of
             Inl err \<Rightarrow> Ret (Inl err)
           | Inr cm \<Rightarrow> Ret (collect_keys (configmap_Data cm) ''ConfigMap'' (cab_Name ref) None keys))
         else Ret (Inl (Err (''unsupported CA bundle reference kind '' @
                             strconv_Quote L (cab_Kind ref)))))"

text \<open>The inline bundle, unless the reference yields something.\<close>

definition load_certs :: "lib \<Rightarrow> slice \<Rightarrow> CABundleReference \<Rightarrow> string \<Rightarrow> slice prog" where
  "load_certs L caBundle ref ns =
     (if cab_Name ref \<noteq> '''' then
        bind (getCaBundle L ref ns) (\<lambda>r.
          let certs = (case r of Inr refCerts \<Rightarrow> refCerts | Inl _ \<Rightarrow> caBundle)
          in Ret (if slice_len certs = 0 then caBundle else certs))
      else Ret caBundle)"

section \<open>The client\<close>

text \<open>A method call on a nil client panics.\<close>

definition nil_certsrv :: AdcsCertsrv where
  "nil_certsrv = \<lparr>RequestCertificate = \<lambda>_ _. Panic nil_deref, GetExistingCertificate = \<lambda>_. Panic nil_deref,
     GetCaCertificate = Panic nil_deref, GetCaCertificateChain = Panic nil_deref\<rparr>"

definition new_certsrv ::
    "lib \<Rightarrow> string \<Rightarrow> string \<Rightarrow> string \<Rightarrow> string \<Rightarrow> string list \<Rightarrow> (gerr + AdcsCertsrv) prog" where
  "new_certsrv L url username password realm caCertPool =
     bind (Getenv ''ADCS_AUTH_MODE'') (\<lambda>authMode.
       if authMode = ''kerberos'' then
         bind (NewKerberosCertsrv L url username realm password (Some caCertPool) False)
           (\<lambda>(c, adcsErr). case adcsErr of
              Some e \<Rightarrow> Ret (Inl e)
            | None \<Rightarrow> Ret (Inr (case c of Some s \<Rightarrow> krb_iface L s | None \<Rightarrow> nil_certsrv)))
       else
         bind (NewNtlmCertsrv L url username password (Some caCertPool) False)
           (\<lambda>(c, adcsErr). case adcsErr of
              Some e \<Rightarrow> Ret (Inl e)
            | None \<Rightarrow> Ret (Inr (case c of Some s \<Rightarrow> ntlm_iface L s | None \<Rightarrow> nil_certsrv))))"

section \<open>The two kinds of issuer\<close>

definition getAdcsIssuer :: "lib \<Rightarrow> IssuerFactory \<Rightarrow> ObjectKey \<Rightarrow> (gerr + Issuer) prog" where
  "getAdcsIssuer L f key =
     bind (GetAI key) (\<lambda>r. case r of
       Inl err \<Rightarrow> Ret (Inl err)
     | Inr issuer \<Rightarrow>
         (let spec = ai_Spec issuer; ns = meta_Namespace (ai_meta issuer) in
          bind (getUserPassword (lor_Name (ai_CredentialsRef spec)) ns) (\<lambda>r. case r of
            Inl pwError \<Rightarrow> Ret (Inl pwError)
          | Inr (username, password, realm) \<Rightarrow>
              bind (load_certs L (ai_CABundle spec) (ai_CABundleRef spec) ns) (\<lambda>certs.
                if slice_len certs = 0 then Ret (Inl (Err ''CA Bundle required''))
                else
                  (let caCertPool = AppendCertsFromPEM L (slice_bytes certs) in
                   if caCertPool = [] then Ret (Inl (Err ''error loading ADCS CA bundle''))
                   else
                     bind (new_certsrv L (ai_URL spec) username password realm caCertPool)
                       (\<lambda>r. case r of
                          Inl adcsErr \<Rightarrow> Ret (Inl adcsErr)
                        | Inr srv \<Rightarrow> Ret (Inr
                            \<lparr>certServ = srv,
                             RetryInterval =
                               getInterval L (ai_RetryInterval spec) defaultRetryInterval,
                             StatusCheckInterval =
                               getInterval L (ai_StatusCheckInterval spec) defaultStatusCheckInterval,
                             iss_AdcsTemplateName =
                               (if ai_TemplateName spec \<noteq> '''' then ai_TemplateName spec
                                else fac_AdcsTemplateName f)\<rparr>)))))))"

definition getClusterAdcsIssuer ::
    "lib \<Rightarrow> IssuerFactory \<Rightarrow> ObjectKey \<Rightarrow> (gerr + Issuer) prog" where
  "getClusterAdcsIssuer L f key =
     bind (GetCAI (key\<lparr>key_Namespace := ''''\<rparr>)) (\<lambda>r. case r of
       Inl err \<Rightarrow> Ret (Inl err)
     | Inr issuer \<Rightarrow>
         (let spec = cai_Spec issuer; ns = ClusterResourceNamespace f in
          bind (getUserPassword (lor_Name (cai_CredentialsRef spec)) ns) (\<lambda>r. case r of
            Inl pwError \<Rightarrow> Ret (Inl pwError)
          | Inr (username, password, realm) \<Rightarrow>
              bind (load_certs L (cai_CABundle spec) (cai_CABundleRef spec) ns) (\<lambda>certs.
                if slice_len certs = 0 then Ret (Inl (Err ''CA Bundle required''))
                else
                  (let caCertPool = AppendCertsFromPEM L (slice_bytes certs) in
                   if caCertPool = [] then Ret (Inl (Err ''error loading ADCS CA bundle''))
                   else
                     bind (new_certsrv L (cai_URL spec) username password realm caCertPool)
                       (\<lambda>r. case r of
                          Inl adcsErr \<Rightarrow> Ret (Inl adcsErr)
                        | Inr srv \<Rightarrow> Ret (Inr
                            \<lparr>certServ = srv,
                             RetryInterval =
                               getInterval L (cai_RetryInterval spec) defaultRetryInterval,
                             StatusCheckInterval =
                               getInterval L (cai_StatusCheckInterval spec) defaultStatusCheckInterval,
                             iss_AdcsTemplateName =
                               (if cai_TemplateName spec \<noteq> '''' then cai_TemplateName spec
                                else fac_AdcsTemplateName f)\<rparr>)))))))"

definition GetIssuer ::
    "lib \<Rightarrow> IssuerFactory \<Rightarrow> IssuerReference \<Rightarrow> string \<Rightarrow> (gerr + Issuer) prog" where
  "GetIssuer L f ref ns =
     (let key = \<lparr>key_Namespace = ns, key_Name = ref_Name ref\<rparr>;
          kind = ToLower (ref_Kind ref)
      in if kind = ''adcsissuer'' then getAdcsIssuer L f key
         else if kind = ''clusteradcsissuer'' then getClusterAdcsIssuer L f key
         else Ret (Inl (Err (''unsupported issuer kind '' @ ref_Kind ref))))"

section \<open>The bundle\<close>

text \<open>All keys present: the values, concatenated in the listed order.\<close>

lemma collect_keys_Inr_bytes:
  "collect_keys data kind name acc ks = Inr b \<Longrightarrow>
     set ks \<subseteq> dom data \<and> slice_bytes b = slice_bytes acc @ concat (map (the \<circ> data) ks)"
  by (induction ks arbitrary: acc) (auto split: option.splits)

lemma collect_keys_total:
  "set ks \<subseteq> dom data \<Longrightarrow> \<exists>b. collect_keys data kind name acc ks = Inr b"
  by (induction ks arbitrary: acc) auto

text \<open>A key is missing: the error names the first missing one.\<close>

lemma collect_keys_Inl:
  "find (\<lambda>k. data k = None) ks = Some k \<Longrightarrow>
     collect_keys data kind name acc ks = Inl (Err (k @ '' not set in '' @ kind @ '' '' @ name))"
  by (induction ks arbitrary: acc) (auto split: if_splits option.splits)

lemma collect_keys_Inr:
  "find (\<lambda>k. data k = None) ks = None \<Longrightarrow> \<exists>b. collect_keys data kind name acc ks = Inr b \<and>
     slice_bytes b = slice_bytes acc @ concat (map (the \<circ> data) ks)"
  using collect_keys_total [of ks data kind name acc] collect_keys_Inr_bytes
  by (fastforce simp: find_None_iff)

section \<open>What a successful construction gives\<close>

definition known_certsrv :: "lib \<Rightarrow> AdcsCertsrv \<Rightarrow> bool" where
  "known_certsrv L srv = ((\<exists>s. srv = ntlm_iface L s) \<or> (\<exists>s. srv = krb_iface L s))"

lemma known_certsrv_contract: "known_certsrv L srv \<Longrightarrow> adcs_certsrv srv"
  using ntlm.adcs_certsrv_axioms krb.adcs_certsrv_axioms
  by (auto simp: known_certsrv_def)

lemma new_certsrv_known:
  "returns_sat (new_certsrv L url u p realm pool) (\<lambda>r. \<forall>srv. r = Inr srv \<longrightarrow> known_certsrv L srv)"
  by (auto simp: returns_sat_def new_certsrv_def NewKerberosCertsrv_def NewNtlmCertsrv_def
      krb_finish_def runs bind_assoc known_certsrv_def Let_def split: option.split)

text \<open>The calls of the factory: it reads objects and the environment and may log in.\<close>

fun factory_call :: "call \<Rightarrow> bool" where
  "factory_call (CGetenv v) = True"
| "factory_call (CGetAI k) = True"
| "factory_call (CGetCAI k) = True"
| "factory_call (CGetSecret k) = True"
| "factory_call (CGetConfigMap k) = True"
| "factory_call (CKrbLoadConfig p) = True"
| "factory_call (CKrbLogin u r p) = True"
| "factory_call _ = False"

lemma getUserPassword_calls: "only_calls factory_call (getUserPassword n ns)"
  by (auto simp: getUserPassword_def split: sum.split option.split)

lemma load_certs_calls: "only_calls factory_call (load_certs L b ref ns)"
  by (auto simp: load_certs_def getCaBundle_def Let_def intro!: only_calls_bind split: sum.split)

lemma new_certsrv_calls: "only_calls factory_call (new_certsrv L url u p realm pool)"
  by (auto simp: new_certsrv_def NewKerberosCertsrv_def NewNtlmCertsrv_def krb_finish_def
      bind_assoc Let_def split: option.split)

lemma getAdcsIssuer_calls: "only_calls factory_call (getAdcsIssuer L f key)"
  by (auto simp: getAdcsIssuer_def Let_def getUserPassword_calls load_certs_calls new_certsrv_calls
      intro!: only_calls_bind split: sum.split)

lemma getClusterAdcsIssuer_calls: "only_calls factory_call (getClusterAdcsIssuer L f key)"
  by (auto simp: getClusterAdcsIssuer_def Let_def getUserPassword_calls load_certs_calls
      new_certsrv_calls intro!: only_calls_bind split: sum.split)

lemma GetIssuer_calls: "only_calls factory_call (GetIssuer L f ref ns)"
  by (simp add: GetIssuer_def Let_def getAdcsIssuer_calls getClusterAdcsIssuer_calls)

text \<open>An issuer that is returned talks through one of the two clients.\<close>

definition issuer_known :: "lib \<Rightarrow> gerr + Issuer \<Rightarrow> bool" where
  "issuer_known L r = (\<forall>i. r = Inr i \<longrightarrow> known_certsrv L (certServ i))"

lemma issuer_known_simps [simp]:
  "issuer_known L (Inl e)" "issuer_known L (Inr i) = known_certsrv L (certServ i)"
  by (simp_all add: issuer_known_def)

lemma getAdcsIssuer_known: "returns_sat (getAdcsIssuer L f key) (issuer_known L)"
  unfolding getAdcsIssuer_def Let_def
  by (auto simp: Let_def intro!: returns_sat_any returns_sat_bind [OF new_certsrv_known]
      split: sum.split)

lemma getClusterAdcsIssuer_known: "returns_sat (getClusterAdcsIssuer L f key) (issuer_known L)"
  unfolding getClusterAdcsIssuer_def Let_def
  by (auto simp: Let_def intro!: returns_sat_any returns_sat_bind [OF new_certsrv_known]
      split: sum.split)

lemma GetIssuer_known: "returns_sat (GetIssuer L f ref ns) (issuer_known L)"
  by (simp add: GetIssuer_def Let_def getAdcsIssuer_known getClusterAdcsIssuer_known)

end
