(* ===== verification/Samples.thy ===== *)
theory Samples
  imports Library_Params Effects
begin

text \<open>
  Concrete values with which the theorems of the development are applied: an instance of
  the library functions, objects, and names. The instance of the library functions is one
  of many that meet the hypotheses; no theorem depends on it.
\<close>

section \<open>An instance of the library functions\<close>

definition sample_has :: "CertificateRequest \<Rightarrow> string \<Rightarrow> string \<Rightarrow> string \<Rightarrow> bool" where
  "sample_has cr ty st rs =
     list_ex (\<lambda>c. cond_Type c = ty \<and> cond_Status c = st \<and> (rs = '''' \<or> cond_Reason c = rs))
       (cr_Conditions (cr_Status cr))"

definition sample_set ::
    "time \<Rightarrow> CertificateRequest \<Rightarrow> string \<Rightarrow> string \<Rightarrow> string \<Rightarrow> string \<Rightarrow> CertificateRequest" where
  "sample_set t cr ty st rs msg =
     cr\<lparr>cr_Status := (cr_Status cr)\<lparr>cr_Conditions :=
       filter (\<lambda>c. cond_Type c \<noteq> ty) (cr_Conditions (cr_Status cr)) @
       [\<lparr>cond_Type = ty, cond_Status = st, cond_Reason = rs, cond_Message = msg,
         cond_LastTransitionTime = Some t\<rparr>]\<rparr>\<rparr>"

definition sample_lib :: lib where
  "sample_lib =
     \<lparr>url_Parse = (\<lambda>u. if u = '''' then Some (Err ''empty url'') else None),
      strconv_Quote = (\<lambda>s. CHR 0x22 # s @ [CHR 0x22]),
      pem_Decode = (\<lambda>s. if s = '''' then None else Some s),
      x509_ParseCertificate = (\<lambda>s. if s = ''der'' then None else Some (Err ''malformed'')),
      pkcs7_Parse = (\<lambda>s. if s = ''p7'' then Inr ['''', ''ca''] else Inl (Err ''ber'')),
      AppendCertsFromPEM = (\<lambda>s. if s = '''' then [] else [s]),
      float_frac = (\<lambda>f k unit. f * unit div 10 ^ k),
      cm_HasCondition = sample_has,
      cm_IsDenied = (\<lambda>cr. sample_has cr ''Denied'' ''True'' ''''),
      cm_IsApproved = (\<lambda>cr. sample_has cr ''Approved'' ''True'' ''''),
      cm_SetCondition = sample_set,
      NewControllerRef = (\<lambda>cr. \<lparr>own_APIVersion = ''cert-manager.io/v1'',
        own_Kind = ''CertificateRequest'', own_Name = meta_Name (cr_meta cr),
        own_UID = meta_UID (cr_meta cr), own_Controller = True\<rparr>)\<rparr>"

lemma sample_lib_simps [simp]:
  "url_Parse sample_lib u = (if u = '''' then Some (Err ''empty url'') else None)"
  "cm_HasCondition sample_lib = sample_has"
  "cm_SetCondition sample_lib = sample_set"
  "cm_IsDenied sample_lib cr = sample_has cr ''Denied'' ''True'' ''''"
  "cm_IsApproved sample_lib cr = sample_has cr ''Approved'' ''True'' ''''"
  "AppendCertsFromPEM sample_lib s = (if s = '''' then [] else [s])"
  by (simp_all add: sample_lib_def)

section \<open>Objects\<close>

definition sample_key :: ObjectKey where
  "sample_key = \<lparr>key_Namespace = ''ns'', key_Name = ''req''\<rparr>"

definition sample_meta :: ObjectMeta where
  "sample_meta =
     \<lparr>meta_Name = ''req'', meta_Namespace = ''ns'', meta_UID = ''u1'', meta_OwnerReferences = []\<rparr>"

definition sample_ref :: IssuerReference where
  "sample_ref = \<lparr>ref_Name = ''ca'', ref_Kind = ''AdcsIssuer'', ref_Group = GroupVersion_Group\<rparr>"

definition sample_condition :: "string \<Rightarrow> string \<Rightarrow> string \<Rightarrow> CertificateRequestCondition" where
  "sample_condition ty st rs =
     \<lparr>cond_Type = ty, cond_Status = st, cond_Reason = rs, cond_Message = '''',
      cond_LastTransitionTime = None\<rparr>"

definition sample_cr :: "CertificateRequestCondition list \<Rightarrow> CertificateRequest" where
  "sample_cr conds =
     \<lparr>cr_meta = sample_meta,
      cr_Spec = \<lparr>cr_Request = Some ''csr'', cr_IssuerRef = sample_ref\<rparr>,
      cr_Status = \<lparr>cr_Conditions = conds, cr_Certificate = None, cr_CA = None,
                   cr_FailureTime = None\<rparr>\<rparr>"

definition sample_ar :: "State \<Rightarrow> string \<Rightarrow> AdcsRequest" where
  "sample_ar st rid =
     \<lparr>ar_meta = sample_meta,
      ar_Spec = \<lparr>ar_CSRPEM = Some ''csr'', ar_IssuerRef = sample_ref\<rparr>,
      ar_Status = \<lparr>ar_Id = rid, ar_State = st, ar_Reason = ''''\<rparr>\<rparr>"

definition sample_issuer :: AdcsIssuer where
  "sample_issuer =
     \<lparr>ai_meta = sample_meta,
      ai_Spec = \<lparr>ai_URL = ''https://adcs'', ai_CredentialsRef = \<lparr>lor_Name = ''cred''\<rparr>,
        ai_CABundle = Some ''pem'',
        ai_CABundleRef = \<lparr>cab_Name = '''', cab_Kind = '''', cab_Key = '''', cab_Keys = []\<rparr>,
        ai_StatusCheckInterval = '''', ai_RetryInterval = '''', ai_TemplateName = ''web''\<rparr>\<rparr>"

definition sample_secret :: Secret where
  "sample_secret = \<lparr>secret_Data = [''username'' \<mapsto> ''u'', ''password'' \<mapsto> ''p'']\<rparr>"

definition sample_client :: http_client where
  "sample_client =
     \<lparr>hc_auth = NtlmNegotiator, hc_RootCAs = Some [''pem''], hc_InsecureSkipVerify = False\<rparr>"

definition sample_response :: "int \<Rightarrow> string \<Rightarrow> string \<Rightarrow> gerr option \<Rightarrow> http_response" where
  "sample_response code ct body err =
     \<lparr>rs_StatusCode = code, rs_Status = ''status'', rs_ContentType = ct, rs_Body = body,
      rs_ReadErr = err\<rparr>"

lemmas sample_defs = sample_has_def sample_set_def sample_key_def sample_meta_def sample_ref_def
  sample_condition_def sample_cr_def sample_ar_def sample_issuer_def sample_secret_def
  sample_client_def sample_response_def

end
