(* ===== verification/CertificateRequest_Controller.thy ===== *)
theory CertificateRequest_Controller
  imports Effects Go_Duration Samples
begin

text \<open>
  The controller of CertificateRequests
  (\<open>src/controllers/certificaterequest_controller.go\<close>): it decides whether a
  CertificateRequest is for this issuer and still open, marks denied ones, and creates the
  AdcsRequest that the other controller processes.
\<close>

section \<open>Results of a reconciliation\<close>

record Result =
  Requeue :: bool
  RequeueAfter :: Duration

definition zero_result :: Result where
  "zero_result = \<lparr>Requeue = False, RequeueAfter = 0\<rparr>"

type_synonym reconcile_result = "Result \<times> gerr option"

definition EventTypeNormal :: string where "EventTypeNormal = ''Normal''"
definition EventTypeWarning :: string where "EventTypeWarning = ''Warning''"

section \<open>The reconciler\<close>

record CertificateRequestReconciler =
  CheckApprovedCondition :: bool

text \<open>The loop over the bytes of the first request; the lengths are equal when it runs.\<close>

fun differs_from :: "string \<Rightarrow> string \<Rightarrow> nat \<Rightarrow> bool" where
  "differs_from [] b i = False"
| "differs_from (v # as) b i = (if v \<noteq> b ! i then True else differs_from as b (Suc i))"

definition RequestDiffers :: "AdcsRequest \<Rightarrow> CertificateRequest \<Rightarrow> bool" where
  "RequestDiffers adcsReq certReq =
     (let a = slice_bytes (ar_CSRPEM (ar_Spec adcsReq));
          b = slice_bytes (cr_Request (cr_Spec certReq))
      in if length a \<noteq> length b then True else differs_from a b 0)"

definition GetCertificateRequest :: "ObjectKey \<Rightarrow> (gerr + CertificateRequest) prog" where
  "GetCertificateRequest key = bind (GetCR key) (\<lambda>r. Ret r)"

definition CR_SetStatus ::
    "lib \<Rightarrow> CertificateRequest \<Rightarrow> string \<Rightarrow> string \<Rightarrow> string \<Rightarrow> string list \<Rightarrow> gerr option prog" where
  "CR_SetStatus L cr status reason message args =
     (let completeMessage = Sprintf message args in
      bind Now (\<lambda>t.
        let cr = cm_SetCondition L t cr ConditionReady status reason completeMessage;
            eventType = (if status = ConditionFalse then EventTypeWarning else EventTypeNormal)
        in bind (Recorder_Event (OCR cr) eventType reason completeMessage) (\<lambda>_.
             bind (UpdateCRStatus cr) Ret)))"

definition new_AdcsRequest :: "lib \<Rightarrow> CertificateRequest \<Rightarrow> AdcsRequest" where
  "new_AdcsRequest L cmRequest =
     \<lparr>ar_meta = \<lparr>meta_Name = meta_Name (cr_meta cmRequest),
                 meta_Namespace = meta_Namespace (cr_meta cmRequest),
                 meta_UID = '''',
                 meta_OwnerReferences = [NewControllerRef L cmRequest]\<rparr>,
      ar_Spec = \<lparr>ar_CSRPEM = cr_Request (cr_Spec cmRequest),
                 ar_IssuerRef = cr_IssuerRef (cr_Spec cmRequest)\<rparr>,
      ar_Status = zero_status\<rparr>"

definition createAdcsRequest :: "lib \<Rightarrow> CertificateRequest \<Rightarrow> gerr option prog" where
  "createAdcsRequest L cmRequest = bind (CreateAR (new_AdcsRequest L cmRequest)) Ret"

text \<open>The tail of Reconcile: create the AdcsRequest and mark the request as pending.\<close>

definition create_and_mark :: "lib \<Rightarrow> CertificateRequest \<Rightarrow> reconcile_result prog" where
  "create_and_mark L cr =
     bind (createAdcsRequest L cr) (\<lambda>err. case err of
       Some e \<Rightarrow> Ret (zero_result, Some e)
     | None \<Rightarrow>
         bind (CR_SetStatus L cr ConditionFalse ReasonPending ''Processing ADCS request'' [])
           (\<lambda>err. case err of
              Some e \<Rightarrow> Ret (zero_result, Some e)
            | None \<Rightarrow> Ret (zero_result, None)))"

text \<open>The branch of a denied request.\<close>

definition mark_denied :: "lib \<Rightarrow> CertificateRequest \<Rightarrow> reconcile_result prog" where
  "mark_denied L cr =
     (let message = ''The CertificateRequest was denied by an approval controller'';
          finish = (\<lambda>cr. bind (CR_SetStatus L cr ConditionFalse ReasonDenied ''%s'' [message])
                          (\<lambda>err. Ret (zero_result, err)))
      in if cr_FailureTime (cr_Status cr) = None then
           bind Now (\<lambda>nowTime. finish (cr\<lparr>cr_Status := (cr_Status cr)\<lparr>cr_FailureTime := Some nowTime\<rparr>\<rparr>))
         else finish cr)"

text \<open>Look for an AdcsRequest of the same name; replace it when its CSR differs.\<close>

definition find_or_create :: "lib \<Rightarrow> ObjectKey \<Rightarrow> CertificateRequest \<Rightarrow> reconcile_result prog" where
  "find_or_create L key cr =
     bind (GetAR key) (\<lambda>x. case x of
       Inl err \<Rightarrow>
         if \<not> IsNotFound err then Ret (zero_result, Some err) else create_and_mark L cr
     | Inr adcsReq \<Rightarrow>
         if \<not> RequestDiffers adcsReq cr then Ret (zero_result, None)
         else bind (DeleteAR adcsReq) (\<lambda>_. create_and_mark L cr))"

text \<open>Reconcile once the CertificateRequest is read.\<close>

definition process_request ::
    "lib \<Rightarrow> CertificateRequestReconciler \<Rightarrow> ObjectKey \<Rightarrow> CertificateRequest \<Rightarrow>
       reconcile_result prog" where
  "process_request L r key cr =
     (if ref_Group (cr_IssuerRef (cr_Spec cr)) \<noteq> GroupVersion_Group then Ret (zero_result, None)
      else if cm_HasCondition L cr ConditionReady ConditionTrue '''' then Ret (zero_result, None)
      else if cm_HasCondition L cr ConditionReady ConditionFalse ReasonFailed then
        Ret (zero_result, None)
      else if cm_HasCondition L cr ConditionReady ConditionFalse ReasonDenied then
        Ret (zero_result, None)
      else if cm_IsDenied L cr then mark_denied L cr
      else if CheckApprovedCondition r \<and> \<not> cm_IsApproved L cr then Ret (zero_result, None)
      else if slice_len (cr_Certificate (cr_Status cr)) > 0 then Ret (zero_result, None)
      else find_or_create L key cr)"

definition CertificateRequest_Reconcile ::
    "lib \<Rightarrow> CertificateRequestReconciler \<Rightarrow> ObjectKey \<Rightarrow> reconcile_result prog" where
  "CertificateRequest_Reconcile L r key =
     bind (GetCertificateRequest key) (\<lambda>x. case x of
       Inl err \<Rightarrow> Ret (zero_result, IgnoreNotFound err)
     | Inr cr \<Rightarrow> process_request L r key cr)"

section \<open>Writes to the API server\<close>

fun is_write :: "call \<Rightarrow> bool" where
  "is_write (CCreateAR ar) = True"
| "is_write (CDeleteAR ar) = True"
| "is_write (CUpdateARStatus ar) = True"
| "is_write (CUpdateCRStatus cr) = True"
| "is_write _ = False"

definition writes :: "trace \<Rightarrow> trace" where
  "writes tr = filter (\<lambda>e. is_write (fst e)) tr"

lemma writes_simps [simp]:
  "writes [] = []"
  "writes (e # tr) = (if is_write (fst e) then e # writes tr else writes tr)"
  "writes (tr @ tr') = writes tr @ writes tr'"
  by (simp_all add: writes_def)

lemma set_writes: "e \<in> set (writes tr) \<longleftrightarrow> e \<in> set tr \<and> is_write (fst e)"
  by (auto simp: writes_def)

lemma writes_Nil:
  "only_calls C p \<Longrightarrow> (\<And>c. C c \<Longrightarrow> \<not> is_write c) \<Longrightarrow> run tr p = Some z \<Longrightarrow> writes tr = []"
  by (auto simp: writes_def filter_empty_conv dest: only_calls_run)

section \<open>Runs of the operations\<close>

text \<open>The condition is set, the change announced, and the status sent to the server.\<close>

definition event_of :: "string \<Rightarrow> string" where
  "event_of status = (if status = ConditionFalse then EventTypeWarning else EventTypeNormal)"

definition status_trace ::
    "lib \<Rightarrow> CertificateRequest \<Rightarrow> string \<Rightarrow> string \<Rightarrow> string \<Rightarrow> time \<Rightarrow> gerr option \<Rightarrow> trace" where
  "status_trace L cr status reason message t x =
     (let cr' = cm_SetCondition L t cr ConditionReady status reason message in
      [(CNow, ATime t), (CEvent (OCR cr') (event_of status) reason message, ADone),
       (CUpdateCRStatus cr', AErr x)])"

lemma writes_status_trace [simp]:
  "writes (status_trace L cr status reason message t x) =
     [(CUpdateCRStatus (cm_SetCondition L t cr ConditionReady status reason message), AErr x)]"
  by (simp add: status_trace_def Let_def)

lemma run_CR_SetStatus [run_iffs]:
  "run tr (bind (CR_SetStatus L cr status reason message args) f) = Some z \<longleftrightarrow>
     (\<exists>t x tr'. tr = status_trace L cr status reason (Sprintf message args) t x @ tr' \<and>
        run tr' (f x) = Some z)"
  by (auto simp: CR_SetStatus_def bind_assoc run_iffs status_trace_def event_of_def Let_def)

lemma return_error: "(case x of None \<Rightarrow> Ret (res, None) | Some e \<Rightarrow> Ret (res, Some e)) = Ret (res, x)"
  by (cases x) auto

lemma run_create_and_mark [run_iffs]:
  "run tr (create_and_mark L cr) = Some z \<longleftrightarrow>
     (\<exists>e. tr = [(CCreateAR (new_AdcsRequest L cr), AErr (Some e))] \<and>
        z = Returned (zero_result, Some e)) \<or>
     (\<exists>t x. tr = (CCreateAR (new_AdcsRequest L cr), AErr None) #
              status_trace L cr ConditionFalse ReasonPending ''Processing ADCS request'' t x \<and>
        z = Returned (zero_result, x))"
proof -
  have msg: "Sprintf ''Processing ADCS request'' [] = ''Processing ADCS request''" by simp
  have "run tr (create_and_mark L cr) = Some z \<longleftrightarrow>
      (\<exists>x tr'. tr = (CCreateAR (new_AdcsRequest L cr), AErr x) # tr' \<and>
        (case x of Some e \<Rightarrow> tr' = [] \<and> z = Returned (zero_result, Some e)
         | None \<Rightarrow> \<exists>t y. tr' = status_trace L cr ConditionFalse ReasonPending
                               ''Processing ADCS request'' t y \<and> z = Returned (zero_result, y)))"
    unfolding create_and_mark_def createAdcsRequest_def bind_assoc bind.simps run_CreateAR return_error
    by (intro ex_cong1 conj_cong refl) (auto simp: run_CR_SetStatus msg split: option.splits)
  then show ?thesis
    by (auto split: option.splits)
qed

definition denied_message :: string where
  "denied_message = ''The CertificateRequest was denied by an approval controller''"

definition fail_at :: "time \<Rightarrow> CertificateRequest \<Rightarrow> CertificateRequest" where
  "fail_at now cr = cr\<lparr>cr_Status := (cr_Status cr)\<lparr>cr_FailureTime := Some now\<rparr>\<rparr>"

lemma run_mark_denied [run_iffs]:
  "run tr (mark_denied L cr) = Some z \<longleftrightarrow>
     (if cr_FailureTime (cr_Status cr) = None
      then \<exists>now t x. tr = (CNow, ATime now) #
             status_trace L (fail_at now cr) ConditionFalse ReasonDenied denied_message t x \<and>
             z = Returned (zero_result, x)
      else \<exists>t x. tr = status_trace L cr ConditionFalse ReasonDenied denied_message t x \<and>
             z = Returned (zero_result, x))"
  unfolding mark_denied_def Let_def fail_at_def denied_message_def
  by (cases "cr_FailureTime (cr_Status cr)") (auto simp: run_iffs Sprintf_percent_s)

section \<open>What Reconcile does\<close>

text \<open>
  A CertificateRequest is finished when its Ready condition says so; it is for this
  controller when its issuer reference names the group of the package api; it may be
  processed when it is neither finished nor denied, is approved where that is checked, and
  holds no certificate.
\<close>

definition finished :: "lib \<Rightarrow> CertificateRequest \<Rightarrow> bool" where
  "finished L cr =
     (cm_HasCondition L cr ConditionReady ConditionTrue '''' \<or>
      cm_HasCondition L cr ConditionReady ConditionFalse ReasonFailed \<or>
      cm_HasCondition L cr ConditionReady ConditionFalse ReasonDenied)"

definition ours :: "CertificateRequest \<Rightarrow> bool" where
  "ours cr = (ref_Group (cr_IssuerRef (cr_Spec cr)) = GroupVersion_Group)"

definition processable :: "lib \<Rightarrow> CertificateRequestReconciler \<Rightarrow> CertificateRequest \<Rightarrow> bool" where
  "processable L r cr =
     (ours cr \<and> \<not> finished L cr \<and> \<not> cm_IsDenied L cr \<and>
      (CheckApprovedCondition r \<longrightarrow> cm_IsApproved L cr) \<and>
      slice_len (cr_Certificate (cr_Status cr)) = 0)"

lemmas gate_defs = finished_def ours_def processable_def

lemma CR_reconcile_cases:
  assumes "run tr (CertificateRequest_Reconcile L r key) = Some z"
  obtains
    (unread) err where "tr = [(CGetCR key, AGetCR (Inl err))]"
      "z = Returned (zero_result, IgnoreNotFound err)"
  | (skipped) cr where "tr = [(CGetCR key, AGetCR (Inr cr))]" "z = Returned (zero_result, None)"
      "\<not> processable L r cr" "ours cr \<Longrightarrow> \<not> finished L cr \<Longrightarrow> \<not> cm_IsDenied L cr"
  | (denied) cr tr' where "tr = (CGetCR key, AGetCR (Inr cr)) # tr'"
      "ours cr" "\<not> finished L cr" "cm_IsDenied L cr" "run tr' (mark_denied L cr) = Some z"
  | (no_check) cr err where
      "tr = [(CGetCR key, AGetCR (Inr cr)), (CGetAR key, AGetAR (Inl err))]"
      "processable L r cr" "\<not> IsNotFound err" "z = Returned (zero_result, Some err)"
  | (absent) cr err tr' where
      "tr = (CGetCR key, AGetCR (Inr cr)) # (CGetAR key, AGetAR (Inl err)) # tr'"
      "processable L r cr" "IsNotFound err" "run tr' (create_and_mark L cr) = Some z"
  | (same) cr ar where
      "tr = [(CGetCR key, AGetCR (Inr cr)), (CGetAR key, AGetAR (Inr ar))]"
      "processable L r cr" "\<not> RequestDiffers ar cr" "z = Returned (zero_result, None)"
  | (different) cr ar x tr' where
      "tr = (CGetCR key, AGetCR (Inr cr)) # (CGetAR key, AGetAR (Inr ar)) #
            (CDeleteAR ar, AErr x) # tr'"
      "processable L r cr" "RequestDiffers ar cr" "run tr' (create_and_mark L cr) = Some z"
proof -
  from assms obtain x tr' where tr: "tr = (CGetCR key, AGetCR x) # tr'"
      and body: "run tr' (case x of Inl err \<Rightarrow> Ret (zero_result, IgnoreNotFound err)
                          | Inr cr \<Rightarrow> process_request L r key cr) = Some z"
    unfolding CertificateRequest_Reconcile_def GetCertificateRequest_def bind_assoc bind.simps
      run_GetCR by blast
  show ?thesis
  proof (cases x)
    case (Inl err)
    with body tr that(1) show ?thesis by simp
  next
    case (Inr cr)
    with body have body: "run tr' (process_request L r key cr) = Some z" by simp
    show ?thesis
    proof (cases "processable L r cr")
      case False
      with body tr Inr that(2,3) show ?thesis
        by (auto simp: process_request_def gate_defs split: if_splits)
    next
      case True
      then have "process_request L r key cr = find_or_create L key cr"
        by (auto simp: process_request_def gate_defs slice_len_def)
      with body have "run tr' (find_or_create L key cr) = Some z" by simp
      then obtain y tr2 where tr2: "tr' = (CGetAR key, AGetAR y) # tr2"
          and rest: "run tr2 (case y of
            Inl err \<Rightarrow>
              if \<not> IsNotFound err then Ret (zero_result, Some err) else create_and_mark L cr
          | Inr adcsReq \<Rightarrow>
              if \<not> RequestDiffers adcsReq cr then Ret (zero_result, None)
              else bind (DeleteAR adcsReq) (\<lambda>_. create_and_mark L cr)) = Some z"
        unfolding find_or_create_def run_GetAR by blast
      show ?thesis
      proof (cases y)
        case (Inl err)
        with rest tr tr2 \<open>x = Inr cr\<close> True that(4) [of cr err] that(5) [of cr err tr2] show ?thesis
          by (simp split: if_splits)
      next
        case (Inr ar)
        with rest tr tr2 \<open>x = Inr cr\<close> True that(6) [of cr ar] that(7) [of cr ar] show ?thesis
          by (auto simp: run_DeleteAR split: if_splits)
      qed
    qed
  qed
qed

section \<open>Comparing requests\<close>

lemma differs_from_iff:
  "i + length a \<le> length b \<Longrightarrow> differs_from a b i \<longleftrightarrow> a \<noteq> take (length a) (drop i b)"
proof (induction a b i rule: differs_from.induct)
  case (2 v as b i)
  then have "take (length (v # as)) (drop i b) = b ! i # take (length as) (drop (Suc i) b)"
    by (simp flip: Cons_nth_drop_Suc)
  with 2 show ?case by simp
qed simp

lemma RequestDiffers_iff:
  "RequestDiffers a c \<longleftrightarrow>
     slice_bytes (ar_CSRPEM (ar_Spec a)) \<noteq> slice_bytes (cr_Request (cr_Spec c))"
  by (auto simp: RequestDiffers_def Let_def differs_from_iff)

end
