(* ===== verification/AdcsRequest_Controller.thy ===== *)
theory AdcsRequest_Controller
  imports Issuer_Factory CertificateRequest_Controller
begin

text \<open>
  The controller of AdcsRequests (\<open>src/controllers/adcsrequest_controller.go\<close>): it runs
  \<open>Issue\<close> for the request, publishes the outcome in the CertificateRequest of the same
  name and then stores the status of the AdcsRequest.
\<close>

section \<open>The reconciler\<close>

record AdcsRequestReconciler =
  arr_IssuerFactory :: IssuerFactory

definition AR_setStatus :: "AdcsRequest \<Rightarrow> gerr option prog" where
  "AR_setStatus ar =
     (let st = ar_State (ar_Status ar);
          eventType = (if st = StateErrored \<or> st = StateRejected then EventTypeWarning
                       else EventTypeNormal)
      in bind (Recorder_Event (OAR ar) eventType st (ar_Reason (ar_Status ar))) (\<lambda>_.
           bind (UpdateARStatus ar) Ret))"

text \<open>Put back on the queue after the retry interval; the error is only logged.\<close>

definition retry_later :: "Issuer \<Rightarrow> reconcile_result" where
  "retry_later issuer = (\<lparr>Requeue = True, RequeueAfter = RetryInterval issuer\<rparr>, None)"

definition store_status :: "Issuer \<Rightarrow> AdcsRequest \<Rightarrow> reconcile_result \<Rightarrow> reconcile_result prog" where
  "store_status issuer ar res =
     bind (AR_setStatus ar) (\<lambda>err. case err of
       Some _ \<Rightarrow> Ret (retry_later issuer)
     | None \<Rightarrow> Ret res)"

text \<open>Report to the CertificateRequest, then store the status of the AdcsRequest.\<close>

definition report_then_store ::
    "lib \<Rightarrow> Issuer \<Rightarrow> AdcsRequest \<Rightarrow> CertificateRequest \<Rightarrow> string \<Rightarrow> string \<Rightarrow> string \<Rightarrow>
       reconcile_result prog" where
  "report_then_store L issuer ar cr status reason message =
     bind (CR_SetStatus L cr status reason message []) (\<lambda>err. case err of
       Some _ \<Rightarrow> Ret (retry_later issuer)
     | None \<Rightarrow> store_status issuer ar (zero_result, None))"

definition with_certificate :: "CertificateRequest \<Rightarrow> slice \<Rightarrow> slice \<Rightarrow> CertificateRequest" where
  "with_certificate cr cert caCert =
     (let combinedCert = (if caCert \<noteq> None then slice_append cert caCert else cert)
      in cr\<lparr>cr_Status := (cr_Status cr)\<lparr>cr_Certificate := combinedCert, cr_CA := caCert\<rparr>\<rparr>)"

definition publish ::
    "lib \<Rightarrow> Issuer \<Rightarrow> AdcsRequest \<Rightarrow> slice \<Rightarrow> slice \<Rightarrow> CertificateRequest \<Rightarrow> reconcile_result prog" where
  "publish L issuer ar cert caCert cr =
     (let st = ar_State (ar_Status ar) in
      if st = StatePending then
        store_status issuer ar (\<lparr>Requeue = True, RequeueAfter = StatusCheckInterval issuer\<rparr>, None)
      else if st = StateReady then
        report_then_store L issuer ar (with_certificate cr cert caCert)
          ConditionTrue ReasonIssued ''ADCS request successful''
      else if st = StateRejected then
        report_then_store L issuer ar cr ConditionFalse ReasonPending ''ADCS request rejected''
      else if st = StateErrored then
        report_then_store L issuer ar cr ConditionFalse ReasonFailed ''ADCS request errored''
      else store_status issuer ar (zero_result, None))"

text \<open>Reconcile after \<open>Issue\<close>: report what it returned.\<close>

definition report_issued ::
    "lib \<Rightarrow> ObjectKey \<Rightarrow> Issuer \<Rightarrow> issue_result \<Rightarrow> reconcile_result prog" where
  "report_issued L key issuer = (\<lambda>(ar, cert, caCert, err). case err of
     Some _ \<Rightarrow> Ret (retry_later issuer)
   | None \<Rightarrow>
       bind (GetCertificateRequest key) (\<lambda>x. case x of
         Inl _ \<Rightarrow> Ret (retry_later issuer)
       | Inr cr \<Rightarrow> publish L issuer ar cert caCert cr))"

definition AdcsRequest_Reconcile ::
    "lib \<Rightarrow> AdcsRequestReconciler \<Rightarrow> ObjectKey \<Rightarrow> reconcile_result prog" where
  "AdcsRequest_Reconcile L r key =
     bind (GetAR key) (\<lambda>x. case x of
       Inl err \<Rightarrow> Ret (zero_result, IgnoreNotFound err)
     | Inr ar \<Rightarrow>
         bind (GetIssuer L (arr_IssuerFactory r) (ar_IssuerRef (ar_Spec ar))
                 (meta_Namespace (ar_meta ar))) (\<lambda>x. case x of
           Inl err \<Rightarrow> Ret (zero_result, Some err)
         | Inr issuer \<Rightarrow>
             bind (Issue L issuer ar) (report_issued L key issuer)))"

section \<open>Runs of the operations\<close>

definition announce_and_store :: "AdcsRequest \<Rightarrow> gerr option \<Rightarrow> trace" where
  "announce_and_store ar x =
     [(CEvent (OAR ar)
         (if ar_State (ar_Status ar) = StateErrored \<or> ar_State (ar_Status ar) = StateRejected
          then EventTypeWarning else EventTypeNormal)
         (ar_State (ar_Status ar)) (ar_Reason (ar_Status ar)), ADone),
      (CUpdateARStatus ar, AErr x)]"

lemma run_store_status [run_iffs]:
  "run tr (store_status issuer ar res) = Some z \<longleftrightarrow>
     (\<exists>x. tr = announce_and_store ar x \<and>
        z = Returned (if x = None then res else retry_later issuer))"
proof -
  have "run tr (store_status issuer ar res) = Some z \<longleftrightarrow>
      (\<exists>x tr'. tr = announce_and_store ar x @ tr' \<and>
         run tr' (case x of Some _ \<Rightarrow> Ret (retry_later issuer) | None \<Rightarrow> Ret res) = Some z)"
    unfolding store_status_def AR_setStatus_def Let_def bind_assoc bind.simps run_Recorder_Event
      run_UpdateARStatus announce_and_store_def by auto
  then show ?thesis
    by (auto split: option.splits)
qed

lemma run_report_then_store [run_iffs]:
  "run tr (report_then_store L issuer ar cr status reason message) = Some z \<longleftrightarrow>
     (\<exists>t x tr'. tr = status_trace L cr status reason (Sprintf message []) t x @ tr' \<and>
        (case x of
           Some e \<Rightarrow> tr' = [] \<and> z = Returned (retry_later issuer)
         | None \<Rightarrow> \<exists>y. tr' = announce_and_store ar y \<and>
             z = Returned (if y = None then (zero_result, None) else retry_later issuer)))"
  unfolding report_then_store_def run_CR_SetStatus
  by (intro ex_cong1 conj_cong refl) (auto simp: run_store_status split: option.splits)

section \<open>What is published\<close>

text \<open>The states whose outcome is reported to the CertificateRequest, and the report.\<close>

definition reported_states :: "State list" where
  "reported_states = [StateReady, StateRejected, StateErrored]"

lemma reported_states_simps [simp]:
  "st \<in> set reported_states \<longleftrightarrow> st = StateReady \<or> st = StateRejected \<or> st = StateErrored"
  by (simp add: reported_states_def)

definition report ::
    "lib \<Rightarrow> time \<Rightarrow> State \<Rightarrow> slice \<Rightarrow> slice \<Rightarrow> CertificateRequest \<Rightarrow> CertificateRequest" where
  "report L t st cert caCert cr =
     (if st = StateReady then
        cm_SetCondition L t (with_certificate cr cert caCert) ConditionReady ConditionTrue
          ReasonIssued ''ADCS request successful''
      else if st = StateRejected then
        cm_SetCondition L t cr ConditionReady ConditionFalse ReasonPending ''ADCS request rejected''
      else
        cm_SetCondition L t cr ConditionReady ConditionFalse ReasonFailed ''ADCS request errored'')"

lemma writes_announce_and_store [simp]:
  "writes (announce_and_store ar x) = [(CUpdateARStatus ar, AErr x)]"
  by (simp add: announce_and_store_def)

lemma report_then_store_writes:
  assumes "run tr (report_then_store L issuer ar cr status reason message) = Some z"
    and "Sprintf message [] = message"
    and rep: "\<And>t. rep t = cm_SetCondition L t cr ConditionReady status reason message"
  shows "(\<exists>t e. writes tr = [(CUpdateCRStatus (rep t), AErr (Some e))] \<and> z = Returned (retry_later issuer)) \<or>
    (\<exists>t x. writes tr = [(CUpdateCRStatus (rep t), AErr None), (CUpdateARStatus ar, AErr x)] \<and>
       z = Returned (if x = None then (zero_result, None) else retry_later issuer))"
proof -
  from assms(1,2) obtain t x tr' where tr: "tr = status_trace L cr status reason message t x @ tr'"
      and rest: "case x of
         Some e \<Rightarrow> tr' = [] \<and> z = Returned (retry_later issuer)
       | None \<Rightarrow> \<exists>y. tr' = announce_and_store ar y \<and>
           z = Returned (if y = None then (zero_result, None) else retry_later issuer)"
    unfolding run_report_then_store by auto
  from rest show ?thesis
    by (cases x) (force simp: tr rep)+
qed

lemma publish_reported:
  assumes "run tr (publish L issuer ar cert caCert cr) = Some z" and "ar_State (ar_Status ar) \<in> set reported_states"
  shows "(\<exists>t e. writes tr = [(CUpdateCRStatus (report L t (ar_State (ar_Status ar)) cert caCert cr), AErr (Some e))] \<and>
       z = Returned (retry_later issuer)) \<or>
    (\<exists>t x. writes tr = [(CUpdateCRStatus (report L t (ar_State (ar_Status ar)) cert caCert cr), AErr None),
                    (CUpdateARStatus ar, AErr x)] \<and>
       z = Returned (if x = None then (zero_result, None) else retry_later issuer))"
proof -
  from assms(2) consider "ar_State (ar_Status ar) = StateReady" | "ar_State (ar_Status ar) = StateRejected"
    | "ar_State (ar_Status ar) = StateErrored" by auto
  then show ?thesis
    by cases (rule report_then_store_writes; use assms(1) in \<open>simp add: publish_def report_def\<close>)+
qed

lemma publish_cases:
  assumes "run tr (publish L issuer ar cert caCert cr) = Some z"
  obtains
    (report_failed) t e where "ar_State (ar_Status ar) \<in> set reported_states"
      "writes tr = [(CUpdateCRStatus (report L t (ar_State (ar_Status ar)) cert caCert cr),
                     AErr (Some e))]"
      "z = Returned (retry_later issuer)"
  | (reported) t x where "ar_State (ar_Status ar) \<in> set reported_states"
      "writes tr = [(CUpdateCRStatus (report L t (ar_State (ar_Status ar)) cert caCert cr), AErr None),
                    (CUpdateARStatus ar, AErr x)]"
      "z = Returned (if x = None then (zero_result, None) else retry_later issuer)"
  | (stored) x where "ar_State (ar_Status ar) \<notin> set reported_states"
      "writes tr = [(CUpdateARStatus ar, AErr x)]"
      "z = Returned (if x \<noteq> None then retry_later issuer
                     else if ar_State (ar_Status ar) = StatePending
                     then (\<lparr>Requeue = True, RequeueAfter = StatusCheckInterval issuer\<rparr>, None)
                     else (zero_result, None))"
proof (cases "ar_State (ar_Status ar) \<in> set reported_states")
  case True
  with publish_reported [OF assms True] that(1,2) show thesis by blast
next
  case False
  with assms that(3) show thesis
    by (auto simp: publish_def Let_def run_store_status split: if_splits)
qed

section \<open>What Reconcile does\<close>

text \<open>
  A run that gets past reading and issuing: the request as read, what \<open>Issue\<close> made of
  it, and the trace split into the silent part and the publication.
\<close>

definition published ::
    "lib \<Rightarrow> AdcsRequestReconciler \<Rightarrow> ObjectKey \<Rightarrow> trace \<Rightarrow> reconcile_result outcome \<Rightarrow>
       AdcsRequest \<Rightarrow> Issuer \<Rightarrow> issue_result \<Rightarrow> CertificateRequest \<Rightarrow> trace \<Rightarrow> bool" where
  "published L r key tr z ar issuer res cr tr3 = (\<exists>tr1 tr2 ar' cert caCert.
     res = (ar', cert, caCert, None) \<and>
     tr = (CGetAR key, AGetAR (Inr ar)) # tr1 @ tr2 @ (CGetCR key, AGetCR (Inr cr)) # tr3 \<and>
     run tr1 (GetIssuer L (arr_IssuerFactory r) (ar_IssuerRef (ar_Spec ar))
       (meta_Namespace (ar_meta ar))) = Some (Returned (Inr issuer)) \<and>
     run tr2 (Issue L issuer ar) = Some (Returned res) \<and>
     run tr3 (publish L issuer ar' cert caCert cr) = Some z)"

lemma run_report_issued:
  "run tr (report_issued L key issuer (ar, cert, ca, e)) = Some z \<longleftrightarrow>
     (case e of
        Some err \<Rightarrow> tr = [] \<and> z = Returned (retry_later issuer)
      | None \<Rightarrow>
          (\<exists>err. tr = [(CGetCR key, AGetCR (Inl err))] \<and> z = Returned (retry_later issuer)) \<or>
          (\<exists>cr tr'. tr = (CGetCR key, AGetCR (Inr cr)) # tr' \<and>
             run tr' (publish L issuer ar cert ca cr) = Some z))"
proof (cases e)
  case None
  have "run tr (report_issued L key issuer (ar, cert, ca, None)) = Some z \<longleftrightarrow>
      (\<exists>x tr'. tr = (CGetCR key, AGetCR x) # tr' \<and>
         run tr' (case x of Inl _ \<Rightarrow> Ret (retry_later issuer)
                  | Inr cr \<Rightarrow> publish L issuer ar cert ca cr) = Some z)"
    unfolding report_issued_def GetCertificateRequest_def bind_assoc bind.simps prod.case
      option.case run_GetCR ..
  also have "\<dots> \<longleftrightarrow>
      (\<exists>err. tr = [(CGetCR key, AGetCR (Inl err))] \<and> z = Returned (retry_later issuer)) \<or>
      (\<exists>cr tr'. tr = (CGetCR key, AGetCR (Inr cr)) # tr' \<and>
         run tr' (publish L issuer ar cert ca cr) = Some z)"
    by (auto simp: split_sum_ex)
  finally show ?thesis by (simp add: None)
qed (auto simp: report_issued_def)

text \<open>The second half of a reconciliation, when the issuer is there.\<close>

lemma issue_and_report_cases:
  assumes "run tr (bind (Issue L issuer ar) (report_issued L key issuer)) = Some z"
  obtains
    (not_issued) x where "run tr (Issue L issuer ar) = Some x"
      "(\<exists>ar' cert ca e. x = Returned (ar', cert, ca, Some e) \<and> z = Returned (retry_later issuer)) \<or>
       (\<exists>s. x = Panicked s \<and> z = Panicked s)"
  | (no_target) tr2 err ar' cert ca where "tr = tr2 @ [(CGetCR key, AGetCR (Inl err))]"
      "run tr2 (Issue L issuer ar) = Some (Returned (ar', cert, ca, None))" "z = Returned (retry_later issuer)"
  | (target) tr2 tr3 ar' cert ca cr where "tr = tr2 @ (CGetCR key, AGetCR (Inr cr)) # tr3"
      "run tr2 (Issue L issuer ar) = Some (Returned (ar', cert, ca, None))"
      "run tr3 (publish L issuer ar' cert ca cr) = Some z"
  using assms
proof (cases rule: run_bind_cases)
  case (panicked s)
  then show thesis using not_issued by blast
next
  case (returned tr2 tr3 res)
  obtain ar' cert ca e where res: "res = (ar', cert, ca, e)" by (cases res)
  from returned(3) [unfolded res run_report_issued] consider
      (failed) err where "e = Some err" "tr3 = []" "z = Returned (retry_later issuer)"
    | (unread) err where "e = None" "tr3 = [(CGetCR key, AGetCR (Inl err))]" "z = Returned (retry_later issuer)"
    | (read) cr tr4 where "e = None" "tr3 = (CGetCR key, AGetCR (Inr cr)) # tr4"
        "run tr4 (publish L issuer ar' cert ca cr) = Some z"
    by (auto split: option.splits)
  then show thesis
    by cases (use returned(1,2) res not_issued no_target target in auto)
qed

lemma AR_reconcile_reads:
  assumes "run tr (AdcsRequest_Reconcile L r key) = Some z"
  obtains
    (unread) err where "tr = [(CGetAR key, AGetAR (Inl err))]" "z = Returned (zero_result, IgnoreNotFound err)"
  | (read) ar tr' where "tr = (CGetAR key, AGetAR (Inr ar)) # tr'"
      "run tr' (bind (GetIssuer L (arr_IssuerFactory r) (ar_IssuerRef (ar_Spec ar)) (meta_Namespace (ar_meta ar)))
         (\<lambda>x. case x of
            Inl err \<Rightarrow> Ret (zero_result, Some err)
          | Inr issuer \<Rightarrow> bind (Issue L issuer ar) (report_issued L key issuer))) = Some z"
  using assms unfolding AdcsRequest_Reconcile_def run_GetAR split_sum_ex by auto

lemma AR_reconcile_cases:
  assumes "run tr (AdcsRequest_Reconcile L r key) = Some z"
  obtains
    (unread) err where "tr = [(CGetAR key, AGetAR (Inl err))]"
      "z = Returned (zero_result, IgnoreNotFound err)"
  | (no_issuer) ar tr1 x where "tr = (CGetAR key, AGetAR (Inr ar)) # tr1"
      "run tr1 (GetIssuer L (arr_IssuerFactory r) (ar_IssuerRef (ar_Spec ar))
         (meta_Namespace (ar_meta ar))) = Some x"
      "(\<exists>err. x = Returned (Inl err) \<and> z = Returned (zero_result, Some err)) \<or>
       (\<exists>s. x = Panicked s \<and> z = Panicked s)"
  | (not_issued) ar tr1 tr2 issuer x where "tr = (CGetAR key, AGetAR (Inr ar)) # tr1 @ tr2"
      "run tr1 (GetIssuer L (arr_IssuerFactory r) (ar_IssuerRef (ar_Spec ar))
         (meta_Namespace (ar_meta ar))) = Some (Returned (Inr issuer))"
      "run tr2 (Issue L issuer ar) = Some x"
      "(\<exists>ar' cert ca e. x = Returned (ar', cert, ca, Some e) \<and> z = Returned (retry_later issuer)) \<or>
       (\<exists>s. x = Panicked s \<and> z = Panicked s)"
  | (no_target) ar tr1 tr2 issuer err ar' cert ca where
      "tr = (CGetAR key, AGetAR (Inr ar)) # tr1 @ tr2 @ [(CGetCR key, AGetCR (Inl err))]"
      "run tr1 (GetIssuer L (arr_IssuerFactory r) (ar_IssuerRef (ar_Spec ar))
         (meta_Namespace (ar_meta ar))) = Some (Returned (Inr issuer))"
      "run tr2 (Issue L issuer ar) = Some (Returned (ar', cert, ca, None))"
      "z = Returned (retry_later issuer)"
  | (published) ar issuer res cr tr3 where "published L r key tr z ar issuer res cr tr3"
  using assms
proof (cases rule: AR_reconcile_reads)
  case (unread err)
  then show thesis by (rule that(1))
next
  case (read ar tr')
  note goals = that
  from read(2) show thesis
  proof (cases rule: run_bind_cases)
    case (panicked s)
    with goals(2) read(1) show thesis by blast
  next
    case (returned tr1 tr'' y)
    show thesis
    proof (cases y)
      case (Inl err)
      with goals(2) [of ar tr1 "Returned (Inl err)"] read(1) returned show thesis by simp
    next
      case (Inr issuer)
      with returned have "run tr'' (bind (Issue L issuer ar) (report_issued L key issuer)) = Some z" by simp
      then show thesis
      proof (cases rule: issue_and_report_cases)
        case (not_issued x)
        with goals(3) [of ar tr1 tr'' issuer x] read(1) returned Inr show thesis by simp
      next
        case (no_target tr2 err ar' cert ca)
        with goals(4) [of ar tr1 tr2 err issuer ar' cert ca] read(1) returned Inr show thesis by simp
      next
        case (target tr2 tr3 ar' cert ca cr)
        then have "published L r key tr z ar issuer (ar', cert, ca, None) cr tr3"
          unfolding published_def using read(1) returned Inr by auto
        then show thesis by (rule goals(5))
      qed
    qed
  qed
qed

section \<open>Facts about every run\<close>

lemma GetIssuer_contract:
  "run tr (GetIssuer L f ref ns) = Some (Returned (Inr issuer)) \<Longrightarrow> adcs_certsrv (certServ issuer)"
  using returns_sat_run [OF GetIssuer_known] known_certsrv_contract by fastforce

lemma GetIssuer_silent:
  assumes "run tr (GetIssuer L f ref ns) = Some x"
  shows "writes tr = []" "submissions tr = 0"
proof -
  have "\<not> is_write c \<and> \<not> is_post c" if "factory_call c" for c
    using that by (cases c) auto
  then show "writes tr = []" "submissions tr = 0"
    using writes_Nil [OF GetIssuer_calls _ assms] only_calls_submissions [OF GetIssuer_calls _ assms]
    by blast+
qed

lemma Issue_silent:
  assumes "adcs_certsrv (certServ issuer)" "run tr (Issue L issuer ar) = Some x"
  shows "writes tr = []"
proof -
  have "\<not> is_write c" if "web_call c" for c
    using that by (cases c) auto
  then show ?thesis
    using writes_Nil [OF adcs_certsrv.Issue_web [OF assms(1) refl] _ assms(2)] by blast
qed

fun publish_call :: "call \<Rightarrow> bool" where
  "publish_call (CUpdateARStatus ar) = True"
| "publish_call (CUpdateCRStatus cr) = True"
| "publish_call (CEvent obj et rs msg) = True"
| "publish_call CNow = True"
| "publish_call _ = False"

lemma publish_calls: "only_calls publish_call (publish L issuer ar cert caCert cr)"
proof -
  have store: "only_calls publish_call (store_status issuer ar res)" for res
    by (auto simp: store_status_def AR_setStatus_def Let_def bind_assoc split: option.split)
  then have "only_calls publish_call (report_then_store L issuer ar cr' st rs msg)" for cr' st rs msg
    by (auto simp: report_then_store_def CR_SetStatus_def Let_def bind_assoc split: option.split)
  with store show ?thesis by (simp add: publish_def Let_def)
qed

lemma publish_submissions:
  assumes "run tr (publish L issuer ar cert caCert cr) = Some z"
  shows "submissions tr = 0"
proof -
  have "\<not> is_post c" if "publish_call c" for c
    using that by (cases c) auto
  then show ?thesis
    using only_calls_submissions [OF publish_calls _ assms] by blast
qed

text \<open>
  The summary the theorems below rest on: a run writes nothing, or it is a publication
  whose writes are those of \<open>publish\<close>, of a result that keeps the contract of
  \<open>Issue\<close>.
\<close>

lemma publishedE:
  assumes "published L r key tr z ar issuer res cr tr3"
  obtains ar' cert ca tr' where "res = (ar', cert, ca, None)" "issue_post ar res"
    "tr = (CGetAR key, AGetAR (Inr ar)) # tr'" "(CGetCR key, AGetCR (Inr cr)) \<in> set tr"
    "writes tr = writes tr3" "run tr3 (publish L issuer ar' cert ca cr) = Some z"
    "submissions tr \<le> 1"
    "ar_State (ar_Status ar) \<noteq> StateUnknown \<Longrightarrow> submissions tr = 0"
    "ar_State (ar_Status ar) = StateUnknown \<Longrightarrow> submissions tr = 1"
proof -
  from assms obtain tr1 tr2 ar' cert ca where res: "res = (ar', cert, ca, None)"
      and tr: "tr = (CGetAR key, AGetAR (Inr ar)) # tr1 @ tr2 @ (CGetCR key, AGetCR (Inr cr)) # tr3"
      and r1: "run tr1 (GetIssuer L (arr_IssuerFactory r) (ar_IssuerRef (ar_Spec ar))
                 (meta_Namespace (ar_meta ar))) = Some (Returned (Inr issuer))"
      and r2: "run tr2 (Issue L issuer ar) = Some (Returned res)"
      and r3: "run tr3 (publish L issuer ar' cert ca cr) = Some z"
    unfolding published_def by blast
  note srv = GetIssuer_contract [OF r1]
  have "issue_post ar res"
    using returns_sat_run [OF adcs_certsrv.Issue_post [OF srv refl] r2] .
  moreover note GetIssuer_silent [OF r1] Issue_silent [OF srv r2] publish_submissions [OF r3]
    adcs_certsrv.Issue_submissions [OF srv refl r2]
  ultimately show thesis
    using that [OF res _ tr] tr r3 res by simp
qed

lemma AR_run_cases:
  assumes "run tr (AdcsRequest_Reconcile L r key) = Some z"
  obtains (silent) "writes tr = []" "submissions tr \<le> 1"
      "\<And>ar tr'. tr = (CGetAR key, AGetAR (Inr ar)) # tr' \<Longrightarrow> ar_State (ar_Status ar) \<noteq> StateUnknown \<Longrightarrow>
        submissions tr = 0"
      "\<And>res err. z = Returned (res, err) \<Longrightarrow> err \<noteq> None \<or> Requeue res \<or>
        (\<exists>e. tr = [(CGetAR key, AGetAR (Inl e))] \<and> IsNotFound e)"
  | (published) ar issuer res cr tr3 where "published L r key tr z ar issuer res cr tr3"
  using assms
proof (cases rule: AR_reconcile_cases)
  case (unread err)
  then show thesis by (intro silent) (auto split: if_splits)
next
  case (no_issuer ar tr1 x)
  then show thesis using GetIssuer_silent [OF no_issuer(2)] by (intro silent) auto
next
  case (not_issued ar tr1 tr2 issuer x)
  note srv = GetIssuer_contract [OF not_issued(2)]
  note quiet = GetIssuer_silent [OF not_issued(2)] Issue_silent [OF srv not_issued(3)]
    adcs_certsrv.Issue_submissions(1,2) [OF srv refl not_issued(3)]
  from not_issued quiet show thesis
    by (intro silent) (auto simp: retry_later_def)
next
  case (no_target ar tr1 tr2 issuer err ar' cert ca)
  note srv = GetIssuer_contract [OF no_target(2)]
  note quiet = GetIssuer_silent [OF no_target(2)] Issue_silent [OF srv no_target(3)]
    adcs_certsrv.Issue_submissions(1,2) [OF srv refl no_target(3)]
  from no_target quiet show thesis
    by (intro silent) (auto simp: retry_later_def)
next
  case published
  then show thesis by (rule that(2))
qed

end
