(* ===== verification/AdcsRequest_Theorems.thy ===== *)
theory AdcsRequest_Theorems
  imports AdcsRequest_Controller
begin

text \<open>
  What the controller of AdcsRequests guarantees, and concrete runs to which the guarantees
  are applied. A hypothesis of the form \<open>run ((CGetAR key, AGetAR (Inr ar)) # tr) \<dots>\<close>
  speaks of a reconciliation that found the request \<open>ar\<close>.
\<close>


section \<open>Concrete runs\<close>

definition sample_reconciler :: AdcsRequestReconciler where
  "sample_reconciler =
     \<lparr>arr_IssuerFactory = \<lparr>ClusterResourceNamespace = ''kube-system'', fac_AdcsTemplateName = ''t''\<rparr>\<rparr>"

definition sample_ntlm :: NtlmCertsrv where
  "sample_ntlm = \<lparr>ntlm_url = ''https://adcs'', ntlm_username = ''u'', ntlm_password = ''p'',
     ntlm_httpClient = sample_client\<rparr>"

definition sample_built :: Issuer where
  "sample_built = \<lparr>certServ = ntlm_iface sample_lib sample_ntlm,
     RetryInterval = getInterval sample_lib '''' defaultRetryInterval,
     StatusCheckInterval = getInterval sample_lib '''' defaultStatusCheckInterval,
     iss_AdcsTemplateName = ''web''\<rparr>"

definition factory_trace :: trace where
  "factory_trace =
     [(CGetAI \<lparr>key_Namespace = ''ns'', key_Name = ''ca''\<rparr>, AGetAI (Inr sample_issuer)),
      (CGetSecret \<lparr>key_Namespace = ''ns'', key_Name = ''cred''\<rparr>, AGetSecret (Inr sample_secret)),
      (CGetenv ''ADCS_AUTH_MODE'', AString ''ntlm''), (CGetenv ''ADCS_AUTH_MODE'', AString ''ntlm'')]"

lemmas factory_defs = GetIssuer_def getAdcsIssuer_def getClusterAdcsIssuer_def getUserPassword_def
  load_certs_def new_certsrv_def NewNtlmCertsrv_def ntlm_http_client_def Let_def

lemma ToLower_AdcsIssuer: "ToLower ''AdcsIssuer'' = ''adcsissuer''"
  by code_simp

lemma sample_factory:
  "run (factory_trace @ tr) (bind (GetIssuer sample_lib (arr_IssuerFactory sample_reconciler)
     sample_ref ''ns'') f) = run tr (f (Inr sample_built))"
  by (simp add: replay factory_trace_def factory_defs sample_defs sample_reconciler_def
      sample_built_def sample_ntlm_def ToLower_AdcsIssuer del: ToLower.simps cong: bind_step)

lemma start_run:
  assumes "ar_IssuerRef (ar_Spec ar) = sample_ref" and "meta_Namespace (ar_meta ar) = ''ns''"
  shows "run ((CGetAR sample_key, AGetAR (Inr ar)) # factory_trace @ tr)
     (AdcsRequest_Reconcile sample_lib sample_reconciler sample_key) =
   run tr (bind (Issue sample_lib sample_built ar) (report_issued sample_lib sample_key sample_built))"
  using assms
  by (simp add: AdcsRequest_Reconcile_def replay_calls(3) sample_factory cong: bind_step)

lemma sample_start:
  "run ((CGetAR sample_key, AGetAR (Inr (sample_ar st rid))) # factory_trace @ tr)
     (AdcsRequest_Reconcile sample_lib sample_reconciler sample_key) =
   run tr (bind (Issue sample_lib sample_built (sample_ar st rid))
     (report_issued sample_lib sample_key sample_built))"
  by (rule start_run) (simp_all add: sample_ar_def sample_meta_def)

definition sample_republished :: CertificateRequest where
  "sample_republished = sample_set 5 (with_certificate (sample_cr []) None None)
     ConditionReady ConditionTrue ReasonIssued ''ADCS request successful''"

definition sample_issued :: CertificateRequest where
  "sample_issued = with_certificate (sample_cr []) (Some ''cert'') (Some ''ca'')"

definition settled_trace :: trace where
  "settled_trace =
     (CGetCR sample_key, AGetCR (Inr sample_issued)) #
     status_trace sample_lib (with_certificate (sample_cr []) None None) ConditionTrue ReasonIssued
       ''ADCS request successful'' 5 None @ announce_and_store (sample_ar StateReady ''7'') None"

lemma sample_settled_run:
  "run ((CGetAR sample_key, AGetAR (Inr (sample_ar StateReady ''7''))) # factory_trace @ settled_trace)
     (AdcsRequest_Reconcile sample_lib sample_reconciler sample_key) =
   Some (Returned (zero_result, None))"
  unfolding sample_start
  by (simp add: replay settled_trace_def Issue_def report_issued_def GetCertificateRequest_def
   publish_def Let_def report_then_store_def CR_SetStatus_def store_status_def AR_setStatus_def
   status_trace_def announce_and_store_def sample_defs sample_issued_def with_certificate_def event_of_def State_defs cong: bind_step)

definition submit_request :: http_request where
  "submit_request =
     Header_Set ''Content-type'' ct_urlenc (ntlm_prepare sample_ntlm
       \<lparr>rq_Method = ''POST'', rq_URL = ''https://adcs/certfnsh.asp'', rq_BasicAuth = None,
        rq_Header = [], rq_Body = Values_Encode (ntlm_params ''csr'' ''web'')\<rparr>)"

definition carc_request :: http_request where
  "carc_request = ntlm_prepare sample_ntlm
     \<lparr>rq_Method = ''GET'', rq_URL = ''https://adcs/certcarc.asp'', rq_BasicAuth = None,
      rq_Header = [], rq_Body = ''''\<rparr>"

text \<open>ADCS accepts the request and issues the certificate; then the CA page cannot be read.\<close>

definition lost_trace :: trace where
  "lost_trace =
     [(CHttp sample_client submit_request, AHttp (Inr (sample_response 200 ct_pkix ''cert'' None))),
      (CHttp sample_client carc_request, AHttp (Inl (Err ''connection refused'')))]"

lemma sample_lost_run:
  "run ((CGetAR sample_key, AGetAR (Inr (sample_ar StateUnknown ''''))) # factory_trace @ lost_trace)
     (AdcsRequest_Reconcile sample_lib sample_reconciler sample_key) =
   Some (Returned (retry_later sample_built))"
proof -
  have "slice_bytes (ar_CSRPEM (ar_Spec (sample_ar StateUnknown ''''))) = ''csr''"
    "ar_State (ar_Status (sample_ar StateUnknown '''')) = StateUnknown"
    by (simp_all add: sample_ar_def)
  moreover have "iss_AdcsTemplateName sample_built = ''web''"
    "certServ sample_built = ntlm_iface sample_lib sample_ntlm"
    "ntlm_httpClient sample_ntlm = sample_client" "ntlm_url sample_ntlm = ''https://adcs''"
    by (simp_all add: sample_built_def sample_ntlm_def)
  ultimately show ?thesis
    unfolding sample_start
    by (simp add: replay lost_trace_def Issue_def ntlm_iface_def ntlm_RequestCertificate_def
        NewRequest_def certfnsh_def submit_request_def carc_request_def sample_response_def
        ntlm_request_response_def issue_response_def record_response_def issue_chain_def
        ntlm_GetCaCertificateChain_def ntlm_obtainCaCertificate_def certcarc_def
        report_issued_def cong: bind_step)
qed

lemma sample_republished_sent: "(CUpdateCRStatus sample_republished, AErr None) \<in> set settled_trace"
  by (simp add: settled_trace_def status_trace_def sample_republished_def Let_def)

section \<open>Guarantees\<close>

lemma AR_started_cases:
  assumes "run ((CGetAR key, AGetAR (Inr ar)) # tr) (AdcsRequest_Reconcile L r key) = Some z"
  obtains (silent) "writes tr = []"
      "\<And>res err. z = Returned (res, err) \<Longrightarrow> err \<noteq> None \<or> Requeue res"
  | (published) issuer ar' cert ca cr tr3 where "issue_post ar (ar', cert, ca, None)"
      "(CGetCR key, AGetCR (Inr cr)) \<in> set tr" "writes tr = writes tr3"
      "run tr3 (publish L issuer ar' cert ca cr) = Some z"
  using assms
proof (cases rule: AR_run_cases)
  case silent
  then show thesis by (intro that(1)) auto
next
  case (published a issuer res cr tr3)
  then show thesis by (auto elim!: publishedE intro: that(2))
qed

text \<open>
  C8. The order of writes: a reconciliation creates and deletes nothing; it writes nothing,
  or it stores the status of a request that is still open or unreported, or it first
  reports to the CertificateRequest, and it stores the final status of the AdcsRequest only
  when this report succeeded. So a final status is never recorded before its
  outcome is delivered.
\<close>

theorem AR_reports_before_it_stores:
  assumes "run tr (AdcsRequest_Reconcile L r key) = Some z"
  shows "writes tr = [] \<or>
    (\<exists>ar x. ar_State (ar_Status ar) \<notin> set reported_states \<and> writes tr = [(CUpdateARStatus ar, AErr x)]) \<or>
    (\<exists>cr e. writes tr = [(CUpdateCRStatus cr, AErr (Some e))]) \<or>
    (\<exists>cr ar x. ar_State (ar_Status ar) \<in> set reported_states \<and>
       writes tr = [(CUpdateCRStatus cr, AErr None), (CUpdateARStatus ar, AErr x)])"
  using assms
proof (cases rule: AR_run_cases)
  case (published ar issuer res cr tr3)
  then show ?thesis
  proof (rule publishedE)
    fix ar' cert ca tr'
    assume "run tr3 (publish L issuer ar' cert ca cr) = Some z" and w: "writes tr = writes tr3"
    then show ?thesis
      unfolding w by (cases rule: publish_cases) blast+
  qed
qed simp

theorem AR_reports_before_it_stores_witness:
  "writes (factory_trace @ settled_trace) \<noteq> []"
  using AR_reports_before_it_stores [OF sample_settled_run]
  by (simp add: settled_trace_def factory_trace_def)

text \<open>
  What is delivered: a status update of the CertificateRequest goes to the object that
  was read under the request's own name, is the report of the state that \<open>Issue\<close>
  reached (Ready with reason Issued, not ready with reason Pending after a rejection, not
  ready with reason Failed after an error), and, for a request that was not settled before,
  it carries a certificate exactly when that state is ready, together with a CA
  certificate.
\<close>

theorem AR_delivers_the_outcome:
  assumes "run ((CGetAR key, AGetAR (Inr ar)) # tr) (AdcsRequest_Reconcile L r key) = Some z"
    and "(CUpdateCRStatus cr', x) \<in> set tr"
  shows "\<exists>cr t st cert ca. (CGetCR key, AGetCR (Inr cr)) \<in> set tr \<and> st \<in> set reported_states \<and>
    cr' = report L t st cert ca cr \<and>
    (phase_of (ar_Status ar) \<noteq> Settled \<longrightarrow> (cert \<noteq> None) = (st = StateReady) \<and> slice_bytes ca \<noteq> []) \<and>
    (phase_of (ar_Status ar) = Settled \<longrightarrow> st = ar_State (ar_Status ar))"
proof -
  have w: "(CUpdateCRStatus cr', x) \<in> set (writes tr)" using assms(2) by (simp add: set_writes)
  from assms(1) show ?thesis
  proof (cases rule: AR_started_cases)
    case silent
    with w show ?thesis by simp
  next
    case (published issuer ar' cert ca cr tr3)
    from published(4) w [unfolded published(3)] obtain t where
        "ar_State (ar_Status ar') \<in> set reported_states"
        "cr' = report L t (ar_State (ar_Status ar')) cert ca cr"
      by (cases rule: publish_cases) auto
    with published(1,2) show ?thesis
      by (intro exI [of _ cr] exI [of _ t] exI [of _ "ar_State (ar_Status ar')"] exI [of _ cert]
          exI [of _ ca]) (auto simp: issue_post_def split: if_splits)
  qed
qed

theorem AR_delivers_the_outcome_witness:
  "\<exists>cr t st cert ca. (CGetCR sample_key, AGetCR (Inr cr)) \<in> set (factory_trace @ settled_trace) \<and>
     sample_republished = report sample_lib t st cert ca cr"
  using AR_delivers_the_outcome [OF sample_settled_run, of sample_republished "AErr None"]
    sample_republished_sent by fastforce

text \<open>
  C10. One reconciliation opens at most one new request at ADCS, and none when the
  AdcsRequest it read has been submitted before (its state is not the unknown one).
\<close>

theorem AR_submits_at_most_once:
  assumes "run ((CGetAR key, AGetAR (Inr ar)) # tr) (AdcsRequest_Reconcile L r key) = Some z"
  shows "submissions tr \<le> (if ar_State (ar_Status ar) = StateUnknown then 1 else 0)"
  using assms
proof (cases rule: AR_run_cases)
  case silent
  then show ?thesis using silent(3) [of ar tr] by simp
next
  case (published a issuer res cr tr3)
  then show ?thesis
    by (elim publishedE) auto
qed

theorem AR_submits_at_most_once_witness:
  "submissions (factory_trace @ settled_trace) = 0 \<and> submissions (factory_trace @ lost_trace) \<le> 1"
  using AR_submits_at_most_once [OF sample_settled_run] AR_submits_at_most_once [OF sample_lost_run]
  by (simp add: sample_ar_def)

lemma AR_posts_the_CSR:
  assumes "run ((CGetAR key, AGetAR (Inr ar)) # tr) (AdcsRequest_Reconcile L r key) = Some z"
    and "(CHttp cl rq, x) \<in> set tr" and "rq_Method rq = ''POST''"
  shows "Some (''CertRequest'', slice_bytes (ar_CSRPEM (ar_Spec ar))) \<in> set (parse_form (rq_Body rq))"
  using assms(1)
proof -
  have no_post: "e \<notin> set tr'" if "submissions tr' = 0" "is_post (fst e)" for tr' e
    using that by (auto simp: submissions_def filter_empty_conv)
  have post: "is_post (fst (CHttp cl rq, x))" using assms(3) by simp
  have issue: ?thesis
    if "run tr1 (GetIssuer L (arr_IssuerFactory r) (ar_IssuerRef (ar_Spec ar))
         (meta_Namespace (ar_meta ar))) = Some (Returned (Inr issuer))"
      and "run tr2 (Issue L issuer ar) = Some y" and "(CHttp cl rq, x) \<in> set tr2" for tr1 tr2 issuer y
    using only_calls_run [OF adcs_certsrv.Issue_carries [OF GetIssuer_contract [OF that(1)] refl]
        that(2,3)] assms(3)
    by (auto simp: carries_def wanted_fields_def)
  from assms(1) show ?thesis
  proof (cases rule: AR_reconcile_cases)
    case (no_issuer a tr1 y)
    then show ?thesis using assms(2) no_post [OF GetIssuer_silent(2) [OF no_issuer(2)] post] by simp
  next
    case (not_issued a tr1 tr2 issuer y)
    then show ?thesis
      using assms(2) no_post [OF GetIssuer_silent(2) [OF not_issued(2)] post] issue by auto
  next
    case (no_target a tr1 tr2 issuer err ar' cert ca)
    then show ?thesis
      using assms(2) no_post [OF GetIssuer_silent(2) [OF no_target(2)] post] issue by auto
  next
    case (published a issuer res cr tr3)
    then obtain tr1 tr2 ar' cert ca where "tr = tr1 @ tr2 @ (CGetCR key, AGetCR (Inr cr)) # tr3"
        and g: "run tr1 (GetIssuer L (arr_IssuerFactory r) (ar_IssuerRef (ar_Spec ar))
         (meta_Namespace (ar_meta ar))) = Some (Returned (Inr issuer))"
        and i: "run tr2 (Issue L issuer ar) = Some (Returned res)"
        and p: "run tr3 (publish L issuer ar' cert ca cr) = Some z"
      unfolding published_def by auto
    then show ?thesis
      using assms(2) no_post [OF GetIssuer_silent(2) [OF g] post]
        no_post [OF publish_submissions [OF p] post] issue [OF g i] by auto
  qed simp
qed

text \<open>
  C11. Every submission carries the request: the form that is posted, decoded as a server
  decodes it, holds the CSR of the AdcsRequest that was read, byte for byte.
\<close>

theorem AR_submits_the_CSR:
  assumes "run ((CGetAR key, AGetAR (Inr ar)) # tr) (AdcsRequest_Reconcile L r key) = Some z"
    and "(CHttp cl rq, x) \<in> set tr" and "rq_Method rq = ''POST''"
  shows "Some (''CertRequest'', slice_bytes (ar_CSRPEM (ar_Spec ar))) \<in> set (parse_form (rq_Body rq))"
  using assms by (rule AR_posts_the_CSR)

theorem AR_submits_the_CSR_witness:
  "Some (''CertRequest'', ''csr'') \<in> set (parse_form (rq_Body submit_request))"
  using AR_submits_the_CSR [OF sample_lost_run, of sample_client submit_request
      "AHttp (Inr (sample_response 200 ct_pkix ''cert'' None))"]
  by (simp add: lost_trace_def submit_request_def sample_ar_def)

text \<open>
  C38. A flaw: a request that is already ready and is reconciled again (the controller is
  restarted, or the object changes) has its outcome reported a second time, without a
  certificate. The CertificateRequest is marked as issued while its certificate and its
  CA are overwritten with nothing. The witness is a run in which both were set before.
\<close>

theorem AR_ready_again_erases_the_certificate:
  assumes "run ((CGetAR key, AGetAR (Inr ar)) # tr) (AdcsRequest_Reconcile L r key) = Some z"
    and "ar_State (ar_Status ar) = StateReady"
    and "(CUpdateCRStatus cr', x) \<in> set tr"
  shows "\<exists>cr t. (CGetCR key, AGetCR (Inr cr)) \<in> set tr \<and>
    cr' = cm_SetCondition L t
      (cr\<lparr>cr_Status := (cr_Status cr)\<lparr>cr_Certificate := None, cr_CA := None\<rparr>\<rparr>)
      ConditionReady ConditionTrue ReasonIssued ''ADCS request successful''"
proof -
  have w: "(CUpdateCRStatus cr', x) \<in> set (writes tr)" using assms(3) by (simp add: set_writes)
  from assms(1) show ?thesis
  proof (cases rule: AR_started_cases)
    case silent
    with w show ?thesis by simp
  next
    case (published issuer ar' cert ca cr tr3)
    from published(1) assms(2) have "ar' = ar" "cert = None" "ca = None"
      by (simp_all add: issue_post_def phase_of_def)
    moreover from published(4) w [unfolded published(3)] obtain t where
        "cr' = report L t (ar_State (ar_Status ar')) cert ca cr"
      by (cases rule: publish_cases) auto
    ultimately show ?thesis
      using published(2) assms(2)
      by (intro exI [of _ cr] exI [of _ t]) (simp add: report_def with_certificate_def)
  qed
qed

theorem AR_ready_again_erases_the_certificate_witness:
  "cr_Certificate (cr_Status sample_issued) = Some ''certca'' \<and>
   cr_Certificate (cr_Status sample_republished) = None \<and>
   (CUpdateCRStatus sample_republished, AErr None) \<in> set settled_trace"
proof -
  have keeps: "cr_Certificate (cr_Status (sample_set t cr ty st rs msg)) = cr_Certificate (cr_Status cr)"
    for t cr ty st rs msg by (simp add: sample_set_def)
  obtain cr t where eq: "sample_republished = sample_set t
      (cr\<lparr>cr_Status := (cr_Status cr)\<lparr>cr_Certificate := None, cr_CA := None\<rparr>\<rparr>)
      ConditionReady ConditionTrue ReasonIssued ''ADCS request successful''"
    using AR_ready_again_erases_the_certificate [OF sample_settled_run, of sample_republished "AErr None"]
      sample_republished_sent by (auto simp: sample_ar_def)
  have "cr_Certificate (cr_Status sample_republished) = None"
    unfolding eq keeps by simp
  with sample_republished_sent show ?thesis
    by (simp add: sample_issued_def with_certificate_def sample_cr_def slice_append_def)
qed

text \<open>
  A flaw: when ADCS accepts a new request and the CA chain cannot be fetched afterwards,
  the outcome is dropped. The reconciliation below submits a request, receives its
  certificate, writes nothing and asks to be run again; since the AdcsRequest is unchanged,
  the next reconciliation submits the same request again.
\<close>

theorem AR_accepted_request_can_be_lost:
  "\<exists>tr. run ((CGetAR sample_key, AGetAR (Inr (sample_ar StateUnknown ''''))) # tr)
      (AdcsRequest_Reconcile sample_lib sample_reconciler sample_key) =
      Some (Returned (retry_later sample_built)) \<and>
    submissions tr = 1 \<and> writes tr = [] \<and>
    (CHttp sample_client submit_request,
     AHttp (Inr (sample_response 200 ct_pkix ''cert'' None))) \<in> set tr"
  by (rule exI [of _ "factory_trace @ lost_trace"], unfold sample_lost_run)
     (simp add: factory_trace_def lost_trace_def submit_request_def carc_request_def)

end
