(* ===== verification/CertificateRequest_Theorems.thy ===== *)
theory CertificateRequest_Theorems
  imports CertificateRequest_Controller
begin

text \<open>
  What the controller of CertificateRequests guarantees. A hypothesis of the form
  \<open>run ((CGetCR key, AGetCR (Inr cr)) # tr) \<dots>\<close> speaks of a reconciliation that found the
  CertificateRequest \<open>cr\<close>.
\<close>

section \<open>Concrete runs\<close>

definition strict :: CertificateRequestReconciler where
  "strict = \<lparr>CheckApprovedCondition = True\<rparr>"

definition approved_cr :: CertificateRequest where
  "approved_cr = sample_cr [sample_condition ''Approved'' ''True'' '''']"

definition denied_cr :: CertificateRequest where
  "denied_cr = sample_cr [sample_condition ''Denied'' ''True'' '''']"

definition pending_trace :: "CertificateRequest \<Rightarrow> trace" where
  "pending_trace cr = status_trace sample_lib cr ConditionFalse ReasonPending
     ''Processing ADCS request'' 3 None"

definition replace_trace :: trace where
  "replace_trace =
     [(CGetAR sample_key, AGetAR (Inr (sample_ar StateUnknown ''''\<lparr>ar_Spec :=
         \<lparr>ar_CSRPEM = Some ''old'', ar_IssuerRef = sample_ref\<rparr>\<rparr>))),
      (CDeleteAR (sample_ar StateUnknown ''''\<lparr>ar_Spec :=
         \<lparr>ar_CSRPEM = Some ''old'', ar_IssuerRef = sample_ref\<rparr>\<rparr>), AErr None),
      (CCreateAR (new_AdcsRequest sample_lib approved_cr), AErr None)] @ pending_trace approved_cr"

definition denied_trace :: trace where
  "denied_trace = (CNow, ATime 2) #
     status_trace sample_lib (fail_at 2 denied_cr) ConditionFalse ReasonDenied denied_message 3 None"

lemma approved_processable: "processable sample_lib strict approved_cr"
  by (simp add: gate_defs approved_cr_def strict_def sample_defs cm_consts)

lemma replace_run:
  "run ((CGetCR sample_key, AGetCR (Inr approved_cr)) # replace_trace)
     (CertificateRequest_Reconcile sample_lib strict sample_key) = Some (Returned (zero_result, None))"
proof -
  have "process_request sample_lib strict sample_key approved_cr =
      find_or_create sample_lib sample_key approved_cr"
    using approved_processable by (auto simp: process_request_def gate_defs slice_len_def)
  then show ?thesis
    by (simp add: replay CertificateRequest_Reconcile_def GetCertificateRequest_def find_or_create_def
        replace_trace_def create_and_mark_def createAdcsRequest_def CR_SetStatus_def Let_def
        pending_trace_def status_trace_def event_of_def RequestDiffers_def
        approved_cr_def sample_ar_def sample_cr_def cong: bind_step)
qed

lemma denied_run:
  "run ((CGetCR sample_key, AGetCR (Inr denied_cr)) # denied_trace)
     (CertificateRequest_Reconcile sample_lib strict sample_key) = Some (Returned (zero_result, None))"
proof -
  have "process_request sample_lib strict sample_key denied_cr = mark_denied sample_lib denied_cr"
    by (simp add: process_request_def denied_cr_def sample_defs cm_consts)
  moreover have "cr_FailureTime (cr_Status denied_cr) = None"
    by (simp add: denied_cr_def sample_cr_def)
  ultimately show ?thesis
    by (simp add: replay CertificateRequest_Reconcile_def GetCertificateRequest_def mark_denied_def
        denied_trace_def CR_SetStatus_def Let_def status_trace_def event_of_def fail_at_def
        denied_message_def cong: bind_step)
qed

section \<open>Guarantees\<close>

lemma CR_creates_when_open:
  assumes "run ((CGetCR key, AGetCR (Inr cr)) # tr) (CertificateRequest_Reconcile L r key) = Some z"
    and "(CCreateAR ar, x) \<in> set tr"
  shows "processable L r cr \<and> ar = new_AdcsRequest L cr \<and>
    ((\<exists>e. IsNotFound e \<and> (CGetAR key, AGetAR (Inl e)) \<in> set tr) \<or>
     (\<exists>old. (CGetAR key, AGetAR (Inr old)) \<in> set tr \<and> RequestDiffers old cr))"
  using assms(1)
  by (cases rule: CR_reconcile_cases)
     (use assms(2) in \<open>auto simp: run_iffs status_trace_def Let_def split: if_splits\<close>)

text \<open>
  C15. The gate: an AdcsRequest is created only for a CertificateRequest of this issuer
  group that is neither finished nor denied, is approved where approval is checked, and
  holds no certificate; it has the name, namespace, CSR and issuer of that
  CertificateRequest and is owned by it; and before it there was no AdcsRequest of that
  name, or one with another CSR.
\<close>

theorem CR_creates_only_for_open_requests:
  assumes "run ((CGetCR key, AGetCR (Inr cr)) # tr) (CertificateRequest_Reconcile L r key) = Some z"
    and "(CCreateAR ar, x) \<in> set tr"
  shows "processable L r cr \<and> ar = new_AdcsRequest L cr \<and>
    ((\<exists>e. IsNotFound e \<and> (CGetAR key, AGetAR (Inl e)) \<in> set tr) \<or>
     (\<exists>old. (CGetAR key, AGetAR (Inr old)) \<in> set tr \<and> RequestDiffers old cr))"
  using assms by (rule CR_creates_when_open)

theorem CR_creates_only_for_open_requests_witness:
  "processable sample_lib strict approved_cr"
  using CR_creates_only_for_open_requests [OF replace_run, of "new_AdcsRequest sample_lib approved_cr" "AErr None"]
  by (simp add: replace_trace_def)

text \<open>
  What is not ours is left alone: for a CertificateRequest of another issuer group, a
  finished one, an unapproved one where approval is checked, or one that holds a
  certificate, the reconciliation does nothing but the read and is not repeated, unless the
  request is denied and still has to be marked.
\<close>

lemma CR_leaves_others_alone:
  assumes "run ((CGetCR key, AGetCR (Inr cr)) # tr) (CertificateRequest_Reconcile L r key) = Some z"
    and "\<not> processable L r cr" and "\<not> (ours cr \<and> \<not> finished L cr \<and> cm_IsDenied L cr)"
  shows "tr = [] \<and> z = Returned (zero_result, None)"
  using assms(1)
  by (cases rule: CR_reconcile_cases) (use assms(2,3) in auto)

text \<open>
  C24. A denied request is marked exactly once: its Ready condition becomes false with
  reason Denied in one status update, its failure time is the one it had or, when it had
  none, the current time, and the result of the update is the result of the reconciliation.
\<close>

theorem CR_marks_denied:
  assumes "run ((CGetCR key, AGetCR (Inr cr)) # tr) (CertificateRequest_Reconcile L r key) = Some z"
    and "ours cr" "\<not> finished L cr" "cm_IsDenied L cr"
  shows "\<exists>f t x. writes tr = [(CUpdateCRStatus (cm_SetCondition L t (fail_at f cr)
        ConditionReady ConditionFalse ReasonDenied denied_message), AErr x)] \<and>
    (case cr_FailureTime (cr_Status cr) of Some f0 \<Rightarrow> f = f0 | None \<Rightarrow> (CNow, ATime f) \<in> set tr) \<and>
    z = Returned (zero_result, x)"
proof -
  have keep: "fail_at f cr = cr" if "cr_FailureTime (cr_Status cr) = Some f" for f
    using that by (simp add: fail_at_def)
  from assms(1) show ?thesis
  proof (cases rule: CR_reconcile_cases)
    case (denied cr' tr')
    then have mark: "run tr (mark_denied L cr) = Some z" by simp
    show ?thesis
    proof (cases "cr_FailureTime (cr_Status cr)")
      case None
      with mark obtain now t x where "tr = (CNow, ATime now) #
          status_trace L (fail_at now cr) ConditionFalse ReasonDenied denied_message t x"
          "z = Returned (zero_result, x)"
        by (auto simp: run_mark_denied)
      with None show ?thesis
        by (intro exI [of _ now] exI [of _ t] exI [of _ x]) simp
    next
      case (Some f)
      with mark obtain t x where "tr = status_trace L cr ConditionFalse ReasonDenied denied_message t x"
          "z = Returned (zero_result, x)"
        by (auto simp: run_mark_denied)
      with Some show ?thesis
        by (intro exI [of _ f] exI [of _ t] exI [of _ x]) (simp add: keep)
    qed
  qed (use assms(2-4) in \<open>auto simp: processable_def\<close>)
qed

theorem CR_marks_denied_witness:
  "\<exists>f t x. writes denied_trace = [(CUpdateCRStatus (sample_set t (fail_at f denied_cr)
        ConditionReady ConditionFalse ReasonDenied denied_message), AErr x)] \<and>
    (CNow, ATime f) \<in> set denied_trace"
proof -
  have "ours denied_cr" "\<not> finished sample_lib denied_cr" "cm_IsDenied sample_lib denied_cr"
      "cr_FailureTime (cr_Status denied_cr) = None"
    by (simp_all add: gate_defs denied_cr_def sample_defs cm_consts)
  with CR_marks_denied [OF denied_run] show ?thesis by fastforce
qed

text \<open>
  Repeating a reconciliation is harmless: when the AdcsRequest of the same name holds
  the same CSR, nothing is written and nothing is repeated.
\<close>

theorem CR_same_CSR_changes_nothing:
  assumes "run ((CGetCR key, AGetCR (Inr cr)) # (CGetAR key, AGetAR (Inr ar)) # tr)
      (CertificateRequest_Reconcile L r key) = Some z"
    and "slice_bytes (ar_CSRPEM (ar_Spec ar)) = slice_bytes (cr_Request (cr_Spec cr))"
  shows "tr = [] \<and> z = Returned (zero_result, None)"
  using assms(1)
  by (cases rule: CR_reconcile_cases)
     (use assms(2) in \<open>auto simp: RequestDiffers_iff run_iffs status_trace_def Let_def split: if_splits\<close>)

theorem CR_same_CSR_changes_nothing_witness:
  "run [(CGetCR sample_key, AGetCR (Inr approved_cr)), (CGetAR sample_key, AGetAR (Inr (sample_ar StateReady ''7'')))]
     (CertificateRequest_Reconcile sample_lib strict sample_key) = Some (Returned (zero_result, None))"
proof -
  let ?t = "[(CGetCR sample_key, AGetCR (Inr approved_cr)),
    (CGetAR sample_key, AGetAR (Inr (sample_ar StateReady ''7'')))]"
  have "process_request sample_lib strict sample_key approved_cr =
      find_or_create sample_lib sample_key approved_cr"
    using approved_processable by (auto simp: process_request_def gate_defs slice_len_def)
  then have "run ?t (CertificateRequest_Reconcile sample_lib strict sample_key) \<noteq> None"
    by (simp add: replay CertificateRequest_Reconcile_def GetCertificateRequest_def
        find_or_create_def RequestDiffers_iff approved_cr_def sample_cr_def sample_ar_def cong: bind_step)
  then obtain z where z: "run ?t (CertificateRequest_Reconcile sample_lib strict sample_key) = Some z"
    by blast
  with CR_same_CSR_changes_nothing [OF z] show ?thesis
    by (simp add: approved_cr_def sample_cr_def sample_ar_def)
qed

text \<open>
  The order of writes: an outdated AdcsRequest is deleted before the new one is
  created, the CertificateRequest is marked as pending only after the creation succeeded,
  and a denied request is marked without any other write.
\<close>

theorem CR_write_order:
  assumes "run tr (CertificateRequest_Reconcile L r key) = Some z"
  shows "writes tr = [] \<or>
    (\<exists>cr x. cm_IsDenied L cr \<and> (CGetCR key, AGetCR (Inr cr)) \<in> set tr \<and>
       map fst (writes tr) = [CUpdateCRStatus x]) \<or>
    (\<exists>del ar cr x y. (del = [] \<or> (\<exists>old e. del = [(CDeleteAR old, AErr e)] \<and>
         (CGetAR key, AGetAR (Inr old)) \<in> set tr)) \<and>
       (writes tr = del @ [(CCreateAR ar, AErr (Some x))] \<or>
        writes tr = del @ [(CCreateAR ar, AErr None), (CUpdateCRStatus cr, AErr y)]))"
proof -
  have create: "(\<exists>x. writes tr' = [(CCreateAR (new_AdcsRequest L cr), AErr (Some x))]) \<or>
      (\<exists>cr' y. writes tr' = [(CCreateAR (new_AdcsRequest L cr), AErr None), (CUpdateCRStatus cr', AErr y)])"
    if "run tr' (create_and_mark L cr) = Some z" for tr' cr
    using that by (auto simp: run_create_and_mark writes_status_trace)
  have mark: "\<exists>x. map fst (writes tr') = [CUpdateCRStatus x]"
    if "run tr' (mark_denied L cr) = Some z" for tr' cr
    using that by (auto simp: run_mark_denied writes_status_trace split: if_splits)
  from assms show ?thesis
  proof (cases rule: CR_reconcile_cases)
    case (denied cr tr')
    with mark [of tr' cr] show ?thesis by auto
  next
    case (absent cr err tr')
    with create [of tr' cr] have "(\<exists>x. writes tr = [] @ [(CCreateAR (new_AdcsRequest L cr), AErr (Some x))]) \<or>
      (\<exists>cr' y. writes tr = [] @ [(CCreateAR (new_AdcsRequest L cr), AErr None), (CUpdateCRStatus cr', AErr y)])"
      by simp
    then show ?thesis by blast
  next
    case (different cr ar e tr')
    with create [of tr' cr] have "(\<exists>x. writes tr = [(CDeleteAR ar, AErr e)] @
        [(CCreateAR (new_AdcsRequest L cr), AErr (Some x))]) \<or>
      (\<exists>cr' y. writes tr = [(CDeleteAR ar, AErr e)] @
        [(CCreateAR (new_AdcsRequest L cr), AErr None), (CUpdateCRStatus cr', AErr y)])"
      by simp
    moreover have "(CGetAR key, AGetAR (Inr ar)) \<in> set tr" using different by simp
    ultimately show ?thesis by blast
  qed simp_all
qed

theorem CR_write_order_witness:
  "map fst (writes replace_trace) \<noteq> [] \<and> \<not> (\<exists>x. map fst (writes replace_trace) = [CUpdateCRStatus x])"
  using CR_write_order [OF replace_run]
  by (auto simp: replace_trace_def)

text \<open>
  C23. Progress: a reconciliation of a processable request that reports no error has found
  an AdcsRequest with the same CSR, or it has created one and marked the CertificateRequest
  as pending, both successfully. Every other outcome is an error, which the
  controller runtime answers with another attempt.
\<close>

theorem CR_progress:
  assumes "run ((CGetCR key, AGetCR (Inr cr)) # tr) (CertificateRequest_Reconcile L r key) =
      Some (Returned (res, None))"
    and "processable L r cr"
  shows "(\<exists>ar. (CGetAR key, AGetAR (Inr ar)) \<in> set tr \<and> \<not> RequestDiffers ar cr) \<or>
    (CCreateAR (new_AdcsRequest L cr), AErr None) \<in> set tr \<and>
    (\<exists>t. (CUpdateCRStatus (cm_SetCondition L t cr ConditionReady ConditionFalse ReasonPending
       ''Processing ADCS request''), AErr None) \<in> set tr)"
  using assms(1)
  by (cases rule: CR_reconcile_cases)
     (use assms(2) in \<open>auto simp: gate_defs run_iffs status_trace_def Let_def\<close>)

theorem CR_progress_witness:
  "(CCreateAR (new_AdcsRequest sample_lib approved_cr), AErr None) \<in> set replace_trace"
  using CR_progress [OF replace_run approved_processable]
  by (auto simp: replace_trace_def pending_trace_def status_trace_def RequestDiffers_iff
      approved_cr_def sample_cr_def Let_def)

text \<open>
  The comparison of the two requests is equality of bytes, a nil and an empty CSR
  being the same, and a request made from a CertificateRequest never differs from it.
\<close>

theorem RequestDiffers_is_byte_equality:
  "(RequestDiffers ar cr \<longleftrightarrow>
      slice_bytes (ar_CSRPEM (ar_Spec ar)) \<noteq> slice_bytes (cr_Request (cr_Spec cr))) \<and>
   \<not> RequestDiffers (new_AdcsRequest L cr) cr"
  by (simp_all add: RequestDiffers_iff new_AdcsRequest_def)

end
