(* ===== verification/Certsrv_Theorems.thy ===== *)
theory Certsrv_Theorems
  imports Kerberos_Certsrv Samples "HOL-Library.Multiset"
begin

text \<open>
  What the two clients of the ADCS web service guarantee, where they agree, and where they
  go wrong.
\<close>

section \<open>Concrete clients and pages\<close>

definition ntlm0 :: NtlmCertsrv where
  "ntlm0 = \<lparr>ntlm_url = ''https://adcs'', ntlm_username = ''u'', ntlm_password = ''p'',
     ntlm_httpClient = sample_client\<rparr>"

definition krb0 :: KerberosCertsrv where
  "krb0 = \<lparr>krb_url = ''https://adcs'',
     krb_httpClient = sample_client\<lparr>hc_auth := SpnegoClient ''u'' ''R''\<rparr>\<rparr>"

definition get_request :: "string \<Rightarrow> http_request" where
  "get_request url =
     \<lparr>rq_Method = ''GET'', rq_URL = url, rq_BasicAuth = None, rq_Header = [], rq_Body = ''''\<rparr>"

definition post_request :: "string \<Rightarrow> Values \<Rightarrow> http_request" where
  "post_request url vs =
     \<lparr>rq_Method = ''POST'', rq_URL = url, rq_BasicAuth = None, rq_Header = [],
      rq_Body = Values_Encode vs\<rparr>"

lemma NewRequest_sample [simp]:
  "url \<noteq> '''' \<Longrightarrow> NewRequest sample_lib verb url body =
     Inr \<lparr>rq_Method = verb, rq_URL = url, rq_BasicAuth = None, rq_Header = [], rq_Body = body\<rparr>"
  by (simp add: NewRequest_def)

definition existing_url :: string where
  "existing_url = ''https://adcs/certnew.cer?ReqID=7&ENC=b64''"

definition existing_trace :: "http_response \<Rightarrow> trace" where
  "existing_trace res =
     [(CHttp sample_client (ntlm_prepare ntlm0 (get_request existing_url)), AHttp (Inr res)),
      (CCloseBody res, ADone)]"

lemma existing_run:
  "run (existing_trace res) (ntlm_GetExistingCertificate sample_lib ntlm0 ''7'') =
     run [(CCloseBody res, ADone)] (defer_close res (ntlm_existing_response ''7'' res))"
  by (simp add: replay existing_trace_def ntlm_GetExistingCertificate_def get_request_def
      existing_url_def ntlm0_def certnew_cer_def cong: bind_step)

lemma existing_run_ready:
  "run (existing_trace (sample_response 200 ''application/pkix-cert;x'' ''cert'' None))
     (ntlm_GetExistingCertificate sample_lib ntlm0 ''7'') = Some (Returned (Ready, ''cert'', ''7'', None))"
  by (simp add: existing_run replay ntlm_existing_response_def sample_response_def StatusOK_def
      ct_defs)

lemma existing_run_panic:
  "run (existing_trace (sample_response 500 ct_html '''' None))
     (ntlm_GetExistingCertificate sample_lib ntlm0 ''7'') = Some (Panicked nil_deref)"
  by (simp add: existing_run replay ntlm_existing_response_def sample_response_def StatusOK_def
      err_Error_def)

definition ntlm_post_trace :: "http_response \<Rightarrow> trace" where
  "ntlm_post_trace res =
     [(CHttp sample_client (Header_Set ''Content-type'' ct_urlenc (ntlm_prepare ntlm0
        (post_request ''https://adcs/certfnsh.asp'' (ntlm_params ''csr'' ''web'')))), AHttp (Inr res))]"

lemma ntlm_post_run:
  "run (ntlm_post_trace res) (ntlm_RequestCertificate sample_lib ntlm0 ''csr'' ''web'') =
     run [] (ntlm_request_response sample_lib ntlm0 res)"
  by (simp add: replay ntlm_post_trace_def ntlm_RequestCertificate_def post_request_def
      ntlm0_def certfnsh_def cong: bind_step)

lemma ntlm_post_run_cert:
  "run (ntlm_post_trace (sample_response 200 ct_pkix ''cer'' (Some (Err ''unexpected EOF''))))
     (ntlm_RequestCertificate sample_lib ntlm0 ''csr'' ''web'') =
   Some (Returned (Ready, ''cer'', ''none'', None))"
  by (simp add: ntlm_post_run ntlm_request_response_def sample_response_def)

section \<open>Runs of the clients\<close>

lemma run_ignore_request_error [run_iffs]:
  "run tr (bind (ignore_request_error (NewRequest L verb url body)) f) = Some z \<longleftrightarrow>
     (case NewRequest L verb url body of
        Inl e \<Rightarrow> tr = [] \<and> z = Panicked nil_deref
      | Inr rq \<Rightarrow> run tr (f rq) = Some z)"
  by (cases "NewRequest L verb url body") auto

lemma run_closed_exchange:
  "run tr (bind (http_Do cl rq) (\<lambda>r. case r of Inl e \<Rightarrow> g e | Inr res \<Rightarrow> defer_close res (h res))) =
     Some z \<longleftrightarrow>
   (\<exists>e tr'. tr = (CHttp cl rq, AHttp (Inl e)) # tr' \<and> run tr' (g e) = Some z) \<or>
   (\<exists>res tr'. tr = (CHttp cl rq, AHttp (Inr res)) # tr' @ [(CCloseBody res, ADone)] \<and>
      run tr' (h res) = Some z)"
  unfolding run_http_Do split_sum_ex by (auto simp: run_defer_close)

lemma existing_response_silent:
  "run tr (ntlm_existing_response rid res) = Some z \<Longrightarrow> tr = []"
  by (auto simp: ntlm_existing_response_def err_Error_def Let_def split: if_splits option.splits)

lemma existing_response_result:
  assumes "run tr (ntlm_existing_response rid res) = Some (Returned (Ready, cert, i, e))"
  shows "rs_StatusCode res = 200 \<and> hd (Split (rs_ContentType res) CHR '';'') = ct_pkix \<and>
    rs_ReadErr res = None \<and> rs_Body res = cert \<and> i = rid \<and> e = None"
proof -
  have "fst (ntlm_status_page rid (rs_Body res)) \<noteq> Ready"
    by (rule found_cases [of re_disposition "rs_Body res"]) (simp_all add: ntlm_status_page_def Let_def)
  then have "ntlm_status_page rid (rs_Body res) \<noteq> (Ready, cert, i, e)" by auto
  with assms show ?thesis
    by (auto simp: ntlm_existing_response_def StatusOK_def err_Error_def Let_def
        split: if_splits option.splits)
qed

lemma ntlm_existing_cases:
  assumes "run tr (ntlm_GetExistingCertificate L s rid) = Some z"
  obtains (unbuilt) "tr = []" "z = Panicked nil_deref"
  | (failed) cl rq err where "tr = [(CHttp cl rq, AHttp (Inl err))]"
      "z = Returned (Unknown, '''', rid, Some err)"
  | (answered) cl rq res where
      "tr = [(CHttp cl rq, AHttp (Inr res)), (CCloseBody res, ADone)]"
      "rq_URL rq = ntlm_url s @ ''/certnew.cer?ReqID='' @ rid @ ''&ENC=b64''"
      "run [] (ntlm_existing_response rid res) = Some z"
proof -
  let ?url = "ntlm_url s @ ''/'' @ certnew_cer @ ''?ReqID='' @ rid @ ''&ENC=b64''"
  show thesis
  proof (cases "NewRequest L ''GET'' ?url ''''")
    case (Inl e)
    with assms that(1) show thesis
      by (simp add: ntlm_GetExistingCertificate_def run_ignore_request_error Let_def)
  next
    case (Inr rq)
    with assms obtain x tr' where x: "tr = (CHttp (ntlm_httpClient s) (ntlm_prepare s rq), AHttp x) # tr'"
        "run tr' (case x of Inl err \<Rightarrow> Ret (Unknown, '''', rid, Some err)
           | Inr res \<Rightarrow> defer_close res (ntlm_existing_response rid res)) = Some z"
      unfolding ntlm_GetExistingCertificate_def Let_def by (auto simp: run_http_Do)
    show thesis
    proof (cases x)
      case (Inl err)
      with x that(2) show thesis by simp
    next
      case r: (Inr res)
      with x have "tr' = [(CCloseBody res, ADone)]" "run [] (ntlm_existing_response rid res) = Some z"
        by (auto simp: run_defer_close dest: existing_response_silent)
      with r x NewRequest_Inr [OF Inr] that(3) show thesis
        by (simp add: certnew_cer_def)
    qed
  qed
qed

section \<open>Guarantees\<close>

text \<open>
  C26. The pages of the web service are told apart as follows: a page without a disposition
  message is not understood; with one, the request is pending when the page contains
  \<open>Taken Under Submissio\<close> followed by any character but a line break, rejected when it
  does not but contains \<open>Denied b\<close> followed by such a character, and errored otherwise
  (the pattern in the code ends in \<open>n*.\<close> where the text \<open>n\<close> was meant). The
  request keeps its id.
\<close>

theorem status_page_classification:
  fixes body rid :: string
  defines "pending \<equiv> \<exists>pre c post. body = pre @ ''Taken Under Submissio'' @ c # post \<and> c \<noteq> CHR 0x0A"
    and "denied \<equiv> \<exists>pre c post. body = pre @ ''Denied b'' @ c # post \<and> c \<noteq> CHR 0x0A"
  shows "\<exists>desc err. ntlm_status_page rid body =
    (if FindStringSubmatch re_disposition body = [] then Unknown
     else if pending then Pending else if denied then Rejected else Errored, desc, rid, err)"
  unfolding pending_def denied_def
  by (rule found_cases [of re_disposition body])
     (auto simp: ntlm_status_page_def Let_def re_pending_iff re_rejected_iff)

text \<open>
  C25. A certificate is delivered as ADCS sent it: when the check of a request reports it
  ready, ADCS answered the request for \<open>certnew.cer\<close> with this id with status 200 and
  the content type of a certificate (up to parameters), and the text is the whole body,
  read without an error.
\<close>

theorem existing_certificate_is_verbatim:
  assumes "run tr (ntlm_GetExistingCertificate L s rid) = Some (Returned (Ready, cert, i, e))"
  shows "\<exists>cl rq res. tr = [(CHttp cl rq, AHttp (Inr res)), (CCloseBody res, ADone)] \<and>
    rq_URL rq = ntlm_url s @ ''/certnew.cer?ReqID='' @ rid @ ''&ENC=b64'' \<and>
    rs_StatusCode res = 200 \<and> takeWhile (\<lambda>c. c \<noteq> CHR '';'') (rs_ContentType res) = ct_pkix \<and>
    rs_ReadErr res = None \<and> rs_Body res = cert \<and> i = rid \<and> e = None"
  using assms
  by (cases rule: ntlm_existing_cases)
     (auto dest!: existing_response_result simp: Split_hd)

theorem existing_certificate_is_verbatim_witness:
  "takeWhile (\<lambda>c. c \<noteq> CHR '';'') ''application/pkix-cert;x'' = ct_pkix"
  using existing_certificate_is_verbatim [OF existing_run_ready]
  by (auto simp: existing_trace_def sample_response_def)

text \<open>
  C27. Every result of the NTLM client keeps the contract of the interface: the status is
  unknown exactly when there is an error; a check returns the id it was given; a new
  request with a known status has a decimal request id, or is ready with the id none.
\<close>

theorem ntlm_keeps_the_contract:
  assumes "run tr (ntlm_RequestCertificate L s csr template) = Some (Returned (st, desc, i, err))"
    and "run tr' (ntlm_GetExistingCertificate L s rid) = Some (Returned (st', desc', i', err'))"
  shows "(st = Unknown) = (err \<noteq> None) \<and>
      (st \<noteq> Unknown \<longrightarrow> is_request_id i \<or> st = Ready \<and> i = ''none'') \<and>
    (st' = Unknown) = (err' \<noteq> None) \<and> i' = rid"
  using returns_sat_run [OF ntlm.request_ok [unfolded ntlm_iface_def AdcsCertsrv.simps] assms(1)]
    returns_sat_run [OF ntlm.existing_ok [unfolded ntlm_iface_def AdcsCertsrv.simps] assms(2)]
  by (simp add: request_contract_def existing_contract_def)

theorem ntlm_keeps_the_contract_witness:
  "\<exists>i i'. run (ntlm_post_trace (sample_response 200 ct_pkix ''cer'' (Some (Err ''unexpected EOF''))))
      (ntlm_RequestCertificate sample_lib ntlm0 ''csr'' ''web'') = Some (Returned (Ready, ''cer'', i, None)) \<and>
    run (existing_trace (sample_response 200 ''application/pkix-cert;x'' ''cert'' None))
      (ntlm_GetExistingCertificate sample_lib ntlm0 ''7'') = Some (Returned (Ready, ''cert'', i', None)) \<and>
    i' = ''7'' \<and> (is_request_id i \<or> i = ''none'')"
  using ntlm_keeps_the_contract [OF ntlm_post_run_cert existing_run_ready] ntlm_post_run_cert existing_run_ready
  by blast

section \<open>Agreement of the two clients\<close>

lemma NewRequest_url:
  "url_Parse L url = None \<Longrightarrow> \<exists>rq. NewRequest L verb url body = Inr rq"
  "url_Parse L url = Some e \<Longrightarrow> NewRequest L verb url body = Inl e"
  by (simp_all add: NewRequest_def)

lemma feed_exchange:
  "(\<And>x ys. xs = AHttp x # ys \<Longrightarrow> feed ys (f x) = feed ys (g x)) \<Longrightarrow>
     feed xs (bind (http_Do cl rq) f) = feed xs (bind (http_Do cl' rq') g)"
  by (auto simp: feed_http_Do split: list.split answer.split)

text \<open>
  C28. The two clients read the state of a request alike: with the same base URL, the same
  answers lead to the same result, the same panic included, whatever the authentication.
\<close>

theorem kerberos_and_ntlm_check_alike:
  assumes "krb_url k = ntlm_url s"
  shows "feed answers_seen (krb_GetExistingCertificate L k rid) =
    feed answers_seen (ntlm_GetExistingCertificate L s rid)"
proof -
  let ?url = "ntlm_url s @ ''/'' @ certnew_cer @ ''?ReqID='' @ rid @ ''&ENC=b64''"
  show ?thesis
    unfolding krb_GetExistingCertificate_def ntlm_GetExistingCertificate_def Let_def assms
      krb_existing_response_eq
    by (cases "NewRequest L ''GET'' ?url ''''") (auto intro: feed_exchange)
qed

theorem kerberos_and_ntlm_check_alike_witness:
  "feed [AHttp (Inr (sample_response 500 ct_html '''' None)), ADone]
     (krb_GetExistingCertificate sample_lib krb0 ''7'') = Some (Panicked nil_deref)"
proof -
  have "feed (map snd (existing_trace (sample_response 500 ct_html '''' None)))
      (ntlm_GetExistingCertificate sample_lib ntlm0 ''7'') = Some (Panicked nil_deref)"
    by (rule feed_run) (rule existing_run_panic)
  moreover have "krb_url krb0 = ntlm_url ntlm0" by (simp add: krb0_def ntlm0_def)
  ultimately show ?thesis
    using kerberos_and_ntlm_check_alike [of krb0 ntlm0] by (simp add: existing_trace_def)
qed

section \<open>Where a panic or a wrong result comes from\<close>

text \<open>
  A flaw of both clients: when ADCS answers the check of a request with any other status than
  200, the code calls a method on a nil error.
\<close>

lemma check_panics:
  assumes "rs_StatusCode res \<noteq> 200"
  shows "run ((CHttp cl rq, AHttp (Inr res)) # tr) (ntlm_GetExistingCertificate L s rid) = Some z \<Longrightarrow> z = Panicked nil_deref"
    and "run ((CHttp cl rq, AHttp (Inr res)) # tr) (krb_GetExistingCertificate L k rid) = Some z \<Longrightarrow> z = Panicked nil_deref"
proof -
  have "y = Panicked nil_deref" if "run tr' (ntlm_existing_response rid res) = Some y" for tr' y
    using that assms by (simp add: ntlm_existing_response_def StatusOK_def err_Error_def)
  then show "run ((CHttp cl rq, AHttp (Inr res)) # tr) (ntlm_GetExistingCertificate L s rid) = Some z \<Longrightarrow> z = Panicked nil_deref"
    and "run ((CHttp cl rq, AHttp (Inr res)) # tr) (krb_GetExistingCertificate L k rid) = Some z \<Longrightarrow> z = Panicked nil_deref"
    unfolding ntlm_GetExistingCertificate_def krb_GetExistingCertificate_def krb_existing_response_eq Let_def
      run_ignore_request_error
    by (auto simp: run_closed_exchange split: sum.splits)
qed

text \<open>
  C40. A flaw of both clients: the answer to a new request is taken for the certificate as
  soon as its content type is exactly that of a certificate; neither the status of the
  answer nor an error while reading its body is looked at, so a truncated certificate is
  reported as ready.
\<close>

theorem new_request_trusts_the_content_type:
  assumes "rs_ContentType res = ct_pkix"
  shows "ntlm_request_response L s res = Ret (Ready, rs_Body res, ''none'', None) \<and>
    krb_request_response L k res = Ret (Ready, rs_Body res, ''none'', None)"
  using assms by (simp add: ntlm_request_response_def krb_request_response_def)

theorem new_request_trusts_the_content_type_witness:
  "ntlm_request_response sample_lib ntlm0
     (sample_response 500 ct_pkix ''cer'' (Some (Err ''unexpected EOF''))) =
   Ret (Ready, ''cer'', ''none'', None)"
  using new_request_trusts_the_content_type
    [of "sample_response 500 ct_pkix ''cer'' (Some (Err ''unexpected EOF''))" sample_lib ntlm0]
  by (simp add: sample_response_def)

section \<open>Response bodies\<close>

definition received :: "trace \<Rightarrow> http_response list" where
  "received tr = List.map_filter
     (\<lambda>(c, a). case a of AHttp (Inr res) \<Rightarrow> Some res | _ \<Rightarrow> None) tr"

definition closed :: "trace \<Rightarrow> http_response list" where
  "closed tr = List.map_filter (\<lambda>(c, a). case c of CCloseBody res \<Rightarrow> Some res | _ \<Rightarrow> None) tr"

lemma bodies_simps [simp]:
  "received [] = []" "closed [] = []"
  "received ((CHttp cl rq, AHttp (Inr res)) # tr) = res # received tr"
  "received ((CHttp cl rq, AHttp (Inl e)) # tr) = received tr"
  "received ((CCloseBody res, ADone) # tr) = received tr"
  "closed ((CHttp cl rq, a) # tr) = closed tr"
  "closed ((CCloseBody res, a) # tr) = res # closed tr"
  "received (tr @ tr') = received tr @ received tr'"
  "closed (tr @ tr') = closed tr @ closed tr'"
  by (simp_all add: received_def closed_def map_filter_def)

definition closes_all :: "'a prog \<Rightarrow> bool" where
  "closes_all p = runs_sat p (\<lambda>tr z. mset (closed tr) = mset (received tr))"

lemma closes_all_Ret [simp]: "closes_all (Ret a)"
  by (simp add: closes_all_def runs_sat_Ret)

lemma closes_all_Panic [simp]: "closes_all (Panic s)"
  by (simp add: closes_all_def runs_sat_Panic)

lemma closes_allD: "closes_all p \<Longrightarrow> run tr p = Some z \<Longrightarrow> mset (closed tr) = mset (received tr)"
  unfolding closes_all_def by (drule runs_satD)

lemma closes_all_exchange:
  assumes "\<And>e. closes_all (g e)" and "\<And>res. closes_all (h res)"
  shows "closes_all (bind (http_Do cl rq)
    (\<lambda>r. case r of Inl e \<Rightarrow> g e | Inr res \<Rightarrow> defer_close res (h res)))"
  unfolding closes_all_def
  by (rule runs_satI)
     (auto simp: run_closed_exchange dest: closes_allD [OF assms(1)] closes_allD [OF assms(2)])

lemma closes_all_request:
  "(\<And>rq. closes_all (f rq)) \<Longrightarrow> closes_all (bind (ignore_request_error r) f)"
  by (cases r) auto

lemma closes_all_silent: "only_calls (\<lambda>_. False) p \<Longrightarrow> closes_all p"
  by (cases p) (auto simp: closes_all_def runs_sat_Call runs_sat_Ret runs_sat_Panic)

lemma existing_response_no_calls: "only_calls (\<lambda>_. False) (ntlm_existing_response rid res)"
  by (auto simp: ntlm_existing_response_def Let_def intro!: only_calls_bind split: option.split)

lemma krb_existing_closes: "closes_all (krb_GetExistingCertificate L k rid)"
  unfolding krb_GetExistingCertificate_def Let_def krb_existing_response_eq
  by (intro closes_all_request closes_all_exchange closes_all_Ret
      closes_all_silent [OF existing_response_no_calls])

lemma ntlm_existing_closes: "closes_all (ntlm_GetExistingCertificate L s rid)"
  unfolding ntlm_GetExistingCertificate_def Let_def
  by (intro closes_all_request closes_all_exchange closes_all_Ret
      closes_all_silent [OF existing_response_no_calls])

text \<open>
  C30. The Kerberos client closes what it opens: in every run of its operations the
  response bodies that were received are the ones that were closed, each once, on every
  path, panics included.
\<close>

theorem kerberos_closes_every_body:
  "closes_all (krb_GetExistingCertificate L k rid) \<and>
   closes_all (krb_RequestCertificate L k csr template) \<and>
   closes_all (krb_GetCaCertificate L k) \<and> closes_all (krb_GetCaCertificateChain L k)"
proof -
  have request: "closes_all (krb_RequestCertificate L k csr template)"
  proof -
    have "closes_all (krb_request_response L k res)" for res
      by (auto simp: krb_request_response_def Let_def krb_existing_closes split: option.split)
    then show ?thesis
      by (auto simp: krb_RequestCertificate_def Let_def intro!: closes_all_exchange split: sum.split)
  qed
  have download: "closes_all (krb_obtainCaCertificate L k page ct)" for page ct
  proof -
    have ca: "closes_all (krb_ca_response ct res)" for res
      by (rule closes_all_silent)
         (auto simp: krb_ca_response_def Let_def intro!: only_calls_bind split: option.split)
    show ?thesis
      unfolding krb_obtainCaCertificate_def Let_def
      by (intro closes_all_request closes_all_exchange closes_all_Ret)
         (auto intro!: closes_all_request closes_all_exchange ca split: option.split)
  qed
  from request download show ?thesis
    by (simp add: krb_existing_closes krb_GetCaCertificate_def krb_GetCaCertificateChain_def)
qed

text \<open>
  A flaw of the NTLM client: the body of the answer to a new request is never closed,
  so that every submission leaks one connection; all the bodies read after it are closed.
\<close>

theorem ntlm_request_leaks_its_body:
  assumes "run ((CHttp cl rq, AHttp (Inr res)) # tr) (ntlm_RequestCertificate L s csr template) = Some z"
  shows "mset (received ((CHttp cl rq, AHttp (Inr res)) # tr)) = add_mset res (mset (closed tr))"
proof -
  have "closes_all (ntlm_request_response L s res)"
    by (auto simp: ntlm_request_response_def Let_def ntlm_existing_closes split: option.split)
  moreover from assms have "run tr (ntlm_request_response L s res) = Some z"
    by (auto simp: ntlm_RequestCertificate_def Let_def run_http_Do split: sum.splits)
  ultimately show ?thesis by (auto simp: closes_all_def dest: runs_satD)
qed

theorem ntlm_request_leaks_its_body_witness:
  "received (ntlm_post_trace (sample_response 200 ct_pkix ''cer'' (Some (Err ''unexpected EOF'')))) =
     [sample_response 200 ct_pkix ''cer'' (Some (Err ''unexpected EOF''))]"
  using ntlm_request_leaks_its_body [OF ntlm_post_run_cert [unfolded ntlm_post_trace_def]]
  by (simp add: ntlm_post_trace_def)

section \<open>The CA chain\<close>

lemma run_ntlm_ca_response_Inr:
  "run tr (ntlm_ca_response L ct res) = Some (Returned (ca, None)) \<longleftrightarrow>
     tr = [] \<and> rs_StatusCode res = 200 \<and> rs_ContentType res = ct \<and> rs_ReadErr res = None \<and>
     ca = rs_Body res"
  by (auto simp: ntlm_ca_response_def StatusOK_def Let_def split: option.splits)

text \<open>
  C29. The CA chain is the one of the newest renewal: a successful download read the
  renewal number from the page \<open>certcarc.asp\<close> (the decimal number of \<open>nRenewals\<close>, or 0
  when there is none), asked for the PKCS7 file of that renewal, and returns the whole body
  of an answer with status 200 and exactly the expected content type.
\<close>

theorem ca_chain_is_of_the_newest_renewal:
  assumes "run tr (ntlm_GetCaCertificateChain L s) = Some (Returned (chain, None))"
  shows "\<exists>cl rq1 res1 rq2 res2 n.
    tr = [(CHttp cl rq1, AHttp (Inr res1)), (CHttp cl rq2, AHttp (Inr res2)),
          (CCloseBody res2, ADone), (CCloseBody res1, ADone)] \<and>
    rq_URL rq1 = ntlm_url s @ ''/certcarc.asp'' \<and>
    n = renewal_of (rs_Body res1) \<and> is_request_id n \<and>
    rq_URL rq2 = ntlm_url s @ ''/certnew.p7b?ReqID=CACert&ENC=b64&Renewal='' @ n \<and>
    rs_StatusCode res2 = 200 \<and> rs_ContentType res2 = ct_pkcs7 \<and> rs_ReadErr res2 = None \<and>
    chain = rs_Body res2"
proof -
  have n: "is_request_id (renewal_of b)" for b
    by (rule found_cases [of re_renewals b])
       (auto simp: renewal_of_def Let_def is_request_id_def digits_def
          dest: re_renewals_id [unfolded is_request_id_def digits_def])
  from assms obtain rq1 res1 tr1 where 1:
      "NewRequest L ''GET'' (ntlm_url s @ ''/'' @ certcarc) '''' = Inr rq1"
      "tr = (CHttp (ntlm_httpClient s) (ntlm_prepare s rq1), AHttp (Inr res1)) #
         tr1 @ [(CCloseBody res1, ADone)]"
      "run tr1 (case rs_ReadErr res1 of Some err \<Rightarrow> Ret ('''', Some err) | None \<Rightarrow>
        (let url = ntlm_url s @ ''/'' @ certnew_p7b @ ''?ReqID=CACert&ENC=b64&Renewal='' @
                   renewal_of (rs_Body res1) in
         case NewRequest L ''GET'' url '''' of
           Inl err \<Rightarrow> Ret ('''', Some err)
         | Inr req \<Rightarrow>
             bind (http_Do (ntlm_httpClient s) (ntlm_prepare s req)) (\<lambda>r2. case r2 of
               Inl err \<Rightarrow> Ret ('''', Some err)
             | Inr res2 \<Rightarrow> defer_close res2 (ntlm_ca_response L ct_pkcs7 res2)))) =
       Some (Returned (chain, None))"
    unfolding ntlm_GetCaCertificateChain_def ntlm_obtainCaCertificate_def
    by (cases "NewRequest L ''GET'' (ntlm_url s @ ''/'' @ certcarc) ''''")
       (auto simp: run_closed_exchange)
  let ?url = "ntlm_url s @ ''/'' @ certnew_p7b @ ''?ReqID=CACert&ENC=b64&Renewal='' @
    renewal_of (rs_Body res1)"
  from 1(3) have "rs_ReadErr res1 = None" by (auto split: option.splits)
  with 1(3) obtain rq2 where 2: "NewRequest L ''GET'' ?url '''' = Inr rq2"
      and "run tr1 (bind (http_Do (ntlm_httpClient s) (ntlm_prepare s rq2)) (\<lambda>r2. case r2 of
               Inl err \<Rightarrow> Ret ('''', Some err)
             | Inr res2 \<Rightarrow> defer_close res2 (ntlm_ca_response L ct_pkcs7 res2))) =
       Some (Returned (chain, None))"
    by (cases "NewRequest L ''GET'' ?url ''''") auto
  then obtain res2 where 3:
      "tr1 = [(CHttp (ntlm_httpClient s) (ntlm_prepare s rq2), AHttp (Inr res2)), (CCloseBody res2, ADone)]"
      "rs_StatusCode res2 = 200" "rs_ContentType res2 = ct_pkcs7" "rs_ReadErr res2 = None"
      "chain = rs_Body res2"
    by (auto simp: run_closed_exchange run_ntlm_ca_response_Inr)
  from 1 2 3 NewRequest_Inr [OF 1(1)] NewRequest_Inr [OF 2] n [of "rs_Body res1"] show ?thesis
    by (intro exI [of _ "ntlm_httpClient s"] exI [of _ "ntlm_prepare s rq1"] exI [of _ res1]
        exI [of _ "ntlm_prepare s rq2"] exI [of _ res2] exI [of _ "renewal_of (rs_Body res1)"])
       (simp add: certcarc_def certnew_p7b_def)
qed

definition chain_trace :: "http_response \<Rightarrow> http_response \<Rightarrow> trace" where
  "chain_trace res1 res2 =
     [(CHttp sample_client (ntlm_prepare ntlm0 (get_request ''https://adcs/certcarc.asp'')),
       AHttp (Inr res1)),
      (CHttp sample_client (ntlm_prepare ntlm0
         (get_request ''https://adcs/certnew.p7b?ReqID=CACert&ENC=b64&Renewal=0'')),
       AHttp (Inr res2)),
      (CCloseBody res2, ADone), (CCloseBody res1, ADone)]"

lemma renewal_of_empty: "renewal_of '''' = ''0''"
  by code_simp

lemma chain_run:
  "run (chain_trace (sample_response 200 ct_html '''' None) (sample_response 200 ct_pkcs7 ''p7'' None))
     (ntlm_GetCaCertificateChain sample_lib ntlm0) = Some (Returned (''p7'', None))"
  by (simp add: replay chain_trace_def ntlm_GetCaCertificateChain_def ntlm_obtainCaCertificate_def
      ntlm0_def certcarc_def certnew_p7b_def get_request_def renewal_of_empty
      ntlm_ca_response_def sample_response_def StatusOK_def cong: bind_step)

theorem ca_chain_is_of_the_newest_renewal_witness:
  "\<exists>n. n = renewal_of '''' \<and> is_request_id n"
  using ca_chain_is_of_the_newest_renewal [OF chain_run]
  by (auto simp: chain_trace_def sample_response_def)

end
