(* ===== verification/Issuer_Theorems.thy ===== *)
theory Issuer_Theorems
  imports Issuer_Factory Samples
begin

text \<open>
  What \<open>Issue\<close>, the CA chain and the issuer factory guarantee, with concrete values to
  which the guarantees are applied.
\<close>

section \<open>Concrete values\<close>

definition ntlm_issuer :: Issuer where
  "ntlm_issuer =
     \<lparr>certServ = ntlm_iface sample_lib
        \<lparr>ntlm_url = ''https://adcs'', ntlm_username = ''u'', ntlm_password = ''p'',
         ntlm_httpClient = sample_client\<rparr>,
      RetryInterval = 1, StatusCheckInterval = 2, iss_AdcsTemplateName = ''web''\<rparr>"

lemma ntlm_issuer_known: "known_certsrv sample_lib (certServ ntlm_issuer)"
  by (auto simp: known_certsrv_def ntlm_issuer_def)

lemma settled_issue_run:
  "run [] (Issue sample_lib ntlm_issuer (sample_ar StateRejected ''7'')) =
     Some (Returned (sample_ar StateRejected ''7'', None, None, None))"
  by (simp add: Issue_def sample_ar_def)

section \<open>Issue\<close>

text \<open>
  C16. \<open>Issue\<close>, with either client, implements the life cycle: it never changes the name
  or the specification of a request, its status moves along the life cycle, an error comes
  without certificates, a settled request is returned as it is, and otherwise the new state
  is a known one, there is a certificate exactly when it is ready, and there is a CA
  certificate.
\<close>

theorem Issue_implements_the_life_cycle:
  assumes "known_certsrv L (certServ i)"
    and "run tr (Issue L i ar) = Some (Returned (ar', cert, ca, err))"
  shows "ar_meta ar' = ar_meta ar \<and> ar_Spec ar' = ar_Spec ar \<and>
    lifecycle (ar_Status ar) (ar_Status ar') \<and>
    phase_of (ar_Status ar) \<le> phase_of (ar_Status ar') \<and>
    (if err \<noteq> None then cert = None \<and> ca = None
     else if phase_of (ar_Status ar) = Settled then ar' = ar \<and> cert = None \<and> ca = None
     else ar_State (ar_Status ar') \<in> set known_states \<and>
       (cert \<noteq> None) = (ar_State (ar_Status ar') = StateReady) \<and> slice_bytes ca \<noteq> [])"
proof -
  have "issue_post ar (ar', cert, ca, err)"
    using returns_sat_run [OF adcs_certsrv.Issue_post [OF known_certsrv_contract [OF assms(1)] refl]
        assms(2)] .
  then show ?thesis
    by (auto simp: issue_post_def lifecycle_phase split: option.splits if_splits)
qed

theorem Issue_implements_the_life_cycle_witness:
  "lifecycle (ar_Status (sample_ar StateRejected ''7'')) (ar_Status (sample_ar StateRejected ''7''))"
  using Issue_implements_the_life_cycle [OF ntlm_issuer_known settled_issue_run] by blast

text \<open>
  C31. The CA certificate that is handed out is well-formed PEM: it decodes to the bytes of
  the first PEM block when these are an X.509 certificate, and otherwise to the first
  non-empty certificate of the PKCS7 structure in that block.
\<close>

theorem parseCaCert_is_readable:
  assumes "parseCaCert L cc = Inr ca"
  shows "\<exists>block raw. pem_Decode L cc = Some block \<and> read_pem ''CERTIFICATE'' ca = Some raw \<and>
    (case x509_ParseCertificate L block of
       None \<Rightarrow> raw = block
     | Some _ \<Rightarrow> \<exists>certs. pkcs7_Parse L block = Inr certs \<and>
         find (\<lambda>c. c \<noteq> []) certs = Some raw)"
proof -
  from assms obtain block raw where d: "pem_Decode L cc = Some block"
      and raw: "tryParseX509 L block = Inr raw" and ca: "ca = EncodeToMemory ''CERTIFICATE'' raw"
    by (auto simp: parseCaCert_Inr)
  have "case x509_ParseCertificate L block of None \<Rightarrow> raw = block
     | Some _ \<Rightarrow> \<exists>certs. pkcs7_Parse L block = Inr certs \<and> find (\<lambda>c. c \<noteq> []) certs = Some raw"
    using raw by (auto simp: tryParseX509_def split: option.splits sum.splits if_splits)
  with d ca show ?thesis by (auto simp: read_pem_EncodeToMemory)
qed

theorem parseCaCert_is_readable_witness:
  "\<exists>raw. read_pem ''CERTIFICATE'' (EncodeToMemory ''CERTIFICATE'' ''ca'') = Some raw \<and>
     find (\<lambda>c. c \<noteq> []) ['''', ''ca''] = Some raw"
proof -
  have "parseCaCert sample_lib ''p7'' = Inr (EncodeToMemory ''CERTIFICATE'' ''ca'')"
    by (simp add: parseCaCert_def tryParseX509_def sample_lib_def)
  from parseCaCert_is_readable [OF this] show ?thesis by (auto simp: sample_lib_def)
qed

section \<open>Intervals\<close>

text \<open>
  C35. The intervals of an issuer: an empty or malformed text gives the default of six
  hours (one hour for retries), and no text without a minus sign gives a negative interval.
\<close>

theorem getInterval_defaults:
  "getInterval L '''' defaultStatusCheckInterval = 6 * 60 * 60 * 1000000000 \<and>
   getInterval L '''' defaultRetryInterval = 60 * 60 * 1000000000 \<and>
   (ParseDuration L s = None \<longrightarrow> getInterval L s def = getInterval L '''' def) \<and>
   (ParseDuration L s = Some d \<longrightarrow> s \<noteq> '''' \<longrightarrow> getInterval L s def = d) \<and>
   (hd (s @ ''.'') \<noteq> CHR ''-'' \<longrightarrow> hd (def @ ''.'') \<noteq> CHR ''-'' \<longrightarrow> 0 \<le> sint (getInterval L s def))"
proof -
  have "0 \<le> sint (getInterval L s def)"
    if "hd (s @ ''.'') \<noteq> CHR ''-''" "hd (def @ ''.'') \<noteq> CHR ''-''"
  proof -
    have pos: "0 \<le> sint d'" if "ParseDuration L t = Some d'" "hd (t @ ''.'') \<noteq> CHR ''-''" for t d'
      using ParseDuration_nonneg [OF that(1)] that(2) by (cases t) auto
    show ?thesis
      using that pos [of s] pos [of def]
      by (auto simp: getInterval_def Let_def split: option.split)
  qed
  moreover have "getInterval L '''' defaultStatusCheckInterval = 6 * 60 * 60 * 1000000000"
      "getInterval L '''' defaultRetryInterval = 60 * 60 * 1000000000"
    by (simp_all add: getInterval_def defaultStatusCheckInterval_def defaultRetryInterval_def
        ParseDuration_6h ParseDuration_1h)
  ultimately show ?thesis by (simp add: getInterval_def Let_def)
qed

theorem getInterval_defaults_witness:
  "getInterval sample_lib ''1h'' ''6h'' = 3600000000000 \<and> 0 \<le> sint (getInterval sample_lib ''1h'' ''6h'')"
  using getInterval_defaults [of sample_lib "''1h''" "''6h''" 3600000000000]
  by (simp add: ParseDuration_1h)

section \<open>The CA bundle\<close>

text \<open>
  The CA bundle of a reference: the keys are the list, or the single key when there is
  no list, or \<open>ca.crt\<close> when there is neither; when all of them are present, the bundle is
  the concatenation of their values in the listed order; otherwise the error names the
  first one that is missing.
\<close>

theorem ca_bundle_is_the_concatenation:
  "bundle_keys ref =
     (if cab_Keys ref \<noteq> [] then cab_Keys ref
      else if cab_Key ref \<noteq> '''' then [cab_Key ref] else [''ca.crt'']) \<and>
   (case find (\<lambda>k. data k = None) keys of
      Some k \<Rightarrow> collect_keys data kind name None keys = Inl (Err (k @ '' not set in '' @ kind @ '' '' @ name))
    | None \<Rightarrow> \<exists>b. collect_keys data kind name None keys = Inr b \<and>
        slice_bytes b = concat (map (the \<circ> data) keys))"
proof (cases "find (\<lambda>k. data k = None) keys")
  case None
  from collect_keys_Inr [OF this, of kind name None] None show ?thesis
    by (auto simp: bundle_keys_def Let_def)
next
  case (Some k)
  from collect_keys_Inl [OF this, of kind name None] Some show ?thesis
    by (auto simp: bundle_keys_def Let_def)
qed

section \<open>Two kinds of issuer\<close>

fun cluster_spec :: "AdcsIssuerSpec \<Rightarrow> ClusterAdcsIssuerSpec" where
  "cluster_spec sp =
     \<lparr>cai_URL = ai_URL sp, cai_CredentialsRef = ai_CredentialsRef sp, cai_CABundle = ai_CABundle sp,
      cai_CABundleRef = ai_CABundleRef sp, cai_StatusCheckInterval = ai_StatusCheckInterval sp,
      cai_RetryInterval = ai_RetryInterval sp, cai_TemplateName = ai_TemplateName sp\<rparr>"

lemma getUserPassword_alike: "alike (getUserPassword n ns) (getUserPassword n ns')"
  unfolding getUserPassword_def by (intro alike_bind alike_calls alike_refl)

lemma load_certs_alike: "alike (load_certs L b ref ns) (load_certs L b ref ns')"
  unfolding load_certs_def getCaBundle_def Let_def
  by (auto intro!: alike_bind alike_calls)

lemma feed_GetAI: "feed (AGetAI x # xs) (bind (GetAI k) f) = feed xs (f x)"
  by (simp add: call_defs feed_Call)

lemma feed_GetCAI: "feed (AGetCAI x # xs) (bind (GetCAI k) f) = feed xs (f x)"
  by (simp add: call_defs feed_Call)

text \<open>
  C34. A ClusterAdcsIssuer is an AdcsIssuer in another place: two objects with the same
  fields, and the same answers for the credentials, the CA bundle and the environment,
  give the same issuer or the same error; the places differ only in where the objects are
  looked up.
\<close>

theorem cluster_issuer_equals_namespaced_issuer:
  assumes "cai_Spec cai = cluster_spec (ai_Spec ai)"
  shows "feed (AGetCAI (Inr cai) # xs) (getClusterAdcsIssuer L f key') =
    feed (AGetAI (Inr ai) # xs) (getAdcsIssuer L f key)"
proof -
  let ?rest = "\<lambda>ns r. case r of
      Inl pwError \<Rightarrow> Ret (Inl pwError)
    | Inr (username, password, realm) \<Rightarrow>
        bind (load_certs L (ai_CABundle (ai_Spec ai)) (ai_CABundleRef (ai_Spec ai)) ns) (\<lambda>certs.
          if slice_len certs = 0 then Ret (Inl (Err ''CA Bundle required''))
          else
            (let caCertPool = AppendCertsFromPEM L (slice_bytes certs) in
             if caCertPool = [] then Ret (Inl (Err ''error loading ADCS CA bundle''))
             else
               bind (new_certsrv L (ai_URL (ai_Spec ai)) username password realm caCertPool)
                 (\<lambda>r. case r of
                    Inl adcsErr \<Rightarrow> Ret (Inl adcsErr)
                  | Inr srv \<Rightarrow> Ret (Inr
                      \<lparr>certServ = srv,
                       RetryInterval = getInterval L (ai_RetryInterval (ai_Spec ai)) defaultRetryInterval,
                       StatusCheckInterval =
                         getInterval L (ai_StatusCheckInterval (ai_Spec ai)) defaultStatusCheckInterval,
                       iss_AdcsTemplateName =
                         (if ai_TemplateName (ai_Spec ai) \<noteq> '''' then ai_TemplateName (ai_Spec ai)
                          else fac_AdcsTemplateName f)\<rparr>))))"
  let ?user = "\<lambda>ns. getUserPassword (lor_Name (ai_CredentialsRef (ai_Spec ai))) ns"
  have "alike (bind (?user ns) (?rest ns)) (bind (?user ns') (?rest ns'))" for ns ns'
    by (intro alike_bind getUserPassword_alike)
       (auto intro!: alike_bind load_certs_alike split: sum.split)
  then have "feed xs (bind (?user (ClusterResourceNamespace f)) (?rest (ClusterResourceNamespace f))) =
      feed xs (bind (?user (meta_Namespace (ai_meta ai))) (?rest (meta_Namespace (ai_meta ai))))"
    unfolding alike_def by blast
  then show ?thesis
    unfolding getClusterAdcsIssuer_def getAdcsIssuer_def feed_GetAI feed_GetCAI sum.case assms
      cluster_spec.simps ClusterAdcsIssuerSpec.select_convs Let_def .
qed

definition sample_cluster_issuer :: ClusterAdcsIssuer where
  "sample_cluster_issuer =
     \<lparr>cai_meta = sample_meta\<lparr>meta_Namespace := ''''\<rparr>, cai_Spec = cluster_spec (ai_Spec sample_issuer)\<rparr>"

definition sample_factory :: IssuerFactory where
  "sample_factory = \<lparr>ClusterResourceNamespace = ''kube-system'', fac_AdcsTemplateName = ''t''\<rparr>"

theorem cluster_issuer_equals_namespaced_issuer_witness:
  "feed [AGetCAI (Inr sample_cluster_issuer), AGetSecret (Inl (NotFound ''cred''))]
     (getClusterAdcsIssuer sample_lib sample_factory sample_key) =
   Some (Returned (Inl (NotFound ''cred'')))"
proof -
  have "feed [AGetAI (Inr sample_issuer), AGetSecret (Inl (NotFound ''cred''))]
     (getAdcsIssuer sample_lib sample_factory sample_key) = Some (Returned (Inl (NotFound ''cred'')))"
    by (simp add: getAdcsIssuer_def feed_GetAI getUserPassword_def Let_def bind_assoc call_defs
        feed_Call)
  moreover have "cai_Spec sample_cluster_issuer = cluster_spec (ai_Spec sample_issuer)"
    by (simp add: sample_cluster_issuer_def)
  ultimately show ?thesis
    using cluster_issuer_equals_namespaced_issuer by metis
qed

section \<open>Confinement\<close>

definition in_namespace :: "string \<Rightarrow> call \<Rightarrow> bool" where
  "in_namespace ns c = (\<forall>k. c = CGetSecret k \<or> c = CGetConfigMap k \<longrightarrow> key_Namespace k = ns)"

lemma in_namespace_simps [simp]:
  "in_namespace ns (CGetSecret k) \<longleftrightarrow> key_Namespace k = ns"
  "in_namespace ns (CGetConfigMap k) \<longleftrightarrow> key_Namespace k = ns"
  "in_namespace ns (CGetenv v)" "in_namespace ns (CKrbLoadConfig p)"
  "in_namespace ns (CKrbLogin u r w)"
  by (auto simp: in_namespace_def)

lemma build_in_namespace:
  "only_calls (in_namespace ns) (getUserPassword n ns)"
  "only_calls (in_namespace ns) (load_certs L b ref ns)"
  "only_calls (in_namespace ns) (new_certsrv L url u p realm pool)"
  by (auto simp: getUserPassword_def load_certs_def getCaBundle_def new_certsrv_def
      NewKerberosCertsrv_def NewNtlmCertsrv_def krb_finish_def bind_assoc Let_def
      intro!: only_calls_bind split: sum.split option.split)

lemma after_read:
  "run ((CGetAI k', AGetAI x) # tr) (bind (GetAI k) f) = Some z \<Longrightarrow> only_calls C (f x) \<Longrightarrow>
     e \<in> set tr \<Longrightarrow> C (fst e)"
  "run ((CGetCAI k', AGetCAI y) # tr) (bind (GetCAI k) g) = Some z \<Longrightarrow> only_calls C (g y) \<Longrightarrow>
     e \<in> set tr \<Longrightarrow> C (fst e)"
  by (auto simp: run_iffs dest: only_calls_run)

lemma build_issuer_in_namespace:
  "run ((CGetAI k', AGetAI (Inr ai)) # tr) (getAdcsIssuer L f key) = Some z \<Longrightarrow> e \<in> set tr \<Longrightarrow>
     in_namespace (meta_Namespace (ai_meta ai)) (fst e)"
  "run ((CGetCAI k', AGetCAI (Inr cai)) # tr) (getClusterAdcsIssuer L f key) = Some z \<Longrightarrow> e \<in> set tr \<Longrightarrow>
     in_namespace (ClusterResourceNamespace f) (fst e)"
  unfolding getAdcsIssuer_def getClusterAdcsIssuer_def
  by (erule after_read,
      auto simp: Let_def intro!: only_calls_bind build_in_namespace split: sum.split)+

text \<open>
  C33. An issuer sees only its own secrets: an AdcsIssuer reads Secrets and ConfigMaps only
  in the namespace it lives in, a ClusterAdcsIssuer only in the configured namespace for
  cluster resources.
\<close>

theorem issuers_read_their_own_namespace:
  assumes "run ((CGetAI k1, AGetAI (Inr ai)) # tr1) (getAdcsIssuer L f key1) = Some z1"
    and "run ((CGetCAI k2, AGetCAI (Inr cai)) # tr2) (getClusterAdcsIssuer L f key2) = Some z2"
  shows "((CGetSecret k, a) \<in> set tr1 \<longrightarrow> key_Namespace k = meta_Namespace (ai_meta ai)) \<and>
    ((CGetConfigMap k, a) \<in> set tr1 \<longrightarrow> key_Namespace k = meta_Namespace (ai_meta ai)) \<and>
    ((CGetSecret k, a) \<in> set tr2 \<longrightarrow> key_Namespace k = ClusterResourceNamespace f) \<and>
    ((CGetConfigMap k, a) \<in> set tr2 \<longrightarrow> key_Namespace k = ClusterResourceNamespace f)"
  using build_issuer_in_namespace(1) [OF assms(1)] build_issuer_in_namespace(2) [OF assms(2)]
  by fastforce

definition own_trace :: "string \<Rightarrow> trace" where
  "own_trace ns = [(CGetSecret \<lparr>key_Namespace = ns, key_Name = ''cred''\<rparr>, AGetSecret (Inl (NotFound ''cred'')))]"

lemma own_runs:
  "run ((CGetAI sample_key, AGetAI (Inr sample_issuer)) # own_trace ''ns'')
     (getAdcsIssuer sample_lib sample_factory sample_key) = Some (Returned (Inl (NotFound ''cred'')))"
  "run ((CGetCAI (sample_key\<lparr>key_Namespace := ''''\<rparr>), AGetCAI (Inr sample_cluster_issuer)) #
       own_trace ''kube-system'')
     (getClusterAdcsIssuer sample_lib sample_factory sample_key) =
     Some (Returned (Inl (NotFound ''cred'')))"
  by (simp_all add: replay getAdcsIssuer_def getClusterAdcsIssuer_def getUserPassword_def Let_def
      own_trace_def sample_cluster_issuer_def sample_factory_def sample_issuer_def sample_meta_def
      cong: bind_step)

theorem issuers_read_their_own_namespace_witness:
  "(CGetSecret \<lparr>key_Namespace = ''kube-system'', key_Name = ''cred''\<rparr>,
     AGetSecret (Inl (NotFound ''cred''))) \<in> set (own_trace ''kube-system'') \<and>
   ClusterResourceNamespace sample_factory = ''kube-system''"
  using issuers_read_their_own_namespace [OF own_runs,
      of "\<lparr>key_Namespace = ''kube-system'', key_Name = ''cred''\<rparr>" "AGetSecret (Inl (NotFound ''cred''))"]
  by (simp add: own_trace_def)

section \<open>Credentials and connection\<close>

text \<open>
  The credentials an issuer works with are the fields of its Secret, all of them
  present: the user name, the password, and with Kerberos the realm too.
\<close>

theorem credentials_come_from_the_secret:
  assumes "run tr (getUserPassword name ns) = Some (Returned (Inr (username, password, realm)))"
  shows "\<exists>secret mode.
    tr = [(CGetSecret \<lparr>key_Namespace = ns, key_Name = name\<rparr>, AGetSecret (Inr secret)),
          (CGetenv ''ADCS_AUTH_MODE'', AString mode)] \<and>
    secret_Data secret ''username'' = Some username \<and>
    secret_Data secret ''password'' = Some password \<and>
    (mode = ''kerberos'' \<longrightarrow> secret_Data secret ''realm'' = Some realm) \<and>
    (secret_Data secret ''realm'' = None \<longrightarrow> realm = '''')"
proof -
  have "runs_sat (getUserPassword name ns) (\<lambda>tr z. z = Returned (Inr (username, password, realm)) \<longrightarrow>
      (\<exists>secret mode.
        tr = [(CGetSecret \<lparr>key_Namespace = ns, key_Name = name\<rparr>, AGetSecret (Inr secret)),
              (CGetenv ''ADCS_AUTH_MODE'', AString mode)] \<and>
        secret_Data secret ''username'' = Some username \<and>
        secret_Data secret ''password'' = Some password \<and>
        (mode = ''kerberos'' \<longrightarrow> secret_Data secret ''realm'' = Some realm) \<and>
        (secret_Data secret ''realm'' = None \<longrightarrow> realm = '''')))"
    by (auto simp: getUserPassword_def runs split: sum.split option.split)
  from runs_satD [OF this assms] show ?thesis by blast
qed

theorem credentials_come_from_the_secret_witness:
  "secret_Data sample_secret ''username'' = Some ''u''"
proof -
  have "run [(CGetSecret \<lparr>key_Namespace = ''ns'', key_Name = ''cred''\<rparr>, AGetSecret (Inr sample_secret)),
       (CGetenv ''ADCS_AUTH_MODE'', AString ''ntlm'')] (getUserPassword ''cred'' ''ns'') =
     Some (Returned (Inr (''u'', ''p'', '''')))"
    by (simp add: replay getUserPassword_def sample_secret_def cong: bind_step)
  from credentials_come_from_the_secret [OF this] show ?thesis by auto
qed

end
