(* ===== verification/Issuer_Controllers.thy ===== *)
theory Issuer_Controllers
  imports AdcsRequest_Controller
begin

text \<open>
  The controllers of the two kinds of issuer (\<open>src/controllers/adcsissuer_controller.go\<close>
  and \<open>src/controllers/clusteradcsissuer_controller.go\<close>), which only read their object, and
  the contract that all four reconcilers keep towards the controller runtime: the object is
  read first; an object that cannot be read ends the reconciliation, silently when it is
  gone; and a result that asks for a requeue never comes with an error (the runtime would
  ignore the requeue).
\<close>

section \<open>The two reconcilers\<close>

definition AdcsIssuer_Reconcile :: "ObjectKey \<Rightarrow> reconcile_result prog" where
  "AdcsIssuer_Reconcile key =
     bind (GetAI key) (\<lambda>x. case x of
       Inl err \<Rightarrow> Ret (zero_result, IgnoreNotFound err)
     | Inr issuer \<Rightarrow> Ret (zero_result, None))"

definition ClusterAdcsIssuer_Reconcile :: "ObjectKey \<Rightarrow> reconcile_result prog" where
  "ClusterAdcsIssuer_Reconcile key =
     bind (GetCAI key) (\<lambda>x. case x of
       Inl err \<Rightarrow> Ret (zero_result, IgnoreNotFound err)
     | Inr issuer \<Rightarrow> Ret (zero_result, None))"

section \<open>The contract of a reconciler\<close>

primrec read_error :: "answer \<Rightarrow> gerr option" where
  "read_error (AHttp r) = None"
| "read_error ADone = None"
| "read_error (AErr e) = None"
| "read_error (AString s) = None"
| "read_error (AGetAR r) = (case r of Inl e \<Rightarrow> Some e | Inr _ \<Rightarrow> None)"
| "read_error (AGetCR r) = (case r of Inl e \<Rightarrow> Some e | Inr _ \<Rightarrow> None)"
| "read_error (AGetAI r) = (case r of Inl e \<Rightarrow> Some e | Inr _ \<Rightarrow> None)"
| "read_error (AGetCAI r) = (case r of Inl e \<Rightarrow> Some e | Inr _ \<Rightarrow> None)"
| "read_error (AGetSecret r) = (case r of Inl e \<Rightarrow> Some e | Inr _ \<Rightarrow> None)"
| "read_error (AGetConfigMap r) = (case r of Inl e \<Rightarrow> Some e | Inr _ \<Rightarrow> None)"
| "read_error (ATime t) = None"
| "read_error (APool r) = None"

locale reconciler =
  fixes rec :: "ObjectKey \<Rightarrow> reconcile_result prog"
    and get :: "ObjectKey \<Rightarrow> call"
  assumes reads_first: "run tr (rec key) = Some z \<Longrightarrow> \<exists>a tr'. tr = (get key, a) # tr'"
    and unread_ends: "run ((get key, a) # tr) (rec key) = Some z \<Longrightarrow> read_error a = Some e \<Longrightarrow>
      tr = [] \<and> z = Returned (zero_result, IgnoreNotFound e)"
    and error_without_requeue:
      "run tr (rec key) = Some (Returned (res, Some e)) \<Longrightarrow> res = zero_result"
begin

text \<open>An object that is gone is forgotten; every other read error is reported.\<close>

lemma gone_is_forgotten:
  assumes "run ((get key, a) # tr) (rec key) = Some z" and "read_error a = Some e"
  shows "z = Returned (zero_result, if IsNotFound e then None else Some e)"
  using unread_ends [OF assms] by simp

lemma requeue_without_error:
  assumes "run tr (rec key) = Some (Returned (res, err))" and "Requeue res"
  shows "err = None"
proof (cases err)
  case (Some e)
  with error_without_requeue assms show ?thesis by (fastforce simp: zero_result_def)
qed

end

section \<open>All four keep it\<close>

lemma reconcile_read_simps:
  "run tr (AdcsIssuer_Reconcile key) = Some z \<longleftrightarrow>
     (\<exists>x. tr = [(CGetAI key, AGetAI x)] \<and>
        z = Returned (zero_result, case x of Inl e \<Rightarrow> IgnoreNotFound e | Inr _ \<Rightarrow> None))"
  "run tr (ClusterAdcsIssuer_Reconcile key) = Some z \<longleftrightarrow>
     (\<exists>x. tr = [(CGetCAI key, AGetCAI x)] \<and>
        z = Returned (zero_result, case x of Inl e \<Rightarrow> IgnoreNotFound e | Inr _ \<Rightarrow> None))"
  unfolding AdcsIssuer_Reconcile_def ClusterAdcsIssuer_Reconcile_def run_GetAI run_GetCAI
  by (auto split: sum.splits)

interpretation ai: reconciler AdcsIssuer_Reconcile CGetAI
  by unfold_locales (auto simp: reconcile_read_simps split_sum_ex)

interpretation cai: reconciler ClusterAdcsIssuer_Reconcile CGetCAI
  by unfold_locales (auto simp: reconcile_read_simps split_sum_ex)

lemma CR_error_zero:
  assumes "run tr (CertificateRequest_Reconcile L r key) = Some (Returned (res, Some e))"
  shows "res = zero_result"
proof -
  have c: "res = zero_result" if "run tr' (create_and_mark L cr) = Some (Returned (res, Some e))" for tr' cr
    using that by (auto simp: run_create_and_mark)
  have d: "res = zero_result" if "run tr' (mark_denied L cr) = Some (Returned (res, Some e))" for tr' cr
    using that by (auto simp: run_mark_denied split: if_splits)
  from assms show ?thesis
    by (cases rule: CR_reconcile_cases) (auto dest: c d)
qed

interpretation crr: reconciler "CertificateRequest_Reconcile L r" CGetCR for L r
proof unfold_locales
  show "\<exists>a tr'. tr = (CGetCR key, a) # tr'"
    if "run tr (CertificateRequest_Reconcile L r key) = Some z" for tr key z
    using that by (cases rule: CR_reconcile_cases) auto
  show "tr = [] \<and> z = Returned (zero_result, IgnoreNotFound e)"
    if "run ((CGetCR key, a) # tr) (CertificateRequest_Reconcile L r key) = Some z"
      "read_error a = Some e" for key a tr z e
    using that(1) by (cases rule: CR_reconcile_cases) (use that(2) in auto)
  show "res = zero_result"
    if "run tr (CertificateRequest_Reconcile L r key) = Some (Returned (res, Some e))" for tr key res e
    using that by (rule CR_error_zero)
qed

lemma publish_no_error:
  assumes "run tr (publish L issuer ar cert ca cr) = Some (Returned (res, Some e))"
  shows False
  using assms by (cases rule: publish_cases) (auto simp: retry_later_def split: if_splits)

interpretation arr: reconciler "AdcsRequest_Reconcile L r" CGetAR for L r
proof unfold_locales
  show "\<exists>a tr'. tr = (CGetAR key, a) # tr'"
    if "run tr (AdcsRequest_Reconcile L r key) = Some z" for tr key z
    using that by (cases rule: AR_reconcile_cases) (auto simp: published_def)
  show "tr = [] \<and> z = Returned (zero_result, IgnoreNotFound e)"
    if "run ((CGetAR key, a) # tr) (AdcsRequest_Reconcile L r key) = Some z"
      "read_error a = Some e" for key a tr z e
    using that(1) by (cases rule: AR_reconcile_cases) (use that(2) in \<open>auto simp: published_def\<close>)
  show "res = zero_result"
    if "run tr (AdcsRequest_Reconcile L r key) = Some (Returned (res, Some e))" for tr key res e
    using that
    by (cases rule: AR_reconcile_cases)
       (auto simp: retry_later_def published_def dest: publish_no_error)
qed

end
