(* ===== verification/Budget.thy ===== *)
theory Budget
  imports Issuer_Controllers
begin

text \<open>
  How much a reconciliation does before it comes to an end. Every call has a cost;
  \<open>at_most w n p\<close> says that no run of \<open>p\<close> costs more than \<open>n\<close>, whatever the answers. Two costs are
  used: every call counts, and only exchanges with the ADCS server count. The locale
  \<open>frugal_certsrv\<close> extends the contract of the clients by what their methods cost; both clients
  interpret it for both costs, and the cost of \<open>Issue\<close> and of the reconcilers follows.
\<close>

section \<open>Costs\<close>

primrec at_most :: "(call \<Rightarrow> nat) \<Rightarrow> nat \<Rightarrow> 'a prog \<Rightarrow> bool" where
  "at_most w n (Ret a) = True"
| "at_most w n (Panic s) = True"
| "at_most w n (Call c k) = (w c \<le> n \<and> (\<forall>r. answers c r \<longrightarrow> at_most w (n - w c) (k r)))"

definition cost :: "(call \<Rightarrow> nat) \<Rightarrow> trace \<Rightarrow> nat" where
  "cost w tr = sum_list (map (w \<circ> fst) tr)"

lemma cost_simps [simp]: "cost w [] = 0" "cost w (e # tr) = w (fst e) + cost w tr"
  by (simp_all add: cost_def)

fun exchange :: "call \<Rightarrow> nat" where
  "exchange (CHttp cl rq) = 1"
| "exchange _ = 0"

definition any_call :: "call \<Rightarrow> nat" where
  "any_call c = 1"

lemma any_call [simp]: "any_call c = Suc 0"
  by (simp add: any_call_def)

lemma cost_any_call: "cost any_call tr = length tr"
  by (induction tr) simp_all

lemma at_most_run: "at_most w n p \<Longrightarrow> run tr p = Some z \<Longrightarrow> cost w tr \<le> n"
proof (induction p arbitrary: n tr)
  case (Call c k)
  then obtain r tr' where "tr = (c, r) # tr'" "answers c r" "run tr' (k r) = Some z"
    by (auto simp: run_Call_iff)
  with Call.IH [of "k r" "n - w c" tr'] Call.prems(1) show ?case by auto
qed simp_all

lemma at_most_mono: "at_most w m p \<Longrightarrow> m \<le> n \<Longrightarrow> at_most w n p"
  by (induction p arbitrary: m n) (auto intro: diff_le_mono)

lemma at_most_bind:
  "at_most w m p \<Longrightarrow> (\<And>a. at_most w n (f a)) \<Longrightarrow> m + n \<le> N \<Longrightarrow> at_most w N (bind p f)"
proof (induction p arbitrary: m N)
  case (Ret a)
  then show ?case using at_most_mono [of w n "f a" N] by simp
next
  case (Call c k)
  have "at_most w (N - w c) (bind (k r) f)" if "answers c r" for r
    using Call.IH [of "k r" "m - w c" "N - w c"] Call.prems that by auto
  with Call.prems show ?case by auto
qed simp

lemma at_most_then:
  "at_most w m p \<Longrightarrow> m \<le> n \<Longrightarrow> (\<And>a. at_most w (n - m) (f a)) \<Longrightarrow> at_most w n (bind p f)"
  by (rule at_most_bind) auto

lemma at_most_defer_close:
  "at_most w m p \<Longrightarrow> m + w (CCloseBody res) \<le> n \<Longrightarrow> at_most w n (defer_close res p)"
proof (induction p arbitrary: m n)
  case (Call c k)
  have "at_most w (n - w c) (defer_close res (k r))" if "answers c r" for r
    using Call.IH [of "k r" "m - w c" "n - w c"] Call.prems that by auto
  with Call.prems show ?case by auto
qed simp_all

lemma at_most_closing:
  "w (CCloseBody res) \<le> n \<Longrightarrow> at_most w (n - w (CCloseBody res)) p \<Longrightarrow> at_most w n (defer_close res p)"
  by (rule at_most_defer_close) auto

lemma at_most_NewRequest:
  "(\<And>rq. at_most w n (f rq)) \<Longrightarrow> at_most w n (bind (ignore_request_error r) f)"
  by (cases r) simp_all

lemma at_most_err_Error: "(\<And>t. at_most w n (f t)) \<Longrightarrow> at_most w n (bind (err_Error e) f)"
  by (cases e) (simp_all add: err_Error_def)

text \<open>The wrappers.\<close>

lemma at_most_wrappers [simp]:
  "at_most w n (bind (http_Do cl rq) f1) \<longleftrightarrow> w (CHttp cl rq) \<le> n \<and> (\<forall>x. at_most w (n - w (CHttp cl rq)) (f1 x))"
  "at_most w n (bind (Getenv v) f2) \<longleftrightarrow> w (CGetenv v) \<le> n \<and> (\<forall>x. at_most w (n - w (CGetenv v)) (f2 x))"
  "at_most w n (bind (GetAR k3) f3) \<longleftrightarrow> w (CGetAR k3) \<le> n \<and> (\<forall>x. at_most w (n - w (CGetAR k3)) (f3 x))"
  "at_most w n (bind (GetCR k4) f4) \<longleftrightarrow> w (CGetCR k4) \<le> n \<and> (\<forall>x. at_most w (n - w (CGetCR k4)) (f4 x))"
  "at_most w n (bind (GetAI k5) f5) \<longleftrightarrow> w (CGetAI k5) \<le> n \<and> (\<forall>x. at_most w (n - w (CGetAI k5)) (f5 x))"
  "at_most w n (bind (GetCAI k6) f6) \<longleftrightarrow> w (CGetCAI k6) \<le> n \<and> (\<forall>x. at_most w (n - w (CGetCAI k6)) (f6 x))"
  "at_most w n (bind (GetSecret k7) f7) \<longleftrightarrow> w (CGetSecret k7) \<le> n \<and> (\<forall>x. at_most w (n - w (CGetSecret k7)) (f7 x))"
  "at_most w n (bind (GetConfigMap k8) f8) \<longleftrightarrow>
     w (CGetConfigMap k8) \<le> n \<and> (\<forall>x. at_most w (n - w (CGetConfigMap k8)) (f8 x))"
  "at_most w n (bind (CreateAR ar) f9) \<longleftrightarrow> w (CCreateAR ar) \<le> n \<and> (\<forall>x. at_most w (n - w (CCreateAR ar)) (f9 x))"
  "at_most w n (bind (DeleteAR ar) f10) \<longleftrightarrow> w (CDeleteAR ar) \<le> n \<and> (\<forall>x. at_most w (n - w (CDeleteAR ar)) (f10 x))"
  "at_most w n (bind (UpdateARStatus ar) f11) \<longleftrightarrow>
     w (CUpdateARStatus ar) \<le> n \<and> (\<forall>x. at_most w (n - w (CUpdateARStatus ar)) (f11 x))"
  "at_most w n (bind (UpdateCRStatus cr) f12) \<longleftrightarrow>
     w (CUpdateCRStatus cr) \<le> n \<and> (\<forall>x. at_most w (n - w (CUpdateCRStatus cr)) (f12 x))"
  "at_most w n (bind (KrbLoadConfig p) f13) \<longleftrightarrow>
     w (CKrbLoadConfig p) \<le> n \<and> (\<forall>x. at_most w (n - w (CKrbLoadConfig p)) (f13 x))"
  "at_most w n (bind (KrbLogin u r q) f14) \<longleftrightarrow> w (CKrbLogin u r q) \<le> n \<and> (\<forall>x. at_most w (n - w (CKrbLogin u r q)) (f14 x))"
  "at_most w n (bind Now f15) \<longleftrightarrow> w CNow \<le> n \<and> (\<forall>x. at_most w (n - w CNow) (f15 x))"
  by (simp_all add: call_defs)

lemma at_most_update [simp]:
  "at_most w n (UpdateARStatus ar) \<longleftrightarrow> w (CUpdateARStatus ar) \<le> n"
  "at_most w n (UpdateCRStatus cr) \<longleftrightarrow> w (CUpdateCRStatus cr) \<le> n"
  by (auto simp: call_defs is_AErr_def)

lemma at_most_event [simp]:
  "at_most w n (bind (Recorder_Event obj et rs msg) f) \<longleftrightarrow>
     w (CEvent obj et rs msg) \<le> n \<and> at_most w (n - w (CEvent obj et rs msg)) (f ())"
  by (auto simp: call_defs is_ADone_def)

section \<open>The clients\<close>

text \<open>Small programs that make no call that costs, or one, by their definitions.\<close>

lemma existing_response_cost: "at_most w n (ntlm_existing_response rid res)"
  by (auto simp: ntlm_existing_response_def Let_def intro!: at_most_err_Error split: option.split)

lemma ntlm_existing_cost:
  "at_most w n (ntlm_GetExistingCertificate L s rid)"
  if "w0 + w1 \<le> n" "\<And>cl rq. w (CHttp cl rq) = w0" "\<And>res. w (CCloseBody res) = w1"
  using that existing_response_cost
  by (auto simp: ntlm_GetExistingCertificate_def Let_def
      intro!: at_most_NewRequest at_most_closing split: sum.split)

lemma krb_existing_cost:
  "at_most w n (krb_GetExistingCertificate L s rid)"
  if "w0 + w1 \<le> n" "\<And>cl rq. w (CHttp cl rq) = w0" "\<And>res. w (CCloseBody res) = w1"
  using that existing_response_cost
  by (auto simp: krb_GetExistingCertificate_def krb_existing_response_eq Let_def
      intro!: at_most_NewRequest at_most_closing split: sum.split)

lemma ntlm_request_cost:
  "at_most w n (ntlm_RequestCertificate L s csr t)"
  if "2 * w0 + w1 \<le> n" "\<And>cl rq. w (CHttp cl rq) = w0" "\<And>res. w (CCloseBody res) = w1"
  using that ntlm_existing_cost [of w0 w1 _ w, OF _ that(2,3)]
  by (auto simp: ntlm_RequestCertificate_def ntlm_request_response_def Let_def split: sum.split option.split)

lemma krb_request_cost:
  "at_most w n (krb_RequestCertificate L s csr t)"
  if "2 * w0 + 2 * w1 \<le> n" "\<And>cl rq. w (CHttp cl rq) = w0" "\<And>res. w (CCloseBody res) = w1"
proof -
  have "at_most w n (krb_request_response L s res)" if "w0 + w1 \<le> n" for n res
    using krb_existing_cost [OF that \<open>\<And>cl rq. w (CHttp cl rq) = w0\<close> \<open>\<And>res. w (CCloseBody res) = w1\<close>]
    by (auto simp: krb_request_response_def Let_def split: option.split)
  then show ?thesis
    using that by (auto simp: krb_RequestCertificate_def Let_def intro!: at_most_closing split: sum.split)
qed

lemma ca_response_cost:
  "at_most w n (ntlm_ca_response L ct res)" "at_most w n (krb_ca_response ct res)"
  by (auto simp: ntlm_ca_response_def krb_ca_response_def Let_def intro!: at_most_err_Error split: option.split)

lemma ntlm_chain_cost:
  "at_most w n (ntlm_GetCaCertificateChain L s)"
  if "2 * w0 + 2 * w1 \<le> n" "\<And>cl rq. w (CHttp cl rq) = w0" "\<And>res. w (CCloseBody res) = w1"
  using that ca_response_cost(1)
  by (auto simp: ntlm_GetCaCertificateChain_def ntlm_obtainCaCertificate_def Let_def
      intro!: at_most_closing split: sum.split option.split)

lemma krb_chain_cost:
  "at_most w n (krb_GetCaCertificateChain L s)"
  if "2 * w0 + 2 * w1 \<le> n" "\<And>cl rq. w (CHttp cl rq) = w0" "\<And>res. w (CCloseBody res) = w1"
  using that ca_response_cost(2)
  by (auto simp: krb_GetCaCertificateChain_def krb_obtainCaCertificate_def Let_def
      intro!: at_most_NewRequest at_most_closing split: sum.split option.split; linarith)

locale frugal_certsrv = adcs_certsrv srv for srv +
  fixes w :: "call \<Rightarrow> nat" and per_request :: nat and per_chain :: nat
  assumes existing_cost: "at_most w per_request (GetExistingCertificate srv rid)"
    and request_cost: "at_most w per_request (RequestCertificate srv csr t)"
    and chain_cost: "at_most w per_chain (GetCaCertificateChain srv)"
begin

lemma issue_response_cost:
  assumes "certServ i = srv"
  shows "at_most w per_chain (issue_response L i ar r)"
  using chain_cost
  by (auto simp: issue_response_def issue_chain_def assms Let_def case_prod_beta
      intro!: at_most_bind [where n = 0] split: option.split sum.split)

lemma Issue_cost:
  assumes "certServ i = srv"
  shows "at_most w (per_request + per_chain) (Issue L i ar)"
  using existing_cost request_cost issue_response_cost [OF assms]
  by (auto simp: Issue_def assms intro!: at_most_bind)

end

interpretation ntlm_calls: frugal_certsrv "ntlm_iface L s" any_call 4 4 for L s
  by unfold_locales
     (use ntlm_existing_cost [of 1 1 _ any_call] ntlm_request_cost [of 1 1 _ any_call] ntlm_chain_cost [of 1 1 _ any_call]
       in \<open>auto simp: ntlm_iface_def\<close>)

interpretation krb_calls: frugal_certsrv "krb_iface L s" any_call 4 4 for L s
  by unfold_locales
     (use krb_existing_cost [of 1 1 _ any_call] krb_request_cost [of 1 1 _ any_call] krb_chain_cost [of 1 1 _ any_call]
       in \<open>auto simp: krb_iface_def\<close>)

interpretation ntlm_exchanges: frugal_certsrv "ntlm_iface L s" exchange 2 2 for L s
  by unfold_locales
     (use ntlm_existing_cost [of 1 0 _ exchange] ntlm_request_cost [of 1 0 _ exchange] ntlm_chain_cost [of 1 0 _ exchange]
       in \<open>auto simp: ntlm_iface_def\<close>)

interpretation krb_exchanges: frugal_certsrv "krb_iface L s" exchange 2 2 for L s
  by unfold_locales
     (use krb_existing_cost [of 1 0 _ exchange] krb_request_cost [of 1 0 _ exchange] krb_chain_cost [of 1 0 _ exchange]
       in \<open>auto simp: krb_iface_def\<close>)

section \<open>The reconcilers\<close>

lemma getUserPassword_cost:
  "at_most any_call (Suc (Suc n)) (getUserPassword name ns)" "at_most exchange n (getUserPassword name ns)"
  by (auto simp: getUserPassword_def split: sum.split option.split)

lemma load_certs_cost:
  "at_most any_call (Suc n) (load_certs L b ref ns)" "at_most exchange n (load_certs L b ref ns)"
  by (auto simp: load_certs_def getCaBundle_def Let_def bind_assoc split: sum.split)

lemma new_certsrv_cost:
  "at_most any_call (Suc (Suc (Suc n))) (new_certsrv L url u p realm pool)"
  "at_most exchange n (new_certsrv L url u p realm pool)"
  by (auto simp: new_certsrv_def NewKerberosCertsrv_def NewNtlmCertsrv_def krb_finish_def bind_assoc Let_def
      split: option.split)

lemmas part_costs = at_most_then [OF getUserPassword_cost(1) [of 0]] at_most_then [OF getUserPassword_cost(2) [of 0]]
  at_most_then [OF load_certs_cost(1) [of 0]] at_most_then [OF load_certs_cost(2) [of 0]]
  at_most_then [OF new_certsrv_cost(1) [of 0]] at_most_then [OF new_certsrv_cost(2) [of 0]]

lemma issuer_cost:
  "at_most any_call 7 (getAdcsIssuer L f key)" "at_most exchange 0 (getAdcsIssuer L f key)"
  "at_most any_call 7 (getClusterAdcsIssuer L f key)" "at_most exchange 0 (getClusterAdcsIssuer L f key)"
  by (auto simp: getAdcsIssuer_def getClusterAdcsIssuer_def Let_def intro!: part_costs split: sum.split)

lemma GetIssuer_cost:
  "at_most any_call 7 (GetIssuer L f ref ns)" "at_most exchange 0 (GetIssuer L f ref ns)"
  by (simp_all add: GetIssuer_def Let_def issuer_cost)

text \<open>What an issuer of the factory costs.\<close>

lemma Issue_of_factory_cost:
  assumes "known_certsrv L (certServ issuer)"
  shows "at_most any_call 8 (Issue L issuer ar)" "at_most exchange 4 (Issue L issuer ar)"
  using assms ntlm_calls.Issue_cost krb_calls.Issue_cost ntlm_exchanges.Issue_cost krb_exchanges.Issue_cost
  by (fastforce simp: known_certsrv_def)+

lemma store_status_cost:
  "at_most any_call (Suc (Suc n)) (store_status issuer ar res)" "at_most exchange n (store_status issuer ar res)"
  by (auto simp: store_status_def AR_setStatus_def Let_def bind_assoc split: option.split)

lemma CR_SetStatus_cost:
  "at_most any_call (Suc (Suc (Suc n))) (CR_SetStatus L cr st rs msg args)"
  "at_most exchange n (CR_SetStatus L cr st rs msg args)"
  by (auto simp: CR_SetStatus_def Let_def bind_assoc)

lemma publish_cost:
  "at_most any_call 5 (publish L issuer ar cert ca cr)" "at_most exchange 0 (publish L issuer ar cert ca cr)"
proof -
  have "at_most any_call 5 (report_then_store L issuer ar cr' st rs msg)"
      "at_most exchange 0 (report_then_store L issuer ar cr' st rs msg)" for cr' st rs msg
    using store_status_cost(1) [of 0] store_status_cost(2) [of 0]
    by (auto simp: report_then_store_def numeral_2_eq_2 split: option.split
        intro!: at_most_then [OF CR_SetStatus_cost(1) [of 0]] at_most_then [OF CR_SetStatus_cost(2)])
  moreover have "at_most any_call 5 (store_status issuer ar res)" "at_most exchange 0 (store_status issuer ar res)" for res
    using store_status_cost(1) [of 3] store_status_cost(2) [of 0] by simp_all
  ultimately show "at_most any_call 5 (publish L issuer ar cert ca cr)"
      "at_most exchange 0 (publish L issuer ar cert ca cr)"
    by (simp_all add: publish_def Let_def)
qed

lemma report_issued_cost:
  "at_most any_call 6 (report_issued L key issuer res)" "at_most exchange 0 (report_issued L key issuer res)"
  using publish_cost
  by (auto simp: report_issued_def GetCertificateRequest_def bind_assoc split: prod.split option.split sum.split)

text \<open>
  The whole reconciliation of an AdcsRequest. What \<open>Issue\<close> costs depends on the client that the
  factory returned, so the bound is stated for runs.
\<close>

definition costs_at_most :: "nat \<Rightarrow> nat \<Rightarrow> trace \<Rightarrow> bool" where
  "costs_at_most n m tr = (cost any_call tr \<le> n \<and> cost exchange tr \<le> m)"

lemma costs_append:
  "costs_at_most n1 m1 tr1 \<Longrightarrow> costs_at_most n2 m2 tr2 \<Longrightarrow> costs_at_most (n1 + n2) (m1 + m2) (tr1 @ tr2)"
  by (simp add: costs_at_most_def cost_def)

lemma at_most_costs:
  "at_most any_call n p \<Longrightarrow> at_most exchange m p \<Longrightarrow> run tr p = Some z \<Longrightarrow> costs_at_most n m tr"
  by (simp add: costs_at_most_def at_most_run)

lemma AR_cost:
  assumes "run tr (AdcsRequest_Reconcile L r key) = Some z"
  shows "costs_at_most 22 4 tr"
  using assms
proof (cases rule: AR_reconcile_reads)
  case (unread err)
  then show ?thesis by (simp add: costs_at_most_def)
next
  case (read ar tr')
  from read(2) have "costs_at_most 21 4 tr'"
  proof (cases rule: run_bind_cases)
    case (returned tr1 tr2 y)
    have first: "costs_at_most 7 0 tr1" using at_most_costs [OF GetIssuer_cost returned(2)] .
    have "costs_at_most 14 4 tr2"
    proof (cases y)
      case (Inr issuer)
      with returned(2) have "known_certsrv L (certServ issuer)"
        using returns_sat_run [OF GetIssuer_known] by fastforce
      note issue = Issue_of_factory_cost [OF this, of ar]
      have "at_most any_call 14 (bind (Issue L issuer ar) (report_issued L key issuer))"
          "at_most exchange 4 (bind (Issue L issuer ar) (report_issued L key issuer))"
        using at_most_bind [OF issue(1) report_issued_cost(1)] at_most_bind [OF issue(2) report_issued_cost(2)]
        by simp_all
      then show ?thesis using returned(3) by (intro at_most_costs) (auto simp: Inr)
    qed (use returned(3) in \<open>auto simp: costs_at_most_def\<close>)
    with costs_append [OF first this] returned(1) show ?thesis by simp
  next
    case (panicked s)
    with at_most_costs [OF GetIssuer_cost panicked(1)] show ?thesis by (simp add: costs_at_most_def)
  qed
  then show ?thesis by (simp add: costs_at_most_def read(1))
qed

lemma CR_cost:
  assumes "run tr (CertificateRequest_Reconcile L r key) = Some z"
  shows "costs_at_most 7 0 tr"
  using assms
  by (cases rule: CR_reconcile_cases)
     (auto simp: costs_at_most_def run_iffs status_trace_def Let_def split: if_splits)

end
