(* ===== verification/Cluster.thy ===== *)
theory Cluster
  imports AdcsRequest_Theorems CertificateRequest_Theorems
begin

text \<open>
  Many reconciliations of both controllers running concurrently. A history is the sequence
  of everything that was called and answered, each event with the number of the
  reconciliation it belongs to, in any interleaving; two hypotheses say which histories
  there are. \<open>interleaved\<close>: each reconciliation runs its program, from the start and
  perhaps not to the end, and users do nothing to AdcsRequests but delete them.
  \<open>api_server\<close>: what Kubernetes documents of its API server. A read may fail, may miss
  an object and may be stale, but returns no object that was never stored; a creation succeeds
  only when there is no object of the name, and a status update only when the stored object
  is the version that this reconciliation had read (optimistic concurrency). The answers to all
  other calls are arbitrary, and every call may fail.
\<close>

section \<open>Programs in progress\<close>

primrec after :: "trace \<Rightarrow> 'a prog \<Rightarrow> 'a prog option" where
  "after [] p = Some p"
| "after (e # tr) p = (case p of
       Call c k \<Rightarrow> if fst e = c \<and> answers c (snd e) then after tr (k (snd e)) else None
     | _ \<Rightarrow> None)"

lemma run_append:
  "run (tr @ tr') p = Some z \<longleftrightarrow> (\<exists>q. after tr p = Some q \<and> run tr' q = Some z)"
  by (induction tr arbitrary: p) (auto simp: run.simps split: prog.split)

lemma after_snoc:
  "after tr p = Some (Call c k) \<Longrightarrow> answers c a \<Longrightarrow> after (tr @ [(c, a)]) p = Some (k a)"
  by (induction tr arbitrary: p) (auto split: prog.splits if_splits)

lemma answer_exists: "\<exists>a. answers c a"
  by (cases c)
     (auto simp: is_AHttp_def is_ADone_def is_AErr_def is_AString_def is_AGetAR_def is_AGetCR_def
        is_AGetAI_def is_AGetCAI_def is_AGetSecret_def is_AGetConfigMap_def is_ATime_def is_APool_def)

lemma run_exists: "\<exists>tr z. run tr q = Some z"
proof (induction q)
  case (Call c k)
  obtain a where a: "answers c a" using answer_exists by blast
  from Call obtain tr z where "run tr (k a) = Some z" by blast
  with a have "run ((c, a) # tr) (Call c k) = Some z" by (simp add: run_Call_iff)
  then show ?case by blast
qed (metis run_end)+

text \<open>What a program is about to do, it does in some complete run with the same past.\<close>

lemma after_completes:
  assumes "after tr p = Some (Call c k)" and "answers c a"
  shows "\<exists>tr' z. run (tr @ (c, a) # tr') p = Some z"
proof -
  obtain tr' z where "run tr' (k a) = Some z" using run_exists by blast
  with assms have "run ((c, a) # tr') (Call c k) = Some z" by (simp add: run_Call_iff)
  with assms(1) show ?thesis unfolding run_append by blast
qed

lemma after_prefix: "after (tr @ tr') p = Some q \<Longrightarrow> \<exists>q'. after tr p = Some q'"
  by (induction tr arbitrary: p) (auto split: prog.splits if_splits)

lemma after_last:
  assumes "after (tr @ [(c, a)]) p \<noteq> None"
  obtains k where "after tr p = Some (Call c k)" "answers c a"
  using assms
  by (induction tr arbitrary: p) (auto split: prog.splits if_splits)

section \<open>Histories\<close>

datatype job = ARJob ObjectKey | CRJob ObjectKey | User

type_synonym event = "nat \<times> call \<times> answer"

text \<open>The newest event comes first.\<close>

type_synonym history = "event list"

definition past :: "nat \<Rightarrow> history \<Rightarrow> trace" where
  "past n h = rev (map snd (filter (\<lambda>e. fst e = n) h))"

lemma past_simps [simp]:
  "past n [] = []"
  "past n ((m, c, a) # h) = (if m = n then past n h @ [(c, a)] else past n h)"
  by (simp_all add: past_def)

lemma set_past: "e \<in> set (past n h) \<longleftrightarrow> (n, e) \<in> set h"
  by (force simp: past_def)

fun is_delete :: "call \<Rightarrow> bool" where
  "is_delete (CDeleteAR ar) = True"
| "is_delete _ = False"

primrec plays ::
    "lib \<Rightarrow> AdcsRequestReconciler \<Rightarrow> CertificateRequestReconciler \<Rightarrow> job \<Rightarrow> trace \<Rightarrow> bool" where
  "plays L ra rc (ARJob key) tr = (after tr (AdcsRequest_Reconcile L ra key) \<noteq> None)"
| "plays L ra rc (CRJob key) tr = (after tr (CertificateRequest_Reconcile L rc key) \<noteq> None)"
| "plays L ra rc User tr = list_all (\<lambda>e. is_delete (fst e)) tr"

definition interleaved ::
    "lib \<Rightarrow> AdcsRequestReconciler \<Rightarrow> CertificateRequestReconciler \<Rightarrow> (nat \<Rightarrow> job) \<Rightarrow> history \<Rightarrow> bool" where
  "interleaved L ra rc jobs h = list_all (\<lambda>e. plays L ra rc (jobs (fst e)) (past (fst e) h)) h"

section \<open>The stored objects\<close>

text \<open>The server gives an object its UID, so versions are compared without it.\<close>

definition content :: "AdcsRequest \<Rightarrow> AdcsRequest" where
  "content ar = ar\<lparr>ar_meta := (ar_meta ar)\<lparr>meta_UID := ''''\<rparr>\<rparr>"

definition ar_key :: "AdcsRequest \<Rightarrow> ObjectKey" where
  "ar_key ar = key_of (ar_meta ar)"

lemma content_simps [simp]:
  "ar_Status (content ar) = ar_Status ar" "ar_Spec (content ar) = ar_Spec ar"
  "ar_key (content ar) = ar_key ar" "content (content ar) = content ar"
  by (simp_all add: content_def ar_key_def key_of_def)

fun effect :: "call \<Rightarrow> (ObjectKey \<rightharpoonup> AdcsRequest) \<Rightarrow> (ObjectKey \<rightharpoonup> AdcsRequest)" where
  "effect (CCreateAR ar) m = m(ar_key ar \<mapsto> content ar)"
| "effect (CUpdateARStatus ar) m = m(ar_key ar \<mapsto> content ar)"
| "effect (CDeleteAR ar) m = m(ar_key ar := None)"
| "effect _ m = m"

primrec store :: "history \<Rightarrow> ObjectKey \<rightharpoonup> AdcsRequest" where
  "store [] = Map.empty"
| "store (e # h) = (if snd (snd e) = AErr None then effect (fst (snd e)) (store h) else store h)"

primrec ever :: "ObjectKey \<Rightarrow> AdcsRequest \<Rightarrow> history \<Rightarrow> bool" where
  "ever k ar [] = False"
| "ever k ar (e # h) = (store (e # h) k = Some ar \<or> ever k ar h)"

lemma ever_stored: "store h k = Some ar \<Longrightarrow> ever k ar h"
  by (cases h) auto

text \<open>The version of an object that a reconciliation has read.\<close>

fun version_read :: "ObjectKey \<Rightarrow> trace \<Rightarrow> AdcsRequest option" where
  "version_read k [] = None"
| "version_read k (e # tr) =
     (if fst e = CGetAR k then
        (case snd e of AGetAR (Inr ar) \<Rightarrow> Some ar | _ \<Rightarrow> version_read k tr)
      else version_read k tr)"

fun allows :: "history \<Rightarrow> event \<Rightarrow> bool" where
  "allows h (n, CGetAR k, AGetAR (Inr ar)) = ever k (content ar) h"
| "allows h (n, CCreateAR ar, AErr None) = (store h (ar_key ar) = None)"
| "allows h (n, CUpdateARStatus ar, AErr None) =
     (store h (ar_key ar) \<noteq> None \<and>
      store h (ar_key ar) = map_option content (version_read (ar_key ar) (past n h)))"
| "allows h _ = True"

primrec api_server :: "history \<Rightarrow> bool" where
  "api_server [] = True"
| "api_server (e # h) = (allows h e \<and> api_server h)"

lemma api_server_append: "api_server (h' @ h) \<Longrightarrow> api_server h"
  by (induction h') auto

lemma interleaved_tail:
  assumes "interleaved L ra rc jobs (e # h)"
  shows "interleaved L ra rc jobs h"
proof -
  have "plays L ra rc j tr" if "plays L ra rc j (tr @ tr')" for j tr tr'
    using that by (cases j) (auto dest: after_prefix)
  with assms show ?thesis
    unfolding interleaved_def list_all_iff
    by (cases e) (auto split: if_splits)
qed

lemma interleaved_append: "interleaved L ra rc jobs (h' @ h) \<Longrightarrow> interleaved L ra rc jobs h"
  by (induction h') (auto dest: interleaved_tail)

text \<open>What an event says of the reconciliation that did it.\<close>

lemma interleaved_event:
  assumes "interleaved L ra rc jobs ((n, c, a) # h)"
  obtains (AR) key k where "jobs n = ARJob key" "answers c a"
      "after (past n h) (AdcsRequest_Reconcile L ra key) = Some (Call c k)"
  | (CR) key k where "jobs n = CRJob key" "answers c a"
      "after (past n h) (CertificateRequest_Reconcile L rc key) = Some (Call c k)"
  | (User) "jobs n = User" "is_delete c"
proof (cases "jobs n")
  case (ARJob key)
  with assms have "after (past n h @ [(c, a)]) (AdcsRequest_Reconcile L ra key) \<noteq> None"
    by (simp add: interleaved_def del: not_None_eq)
  with ARJob show thesis by (elim after_last) (rule AR)
next
  case (CRJob key)
  with assms have "after (past n h @ [(c, a)]) (CertificateRequest_Reconcile L rc key) \<noteq> None"
    by (simp add: interleaved_def del: not_None_eq)
  with CRJob show thesis by (elim after_last) (rule CR)
next
  case User
  with assms that(3) show thesis by (simp add: interleaved_def)
qed

section \<open>What the jobs may do\<close>

lemma CR_never_updates_AR:
  assumes "run tr (CertificateRequest_Reconcile L r key) = Some z"
  shows "(CUpdateARStatus ar, x) \<notin> set tr"
  using assms
  by (cases rule: CR_reconcile_cases)
     (auto simp: run_iffs status_trace_def Let_def split: if_splits)

lemma CR_creation:
  assumes "run tr (CertificateRequest_Reconcile L r key) = Some z" and "(CCreateAR ar, x) \<in> set tr"
  shows "\<exists>cr tl. tr = (CGetCR key, AGetCR (Inr cr)) # tl \<and> processable L r cr \<and>
    ar = new_AdcsRequest L cr"
  using assms(1)
  by (cases rule: CR_reconcile_cases)
     (use assms(2) in \<open>auto simp: run_iffs status_trace_def Let_def split: if_splits\<close>)

lemma AR_writes:
  assumes "run tr (AdcsRequest_Reconcile L r key) = Some z" and "writes tr \<noteq> []"
  obtains ar tr' ar' issuer cert ca cr pre tr3 where "tr = (CGetAR key, AGetAR (Inr ar)) # tr'"
    "issue_post ar (ar', cert, ca, None)" "tr = pre @ (CGetCR key, AGetCR (Inr cr)) # tr3" "writes pre = []"
    "run tr3 (publish L issuer ar' cert ca cr) = Some z"
  using assms(1)
proof (cases rule: AR_run_cases)
  case silent
  with assms(2) show thesis by simp
next
  case (published ar issuer res cr tr3)
  then obtain tr1 tr2 ar' cert ca where res: "res = (ar', cert, ca, None)"
      and tr: "tr = (CGetAR key, AGetAR (Inr ar)) # tr1 @ tr2 @ (CGetCR key, AGetCR (Inr cr)) # tr3"
      and g: "run tr1 (GetIssuer L (arr_IssuerFactory r) (ar_IssuerRef (ar_Spec ar)) (meta_Namespace (ar_meta ar))) =
        Some (Returned (Inr issuer))"
      and i: "run tr2 (Issue L issuer ar) = Some (Returned res)"
      and p: "run tr3 (publish L issuer ar' cert ca cr) = Some z"
    unfolding published_def by blast
  have "issue_post ar (ar', cert, ca, None)" using published res by (auto elim: publishedE)
  moreover have "writes ((CGetAR key, AGetAR (Inr ar)) # tr1 @ tr2) = []"
    using GetIssuer_silent(1) [OF g] Issue_silent [OF GetIssuer_contract [OF g] i] by simp
  ultimately show thesis
    using that [of ar "tr1 @ tr2 @ (CGetCR key, AGetCR (Inr cr)) # tr3" ar' cert ca
        "(CGetAR key, AGetAR (Inr ar)) # tr1 @ tr2" cr tr3 issuer] tr p by simp
qed

lemma AR_never_creates:
  assumes "run tr (AdcsRequest_Reconcile L r key) = Some z"
  shows "(CCreateAR ar, x) \<notin> set tr" "(CDeleteAR ar, x) \<notin> set tr"
proof -
  have "e \<notin> set (writes tr)" if "e = (CCreateAR ar, x) \<or> e = (CDeleteAR ar, x)" for e
  proof (cases "writes tr = []")
    case False
    with assms obtain pre tr3 issuer ar' cert ca cr where "tr = pre @ (CGetCR key, AGetCR (Inr cr)) # tr3"
        "writes pre = []" "run tr3 (publish L issuer ar' cert ca cr) = Some z"
      by (elim AR_writes) blast
    with that show ?thesis by (auto elim!: publish_cases)
  qed simp
  then have "(CCreateAR ar, x) \<notin> set (writes tr)" "(CDeleteAR ar, x) \<notin> set (writes tr)" by blast+
  then show "(CCreateAR ar, x) \<notin> set tr" "(CDeleteAR ar, x) \<notin> set tr"
    by (simp_all add: set_writes)
qed

text \<open>
  The moment before a status is stored: the reconciliation has read a version from which
  the new status follows and the CertificateRequest of the same name, and a reported state has
  been delivered to the latter already.
\<close>

lemma before_write:
  assumes "tr @ e # tr2 = pre @ e' # tr3" and "writes pre = []" and "is_write (fst e)" and "\<not> is_write (fst e')"
  obtains us where "tr = pre @ e' # us" "tr3 = us @ e # tr2"
  using assms
  by (auto simp: append_eq_append_conv2 append_eq_Cons_conv Cons_eq_append_conv)

lemma AR_about_to_store:
  assumes "after tr (AdcsRequest_Reconcile L r key) = Some (Call (CUpdateARStatus ar') k)"
  obtains ar where "version_read key tr = Some ar" "(CGetAR key, AGetAR (Inr ar)) \<in> set tr"
    "ar_meta ar' = ar_meta ar" "ar_Spec ar' = ar_Spec ar"
    "lifecycle (ar_Status ar) (ar_Status ar')"
    "ar_State (ar_Status ar') \<in> set reported_states \<Longrightarrow>
       \<exists>cr t cert ca. (CGetCR key, AGetCR (Inr cr)) \<in> set tr \<and>
         (CUpdateCRStatus (report L t (ar_State (ar_Status ar')) cert ca cr), AErr None) \<in> set tr"
proof -
  let ?e = "(CUpdateARStatus ar', AErr None)"
  have "answers (CUpdateARStatus ar') (AErr None)" by simp
  with after_completes [OF assms] obtain tr2 z where
      run: "run (tr @ ?e # tr2) (AdcsRequest_Reconcile L r key) = Some z" by blast
  have "writes (tr @ ?e # tr2) \<noteq> []" by simp
  with run obtain ar tl b issuer cert ca cr pre tr3 where
      full: "tr @ ?e # tr2 = (CGetAR key, AGetAR (Inr ar)) # tl"
      and post: "issue_post ar (b, cert, ca, None)"
      and parts: "tr @ ?e # tr2 = pre @ (CGetCR key, AGetCR (Inr cr)) # tr3" "writes pre = []"
      and pub: "run tr3 (publish L issuer b cert ca cr) = Some z"
    by (rule AR_writes)
  from full obtain tl' where tr: "tr = (CGetAR key, AGetAR (Inr ar)) # tl'"
    by (cases tr) auto
  obtain us where us: "tr = pre @ (CGetCR key, AGetCR (Inr cr)) # us" "tr3 = us @ ?e # tr2"
    by (rule before_write [OF parts]) auto
  from pub have "ar' = b \<and> (ar_State (ar_Status ar') \<in> set reported_states \<longrightarrow>
      (\<exists>t. (CUpdateCRStatus (report L t (ar_State (ar_Status ar')) cert ca cr), AErr None) \<in> set (writes us)))"
    by (cases rule: publish_cases) (auto simp: us(2) append_eq_Cons_conv Cons_eq_append_conv append_eq_append_conv2)
  moreover have "set us \<subseteq> set tr" "(CGetCR key, AGetCR (Inr cr)) \<in> set tr" by (auto simp: us(1))
  ultimately show thesis
    using tr post that [of ar] by (fastforce simp: issue_post_def set_writes)
qed

lemma AR_never_about_to:
  "after tr (AdcsRequest_Reconcile L r key) \<noteq> Some (Call (CCreateAR ar) k)"
  "after tr (AdcsRequest_Reconcile L r key) \<noteq> Some (Call (CDeleteAR ar) k)"
proof -
  have ok: "answers (CCreateAR ar) (AErr None)" "answers (CDeleteAR ar) (AErr None)" by simp_all
  show "after tr (AdcsRequest_Reconcile L r key) \<noteq> Some (Call (CCreateAR ar) k)"
    using after_completes [OF _ ok(1)] AR_never_creates(1) by fastforce
  show "after tr (AdcsRequest_Reconcile L r key) \<noteq> Some (Call (CDeleteAR ar) k)"
    using after_completes [OF _ ok(2)] AR_never_creates(2) by fastforce
qed

lemma CR_never_about_to_store:
  "after tr (CertificateRequest_Reconcile L r key) \<noteq> Some (Call (CUpdateARStatus ar) k)"
proof -
  have ok: "answers (CUpdateARStatus ar) (AErr None)" by simp
  show ?thesis using after_completes [OF _ ok] CR_never_updates_AR by fastforce
qed

lemma CR_about_to_create:
  assumes "after tr (CertificateRequest_Reconcile L r key) = Some (Call (CCreateAR ar) k)"
  shows "\<exists>cr. (CGetCR key, AGetCR (Inr cr)) \<in> set tr \<and> processable L r cr \<and>
    ar = new_AdcsRequest L cr"
proof -
  have "answers (CCreateAR ar) (AErr None)" by simp
  with after_completes [OF assms] obtain tr' z where
      "run (tr @ (CCreateAR ar, AErr None) # tr') (CertificateRequest_Reconcile L r key) = Some z"
    by blast
  from CR_creation [OF this, of ar "AErr None"] show ?thesis
    by (cases tr) auto
qed

section \<open>The invariant of every history\<close>

text \<open>An AdcsRequest comes from a CertificateRequest that a reconciliation read and found open.\<close>

definition origin ::
    "lib \<Rightarrow> CertificateRequestReconciler \<Rightarrow> (nat \<Rightarrow> job) \<Rightarrow> history \<Rightarrow> AdcsRequest \<Rightarrow> bool" where
  "origin L rc jobs h ar = (\<exists>n key cr. jobs n = CRJob key \<and>
     (n, CGetCR key, AGetCR (Inr cr)) \<in> set h \<and> processable L rc cr \<and>
     ar_meta ar = ar_meta (new_AdcsRequest L cr) \<and> ar_Spec ar = ar_Spec (new_AdcsRequest L cr))"

text \<open>
  A state has been reported successfully to the CertificateRequest of this name: the update
  is a report for the object that the same reconciliation had read under the name.
\<close>

definition delivered :: "lib \<Rightarrow> (nat \<Rightarrow> job) \<Rightarrow> history \<Rightarrow> ObjectKey \<Rightarrow> State \<Rightarrow> bool" where
  "delivered L jobs h k st = (\<exists>n cr t cert ca. jobs n = ARJob k \<and>
     (n, CGetCR k, AGetCR (Inr cr)) \<in> set h \<and>
     (n, CUpdateCRStatus (report L t st cert ca cr), AErr None) \<in> set h)"

definition well_kept ::
    "lib \<Rightarrow> CertificateRequestReconciler \<Rightarrow> (nat \<Rightarrow> job) \<Rightarrow> history \<Rightarrow> ObjectKey \<Rightarrow> AdcsRequest \<Rightarrow> bool" where
  "well_kept L rc jobs h k ar = (ar_key ar = k \<and> origin L rc jobs h ar \<and>
     lifecycle zero_status (ar_Status ar) \<and>
     (ar_State (ar_Status ar) \<in> set reported_states \<longrightarrow> delivered L jobs h k (ar_State (ar_Status ar))))"

lemma origin_mono: "origin L rc jobs h ar \<Longrightarrow> set h \<subseteq> set h' \<Longrightarrow> origin L rc jobs h' ar"
  unfolding origin_def by blast

lemma delivered_mono: "delivered L jobs h k st \<Longrightarrow> set h \<subseteq> set h' \<Longrightarrow> delivered L jobs h' k st"
  unfolding delivered_def by blast

lemma well_kept_mono: "well_kept L rc jobs h k ar \<Longrightarrow> well_kept L rc jobs (e # h) k ar"
  unfolding well_kept_def by (auto intro: origin_mono [of L rc jobs h] delivered_mono [of L jobs h])

lemma store_cases:
  assumes "store ((n, c, a) # h) k = Some ar"
  obtains (old) "store h k = Some ar"
  | (created) x where "c = CCreateAR x" "a = AErr None" "ar = content x" "k = ar_key x"
  | (updated) x where "c = CUpdateARStatus x" "a = AErr None" "ar = content x" "k = ar_key x"
proof (cases "store ((n, c, a) # h) k = store h k")
  case True
  with assms old show thesis by simp
next
  case False
  with assms created updated show thesis by (cases c) (simp_all split: if_splits)
qed

lemma reads_are_versions:
  "api_server h \<Longrightarrow> (n, CGetAR k, AGetAR (Inr ar)) \<in> set h \<Longrightarrow> ever k (content ar) h"
  by (induction h) auto

text \<open>A status update in a history: the version it follows from.\<close>

lemma update_event:
  assumes "interleaved L ra rc jobs ((n, CUpdateARStatus x, AErr None) # h)" and "api_server h"
    and kept: "\<And>k ar. ever k ar h \<Longrightarrow> well_kept L rc jobs h k ar"
  obtains ar where "jobs n = ARJob (ar_key x)" "ever (ar_key x) (content ar) h"
    "version_read (ar_key x) (past n h) = Some ar" "ar_meta x = ar_meta ar" "ar_Spec x = ar_Spec ar"
    "lifecycle (ar_Status ar) (ar_Status x)"
    "ar_State (ar_Status x) \<in> set reported_states \<Longrightarrow>
       delivered L jobs h (ar_key x) (ar_State (ar_Status x))"
  using assms(1)
proof (cases rule: interleaved_event)
  case (AR key k)
  from AR(3) obtain ar where ar: "version_read key (past n h) = Some ar"
      "(CGetAR key, AGetAR (Inr ar)) \<in> set (past n h)"
      "ar_meta x = ar_meta ar" "ar_Spec x = ar_Spec ar" "lifecycle (ar_Status ar) (ar_Status x)"
      "ar_State (ar_Status x) \<in> set reported_states \<Longrightarrow> \<exists>cr t cert ca.
         (CGetCR key, AGetCR (Inr cr)) \<in> set (past n h) \<and> (CUpdateCRStatus (report L t (ar_State (ar_Status x)) cert ca cr), AErr None) \<in> set (past n h)"
    by (rule AR_about_to_store) blast
  have ever: "ever key (content ar) h"
    using reads_are_versions [OF assms(2)] ar(2) by (simp add: set_past)
  from kept [OF this] ar(3) have key: "key = ar_key x"
    by (simp add: well_kept_def) (simp add: ar_key_def)
  have "delivered L jobs h key (ar_State (ar_Status x))"
    if "ar_State (ar_Status x) \<in> set reported_states"
    using ar(6) [OF that] AR(1) unfolding delivered_def set_past by blast
  with that [of ar] ar ever AR(1) show thesis unfolding key by blast
qed (simp_all add: CR_never_about_to_store)

lemma creation_event:
  assumes "interleaved L ra rc jobs ((n, CCreateAR x, a) # h)"
  obtains cr key where "jobs n = CRJob key" "(n, CGetCR key, AGetCR (Inr cr)) \<in> set h"
    "processable L rc cr" "x = new_AdcsRequest L cr"
  using assms
proof (cases rule: interleaved_event)
  case (CR key k)
  from CR_about_to_create [OF CR(3)] that CR(1) show thesis by (auto simp: set_past)
qed (simp_all add: AR_never_about_to)

lemma new_simps [simp]:
  "content (new_AdcsRequest L cr) = new_AdcsRequest L cr"
  "ar_Status (new_AdcsRequest L cr) = zero_status"
  by (simp_all add: content_def new_AdcsRequest_def)

theorem every_version_is_well_kept:
  "interleaved L ra rc jobs h \<Longrightarrow> api_server h \<Longrightarrow> ever k ar h \<Longrightarrow> well_kept L rc jobs h k ar"
proof (induction h arbitrary: k ar)
  case (Cons e h)
  obtain n c a where e: "e = (n, c, a)" by (cases e)
  have server: "api_server h" "allows h e" using Cons.prems(2) by simp_all
  note kept = Cons.IH [OF interleaved_tail [OF Cons.prems(1)] server(1)]
  show ?case
  proof (cases "ever k ar h")
    case True
    then show ?thesis by (intro well_kept_mono kept)
  next
    case False
    with Cons.prems(3) have "store ((n, c, a) # h) k = Some ar" by (simp add: e)
    then show ?thesis
    proof (cases rule: store_cases)
      case old
      with False show ?thesis by (simp add: ever_stored)
    next
      case (created x)
      with Cons.prems(1) obtain cr key where "jobs n = CRJob key"
          "(n, CGetCR key, AGetCR (Inr cr)) \<in> set h" "processable L rc cr" "x = new_AdcsRequest L cr"
        by (auto simp: e elim: creation_event)
      with created have "origin L rc jobs h ar" "ar_key ar = k" "ar_Status ar = zero_status"
        unfolding origin_def by auto
      then have "well_kept L rc jobs h k ar"
        unfolding well_kept_def by (simp add: zero_status_def lifecycle.stay)
      then show ?thesis by (rule well_kept_mono)
    next
      case (updated x)
      with Cons.prems(1) have "interleaved L ra rc jobs ((n, CUpdateARStatus x, AErr None) # h)"
        by (simp add: e)
      from update_event [OF this server(1) kept] obtain ar0 where
          ar0: "ever k (content ar0) h" "ar_meta x = ar_meta ar0" "ar_Spec x = ar_Spec ar0"
          "lifecycle (ar_Status ar0) (ar_Status x)"
          "ar_State (ar_Status x) \<in> set reported_states \<Longrightarrow>
             delivered L jobs h k (ar_State (ar_Status x))"
        unfolding updated(4) by blast
      have "ar_meta ar = ar_meta (content ar0)"
        using ar0(2) updated(3) by (simp add: content_def)
      with kept [OF ar0(1)] ar0(3-5) updated(3,4) have "well_kept L rc jobs h k ar"
        unfolding well_kept_def origin_def by (auto intro: lifecycle_trans)
      then show ?thesis by (rule well_kept_mono)
    qed
  qed
qed simp

text \<open>The stored object of a name changes only along the life cycle, until it is deleted.\<close>

fun deletes :: "ObjectKey \<Rightarrow> event \<Rightarrow> bool" where
  "deletes k (n, CDeleteAR ar, AErr None) = (ar_key ar = k)"
| "deletes k _ = False"

definition evolves :: "AdcsRequest \<Rightarrow> AdcsRequest \<Rightarrow> bool" where
  "evolves ar ar' = (ar_meta ar' = ar_meta ar \<and> ar_Spec ar' = ar_Spec ar \<and>
     lifecycle (ar_Status ar) (ar_Status ar'))"

lemma evolves_refl: "evolves ar ar"
  by (simp add: evolves_def lifecycle.stay)

lemma evolves_trans: "evolves a b \<Longrightarrow> evolves b c \<Longrightarrow> evolves a c"
  by (auto simp: evolves_def intro: lifecycle_trans)

lemma next_version:
  assumes "interleaved L ra rc jobs (e # h)" and "api_server (e # h)"
    and "store h k = Some ar" and "\<not> deletes k e"
  shows "\<exists>ar'. store (e # h) k = Some ar' \<and> evolves ar ar'"
proof -
  obtain n c a where e: "e = (n, c, a)" by (cases e)
  have server: "api_server h" "allows h e" using assms(2) by simp_all
  note kept = every_version_is_well_kept [OF interleaved_tail [OF assms(1)] server(1)]
  show ?thesis
  proof (cases "store (e # h) k = store h k")
    case True
    then show ?thesis using assms(3) evolves_refl by auto
  next
    case False
    with assms(3,4) server(2) obtain x where x: "c = CUpdateARStatus x" "a = AErr None" "ar_key x = k"
      unfolding e by (cases c) (auto split: if_splits)
    with assms(1) have "interleaved L ra rc jobs ((n, CUpdateARStatus x, AErr None) # h)"
      by (simp add: e)
    from update_event [OF this server(1) kept] x obtain ar0 where
        "version_read k (past n h) = Some ar0" "ar_meta x = ar_meta ar0" "ar_Spec x = ar_Spec ar0"
        "lifecycle (ar_Status ar0) (ar_Status x)" by blast
    moreover from this(1) have "ar = content ar0"
      using server(2) assms(3) x by (simp add: e)
    ultimately show ?thesis
      using x by (simp add: e evolves_def) (simp add: content_def)
  qed
qed

lemma versions_evolve:
  assumes "interleaved L ra rc jobs (h' @ h)" and "api_server (h' @ h)"
    and "store h k = Some ar" and "\<not> list_ex (deletes k) h'"
  shows "\<exists>ar'. store (h' @ h) k = Some ar' \<and> evolves ar ar'"
  using assms(1,2,4)
proof (induction h')
  case Nil
  then show ?case using assms(3) evolves_refl by auto
next
  case (Cons e h')
  then obtain ar' where "store (h' @ h) k = Some ar'" "evolves ar ar'"
    by (auto dest: interleaved_tail)
  moreover from this(1) Cons.prems obtain ar'' where
      "store (e # h' @ h) k = Some ar''" "evolves ar' ar''"
    using next_version [of L ra rc jobs e "h' @ h" k ar'] by auto
  ultimately show ?case using evolves_trans by auto
qed

end
