(* ===== verification/Cluster_Theorems.thy ===== *)
theory Cluster_Theorems
  imports Cluster Certsrv_Theorems
begin

text \<open>
  What holds of every history of the two controllers, and one complete history: a
  CertificateRequest is found, its AdcsRequest created, submitted, issued, and delivered.
\<close>

section \<open>A complete history\<close>

definition opening_trace :: trace where
  "opening_trace =
     [(CGetCR sample_key, AGetCR (Inr approved_cr)), (CGetAR sample_key, AGetAR (Inl (NotFound ''req''))),
      (CCreateAR (new_AdcsRequest sample_lib approved_cr), AErr None)] @ pending_trace approved_cr"

lemma opening_run:
  "run opening_trace (CertificateRequest_Reconcile sample_lib strict sample_key) =
     Some (Returned (zero_result, None))"
proof -
  have "process_request sample_lib strict sample_key approved_cr =
      find_or_create sample_lib sample_key approved_cr"
    using approved_processable by (auto simp: process_request_def gate_defs slice_len_def)
  then show ?thesis
    by (simp add: replay CertificateRequest_Reconcile_def GetCertificateRequest_def find_or_create_def
        opening_trace_def create_and_mark_def createAdcsRequest_def CR_SetStatus_def Let_def
        pending_trace_def status_trace_def event_of_def cong: bind_step)
qed

text \<open>The object as the server returns it, and the two statuses it goes through.\<close>

definition opened :: AdcsRequest where
  "opened = (new_AdcsRequest sample_lib approved_cr)\<lparr>ar_meta :=
     (ar_meta (new_AdcsRequest sample_lib approved_cr))\<lparr>meta_UID := ''u2''\<rparr>\<rparr>"

definition issued :: AdcsRequest where
  "issued = set_status opened StateReady ''none'' ''certificate obtained successfully''"

definition issue_trace :: trace where
  "issue_trace =
     (CHttp sample_client submit_request, AHttp (Inr (sample_response 200 ct_pkix ''cert'' None))) #
     chain_trace (sample_response 200 ct_html '''' None) (sample_response 200 ct_pkcs7 ''p7'' None)"

definition ca_pem :: string where
  "ca_pem = EncodeToMemory ''CERTIFICATE'' ''ca''"

definition delivery_trace :: trace where
  "delivery_trace =
     (CGetCR sample_key, AGetCR (Inr approved_cr)) #
     status_trace sample_lib (with_certificate approved_cr (Some ''cert'') (Some ca_pem))
       ConditionTrue ReasonIssued ''ADCS request successful'' 7 None @ announce_and_store issued None"

definition issuing_trace :: trace where
  "issuing_trace = (CGetAR sample_key, AGetAR (Inr opened)) # factory_trace @ issue_trace @ delivery_trace"

lemma opened_simps [simp]:
  "ar_IssuerRef (ar_Spec opened) = sample_ref" "meta_Namespace (ar_meta opened) = ''ns''"
  "ar_CSRPEM (ar_Spec opened) = Some ''csr''" "ar_Status opened = zero_status"
  "ar_key opened = sample_key" "content opened = new_AdcsRequest sample_lib approved_cr"
  by (simp_all add: opened_def new_AdcsRequest_def approved_cr_def sample_defs ar_key_def key_of_def
      content_def)

lemma sample_chain_run:
  "run (chain_trace (sample_response 200 ct_html '''' None) (sample_response 200 ct_pkcs7 ''p7'' None))
     (GetCaCertificateChain (certServ sample_built)) = Some (Returned (''p7'', None))"
  using chain_run by (simp add: sample_built_def ntlm_iface_def sample_ntlm_def ntlm0_def)

lemma ca_pem_known: "parseCaCert sample_lib ''p7'' = Inr ca_pem" "ca_pem \<noteq> []"
proof -
  show "parseCaCert sample_lib ''p7'' = Inr ca_pem"
    by (simp add: parseCaCert_def tryParseX509_def sample_lib_def ca_pem_def)
  show "ca_pem \<noteq> []" unfolding ca_pem_def by code_simp
qed

lemma issue_run:
  "run issue_trace (Issue sample_lib sample_built opened) =
     Some (Returned (issued, Some ''cert'', Some ca_pem, None))"
proof -
  have "run (chain_trace (sample_response 200 ct_html '''' None) (sample_response 200 ct_pkcs7 ''p7'' None) @ [])
      (issue_chain sample_lib sample_built issued (Some ''cert'')) =
      Some (Returned (issued, Some ''cert'', Some ca_pem, None))"
    unfolding issue_chain_def run_bind_seq [OF sample_chain_run] by (simp add: ca_pem_known)
  then have chain: "run (chain_trace (sample_response 200 ct_html '''' None) (sample_response 200 ct_pkcs7 ''p7'' None))
      (issue_chain sample_lib sample_built issued (Some ''cert'')) =
      Some (Returned (issued, Some ''cert'', Some ca_pem, None))" by simp
  have "iss_AdcsTemplateName sample_built = ''web''"
    "certServ sample_built = ntlm_iface sample_lib sample_ntlm"
    "ntlm_httpClient sample_ntlm = sample_client" "ntlm_url sample_ntlm = ''https://adcs''"
    by (simp_all add: sample_built_def sample_ntlm_def)
  with chain show ?thesis
    by (simp add: replay issue_trace_def Issue_def ntlm_iface_def ntlm_RequestCertificate_def
        NewRequest_def certfnsh_def submit_request_def sample_response_def zero_status_def
        ntlm_request_response_def issue_response_def record_response_def issued_def Let_def
        cong: bind_step)
qed

lemma issuing_run:
  "run issuing_trace (AdcsRequest_Reconcile sample_lib sample_reconciler sample_key) =
     Some (Returned (zero_result, None))"
  unfolding issuing_trace_def start_run [OF opened_simps(1,2)] run_bind_seq [OF issue_run]
  by (simp add: replay delivery_trace_def report_issued_def GetCertificateRequest_def
   publish_def Let_def report_then_store_def CR_SetStatus_def store_status_def AR_setStatus_def
   status_trace_def announce_and_store_def event_of_def issued_def set_status_def cong: bind_step)

definition sample_jobs :: "nat \<Rightarrow> job" where
  "sample_jobs n = (if n = 0 then CRJob sample_key else if n = 1 then ARJob sample_key else User)"

definition opening_history :: history where
  "opening_history = rev (map (Pair 0) opening_trace)"

definition issuing_history :: history where
  "issuing_history = rev (map (Pair 1) issuing_trace)"

lemma past_append: "past n (h' @ h) = past n h @ past n h'"
  by (simp add: past_def)

lemma past_of_one: "past n (rev (map (Pair m) tr)) = (if m = n then tr else [])"
  by (simp add: past_def rev_map filter_map comp_def)

lemma run_after: "run tr p = Some z \<Longrightarrow> after tr p \<noteq> None"
  using run_append [of tr "[]" p z] by auto

lemma sample_interleaved:
  "interleaved sample_lib sample_reconciler strict sample_jobs (issuing_history @ opening_history)"
proof -
  note runs = run_after [OF opening_run] run_after [OF issuing_run]
  have "past 0 (issuing_history @ opening_history) = opening_trace"
      "past 1 (issuing_history @ opening_history) = issuing_trace"
    by (simp_all add: past_append past_of_one issuing_history_def opening_history_def)
  moreover have "fst e = 0 \<or> fst e = 1" if "e \<in> set (issuing_history @ opening_history)" for e
    using that by (auto simp: issuing_history_def opening_history_def)
  ultimately show ?thesis
    using runs unfolding interleaved_def list_all_iff sample_jobs_def by fastforce
qed

text \<open>The calls that the server has no duties for.\<close>

fun aside :: "call \<Rightarrow> bool" where
  "aside (CGetAR k) = False"
| "aside (CCreateAR ar) = False"
| "aside (CUpdateARStatus ar) = False"
| "aside (CDeleteAR ar) = False"
| "aside _ = True"

lemma aside_event: "aside c \<Longrightarrow> allows h (n, c, a)" "aside c \<Longrightarrow> store ((n, c, a) # h) = store h"
  by (cases c; simp)+

lemma aside_events:
  assumes "list_all (\<lambda>e. aside (fst e)) tr"
  shows "api_server (rev (map (Pair n) tr) @ h) = api_server h" "store (rev (map (Pair n) tr) @ h) = store h"
    "ever k ar h \<Longrightarrow> ever k ar (rev (map (Pair n) tr) @ h)"
  using assms
  by (induction tr arbitrary: h) (auto simp del: store.simps simp: aside_event)

lemma opening_facts:
  "api_server opening_history"
  "store opening_history = [sample_key \<mapsto> new_AdcsRequest sample_lib approved_cr]"
proof -
  have split: "opening_history = rev (map (Pair 0) (pending_trace approved_cr)) @
      rev (map (Pair 0) [(CGetCR sample_key, AGetCR (Inr approved_cr)),
        (CGetAR sample_key, AGetAR (Inl (NotFound ''req''))),
        (CCreateAR (new_AdcsRequest sample_lib approved_cr), AErr None)])"
    by (simp add: opening_history_def opening_trace_def)
  have "list_all (\<lambda>e. aside (fst e)) (pending_trace approved_cr)"
    by (simp add: pending_trace_def status_trace_def Let_def)
  note this [THEN aside_events(1)] this [THEN aside_events(2)]
  moreover have "ar_key (new_AdcsRequest sample_lib approved_cr) = sample_key"
    using opened_simps(5,6) content_simps(3) by metis
  ultimately show "api_server opening_history"
      "store opening_history = [sample_key \<mapsto> new_AdcsRequest sample_lib approved_cr]"
    unfolding split by simp_all
qed

definition sample_history :: history where
  "sample_history = issuing_history @ opening_history"

lemma sample_facts:
  "api_server sample_history" "store sample_history = [sample_key \<mapsto> content issued]"
proof -
  let ?mid = "factory_trace @ issue_trace @ (CGetCR sample_key, AGetCR (Inr approved_cr)) #
     status_trace sample_lib (with_certificate approved_cr (Some ''cert'') (Some ca_pem))
       ConditionTrue ReasonIssued ''ADCS request successful'' 7 None"
  let ?old = "(1, CGetAR sample_key, AGetAR (Inr opened)) # opening_history"
  have split: "sample_history = rev (map (Pair 1) (announce_and_store issued None)) @
      rev (map (Pair 1) ?mid) @ ?old"
    by (simp add: sample_history_def issuing_history_def issuing_trace_def delivery_trace_def)
  have quiet: "list_all (\<lambda>e. aside (fst e)) ?mid"
    by (simp add: factory_trace_def issue_trace_def chain_trace_def status_trace_def Let_def)
  have old: "api_server ?old" "store ?old = store opening_history"
    using opening_facts by (simp_all add: ever_stored)
  have "past 1 (rev (map (Pair 1) ?mid) @ ?old) = (CGetAR sample_key, AGetAR (Inr opened)) # ?mid"
    unfolding past_append past_of_one
    by (simp add: opening_history_def past_of_one)
  moreover have "ar_key issued = sample_key"
    using opened_simps(5) by (simp add: issued_def set_status_def ar_key_def)
  ultimately show "api_server sample_history" "store sample_history = [sample_key \<mapsto> content issued]"
    using aside_events(1,2) [OF quiet, of 1 ?old] old opening_facts(2)
    unfolding split by (simp_all add: announce_and_store_def)
qed

lemma sample_together:
  "interleaved sample_lib sample_reconciler strict sample_jobs sample_history"
  using sample_interleaved by (simp add: sample_history_def)

section \<open>Guarantees\<close>

text \<open>
  C5. However the reconciliations interleave: the state of a stored AdcsRequest that is ready,
  rejected or errored has been reported to the CertificateRequest of the same name. One
  reconciliation of this AdcsRequest has read the CertificateRequest under the name that the two
  share, and the report of this state, made out of the object it read, was stored by a status
  update that succeeded. (Users may delete AdcsRequests; they do not create or edit them.)
\<close>

theorem stored_outcome_was_delivered:
  assumes "interleaved L ra rc jobs h" and "api_server h"
    and "store h k = Some ar" and "ar_State (ar_Status ar) \<in> set reported_states"
  shows "k = key_of (ar_meta ar) \<and> (\<exists>n cr t cert ca. jobs n = ARJob k \<and>
    (n, CGetCR k, AGetCR (Inr cr)) \<in> set h \<and>
    (n, CUpdateCRStatus (report L t (ar_State (ar_Status ar)) cert ca cr), AErr None) \<in> set h)"
  using every_version_is_well_kept [OF assms(1,2) ever_stored [OF assms(3)]] assms(4)
  unfolding well_kept_def delivered_def ar_key_def by blast

theorem stored_outcome_was_delivered_witness:
  "\<exists>n cr t cert ca. sample_jobs n = ARJob sample_key \<and>
    (n, CGetCR sample_key, AGetCR (Inr cr)) \<in> set sample_history \<and>
    (n, CUpdateCRStatus (report sample_lib t StateReady cert ca cr), AErr None) \<in> set sample_history"
proof -
  have "ar_State (ar_Status (content issued)) = StateReady"
    by (simp add: issued_def set_status_def)
  then show ?thesis
    using stored_outcome_was_delivered [OF sample_together sample_facts(1), of sample_key "content issued"]
    by (simp add: sample_facts(2))
qed

text \<open>
  C4. However the reconciliations interleave, and whatever they have cached: from one moment to
  any later one, a stored AdcsRequest that is not deleted in between keeps its metadata and its
  specification, and its status moves along the life cycle. In particular a settled status is
  never overwritten and a request id never changes. (Users may delete AdcsRequests; they do not
  create or edit them.)
\<close>

theorem stored_status_evolves:
  assumes "interleaved L ra rc jobs (later @ h)" and "api_server (later @ h)"
    and "store h k = Some ar" and "\<not> list_ex (deletes k) later"
  shows "\<exists>ar'. store (later @ h) k = Some ar' \<and> ar_meta ar' = ar_meta ar \<and> ar_Spec ar' = ar_Spec ar \<and>
    lifecycle (ar_Status ar) (ar_Status ar') \<and>
    (phase_of (ar_Status ar) = Settled \<longrightarrow> ar_Status ar' = ar_Status ar)"
  using versions_evolve [OF assms] unfolding evolves_def by (blast dest: lifecycle_settled)

theorem stored_status_evolves_witness:
  "lifecycle (ar_Status (new_AdcsRequest sample_lib approved_cr)) (ar_Status (content issued))"
proof -
  have "\<not> list_ex (deletes sample_key) issuing_history"
    by (simp add: issuing_history_def issuing_trace_def factory_trace_def issue_trace_def
        chain_trace_def delivery_trace_def status_trace_def announce_and_store_def Let_def)
  from stored_status_evolves [OF _ _ _ this, of sample_lib sample_reconciler strict sample_jobs opening_history
      "new_AdcsRequest sample_lib approved_cr"]
  show ?thesis
    using sample_together sample_facts opening_facts by (simp add: sample_history_def)
qed

text \<open>
  C6. Every stored AdcsRequest has an origin: a reconciliation read a CertificateRequest that
  is for this issuer group, neither finished nor denied, approved where that is checked and
  without a certificate, and the AdcsRequest still has the name, owner, CSR and issuer taken
  from it. (Users may delete AdcsRequests; they do not create or edit them.)
\<close>

theorem stored_request_has_an_origin:
  assumes "interleaved L ra rc jobs h" and "api_server h" and "store h k = Some ar"
  shows "\<exists>n key cr. jobs n = CRJob key \<and> (n, CGetCR key, AGetCR (Inr cr)) \<in> set h \<and>
    processable L rc cr \<and> k = key_of (ar_meta ar) \<and>
    ar_meta ar = ar_meta (new_AdcsRequest L cr) \<and> ar_Spec ar = ar_Spec (new_AdcsRequest L cr)"
  using every_version_is_well_kept [OF assms(1,2) ever_stored [OF assms(3)]]
  unfolding well_kept_def origin_def ar_key_def by blast

theorem stored_request_has_an_origin_witness:
  "\<exists>n key cr. (n, CGetCR key, AGetCR (Inr cr)) \<in> set sample_history \<and> processable sample_lib strict cr \<and>
     ar_Spec (content issued) = ar_Spec (new_AdcsRequest sample_lib cr)"
  using stored_request_has_an_origin [OF sample_together sample_facts(1), of sample_key "content issued"]
  by (auto simp: sample_facts(2))

text \<open>
  C7. The type of the status that is ever stored: either the empty status of a new object, or
  a state of the enumeration of the resource definition (pending, ready, errored,
  rejected) together with a request id of decimal digits, or ready without an id. No other
  string gets into the state. (Users may delete AdcsRequests; they do not create or edit them.)
\<close>

theorem stored_status_is_typed:
  assumes "interleaved L ra rc jobs h" and "api_server h" and "store h k = Some ar"
  shows "ar_Status ar = zero_status \<or>
    List.member known_states (ar_State (ar_Status ar)) \<and>
    (is_request_id (ar_Id (ar_Status ar)) \<or>
     ar_State (ar_Status ar) = StateReady \<and> ar_Id (ar_Status ar) = ''none'')"
  using every_version_is_well_kept [OF assms(1,2) ever_stored [OF assms(3)]]
  unfolding well_kept_def lifecycle_iff by (auto simp: zero_status_def)

theorem stored_status_is_typed_witness:
  "List.member known_states (ar_State (ar_Status (content issued)))"
  using stored_status_is_typed [OF sample_together sample_facts(1), of sample_key "content issued"]
  by (simp add: sample_facts(2) issued_def set_status_def zero_status_def)

end
