(* ===== verification/Delivery.thy ===== *)
theory Delivery
  imports Cluster_Theorems
begin

text \<open>
  Where the delivered certificate comes from. The contract of the web service clients is
  extended: a certificate and a CA chain that a client returns are bodies it received from the
  server, byte for byte, under the content types of a certificate and of a PKCS7 chain.
  Both clients interpret the extended contract, and a delivery is followed from the response
  of ADCS to the status of the CertificateRequest.
\<close>

section \<open>The extended contract\<close>

text \<open>The trace has a response with this content type (up to parameters) and this body.\<close>

definition received_as :: "string \<Rightarrow> string \<Rightarrow> trace \<Rightarrow> bool" where
  "received_as ct body tr = (\<exists>cl rq res. (CHttp cl rq, AHttp (Inr res)) \<in> set tr \<and>
     takeWhile (\<lambda>c. c \<noteq> CHR '';'') (rs_ContentType res) = ct \<and> rs_Body res = body)"

lemma received_as_mono: "received_as ct body tr \<Longrightarrow> set tr \<subseteq> set tr' \<Longrightarrow> received_as ct body tr'"
  unfolding received_as_def by blast

lemma received_here:
  "takeWhile (\<lambda>c. c \<noteq> CHR '';'') (rs_ContentType res) = ct \<Longrightarrow>
     received_as ct (rs_Body res) ((CHttp cl rq, AHttp (Inr res)) # tr)"
  unfolding received_as_def by auto

definition relays_cert :: "trace \<Rightarrow> cert_result outcome \<Rightarrow> bool" where
  "relays_cert tr z = (\<forall>cert i err. z = Returned (Ready, cert, i, err) \<longrightarrow> received_as ct_pkix cert tr)"

definition relays_chain :: "trace \<Rightarrow> (string \<times> gerr option) outcome \<Rightarrow> bool" where
  "relays_chain tr z = (\<forall>chain. z = Returned (chain, None) \<longrightarrow> received_as ct_pkcs7 chain tr)"

locale relay = adcs_certsrv +
  assumes existing_relays: "run tr (GetExistingCertificate srv rid) = Some z \<Longrightarrow> relays_cert tr z"
    and request_relays: "run tr (RequestCertificate srv csr template) = Some z \<Longrightarrow> relays_cert tr z"
    and chain_relays: "run tr (GetCaCertificateChain srv) = Some y \<Longrightarrow> relays_chain tr y"
begin

lemma issue_chain_relays:
  assumes srv: "certServ i = srv"
    and run: "run tr (issue_chain L i ar cert) = Some (Returned (ar', Some c, ca, None))"
  shows "cert = Some c \<and> (\<exists>chain pem. received_as ct_pkcs7 chain tr \<and>
    parseCaCert L chain = Inr pem \<and> ca = Some pem)"
  using run unfolding issue_chain_def srv
proof (cases rule: run_bind_cases)
  case (returned tr1 tr2 a)
  obtain chain e where a: "a = (chain, e)" by (cases a)
  from returned(3) obtain pem where pem: "e = None" "parseCaCert L chain = Inr pem" "ca = Some pem"
      "cert = Some c"
    unfolding a prod.case by (auto split: option.splits sum.splits if_splits)
  with returned(2) a have "received_as ct_pkcs7 chain tr1"
    using chain_relays by (simp add: relays_chain_def)
  then have "received_as ct_pkcs7 chain tr" by (rule received_as_mono) (simp add: returned(1))
  with pem show ?thesis by blast
qed simp

lemma issue_response_relays:
  assumes srv: "certServ i = srv"
    and run: "run tr (issue_response L i ar (st, desc, rid, err)) = Some (Returned (ar', Some cert, ca, None))"
  shows "st = Ready \<and> desc = cert \<and> (\<exists>chain pem. received_as ct_pkcs7 chain tr \<and>
    parseCaCert L chain = Inr pem \<and> ca = Some pem)"
proof -
  from run have "err = None" by (auto simp: issue_response_def split: option.splits)
  with run have "run tr (issue_chain L i (fst (record_response ar st desc rid)) (snd (record_response ar st desc rid))) =
      Some (Returned (ar', Some cert, ca, None))"
    by (simp add: issue_response_def Let_def case_prod_beta)
  from issue_chain_relays [OF srv this] show ?thesis
    by (cases st) (auto simp: record_response_def)
qed

lemma Issue_relays:
  assumes srv: "certServ i = srv"
    and run: "run tr (Issue L i ar) = Some (Returned (ar', Some cert, ca, None))"
  shows "received_as ct_pkix cert tr \<and> (\<exists>chain pem. received_as ct_pkcs7 chain tr \<and>
    parseCaCert L chain = Inr pem \<and> ca = Some pem)"
proof -
  have through: ?thesis
    if r: "run tr (bind p (issue_response L i ar)) = Some (Returned (ar', Some cert, ca, None))"
      and relays: "\<And>tr z. run tr p = Some z \<Longrightarrow> relays_cert tr z" for p
    using r
  proof (cases rule: run_bind_cases)
    case (returned tr1 tr2 a)
    obtain st desc rid err where a: "a = (st, desc, rid, err)" by (cases a)
    note resp = issue_response_relays [OF srv returned(3) [unfolded a]]
    have "received_as ct_pkix cert tr1"
      using relays [OF returned(2)] resp by (simp add: relays_cert_def a)
    then have "received_as ct_pkix cert tr" by (rule received_as_mono) (simp add: returned(1))
    moreover have "set tr2 \<subseteq> set tr" by (simp add: returned(1))
    ultimately show ?thesis using resp received_as_mono by blast
  qed simp
  from run show ?thesis
    using through [OF _ existing_relays] through [OF _ request_relays]
    by (auto simp: Issue_def srv split: if_splits)
qed

end

section \<open>Both clients relay\<close>

lemma existing_response_relays:
  assumes "run tr (ntlm_existing_response rid res) = Some z"
  shows "relays_cert ((CHttp cl rq, AHttp (Inr res)) # tr') z"
proof -
  have "received_as ct_pkix cert ((CHttp cl rq, AHttp (Inr res)) # tr')"
    if "z = Returned (Ready, cert, i, err)" for cert i err
    using existing_response_result [of tr rid res cert i err] assms that
    by (auto simp: Split_hd intro: received_here)
  then show ?thesis by (simp add: relays_cert_def)
qed

lemma relays_errors [simp]:
  "relays_cert tr (Panicked s)" "relays_cert tr (Returned (Unknown, d, i, e))"
  "relays_chain tr (Panicked s)" "relays_chain tr (Returned (c, Some err))"
  by (simp_all add: relays_cert_def relays_chain_def)

lemma relays_later:
  "relays_cert tr z \<Longrightarrow> set tr \<subseteq> set tr' \<Longrightarrow> relays_cert tr' z"
  "relays_chain tr y \<Longrightarrow> set tr \<subseteq> set tr' \<Longrightarrow> relays_chain tr' y"
  unfolding relays_cert_def relays_chain_def using received_as_mono by blast+

text \<open>A check is one exchange whose body is closed, with a response that both clients read alike.\<close>

lemma exchange_relays:
  assumes "run tr (bind (ignore_request_error (NewRequest L verb url body)) (\<lambda>req.
      bind (http_Do cl (prep req)) (\<lambda>r. case r of
          Inl err \<Rightarrow> Ret (Unknown, '''', rid, Some err)
        | Inr res \<Rightarrow> defer_close res (ntlm_existing_response rid res)))) = Some z"
  shows "relays_cert tr z"
proof (cases "NewRequest L verb url body")
  case (Inl e)
  with assms show ?thesis by (simp add: run_ignore_request_error)
next
  case (Inr req)
  with assms show ?thesis
    by (auto simp: run_ignore_request_error run_closed_exchange intro: existing_response_relays)
qed

lemma ntlm_existing_relays: "run tr (ntlm_GetExistingCertificate L s rid) = Some z \<Longrightarrow> relays_cert tr z"
  unfolding ntlm_GetExistingCertificate_def Let_def by (rule exchange_relays)

lemma krb_existing_relays: "run tr (krb_GetExistingCertificate L s rid) = Some z \<Longrightarrow> relays_cert tr z"
  unfolding krb_GetExistingCertificate_def krb_existing_response_eq Let_def by (rule exchange_relays)

lemma ct_plain: "takeWhile (\<lambda>c. c \<noteq> CHR '';'') ct_pkix = ct_pkix"
  "takeWhile (\<lambda>c. c \<noteq> CHR '';'') ct_pkcs7 = ct_pkcs7"
  by (simp_all add: ct_defs)

text \<open>The answer to a new request is a certificate, or an id with which the request is checked.\<close>

lemma request_response_relays:
  assumes "run tr (ntlm_request_response L s res) = Some z"
  shows "relays_cert ((CHttp cl rq, AHttp (Inr res)) # tr) z"
proof (cases "rs_ContentType res = ct_pkix")
  case True
  with assms have "z = Returned (Ready, rs_Body res, ''none'', None)"
    by (simp add: ntlm_request_response_def)
  with True show ?thesis by (simp add: relays_cert_def received_here ct_plain)
next
  case False
  with assms show ?thesis
    by (auto simp: ntlm_request_response_def Let_def split: option.splits if_splits
        intro: relays_later(1) [OF ntlm_existing_relays])
qed

lemma krb_request_response_relays:
  assumes "run tr (krb_request_response L s res) = Some z"
  shows "relays_cert ((CHttp cl rq, AHttp (Inr res)) # tr) z"
proof (cases "rs_ContentType res = ct_pkix")
  case True
  with assms have "z = Returned (Ready, rs_Body res, ''none'', None)"
    by (simp add: krb_request_response_def)
  with True show ?thesis by (simp add: relays_cert_def received_here ct_plain)
next
  case False
  with assms show ?thesis
    by (auto simp: krb_request_response_def Let_def split: option.splits if_splits
        intro: relays_later(1) [OF krb_existing_relays])
qed

lemma ntlm_request_relays:
  assumes "run tr (ntlm_RequestCertificate L s csr template) = Some z"
  shows "relays_cert tr z"
  using assms
  by (auto simp: ntlm_RequestCertificate_def Let_def run_http_Do split_sum_ex split: sum.splits
      intro: request_response_relays)

lemma krb_request_relays:
  assumes "run tr (krb_RequestCertificate L s csr template) = Some z"
  shows "relays_cert tr z"
proof (cases "NewRequest L ''POST'' (krb_url s @ ''/'' @ certfnsh) (Values_Encode (krb_params csr template))")
  case (Inl e)
  with assms show ?thesis by (simp add: krb_RequestCertificate_def)
next
  case (Inr req)
  from assms [unfolded krb_RequestCertificate_def Let_def Inr sum.case run_closed_exchange]
  show ?thesis
  proof (elim disjE exE conjE)
    fix res tr'
    assume tr: "tr = (CHttp (krb_httpClient s) (Header_Set ''Content-type'' ct_urlenc (krb_prepare req)),
        AHttp (Inr res)) # tr' @ [(CCloseBody res, ADone)]"
      and "run tr' (krb_request_response L s res) = Some z"
    from krb_request_response_relays [OF this(2)] show ?thesis
      by (rule relays_later) (auto simp: tr)
  qed simp
qed

lemma ca_response_relays:
  assumes "run tr (ntlm_ca_response L ct_pkcs7 res) = Some z \<or> run tr (krb_ca_response ct_pkcs7 res) = Some z"
  shows "relays_chain ((CHttp cl rq, AHttp (Inr res)) # tr') z"
proof -
  have "rs_ContentType res = ct_pkcs7 \<and> chain = rs_Body res" if "z = Returned (chain, None)" for chain
    using assms that
    by (auto simp: ntlm_ca_response_def krb_ca_response_def err_Error_def Let_def
        split: if_splits option.splits)
  note body = this
  show ?thesis
    unfolding relays_chain_def
  proof (intro allI impI)
    fix chain assume "z = Returned (chain, None)"
    from body [OF this] have "received_as ct_pkcs7 (rs_Body res) ((CHttp cl rq, AHttp (Inr res)) # tr')"
        "chain = rs_Body res"
      using received_here [of res ct_pkcs7] by (simp_all add: ct_plain)
    then show "received_as ct_pkcs7 chain ((CHttp cl rq, AHttp (Inr res)) # tr')" by simp
  qed
qed

lemma ntlm_download_relays:
  assumes "run tr (case NewRequest L ''GET'' url '''' of
      Inl err \<Rightarrow> Ret ('''', Some err)
    | Inr req \<Rightarrow>
        bind (http_Do cl (prep req)) (\<lambda>r2. case r2 of
          Inl err \<Rightarrow> Ret ('''', Some err)
        | Inr res2 \<Rightarrow> defer_close res2 (ntlm_ca_response L ct_pkcs7 res2))) = Some z"
  shows "relays_chain tr z"
  using assms
  by (cases "NewRequest L ''GET'' url ''''") (auto simp: run_closed_exchange intro: ca_response_relays)

lemma ntlm_chain_relays:
  assumes "run tr (ntlm_GetCaCertificateChain L s) = Some z"
  shows "relays_chain tr z"
proof (cases "NewRequest L ''GET'' (ntlm_url s @ ''/'' @ certcarc) ''''")
  case (Inl e)
  with assms show ?thesis
    by (simp add: ntlm_GetCaCertificateChain_def ntlm_obtainCaCertificate_def)
next
  case (Inr req)
  from assms [unfolded ntlm_GetCaCertificateChain_def ntlm_obtainCaCertificate_def Inr
      sum.case run_closed_exchange]
  show ?thesis
  proof (elim disjE exE conjE)
    fix res tr'
    assume tr: "tr = (CHttp (ntlm_httpClient s) (ntlm_prepare s req), AHttp (Inr res)) # tr' @ [(CCloseBody res, ADone)]"
      and body: "run tr' (case rs_ReadErr res of
         Some err \<Rightarrow> Ret ('''', Some err)
       | None \<Rightarrow>
           (let url = ntlm_url s @ ''/'' @ certnew_p7b @ ''?ReqID=CACert&ENC=b64&Renewal='' @
                      renewal_of (rs_Body res) in
            case NewRequest L ''GET'' url '''' of
              Inl err \<Rightarrow> Ret ('''', Some err)
            | Inr req \<Rightarrow>
                bind (http_Do (ntlm_httpClient s) (ntlm_prepare s req)) (\<lambda>r2. case r2 of
                  Inl err \<Rightarrow> Ret ('''', Some err)
                | Inr res2 \<Rightarrow> defer_close res2 (ntlm_ca_response L ct_pkcs7 res2)))) = Some z"
    have "relays_chain tr' z"
    proof (cases "rs_ReadErr res")
      case None
      with body show ?thesis by (auto simp only: Let_def option.case intro: ntlm_download_relays)
    next
      case (Some err)
      with body show ?thesis by simp
    qed
    then show ?thesis by (rule relays_later) (auto simp: tr)
  qed simp
qed

lemma krb_download_relays:
  assumes "run tr (bind (ignore_request_error (NewRequest L ''GET'' url '''')) (\<lambda>req.
      bind (http_Do cl (krb_prepare req)) (\<lambda>r2. case r2 of
        Inl err \<Rightarrow> Ret ('''', Some err)
      | Inr res2 \<Rightarrow> defer_close res2 (krb_ca_response ct_pkcs7 res2)))) = Some z"
  shows "relays_chain tr z"
proof (cases "NewRequest L ''GET'' url ''''")
  case (Inl e)
  with assms show ?thesis by (simp add: run_ignore_request_error)
next
  case (Inr req)
  with assms show ?thesis
    by (auto simp: run_ignore_request_error run_closed_exchange intro: ca_response_relays)
qed

lemma krb_chain_relays:
  assumes "run tr (krb_GetCaCertificateChain L s) = Some z"
  shows "relays_chain tr z"
proof (cases "NewRequest L ''GET'' (krb_url s @ ''/'' @ certcarc) ''''")
  case (Inl e)
  with assms show ?thesis
    by (simp add: krb_GetCaCertificateChain_def krb_obtainCaCertificate_def run_ignore_request_error)
next
  case (Inr req)
  from assms [unfolded krb_GetCaCertificateChain_def krb_obtainCaCertificate_def Inr
      ignore_request_error.simps bind.simps run_closed_exchange]
  show ?thesis
  proof (elim disjE exE conjE)
    fix res tr'
    assume tr: "tr = (CHttp (krb_httpClient s) (krb_prepare req), AHttp (Inr res)) # tr' @ [(CCloseBody res, ADone)]"
      and body: "run tr' (case rs_ReadErr res of
         Some err \<Rightarrow> Ret ('''', Some err)
       | None \<Rightarrow>
           (let found = FindStringSubmatch re_renewals (rs_Body res);
                renewal = (if length found > 1 then found ! 1 else ''0'');
                url = krb_url s @ ''/'' @ certnew_p7b @ ''?ReqID=CACert&ENC=b64&Renewal='' @ renewal in
            bind (ignore_request_error (NewRequest L ''GET'' url '''')) (\<lambda>req.
            bind (http_Do (krb_httpClient s) (krb_prepare req)) (\<lambda>r2. case r2 of
              Inl err \<Rightarrow> Ret ('''', Some err)
            | Inr res2 \<Rightarrow> defer_close res2 (krb_ca_response ct_pkcs7 res2))))) = Some z"
    have "relays_chain tr' z"
    proof (cases "rs_ReadErr res")
      case None
      with body show ?thesis by (auto simp only: Let_def option.case intro: krb_download_relays)
    next
      case (Some err)
      with body show ?thesis by simp
    qed
    then show ?thesis by (rule relays_later) (auto simp: tr)
  qed simp
qed

interpretation ntlm_relay: relay "ntlm_iface L s" for L s
  by unfold_locales
     (auto simp: ntlm_iface_def intro: ntlm_existing_relays ntlm_request_relays ntlm_chain_relays)

interpretation krb_relay: relay "krb_iface L s" for L s
  by unfold_locales
     (auto simp: krb_iface_def intro: krb_existing_relays krb_request_relays krb_chain_relays)

lemma GetIssuer_relays:
  "run tr (GetIssuer L f ref ns) = Some (Returned (Inr issuer)) \<Longrightarrow> relay (certServ issuer)"
  using returns_sat_run [OF GetIssuer_known] ntlm_relay.relay_axioms krb_relay.relay_axioms
  by (fastforce simp: known_certsrv_def)

section \<open>The delivery\<close>

text \<open>
  C9. The certificate that is delivered is the one ADCS sent: a status update of the
  CertificateRequest for a request that was not settled before is the report of a rejection or
  an error, or it is the report of a certificate that is, byte for byte, the body of a
  response received in this reconciliation as a certificate, with the CA certificates parsed
  out of the body of a response received as a PKCS7 chain.
\<close>

theorem AR_delivers_what_ADCS_sent:
  assumes "run ((CGetAR key, AGetAR (Inr ar)) # tr) (AdcsRequest_Reconcile L r key) = Some z"
    and "(CUpdateCRStatus cr', x) \<in> set tr" and "phase_of (ar_Status ar) \<noteq> Settled"
  shows "\<exists>cr t. (CGetCR key, AGetCR (Inr cr)) \<in> set tr \<and>
    (cr' = report L t StateRejected None None cr \<or> cr' = report L t StateErrored None None cr \<or>
     (\<exists>cert chain ca. received_as ct_pkix cert tr \<and> received_as ct_pkcs7 chain tr \<and>
        parseCaCert L chain = Inr ca \<and> cr' = report L t StateReady (Some cert) (Some ca) cr))"
proof -
  have w: "(CUpdateCRStatus cr', x) \<in> set (writes ((CGetAR key, AGetAR (Inr ar)) # tr))"
    using assms(2) by (simp add: set_writes)
  from assms(1) show ?thesis
  proof (cases rule: AR_run_cases)
    case silent
    with w show ?thesis by simp
  next
    case (published a issuer res cr tr3)
    then obtain tr1 tr2 ar' cert ca where
        tr: "tr = tr1 @ tr2 @ (CGetCR key, AGetCR (Inr cr)) # tr3"
        and g: "run tr1 (GetIssuer L (arr_IssuerFactory r) (ar_IssuerRef (ar_Spec ar))
                 (meta_Namespace (ar_meta ar))) = Some (Returned (Inr issuer))"
        and i: "run tr2 (Issue L issuer ar) = Some (Returned (ar', cert, ca, None))"
        and p: "run tr3 (publish L issuer ar' cert ca cr) = Some z"
      unfolding published_def by auto
    note relay = GetIssuer_relays [OF g]
    have post: "issue_post ar (ar', cert, ca, None)"
      using returns_sat_run [OF adcs_certsrv.Issue_post [OF GetIssuer_contract [OF g] refl] i] .
    have here: "(CGetCR key, AGetCR (Inr cr)) \<in> set tr" by (simp add: tr)
    have "writes tr = writes tr3"
      using GetIssuer_silent [OF g] Issue_silent [OF GetIssuer_contract [OF g] i] by (simp add: tr)
    with p w obtain t where st: "ar_State (ar_Status ar') \<in> set reported_states"
        and cr': "cr' = report L t (ar_State (ar_Status ar')) cert ca cr"
      by (cases rule: publish_cases) auto
    show ?thesis
    proof (cases "ar_State (ar_Status ar') = StateReady")
      case True
      with post assms(3) obtain c where c: "cert = Some c" by (auto simp: issue_post_def)
      from relay.Issue_relays [OF relay refl i [unfolded c]] obtain chain pem where
          got: "received_as ct_pkix c tr2" "received_as ct_pkcs7 chain tr2"
            "parseCaCert L chain = Inr pem" "ca = Some pem" by blast
      have "set tr2 \<subseteq> set tr" by (auto simp: tr)
      with got have "received_as ct_pkix c tr" "received_as ct_pkcs7 chain tr"
        by (blast intro: received_as_mono)+
      moreover from got(4) cr' c True have "cr' = report L t StateReady (Some c) (Some pem) cr" by simp
      ultimately show ?thesis using here got(3) by blast
    next
      case False
      then have "report L t (ar_State (ar_Status ar')) cert ca cr =
          report L t (ar_State (ar_Status ar')) None None cr" by (simp add: report_def)
      with here st False cr' show ?thesis by (intro exI [of _ cr] exI [of _ t]) auto
    qed
  qed
qed

theorem AR_delivers_what_ADCS_sent_witness:
  "\<exists>cr t cert chain ca. received_as ct_pkix cert (factory_trace @ issue_trace @ delivery_trace) \<and>
     parseCaCert sample_lib chain = Inr ca \<and>
     sample_set 7 (with_certificate approved_cr (Some ''cert'') (Some ca_pem)) ConditionReady ConditionTrue
       ReasonIssued ''ADCS request successful'' = report sample_lib t StateReady (Some cert) (Some ca) cr"
proof -
  let ?cr' = "sample_set 7 (with_certificate approved_cr (Some ''cert'') (Some ca_pem)) ConditionReady
     ConditionTrue ReasonIssued ''ADCS request successful''"
  have sent: "(CUpdateCRStatus ?cr', AErr None) \<in> set (factory_trace @ issue_trace @ delivery_trace)"
    by (simp add: delivery_trace_def status_trace_def Let_def)
  have status: "cond_Status (last (cr_Conditions (cr_Status (sample_set t c ty st rs msg)))) = st"
    for t c ty st rs msg by (simp add: sample_set_def)
  have other: "?cr' \<noteq> report sample_lib t StateRejected None None c" "?cr' \<noteq> report sample_lib t StateErrored None None c"
    for t c
    using status by (auto simp: report_def dest!: arg_cong [of _ _ "\<lambda>c. cond_Status (last (cr_Conditions (cr_Status c)))"])
  have "phase_of (ar_Status opened) \<noteq> Settled"
    by (simp add: phase_of_def zero_status_def)
  from AR_delivers_what_ADCS_sent [OF issuing_run [unfolded issuing_trace_def] sent this] other
  show ?thesis by blast
qed

end
