(* ===== verification/Outages.thy ===== *)
theory Outages
  imports Cluster_Theorems Delivery "HOL-Library.Sublist"
begin

text \<open>
  What becomes of a request over many reconciliations when the API server, the network and
  ADCS fail some of the time. An event is \<open>sound\<close> when the other side answered properly; a
  round is a reconciliation with its outcome, and a setback is a round in which something was
  not sound or an error was reported. The locale \<open>responsive_certsrv\<close> extends the contract of
  the clients: on sound answers they come to a decision. Both clients interpret it, so one
  round without a setback settles an open request.
\<close>

section \<open>Sound answers\<close>

definition asks_for :: "string \<Rightarrow> http_request \<Rightarrow> bool" where
  "asks_for page rq = (rq_Method rq = ''GET'' \<and> sublist (CHR ''/'' # page) (rq_URL rq))"

text \<open>The page of a request that is decided: a certificate, or a message that is not the pending one.\<close>

definition decided_page :: "http_response \<Rightarrow> bool" where
  "decided_page res =
     (let ct = hd (Split (rs_ContentType res) CHR '';'') in
      ct = ct_pkix \<or>
      ct = ct_html \<and> FindStringSubmatch re_disposition (rs_Body res) \<noteq> [] \<and>
        \<not> MatchString re_pending (rs_Body res))"

text \<open>The page after a submission names the request, unless it is the certificate itself.\<close>

definition accepted_page :: "http_response \<Rightarrow> bool" where
  "accepted_page res = (rs_ContentType res = ct_pkix \<or>
     FindStringSubmatch re_certnew (rs_Body res) \<noteq> [] \<or>
     FindStringSubmatch re_request_id (rs_Body res) \<noteq> [])"

definition chain_page :: "lib \<Rightarrow> http_response \<Rightarrow> bool" where
  "chain_page L res = (rs_ContentType res = ct_pkcs7 \<and> rs_Body res \<noteq> [] \<and>
     (\<exists>ca. parseCaCert L (rs_Body res) = Inr ca))"

definition sound_page :: "lib \<Rightarrow> http_request \<Rightarrow> http_response \<Rightarrow> bool" where
  "sound_page L rq res = (rs_ReadErr res = None \<and>
     (rq_Method rq = ''POST'' \<longrightarrow> accepted_page res) \<and>
     (asks_for certnew_cer rq \<longrightarrow> rs_StatusCode res = StatusOK \<and> decided_page res) \<and>
     (asks_for certnew_p7b rq \<longrightarrow> rs_StatusCode res = StatusOK \<and> chain_page L res))"

text \<open>A base URL under which every URL of the clients parses.\<close>

definition base_ok :: "lib \<Rightarrow> string \<Rightarrow> bool" where
  "base_ok L u = (url_Parse L (u @ ''/'' @ certfnsh) = None \<and> url_Parse L (u @ ''/'' @ certcarc) = None \<and>
     (\<forall>n. is_request_id n \<longrightarrow>
        url_Parse L (u @ ''/'' @ certnew_cer @ ''?ReqID='' @ n @ ''&ENC=b64'') = None \<and>
        url_Parse L (u @ ''/'' @ certnew_p7b @ ''?ReqID=CACert&ENC=b64&Renewal='' @ n) = None))"

definition sound_http :: "lib \<Rightarrow> call \<Rightarrow> gerr + http_response \<Rightarrow> bool" where
  "sound_http L c r = (case r of Inl _ \<Rightarrow> False
     | Inr res \<Rightarrow> (case c of CHttp cl rq \<Rightarrow> sound_page L rq res | _ \<Rightarrow> True))"

primrec sound_answer :: "lib \<Rightarrow> call \<Rightarrow> answer \<Rightarrow> bool" where
  "sound_answer L c (AHttp r) = sound_http L c r"
| "sound_answer L c ADone = True"
| "sound_answer L c (AErr e) = (e = None)"
| "sound_answer L c (AString s) = True"
| "sound_answer L c (AGetAR r) = (case r of Inl _ \<Rightarrow> False | Inr _ \<Rightarrow> True)"
| "sound_answer L c (AGetCR r) = (case r of Inl _ \<Rightarrow> False | Inr _ \<Rightarrow> True)"
| "sound_answer L c (AGetAI r) = (case r of Inl _ \<Rightarrow> False | Inr i \<Rightarrow> base_ok L (ai_URL (ai_Spec i)))"
| "sound_answer L c (AGetCAI r) = (case r of Inl _ \<Rightarrow> False | Inr i \<Rightarrow> base_ok L (cai_URL (cai_Spec i)))"
| "sound_answer L c (AGetSecret r) = True"
| "sound_answer L c (AGetConfigMap r) = True"
| "sound_answer L c (ATime t) = True"
| "sound_answer L c (APool r) = True"

definition sound :: "lib \<Rightarrow> call \<times> answer \<Rightarrow> bool" where
  "sound L e = sound_answer L (fst e) (snd e)"

lemma sound_simps [simp]:
  "sound L (CHttp cl rq, AHttp (Inr res)) = sound_page L rq res"
  "\<not> sound L (c, AHttp (Inl e))"
  "sound L (c, AErr x) \<longleftrightarrow> x = None"
  "sound L (c, ADone)" "sound L (c, AString s)" "sound L (c, ATime t)" "sound L (c, AGetSecret x1)"
  "sound L (c, AGetConfigMap x2)" "sound L (c, APool x3)"
  "\<not> sound L (c, AGetAR (Inl e))" "sound L (c, AGetAR (Inr ar))"
  "\<not> sound L (c, AGetCR (Inl e))" "sound L (c, AGetCR (Inr cr))"
  "\<not> sound L (c, AGetAI (Inl e))" "sound L (c, AGetAI (Inr i)) \<longleftrightarrow> base_ok L (ai_URL (ai_Spec i))"
  "\<not> sound L (c, AGetCAI (Inl e))" "sound L (c, AGetCAI (Inr ci)) \<longleftrightarrow> base_ok L (cai_URL (cai_Spec ci))"
  by (simp_all add: sound_def sound_http_def)

section \<open>Programs that decide\<close>

text \<open>On sound answers the program returns a value with a property; it neither panics nor fails.\<close>

definition decides :: "lib \<Rightarrow> 'a prog \<Rightarrow> ('a \<Rightarrow> bool) \<Rightarrow> bool" where
  "decides L p P = runs_sat p (\<lambda>tr z. list_all (sound L) tr \<longrightarrow> (\<exists>a. z = Returned a \<and> P a))"

lemma decidesD:
  "decides L p P \<Longrightarrow> run tr p = Some z \<Longrightarrow> list_all (sound L) tr \<Longrightarrow> \<exists>a. z = Returned a \<and> P a"
  unfolding decides_def by (drule (1) runs_satD) simp

lemma decides_Ret [simp]: "decides L (Ret a) P \<longleftrightarrow> P a"
  by (simp add: decides_def runs)

lemma decides_Call:
  "decides L (Call c k) P \<longleftrightarrow> (\<forall>r. answers c r \<longrightarrow> sound L (c, r) \<longrightarrow> decides L (k r) P)"
  unfolding decides_def runs_sat_Call by (auto simp: runs_sat_def)

lemma all_sums: "(\<forall>x. Q x) \<longleftrightarrow> (\<forall>e. Q (Inl e)) \<and> (\<forall>v. Q (Inr v))"
  by (metis sumE)

lemma decides_calls [simp]:
  "decides L (bind (http_Do cl rq) f1) P \<longleftrightarrow> (\<forall>res. sound_page L rq res \<longrightarrow> decides L (f1 (Inr res)) P)"
  "decides L (bind (GetAI k) f2) P \<longleftrightarrow>
     (\<forall>i. base_ok L (ai_URL (ai_Spec i)) \<longrightarrow> decides L (f2 (Inr i)) P)"
  "decides L (bind (GetCAI k) f3) P \<longleftrightarrow>
     (\<forall>i. base_ok L (cai_URL (cai_Spec i)) \<longrightarrow> decides L (f3 (Inr i)) P)"
  "decides L (bind (GetSecret k) f4) P \<longleftrightarrow> (\<forall>x. decides L (f4 x) P)"
  "decides L (bind (GetConfigMap k) f5) P \<longleftrightarrow> (\<forall>x. decides L (f5 x) P)"
  "decides L (bind (Getenv v) f6) P \<longleftrightarrow> (\<forall>x. decides L (f6 x) P)"
  "decides L (bind (KrbLoadConfig p) f7) P \<longleftrightarrow> decides L (f7 None) P"
  "decides L (bind (KrbLogin u rl pw) f8) P \<longleftrightarrow> decides L (f8 None) P"
  "decides L (bind SystemCertPool f9) P \<longleftrightarrow> (\<forall>x. decides L (f9 x) P)"
  by (simp_all add: call_defs decides_Call all_sums [of "\<lambda>x. sound L (c, AHttp x) \<longrightarrow> Q x" for c Q]
      all_sums [of "\<lambda>x. sound L (c, AGetAI x) \<longrightarrow> Q x" for c Q]
      all_sums [of "\<lambda>x. sound L (c, AGetCAI x) \<longrightarrow> Q x" for c Q])

lemma decides_defer_close [simp]: "decides L (defer_close res p) P \<longleftrightarrow> decides L p P"
  by (simp add: decides_def runs_sat_defer_close)

lemma decides_bind:
  assumes "decides L p Q" and "\<And>a. Q a \<Longrightarrow> decides L (f a) P"
  shows "decides L (bind p f) P"
  unfolding decides_def
proof (rule runs_satI, rule impI)
  fix tr z
  assume "run tr (bind p f) = Some z" and sound: "list_all (sound L) tr"
  then show "\<exists>a. z = Returned a \<and> P a"
  proof (cases rule: run_bind_cases)
    case (returned tr1 tr2 a)
    with sound decidesD [OF assms(1) returned(2)] have "Q a" by simp
    with returned sound show ?thesis by (auto dest: decidesD [OF assms(2)])
  next
    case (panicked s)
    with sound decidesD [OF assms(1) panicked(1)] show ?thesis by simp
  qed
qed

text \<open>A request that can be built is built.\<close>

lemma NewRequest_ok:
  assumes "url_Parse L u = None"
  obtains rq where "NewRequest L verb u body = Inr rq" "rq_Method rq = verb" "rq_URL rq = u"
  using assms by (simp add: NewRequest_def)

section \<open>The contract: clients that decide on sound answers\<close>

definition decided_result :: "cert_result \<Rightarrow> bool" where
  "decided_result = (\<lambda>(st, desc, i, err). err = None \<and> st \<noteq> Unknown \<and> st \<noteq> Pending)"

definition chain_result :: "lib \<Rightarrow> string \<times> gerr option \<Rightarrow> bool" where
  "chain_result L = (\<lambda>(chain, err). err = None \<and> chain \<noteq> [] \<and> (\<exists>ca. parseCaCert L chain = Inr ca))"

locale responsive_certsrv = adcs_certsrv srv for srv +
  fixes L :: lib and url :: string
  assumes existing_decides: "base_ok L url \<Longrightarrow> is_request_id rid \<Longrightarrow>
      decides L (GetExistingCertificate srv rid) decided_result"
    and request_decides: "base_ok L url \<Longrightarrow> decides L (RequestCertificate srv csr t) decided_result"
    and chain_decides: "base_ok L url \<Longrightarrow> decides L (GetCaCertificateChain srv) (chain_result L)"

text \<open>
  A status that can still be brought to an end: a new one, or a pending one with the id that
  ADCS gave it.
\<close>

definition open_status :: "AdcsRequestStatus \<Rightarrow> bool" where
  "open_status s = (ar_State s = StateUnknown \<or> ar_State s = StatePending \<and> is_request_id (ar_Id s))"

lemma open_zero [simp]: "open_status zero_status"
  by (simp add: open_status_def zero_status_def)

lemma open_not_settled: "open_status s \<Longrightarrow> phase_of s \<noteq> Settled"
  by (auto simp: open_status_def phase_of_def)

lemma lifecycle_open: "lifecycle s t \<Longrightarrow> open_status s \<Longrightarrow> open_status t \<or> phase_of t = Settled"
  unfolding lifecycle_iff by (auto simp: open_status_def phase_of_def split: if_splits)

definition settled_result :: "issue_result \<Rightarrow> bool" where
  "settled_result = (\<lambda>(ar, cert, ca, err). err = None \<and> phase_of (ar_Status ar) = Settled)"

lemma issue_chain_decides:
  assumes "decides L (GetCaCertificateChain (certServ i)) (chain_result L)"
    and "phase_of (ar_Status ar) = Settled"
  shows "decides L (issue_chain L i ar cert) settled_result"
  unfolding issue_chain_def
  by (rule decides_bind [OF assms(1)])
     (use assms(2) parseCaCert_neq_Nil in \<open>auto simp: chain_result_def settled_result_def\<close>)

lemma issue_response_decides:
  assumes "decides L (GetCaCertificateChain (certServ i)) (chain_result L)" and "decided_result r"
  shows "decides L (issue_response L i ar r) settled_result"
proof -
  obtain st desc rid where "r = (st, desc, rid, None)" "st \<noteq> Unknown" "st \<noteq> Pending"
    using assms(2) by (cases r) (auto simp: decided_result_def)
  then show ?thesis
    by (cases st)
       (auto simp: issue_response_def record_response_def set_status_def phase_of_def
          intro!: issue_chain_decides [OF assms(1)])
qed

context responsive_certsrv
begin

lemma Issue_decides:
  assumes "certServ i = srv" and "base_ok L url" and "open_status (ar_Status ar)"
  shows "decides L (Issue L i ar) settled_result"
proof -
  have chain: "decides L (GetCaCertificateChain (certServ i)) (chain_result L)"
    using chain_decides assms(1,2) by simp
  note rest = issue_response_decides [OF chain]
  show ?thesis
  proof (cases "ar_State (ar_Status ar) = StateUnknown")
    case True
    then show ?thesis
      by (simp add: Issue_def assms(1))
         (rule decides_bind [OF request_decides [OF assms(2)]], rule rest)
  next
    case False
    with assms(3) have p: "ar_State (ar_Status ar) = StatePending" "is_request_id (ar_Id (ar_Status ar))"
      by (auto simp: open_status_def)
    then have "ar_Id (ar_Status ar) \<noteq> ''''" by (auto simp: is_request_id_def)
    with p show ?thesis
      by (simp add: Issue_def assms(1))
         (rule decides_bind [OF existing_decides [OF assms(2)]], assumption, rule rest)
  qed
qed

end

section \<open>Both clients keep it\<close>

lemma asks_for_url:
  "rq_Method rq = ''GET'' \<Longrightarrow> rq_URL rq = u @ ''/'' @ page @ rest \<Longrightarrow> asks_for page rq"
  by (auto simp: asks_for_def sublist_def)

lemma existing_response_decides:
  assumes "sound_page L rq res" and "asks_for certnew_cer rq"
  shows "decides L (ntlm_existing_response rid res) decided_result"
proof -
  have ok: "rs_StatusCode res = StatusOK" "rs_ReadErr res = None" "decided_page res"
    using assms by (auto simp: sound_page_def)
  have page: "decided_result (ntlm_status_page rid (rs_Body res))"
    if "FindStringSubmatch re_disposition (rs_Body res) \<noteq> []" "\<not> MatchString re_pending (rs_Body res)"
    using that
    by (auto simp: ntlm_status_page_def decided_result_def Let_def
        intro: found_cases [of re_disposition "rs_Body res"])
  show ?thesis
    using ok page by (auto simp: ntlm_existing_response_def decided_page_def Let_def decided_result_def)
qed

lemma base_okD:
  assumes "base_ok L u"
  shows "url_Parse L (u @ ''/'' @ certfnsh) = None" "url_Parse L (u @ ''/'' @ certcarc) = None"
    and "is_request_id n \<Longrightarrow> url_Parse L (u @ ''/'' @ certnew_cer @ ''?ReqID='' @ n @ ''&ENC=b64'') = None"
    and "is_request_id n \<Longrightarrow>
      url_Parse L (u @ ''/'' @ certnew_p7b @ ''?ReqID=CACert&ENC=b64&Renewal='' @ n) = None"
  using assms by (simp_all add: base_ok_def)

lemma decides_built:
  assumes "url_Parse L u = None"
    and "\<And>rq. rq_Method rq = verb \<Longrightarrow> rq_URL rq = u \<Longrightarrow> decides L (f rq) P"
  shows "decides L (bind (ignore_request_error (NewRequest L verb u body)) f) P"
  using assms by (auto elim: NewRequest_ok [of _ _ verb body])

lemma ntlm_existing_decides:
  assumes "base_ok L (ntlm_url s)" and "is_request_id rid"
  shows "decides L (ntlm_GetExistingCertificate L s rid) decided_result"
  unfolding ntlm_GetExistingCertificate_def Let_def
  by (rule decides_built [OF base_okD(3) [OF assms]])
     (auto intro!: existing_response_decides asks_for_url [where u = "ntlm_url s"])

lemma krb_existing_decides:
  assumes "base_ok L (krb_url s)" and "is_request_id rid"
  shows "decides L (krb_GetExistingCertificate L s rid) decided_result"
  unfolding krb_GetExistingCertificate_def Let_def krb_existing_response_eq
  by (rule decides_built [OF base_okD(3) [OF assms]])
     (auto intro!: existing_response_decides asks_for_url [where u = "krb_url s"])

text \<open>What follows a submission: the certificate, or the check of the request that was named.\<close>

lemma accepted_cases:
  assumes "accepted_page res"
  obtains (cert) "rs_ContentType res = ct_pkix"
  | (certnew) x g where "rs_ContentType res \<noteq> ct_pkix" "FindStringSubmatch re_certnew (rs_Body res) = [x, g]"
      "is_request_id g"
  | (request_id) x g where "rs_ContentType res \<noteq> ct_pkix" "FindStringSubmatch re_certnew (rs_Body res) = []"
      "FindStringSubmatch re_request_id (rs_Body res) = [x, g]" "is_request_id g"
  using assms found_cases [OF re_groups(5,6), of "rs_Body res"] found_cases [OF re_groups(7,8), of "rs_Body res"]
    re_certnew_id re_request_id_id
  unfolding accepted_page_def by metis

lemma request_response_decides:
  assumes "rs_ReadErr res = None" and "accepted_page res"
  shows "base_ok L (ntlm_url s) \<Longrightarrow> decides L (ntlm_request_response L s res) decided_result"
    and "base_ok L (krb_url k) \<Longrightarrow> decides L (krb_request_response L k res) decided_result"
  using assms(2)
  by (cases rule: accepted_cases;
      simp add: assms(1) ntlm_request_response_def krb_request_response_def decided_result_def
        ntlm_existing_decides krb_existing_decides [unfolded decided_result_def]
        ntlm_existing_decides [unfolded decided_result_def])+

lemma sound_post: "sound_page L rq res \<Longrightarrow> rq_Method rq = ''POST'' \<Longrightarrow> rs_ReadErr res = None \<and> accepted_page res"
  by (simp add: sound_page_def)

lemma ntlm_request_decides:
  assumes "base_ok L (ntlm_url s)"
  shows "decides L (ntlm_RequestCertificate L s csr t) decided_result"
proof -
  obtain rq where "NewRequest L ''POST'' (ntlm_url s @ ''/'' @ certfnsh) (Values_Encode (ntlm_params csr t)) = Inr rq"
      "rq_Method rq = ''POST''"
    using NewRequest_ok [OF base_okD(1) [OF assms]] by metis
  then show ?thesis
    by (auto simp: ntlm_RequestCertificate_def Let_def
        dest!: sound_post intro!: request_response_decides(1) assms)
qed

lemma krb_request_decides:
  assumes "base_ok L (krb_url s)"
  shows "decides L (krb_RequestCertificate L s csr t) decided_result"
proof -
  obtain rq where "NewRequest L ''POST'' (krb_url s @ ''/'' @ certfnsh) (Values_Encode (krb_params csr t)) = Inr rq"
      "rq_Method rq = ''POST''"
    using NewRequest_ok [OF base_okD(1) [OF assms]] by metis
  then show ?thesis
    by (auto simp: krb_RequestCertificate_def Let_def
        dest!: sound_post intro!: request_response_decides(2) assms)
qed

text \<open>The CA chain. The renewal number is one that can be asked for.\<close>

lemma renewal_is_number: "is_request_id (renewal_of body)"
proof -
  have "is_request_id ''0''" by (simp add: is_request_id_def digits_def)
  then show ?thesis
    using found_cases [OF re_groups(11,12), of body] re_renewals_id [of body]
    by (fastforce simp: renewal_of_def Let_def)
qed

lemma ca_response_decides:
  assumes "sound_page L rq res" "asks_for certnew_p7b rq"
  shows "decides L (ntlm_ca_response L ct_pkcs7 res) (chain_result L)"
    and "decides L (krb_ca_response ct_pkcs7 res) (chain_result L)"
proof -
  have "rs_StatusCode res = StatusOK" "rs_ReadErr res = None" "rs_ContentType res = ct_pkcs7"
      "chain_result L (rs_Body res, None)"
    using assms by (auto simp: sound_page_def chain_page_def chain_result_def)
  then show "decides L (ntlm_ca_response L ct_pkcs7 res) (chain_result L)"
      "decides L (krb_ca_response ct_pkcs7 res) (chain_result L)"
    by (simp_all add: ntlm_ca_response_def krb_ca_response_def)
qed

lemma ntlm_chain_decides:
  assumes "base_ok L (ntlm_url s)"
  shows "decides L (ntlm_GetCaCertificateChain L s) (chain_result L)"
proof -
  obtain rq1 where rq1: "NewRequest L ''GET'' (ntlm_url s @ ''/'' @ certcarc) '''' = Inr rq1"
    using NewRequest_ok [OF base_okD(2) [OF assms]] by metis
  have second: "decides L (case NewRequest L ''GET'' (ntlm_url s @ ''/'' @ certnew_p7b @
        ''?ReqID=CACert&ENC=b64&Renewal='' @ renewal_of body) '''' of
      Inl err \<Rightarrow> Ret ('''', Some err)
    | Inr req \<Rightarrow> bind (http_Do (ntlm_httpClient s) (ntlm_prepare s req)) (\<lambda>r2. case r2 of
         Inl err \<Rightarrow> Ret ('''', Some err)
       | Inr res2 \<Rightarrow> defer_close res2 (ntlm_ca_response L ct_pkcs7 res2))) (chain_result L)" for body
  proof -
    obtain rq2 where rq2: "NewRequest L ''GET'' (ntlm_url s @ ''/'' @ certnew_p7b @
        ''?ReqID=CACert&ENC=b64&Renewal='' @ renewal_of body) '''' = Inr rq2" "rq_Method rq2 = ''GET''"
        "rq_URL rq2 = ntlm_url s @ ''/'' @ certnew_p7b @ ''?ReqID=CACert&ENC=b64&Renewal='' @ renewal_of body"
      using NewRequest_ok [OF base_okD(4) [OF assms renewal_is_number]] by metis
    have "asks_for certnew_p7b (ntlm_prepare s rq2)"
      by (rule asks_for_url [where u = "ntlm_url s"]) (simp_all add: rq2)
    then show ?thesis
      unfolding rq2(1) by (auto intro: ca_response_decides)
  qed
  show ?thesis
    unfolding ntlm_GetCaCertificateChain_def ntlm_obtainCaCertificate_def rq1 Let_def
    using second by (auto simp: sound_page_def split: option.split)
qed

lemma krb_chain_decides:
  assumes "base_ok L (krb_url s)"
  shows "decides L (krb_GetCaCertificateChain L s) (chain_result L)"
proof -
  have second: "decides L (bind (ignore_request_error (NewRequest L ''GET'' (krb_url s @ ''/'' @ certnew_p7b @
        ''?ReqID=CACert&ENC=b64&Renewal='' @ renewal_of body) '''')) (\<lambda>req.
      bind (http_Do (krb_httpClient s) (krb_prepare req)) (\<lambda>r2. case r2 of
         Inl err \<Rightarrow> Ret ('''', Some err)
       | Inr res2 \<Rightarrow> defer_close res2 (krb_ca_response ct_pkcs7 res2)))) (chain_result L)" for body
  proof (rule decides_built [OF base_okD(4) [OF assms renewal_is_number]])
    fix rq :: http_request
    assume "rq_Method rq = ''GET''"
      and "rq_URL rq = krb_url s @ ''/'' @ certnew_p7b @ ''?ReqID=CACert&ENC=b64&Renewal='' @ renewal_of body"
    then have "asks_for certnew_p7b (krb_prepare rq)"
      by (intro asks_for_url [where u = "krb_url s"]) simp_all
    then show "decides L (bind (http_Do (krb_httpClient s) (krb_prepare rq)) (\<lambda>r2. case r2 of
         Inl err \<Rightarrow> Ret ('''', Some err)
       | Inr res2 \<Rightarrow> defer_close res2 (krb_ca_response ct_pkcs7 res2))) (chain_result L)"
      by (auto intro: ca_response_decides)
  qed
  show ?thesis
    unfolding krb_GetCaCertificateChain_def krb_obtainCaCertificate_def Let_def
    unfolding renewal_of_def [unfolded Let_def, symmetric]
    by (rule decides_built [OF base_okD(2) [OF assms]])
       (auto simp: sound_page_def split: option.split intro: second [simplified])
qed

interpretation ntlm_responsive: responsive_certsrv "ntlm_iface L s" L "ntlm_url s" for L s
  by unfold_locales
     (auto simp: ntlm_iface_def intro: ntlm_existing_decides ntlm_request_decides ntlm_chain_decides)

interpretation krb_responsive: responsive_certsrv "krb_iface L s" L "krb_url s" for L s
  by unfold_locales
     (auto simp: krb_iface_def intro: krb_existing_decides krb_request_decides krb_chain_decides)

section \<open>The factory builds such clients\<close>

definition responsive_issuer :: "lib \<Rightarrow> gerr + Issuer \<Rightarrow> bool" where
  "responsive_issuer L r = (\<forall>i. r = Inr i \<longrightarrow> (\<exists>url. base_ok L url \<and> responsive_certsrv (certServ i) L url))"

definition any_result :: "'a \<Rightarrow> bool" where
  "any_result x = True"

lemma responsive_Inl [simp]: "responsive_issuer L (Inl e)"
  by (simp add: responsive_issuer_def)

lemma responsive_Inr:
  "base_ok L url \<Longrightarrow> responsive_certsrv (certServ i) L url \<Longrightarrow> responsive_issuer L (Inr i)"
  by (auto simp: responsive_issuer_def)

lemma new_certsrv_decides:
  assumes "base_ok L url"
  shows "decides L (new_certsrv L url u p realm pool) (\<lambda>r. \<exists>srv. r = Inr srv \<and> responsive_certsrv srv L url)"
  using ntlm_responsive.responsive_certsrv_axioms [of L "\<lparr>ntlm_url = url, ntlm_username = u, ntlm_password = p,
      ntlm_httpClient = ntlm_http_client u p (Some pool)\<rparr>"]
    krb_responsive.responsive_certsrv_axioms [of L "\<lparr>krb_url = url, krb_httpClient = \<lparr>hc_auth = SpnegoClient u realm,
      hc_RootCAs = Some pool, hc_InsecureSkipVerify = False\<rparr>\<rparr>"]
  by (auto simp: new_certsrv_def NewKerberosCertsrv_def NewNtlmCertsrv_def krb_finish_def Let_def bind_assoc)

lemma getUserPassword_decides: "decides L (getUserPassword n ns) any_result"
  by (auto simp: getUserPassword_def any_result_def split: sum.split option.split)

lemma load_certs_decides: "decides L (load_certs L b ref ns) any_result"
  by (auto simp: load_certs_def getCaBundle_def any_result_def Let_def bind_assoc split: sum.split)

lemma getAdcsIssuer_decides: "decides L (getAdcsIssuer L f key) (responsive_issuer L)"
  unfolding getAdcsIssuer_def Let_def
  by (auto simp: Let_def intro: responsive_Inr
      intro!: decides_bind [OF getUserPassword_decides] decides_bind [OF load_certs_decides]
        decides_bind [OF new_certsrv_decides] split: sum.split)
     (rule responsive_Inr, assumption, simp)+

lemma getClusterAdcsIssuer_decides: "decides L (getClusterAdcsIssuer L f key) (responsive_issuer L)"
  unfolding getClusterAdcsIssuer_def Let_def
  by (auto simp: Let_def intro: responsive_Inr
      intro!: decides_bind [OF getUserPassword_decides] decides_bind [OF load_certs_decides]
        decides_bind [OF new_certsrv_decides] split: sum.split)
     (rule responsive_Inr, assumption, simp)+

lemma GetIssuer_decides: "decides L (GetIssuer L f ref ns) (responsive_issuer L)"
  by (simp add: GetIssuer_def Let_def getAdcsIssuer_decides getClusterAdcsIssuer_decides)

section \<open>Rounds\<close>

text \<open>What is stored after a run, when nobody else writes the object.\<close>

fun status_written :: "call \<times> answer \<Rightarrow> AdcsRequest option" where
  "status_written (CUpdateARStatus ar, AErr None) = Some ar"
| "status_written e = None"

lemma status_written_update [simp]:
  "status_written (CUpdateARStatus ar, AErr x) = (if x = None then Some ar else None)"
  by (cases x) auto

primrec stored_by :: "trace \<Rightarrow> AdcsRequest \<Rightarrow> AdcsRequest" where
  "stored_by [] ar = ar"
| "stored_by (e # tr) ar = stored_by tr (case status_written e of Some ar' \<Rightarrow> ar' | None \<Rightarrow> ar)"

lemma stored_by_writes: "stored_by tr ar = stored_by (writes tr) ar"
proof -
  have "status_written e = None" if "\<not> is_write (fst e)" for e
    using that by (cases e rule: status_written.cases) auto
  then show ?thesis by (induction tr arbitrary: ar) auto
qed

type_synonym round = "trace \<times> reconcile_result outcome"

text \<open>
  Reconciliations of one request, one after the other; each that reads it finds what the
  ones before it have stored.
\<close>

primrec rounds :: "lib \<Rightarrow> AdcsRequestReconciler \<Rightarrow> ObjectKey \<Rightarrow> AdcsRequest \<Rightarrow> round list \<Rightarrow> bool" where
  "rounds L r key ar [] = True"
| "rounds L r key ar (p # ps) =
     (run (fst p) (AdcsRequest_Reconcile L r key) = Some (snd p) \<and>
      (\<forall>a. (CGetAR key, AGetAR (Inr a)) \<in> set (fst p) \<longrightarrow> a = ar) \<and>
      rounds L r key (stored_by (fst p) ar) ps)"

text \<open>A round in which something went wrong, or in which ADCS had not decided yet.\<close>

definition setback :: "lib \<Rightarrow> round \<Rightarrow> bool" where
  "setback L p = (\<not> list_all (sound L) (fst p) \<or> (\<exists>res e. snd p = Returned (res, Some e)))"

primrec final :: "AdcsRequest \<Rightarrow> round list \<Rightarrow> AdcsRequest" where
  "final ar [] = ar"
| "final ar (p # ps) = final (stored_by (fst p) ar) ps"

section \<open>What a round does to the stored request\<close>

lemma publish_stores:
  assumes "run tr (publish L issuer ar cert ca cr) = Some z"
  shows "stored_by tr ar0 = ar \<or> stored_by tr ar0 = ar0"
    and "list_all (sound L) tr \<Longrightarrow> stored_by tr ar0 = ar"
proof -
  have "list_all (sound L) (writes tr)" if "list_all (sound L) tr"
    using that by (simp add: writes_def list_all_iff)
  then show "stored_by tr ar0 = ar \<or> stored_by tr ar0 = ar0"
      "list_all (sound L) tr \<Longrightarrow> stored_by tr ar0 = ar"
    using assms unfolding stored_by_writes [of tr]
    by (auto elim!: publish_cases simp: not_None_eq)
qed

text \<open>The request is stored unchanged, or what is stored continues its life cycle.\<close>

lemma round_lifecycle:
  assumes "run tr (AdcsRequest_Reconcile L r key) = Some z"
    and "\<forall>a. (CGetAR key, AGetAR (Inr a)) \<in> set tr \<longrightarrow> a = ar"
  shows "lifecycle (ar_Status ar) (ar_Status (stored_by tr ar))"
  using assms(1)
proof (cases rule: AR_run_cases)
  case silent
  then show ?thesis by (subst stored_by_writes) (simp add: lifecycle.stay)
next
  case (published a issuer res cr tr3)
  then obtain ar' cert ca tr' where "issue_post a (ar', cert, ca, None)"
      and tr: "tr = (CGetAR key, AGetAR (Inr a)) # tr'" and w: "writes tr = writes tr3"
      and p: "run tr3 (publish L issuer ar' cert ca cr) = Some z"
    by (rule publishedE) blast
  moreover from assms(2) tr have "a = ar" by simp
  moreover have "stored_by tr ar = stored_by tr3 ar"
    unfolding stored_by_writes [of tr] w stored_by_writes [of tr3, symmetric] ..
  ultimately show ?thesis
    using publish_stores(1) [OF p, of ar] by (auto simp: issue_post_def intro: lifecycle.stay)
qed

lemma round_keeps_spec:
  assumes "run tr (AdcsRequest_Reconcile L r key) = Some z"
    and "\<forall>a. (CGetAR key, AGetAR (Inr a)) \<in> set tr \<longrightarrow> a = ar"
  shows "ar_Spec (stored_by tr ar) = ar_Spec ar"
  using assms(1)
proof (cases rule: AR_run_cases)
  case silent
  then show ?thesis by (subst stored_by_writes) simp
next
  case (published a issuer res cr tr3)
  then obtain ar' cert ca tr' where "issue_post a (ar', cert, ca, None)"
      and tr: "tr = (CGetAR key, AGetAR (Inr a)) # tr'" and w: "writes tr = writes tr3"
      and p: "run tr3 (publish L issuer ar' cert ca cr) = Some z"
    by (rule publishedE) blast
  moreover from assms(2) tr have "a = ar" by simp
  moreover have "stored_by tr ar = stored_by tr3 ar"
    unfolding stored_by_writes [of tr] w stored_by_writes [of tr3, symmetric] ..
  ultimately show ?thesis
    using publish_stores(1) [OF p, of ar] by (auto simp: issue_post_def)
qed

text \<open>The round that settles an open request has delivered its outcome.\<close>

definition delivers :: "lib \<Rightarrow> ObjectKey \<Rightarrow> trace \<Rightarrow> State \<Rightarrow> bool" where
  "delivers L key tr st = (\<exists>cr t cert ca. (CGetCR key, AGetCR (Inr cr)) \<in> set tr \<and>
     (CUpdateCRStatus (report L t st cert ca cr), AErr None) \<in> set tr \<and>
     (cert \<noteq> None) = (st = StateReady) \<and> slice_bytes ca \<noteq> [])"

lemma settling_round_delivers:
  assumes "run tr (AdcsRequest_Reconcile L r key) = Some z"
    and "\<forall>a. (CGetAR key, AGetAR (Inr a)) \<in> set tr \<longrightarrow> a = ar"
    and "phase_of (ar_Status ar) \<noteq> Settled" and "phase_of (ar_Status (stored_by tr ar)) = Settled"
  shows "delivers L key tr (ar_State (ar_Status (stored_by tr ar)))"
  using assms(1)
proof (cases rule: AR_run_cases)
  case silent
  with assms(3,4) show ?thesis by (simp add: stored_by_writes [of tr])
next
  case (published a issuer res cr tr3)
  then obtain ar' cert ca tr' where post: "issue_post a (ar', cert, ca, None)"
      and tr: "tr = (CGetAR key, AGetAR (Inr a)) # tr'" and w: "writes tr = writes tr3"
      and p: "run tr3 (publish L issuer ar' cert ca cr) = Some z" and here: "(CGetCR key, AGetCR (Inr cr)) \<in> set tr"
    by (rule publishedE) blast
  from assms(2) tr have "a = ar" by simp
  have store: "stored_by tr ar = stored_by tr3 ar"
    unfolding stored_by_writes [of tr] w stored_by_writes [of tr3, symmetric] ..
  then have st: "stored_by tr ar = ar'"
    using publish_stores(1) [OF p, of ar] assms(3,4) by auto
  have known: "ar_State (ar_Status ar') \<in> set known_states"
      "(cert \<noteq> None) = (ar_State (ar_Status ar') = StateReady)" "slice_bytes ca \<noteq> []"
    using post assms(3) by (auto simp: issue_post_def \<open>a = ar\<close>)
  from p obtain t where "(CUpdateCRStatus (report L t (ar_State (ar_Status ar')) cert ca cr), AErr None) \<in> set (writes tr)"
  proof (cases rule: publish_cases)
    case (report_failed t e)
    then have "stored_by tr3 ar = ar" by (simp add: stored_by_writes [of tr3])
    with store assms(3,4) show thesis by simp
  next
    case (reported t x)
    then show thesis by (intro that) (simp add: w)
  next
    case (stored x)
    with known(1) assms(4) show thesis by (auto simp: st phase_of_def split: if_splits)
  qed
  with known here show ?thesis
    unfolding delivers_def st
    by (intro exI [of _ cr] exI [of _ t] exI [of _ cert] exI [of _ ca]) (simp add: set_writes)
qed

text \<open>A round without a setback settles an open request.\<close>

lemma sound_round_settles:
  assumes "run tr (AdcsRequest_Reconcile L r key) = Some z"
    and "\<forall>a. (CGetAR key, AGetAR (Inr a)) \<in> set tr \<longrightarrow> a = ar"
    and "\<not> setback L (tr, z)" and "open_status (ar_Status ar)"
  shows "phase_of (ar_Status (stored_by tr ar)) = Settled"
proof -
  have sound: "list_all (sound L) tr" and fine: "\<And>res e. z \<noteq> Returned (res, Some e)"
    using assms(3) by (auto simp: setback_def)
  have issues: "\<exists>ar' cert ca. x = Returned (ar', cert, ca, None) \<and> phase_of (ar_Status ar') = Settled"
    if "run tr1 (GetIssuer L f ref ns) = Some (Returned (Inr issuer))" "list_all (sound L) tr1"
      "run tr2 (Issue L issuer ar) = Some x" "list_all (sound L) tr2" for tr1 tr2 f ref ns issuer x
  proof -
    from decidesD [OF GetIssuer_decides that(1,2)] obtain url where "base_ok L url"
        "responsive_certsrv (certServ issuer) L url"
      by (auto simp: responsive_issuer_def)
    from decidesD [OF responsive_certsrv.Issue_decides [OF this(2) refl this(1) assms(4)] that(3,4)]
    show ?thesis by (auto simp: settled_result_def)
  qed
  from assms(1) show ?thesis
  proof (cases rule: AR_reconcile_cases)
    case (no_issuer a tr1 x)
    with sound decidesD [OF GetIssuer_decides no_issuer(2)] fine show ?thesis by auto
  next
    case (not_issued a tr1 tr2 issuer x)
    with assms(2) have "a = ar" by simp
    with issues [OF not_issued(2) _ not_issued(3) [unfolded \<open>a = ar\<close>]] not_issued sound show ?thesis by auto
  next
    case (published a issuer res cr tr3)
    then obtain tr1 tr2 ar' cert ca where res: "res = (ar', cert, ca, None)"
        and tr: "tr = (CGetAR key, AGetAR (Inr a)) # tr1 @ tr2 @ (CGetCR key, AGetCR (Inr cr)) # tr3"
        and g: "run tr1 (GetIssuer L (arr_IssuerFactory r) (ar_IssuerRef (ar_Spec a))
                 (meta_Namespace (ar_meta a))) = Some (Returned (Inr issuer))"
        and i: "run tr2 (Issue L issuer a) = Some (Returned res)"
        and p: "run tr3 (publish L issuer ar' cert ca cr) = Some z"
      unfolding published_def by blast
    with assms(2) have "a = ar" by simp
    with issues [OF g _ i [unfolded \<open>a = ar\<close>]] sound res tr have "phase_of (ar_Status ar') = Settled" by auto
    moreover have "writes tr = writes tr3"
      using GetIssuer_silent [OF g] Issue_silent [OF GetIssuer_contract [OF g] i] by (simp add: tr)
    then have "stored_by tr ar = stored_by tr3 ar"
      unfolding stored_by_writes [of tr] stored_by_writes [of tr3] by simp
    ultimately show ?thesis using publish_stores(2) [OF p] sound tr by simp
  qed (use sound in auto)
qed

lemma round_submissions:
  assumes "run tr (AdcsRequest_Reconcile L r key) = Some z"
    and "\<forall>a. (CGetAR key, AGetAR (Inr a)) \<in> set tr \<longrightarrow> a = ar"
  shows "submissions tr \<le> (if ar_State (ar_Status ar) = StateUnknown then 1 else 0)"
proof (cases "\<exists>a tr'. tr = (CGetAR key, AGetAR (Inr a)) # tr'")
  case True
  with assms(2) obtain tr' where tr: "tr = (CGetAR key, AGetAR (Inr ar)) # tr'" by auto
  from assms(1) show ?thesis
  proof (cases rule: AR_run_cases)
    case silent
    with silent(3) [OF tr] show ?thesis by simp
  next
    case (published a issuer res cr tr3)
    then show ?thesis by (rule publishedE) (use tr in auto)
  qed
next
  case False
  from assms(1) have "submissions tr = 0"
    by (cases rule: AR_reconcile_cases) (use False in \<open>auto simp: published_def\<close>)
  then show ?thesis by simp
qed

lemma round_submissions_read:
  assumes "run tr (AdcsRequest_Reconcile L r key) = Some z" and "(CHttp cl rq, x) \<in> set tr"
  shows "\<exists>a tr'. tr = (CGetAR key, AGetAR (Inr a)) # tr'"
  using assms(1)
  by (cases rule: AR_reconcile_cases) (use assms(2) in \<open>auto simp: published_def\<close>)

end
