(* ===== verification/Outages_Theorems.thy ===== *)
theory Outages_Theorems
  imports Outages
begin

text \<open>
  What outages do to a request: it survives them, and they cost at most one duplicate each.
  Both are applied to three concrete rounds.
\<close>

section \<open>Three rounds\<close>

text \<open>
  ADCS accepts a new request whose CA chain then cannot be fetched; the second attempt is taken
  under submission; the third round finds the certificate.
\<close>

definition accepted_body :: string where
  "accepted_body = ''Your Request Id is 7.''"

definition waiting_body :: string where
  "waiting_body = ''Disposition message: '' @ [CHR 0x09, CHR 0x09] @ ''Taken Under Submission.''"

lemma accepted_found:
  "FindStringSubmatch re_certnew accepted_body = []"
  "FindStringSubmatch re_request_id accepted_body = [''Your Request Id is 7.'', ''7'']"
  by code_simp+

lemma waiting_found: "ntlm_status_page ''7'' waiting_body = (Pending, ''Taken Under Submission.'', ''7'', None)"
  by code_simp

lemma sample_ntlm_eq: "sample_ntlm = ntlm0" "certServ sample_built = ntlm_iface sample_lib ntlm0"
    "iss_AdcsTemplateName sample_built = ''web''"
  by (simp_all add: sample_ntlm_def ntlm0_def sample_built_def)

definition fine_chain :: trace where
  "fine_chain = chain_trace (sample_response 200 ct_html '''' None) (sample_response 200 ct_pkcs7 ''p7'' None)"

lemma issue_with_chain:
  assumes "run tr p = Some (Returned (st, desc, rid, None))"
  shows "run (tr @ fine_chain) (bind p (issue_response sample_lib sample_built ar)) =
    Some (Returned (fst (record_response ar st desc rid), snd (record_response ar st desc rid), Some ca_pem, None))"
proof -
  have "run (fine_chain @ []) (issue_chain sample_lib sample_built a c) = Some (Returned (a, c, Some ca_pem, None))"
    for a c
    unfolding issue_chain_def fine_chain_def run_bind_seq [OF sample_chain_run] by (simp add: ca_pem_known)
  then show ?thesis
    unfolding run_bind_seq [OF assms] by (simp add: issue_response_def split_beta Let_def)
qed

lemma post_run:
  "run (ntlm_post_trace res @ tr) (ntlm_RequestCertificate sample_lib ntlm0 ''csr'' ''web'') =
     run tr (ntlm_request_response sample_lib ntlm0 res)"
  by (simp add: replay ntlm_post_trace_def ntlm_RequestCertificate_def post_request_def
      ntlm0_def certfnsh_def cong: bind_step)

definition waiting_trace :: trace where
  "waiting_trace = ntlm_post_trace (sample_response 200 ct_html accepted_body None) @
     existing_trace (sample_response 200 ct_html waiting_body None)"

lemma waiting_run:
  "run waiting_trace (ntlm_RequestCertificate sample_lib ntlm0 ''csr'' ''web'') =
     Some (Returned (Pending, ''Taken Under Submission.'', ''7'', None))"
proof -
  have "run (existing_trace (sample_response 200 ct_html waiting_body None))
      (ntlm_GetExistingCertificate sample_lib ntlm0 ''7'') =
      Some (Returned (Pending, ''Taken Under Submission.'', ''7'', None))"
    unfolding existing_run
    by (simp add: replay ntlm_existing_response_def sample_response_def StatusOK_def ct_defs waiting_found)
  then show ?thesis
    unfolding waiting_trace_def post_run
    by (simp add: ntlm_request_response_def accepted_found sample_response_def)
qed

definition ready_trace :: trace where
  "ready_trace = existing_trace (sample_response 200 ''application/pkix-cert;x'' ''cert'' None)"

text \<open>The request as it is stored after the second and after the third round.\<close>

definition taken :: AdcsRequest where
  "taken = set_status opened StatePending ''7'' ''Taken Under Submission.''"

definition granted :: AdcsRequest where
  "granted = set_status taken StateReady ''7'' ''certificate obtained successfully''"

lemma taken_simps [simp]:
  "ar_IssuerRef (ar_Spec taken) = sample_ref" "meta_Namespace (ar_meta taken) = ''ns''"
  "ar_State (ar_Status taken) = StatePending" "ar_Id (ar_Status taken) = ''7''"
  by (simp_all add: taken_def set_status_def)

lemma new_issue:
  "Issue sample_lib sample_built opened =
     bind (ntlm_RequestCertificate sample_lib ntlm0 ''csr'' ''web'') (issue_response sample_lib sample_built opened)"
  by (simp add: Issue_def zero_status_def sample_ntlm_eq ntlm_iface_def)

lemma taken_issue:
  "Issue sample_lib sample_built taken =
     bind (ntlm_GetExistingCertificate sample_lib ntlm0 ''7'') (issue_response sample_lib sample_built taken)"
  by (simp add: Issue_def sample_ntlm_eq ntlm_iface_def)

lemma waiting_issue:
  "run (waiting_trace @ fine_chain) (Issue sample_lib sample_built opened) =
     Some (Returned (taken, None, Some ca_pem, None))"
  unfolding new_issue issue_with_chain [OF waiting_run] by (simp add: record_response_def taken_def)

lemma ready_issue:
  "run (ready_trace @ fine_chain) (Issue sample_lib sample_built taken) =
     Some (Returned (granted, Some ''cert'', Some ca_pem, None))"
  unfolding taken_issue ready_trace_def issue_with_chain [OF existing_run_ready]
  by (simp add: record_response_def granted_def)

definition round1 :: trace where
  "round1 = (CGetAR sample_key, AGetAR (Inr opened)) # factory_trace @ lost_trace"

definition round2 :: trace where
  "round2 = (CGetAR sample_key, AGetAR (Inr opened)) # factory_trace @ (waiting_trace @ fine_chain) @
     (CGetCR sample_key, AGetCR (Inr approved_cr)) # announce_and_store taken None"

definition round3 :: trace where
  "round3 = (CGetAR sample_key, AGetAR (Inr taken)) # factory_trace @ (ready_trace @ fine_chain) @
     (CGetCR sample_key, AGetCR (Inr approved_cr)) #
     status_trace sample_lib (with_certificate approved_cr (Some ''cert'') (Some ca_pem))
       ConditionTrue ReasonIssued ''ADCS request successful'' 7 None @ announce_and_store granted None"

lemma round1_run:
  "run round1 (AdcsRequest_Reconcile sample_lib sample_reconciler sample_key) =
     Some (Returned (retry_later sample_built))"
proof -
  have "run lost_trace (bind (ntlm_RequestCertificate sample_lib ntlm0 ''csr'' ''web'') f) =
      run [last lost_trace] (f (Ready, ''cert'', ''none'', None))" for f :: "cert_result \<Rightarrow> reconcile_result prog"
    by (simp add: replay lost_trace_def ntlm_RequestCertificate_def ntlm0_def submit_request_def sample_ntlm_def
        NewRequest_def certfnsh_def ntlm_request_response_def sample_response_def cong: bind_step)
  then show ?thesis
    unfolding round1_def start_run [OF opened_simps(1,2)] new_issue bind_assoc
    by (simp add: replay lost_trace_def issue_response_def record_response_def issue_chain_def Let_def
        sample_ntlm_eq ntlm_iface_def ntlm_GetCaCertificateChain_def ntlm_obtainCaCertificate_def certcarc_def
        carc_request_def ntlm0_def sample_ntlm_def report_issued_def cong: bind_step)
qed

lemma round2_run:
  "run round2 (AdcsRequest_Reconcile sample_lib sample_reconciler sample_key) =
     Some (Returned (\<lparr>Requeue = True, RequeueAfter = StatusCheckInterval sample_built\<rparr>, None))"
  unfolding round2_def start_run [OF opened_simps(1,2)] run_bind_seq [OF waiting_issue]
  by (simp add: replay report_issued_def GetCertificateRequest_def publish_def Let_def store_status_def
      AR_setStatus_def announce_and_store_def cong: bind_step)

lemma round3_run:
  "run round3 (AdcsRequest_Reconcile sample_lib sample_reconciler sample_key) =
     Some (Returned (zero_result, None))"
  unfolding round3_def start_run [OF taken_simps(1,2)] run_bind_seq [OF ready_issue]
  by (simp add: replay report_issued_def GetCertificateRequest_def
   publish_def Let_def report_then_store_def CR_SetStatus_def store_status_def AR_setStatus_def
   status_trace_def announce_and_store_def event_of_def granted_def set_status_def cong: bind_step)


text \<open>The third round is sound.\<close>

lemma sample_pages:
  "asks_for certnew_p7b (get_request existing_url) = False"
  "asks_for certnew_cer (get_request ''https://adcs/certcarc.asp'') = False"
  "asks_for certnew_p7b (get_request ''https://adcs/certcarc.asp'') = False"
  "asks_for certnew_cer (get_request ''https://adcs/certnew.p7b?ReqID=CACert&ENC=b64&Renewal=0'') = False"
  by code_simp+

lemma asks_for_prepare [simp]: "asks_for page (ntlm_prepare s rq) = asks_for page rq"
  by (simp add: asks_for_def)

lemma sample_base_ok: "base_ok sample_lib ''https://adcs''"
  by (simp add: base_ok_def)

lemma fine_chain_sound: "list_all (sound sample_lib) fine_chain"
proof -
  have "chain_page sample_lib (sample_response 200 ct_pkcs7 ''p7'' None)"
    using ca_pem_known(1) by (auto simp: chain_page_def sample_response_def)
  then show ?thesis
    by (simp add: fine_chain_def chain_trace_def sound_page_def sample_pages sample_response_def StatusOK_def)
       (simp add: get_request_def)
qed

lemma ready_sound: "list_all (sound sample_lib) ready_trace"
  by (simp add: ready_trace_def existing_trace_def sound_page_def sample_pages sample_response_def StatusOK_def
      decided_page_def ct_defs) (simp add: get_request_def)

lemma factory_sound: "list_all (sound sample_lib) factory_trace"
  using sample_base_ok by (simp add: factory_trace_def sample_issuer_def)

lemma round3_sound: "\<not> setback sample_lib (round3, Returned (zero_result, None))"
  using factory_sound fine_chain_sound ready_sound
  by (simp add: setback_def round3_def status_trace_def announce_and_store_def Let_def)


definition sample_rounds :: "round list" where
  "sample_rounds = [(round1, Returned (retry_later sample_built)),
     (round2, Returned (\<lparr>Requeue = True, RequeueAfter = StatusCheckInterval sample_built\<rparr>, None)),
     (round3, Returned (zero_result, None))]"

lemmas round_traces = factory_trace_def lost_trace_def waiting_trace_def ready_trace_def fine_chain_def
  chain_trace_def ntlm_post_trace_def existing_trace_def

lemma sample_rounds_run: "rounds sample_lib sample_reconciler sample_key opened sample_rounds"
proof -
  have "stored_by round1 opened = opened" "stored_by round2 opened = taken"
    by (simp_all add: stored_by_writes [of round1] stored_by_writes [of round2] round1_def round2_def round_traces
        announce_and_store_def)
  moreover have "a = opened" if "(CGetAR sample_key, AGetAR (Inr a)) \<in> set round1 \<union> set round2" for a
    using that by (auto simp: round1_def round2_def round_traces announce_and_store_def)
  moreover have "a = taken" if "(CGetAR sample_key, AGetAR (Inr a)) \<in> set round3" for a
    using that by (auto simp: round3_def round_traces announce_and_store_def status_trace_def Let_def)
  ultimately show ?thesis
    by (simp add: sample_rounds_def round1_run round2_run round3_run)
qed

lemma sample_setbacks: "length (filter (setback sample_lib) sample_rounds) < length sample_rounds"
  using round3_sound by (simp add: sample_rounds_def)

section \<open>Guarantees\<close>

lemma rounds_lifecycle:
  assumes "rounds L r key ar ps"
  shows "lifecycle (ar_Status ar) (ar_Status (final ar ps))"
  using assms
proof (induction ps arbitrary: ar)
  case (Cons p ps)
  then have "lifecycle (ar_Status ar) (ar_Status (stored_by (fst p) ar))"
    using round_lifecycle [of "fst p" L r key "snd p" ar] by simp
  with Cons.IH [of "stored_by (fst p) ar"] Cons.prems show ?case
    by (auto intro: lifecycle_trans)
qed (simp add: lifecycle.stay)

lemma rounds_settled:
  assumes "rounds L r key ar ps" and "phase_of (ar_Status ar) = Settled"
  shows "ar_Status (final ar ps) = ar_Status ar"
  using lifecycle_settled [OF rounds_lifecycle [OF assms(1)] assms(2)] .

lemma rounds_deliver:
  assumes "rounds L r key ar ps" and "open_status (ar_Status ar)"
    and "length (filter (setback L) ps) < length ps"
  shows "phase_of (ar_Status (final ar ps)) = Settled \<and>
    (\<exists>(tr, z)\<in>set ps. delivers L key tr (ar_State (ar_Status (final ar ps))))"
  using assms
proof (induction ps arbitrary: ar)
  case (Cons p ps)
  let ?ar = "stored_by (fst p) ar"
  have run: "run (fst p) (AdcsRequest_Reconcile L r key) = Some (snd p)"
      "\<forall>a. (CGetAR key, AGetAR (Inr a)) \<in> set (fst p) \<longrightarrow> a = ar" and rest: "rounds L r key ?ar ps"
    using Cons.prems(1) by auto
  show ?case
  proof (cases "phase_of (ar_Status ?ar) = Settled")
    case True
    with settling_round_delivers [OF run open_not_settled [OF Cons.prems(2)]] rounds_settled [OF rest]
    show ?thesis by (auto simp: split_beta)
  next
    case False
    then have "setback L p"
      using sound_round_settles [OF run _ Cons.prems(2)] by (cases p) auto
    moreover have "open_status (ar_Status ?ar)"
      using False lifecycle_open [OF round_lifecycle [OF run] Cons.prems(2)] by blast
    ultimately show ?thesis
      using Cons.IH [OF rest] Cons.prems(3) by auto
  qed
qed simp

text \<open>Every submission of every round carries the CSR that was there at the beginning.\<close>

lemma rounds_post_the_CSR:
  assumes "rounds L r key ar ps" and "p \<in> set ps" and "(CHttp cl rq, x) \<in> set (fst p)"
    and "rq_Method rq = ''POST''"
  shows "Some (''CertRequest'', slice_bytes (ar_CSRPEM (ar_Spec ar))) \<in> set (parse_form (rq_Body rq))"
  using assms(1,2)
proof (induction ps arbitrary: ar)
  case (Cons p' ps)
  have run: "run (fst p') (AdcsRequest_Reconcile L r key) = Some (snd p')"
      "\<forall>a. (CGetAR key, AGetAR (Inr a)) \<in> set (fst p') \<longrightarrow> a = ar" and rest: "rounds L r key (stored_by (fst p') ar) ps"
    using Cons.prems(1) by auto
  show ?case
  proof (cases "p = p'")
    case True
    with assms(3) round_submissions_read [OF run(1)] assms(4) obtain tr' where
        tr: "fst p' = (CGetAR key, AGetAR (Inr ar)) # tr'" using run(2) by fastforce
    with AR_posts_the_CSR [OF run(1) [unfolded tr] _ assms(4)] assms(3) True show ?thesis by auto
  next
    case False
    with Cons.IH [OF rest] Cons.prems(2) round_keeps_spec [OF run] show ?thesis by simp
  qed
qed simp

text \<open>
  C12. Requests survive outages. Take reconciliations of one open request, one after the other,
  each finding what the ones before it stored, and let the API server, the network, the login and
  ADCS fail in any of them in any way, panics included. If fewer rounds had a setback (an answer
  that was not sound, the request still pending, or an error of the configuration) than
  there were rounds, then at the end the request is settled, and one of the rounds has
  delivered its final state to the CertificateRequest successfully, with a certificate exactly when
  it is ready. So every outage that ends is survived, and one round after it is enough.
\<close>

theorem requests_survive_outages:
  assumes "rounds L r key ar ps" and "open_status (ar_Status ar)"
    and "length (filter (setback L) ps) < length ps"
  shows "phase_of (ar_Status (final ar ps)) = Settled \<and>
    (\<exists>(tr, z)\<in>set ps. delivers L key tr (ar_State (ar_Status (final ar ps))))"
  using assms by (rule rounds_deliver)

theorem requests_survive_outages_witness:
  "phase_of (ar_Status (final opened sample_rounds)) = Settled \<and>
   (\<exists>(tr, z)\<in>set sample_rounds. delivers sample_lib sample_key tr (ar_State (ar_Status (final opened sample_rounds))))"
  by (rule requests_survive_outages [OF sample_rounds_run _ sample_setbacks]) simp

lemma rounds_submissions:
  assumes "rounds L r key ar ps"
  shows "submissions (concat (map fst ps)) \<le>
    (if ar_State (ar_Status ar) = StateUnknown then Suc (length (filter (setback L) ps)) else 0)"
  using assms
proof (induction ps arbitrary: ar)
  case (Cons p ps)
  let ?ar = "stored_by (fst p) ar"
  have run: "run (fst p) (AdcsRequest_Reconcile L r key) = Some (snd p)"
      "\<forall>a. (CGetAR key, AGetAR (Inr a)) \<in> set (fst p) \<longrightarrow> a = ar" and rest: "rounds L r key ?ar ps"
    using Cons.prems by auto
  have "ar_State (ar_Status ?ar) \<noteq> StateUnknown" if "ar_State (ar_Status ar) \<noteq> StateUnknown"
    using that round_lifecycle [OF run] unfolding lifecycle_iff by auto
  moreover have "ar_State (ar_Status ?ar) \<noteq> StateUnknown"
    if "ar_State (ar_Status ar) = StateUnknown" "\<not> setback L p"
    using sound_round_settles [OF run] that by (cases p) (auto simp: open_status_def phase_of_def split: if_splits)
  ultimately show ?case
    using round_submissions [OF run] Cons.IH [OF rest] by (auto split: if_splits)
qed simp

text \<open>
  C13. What an outage costs: the number of new requests that all the rounds together open at ADCS
  is at most one more than the number of rounds with a setback, and none is opened for a
  request that was submitted before. Without setbacks a CSR is submitted once; each
  setback can duplicate it once, and the witness is a history in which this happens.
\<close>

theorem duplicates_are_bounded_by_setbacks:
  assumes "rounds L r key ar ps"
  shows "submissions (concat (map fst ps)) \<le>
    (if ar_State (ar_Status ar) = StateUnknown then Suc (length (filter (setback L) ps)) else 0)"
  using assms by (rule rounds_submissions)

theorem duplicates_are_bounded_by_setbacks_witness:
  "submissions (concat (map fst sample_rounds)) = 2 \<and>
   2 \<le> Suc (length (filter (setback sample_lib) sample_rounds))"
proof -
  have "submissions (concat (map fst sample_rounds)) = 2"
    by (simp add: sample_rounds_def round1_def round2_def round3_def round_traces status_trace_def
        announce_and_store_def Let_def post_request_def get_request_def submit_request_def carc_request_def)
  with duplicates_are_bounded_by_setbacks [OF sample_rounds_run] show ?thesis
    by (simp add: zero_status_def)
qed

end
