(* ===== verification/Request_Ids.thy ===== *)
theory Request_Ids
  imports Outages_Theorems
begin

text \<open>
  Where the id of a request comes from. The contract of the clients is extended: the id that
  comes with the answer to a new request was read off the page with which ADCS answered the
  submission. Both clients interpret the extended contract, and the id is followed into the
  status that a reconciliation stores.
\<close>

section \<open>The id on a page\<close>

text \<open>
  The id that the code reads: the one in the first link to a certificate, or the one in the first
  announcement of a request id when there is no such link.
\<close>

definition names_id :: "string \<Rightarrow> string \<Rightarrow> bool" where
  "names_id body i = (\<exists>m. FindStringSubmatch re_certnew body = [m, i] \<or>
     FindStringSubmatch re_certnew body = [] \<and> FindStringSubmatch re_request_id body = [m, i])"

lemma names_id_is_id: "names_id body i \<Longrightarrow> is_request_id i"
  by (auto simp: names_id_def dest: re_certnew_id re_request_id_id)

text \<open>The text around a captured repetition.\<close>

lemma found_in_context:
  assumes "FindStringSubmatch (Seq a (Seq (Grp (Plus (Cls c))) b)) s = [x, g]"
    and "regular_groups a" "groups a = 0"
  obtains pre m1 s1 m2 g2 post where "s = pre @ m1 @ g @ m2 @ post"
    "(m1, [], s1) \<in> set (matches a (m1 @ s1))" "(m2, g2, post) \<in> set (matches b (m2 @ post))"
proof -
  obtain pre post t where s: "s = pre @ post"
      and m: "(x, [g], t) \<in> set (matches (Seq a (Seq (Grp (Plus (Cls c))) b)) post)"
    using FindStringSubmatch_matches [OF assms(1)] by metis
  then obtain m1 g1 s1 mr gr where
      1: "(m1, g1, s1) \<in> set (matches a post)"
    and r: "(mr, gr, t) \<in> set (matches (Seq (Grp (Plus (Cls c))) b) s1)" and g: "[g] = g1 @ gr"
    unfolding matches_Seq_iff [of x "[g]"] by metis
  from matches_groups [OF assms(2) 1] assms(3) g have none: "g1 = []" "gr = [g]" by auto
  from r none obtain s2 m2 g2 where s2: "s1 = g @ s2" "(m2, g2, t) \<in> set (matches b s2)"
    unfolding matches_Seq_iff [of mr] matches_capture_Plus by auto
  have parts: "post = m1 @ s1" "s2 = m2 @ t"
    using matches_split [OF 1] matches_split [OF s2(2)] by simp_all
  show thesis
    using that [of pre m1 m2 t s1 g2] s 1 none s2 parts by simp
qed

lemma names_id_text:
  assumes "names_id body i"
  shows "\<exists>pre post. body = pre @ ''cer?ReqID='' @ i @ ''&'' @ post \<or> body = pre @ ''Your Request Id is '' @ i @ post"
proof -
  from assms obtain m where "FindStringSubmatch re_certnew body = [m, i] \<or> FindStringSubmatch re_request_id body = [m, i]"
    by (auto simp: names_id_def)
  then show ?thesis
  proof
    assume "FindStringSubmatch re_certnew body = [m, i]"
    then obtain pre m1 s1 m2 g2 post where body: "body = pre @ m1 @ i @ m2 @ post"
        and m1: "(m1, [], s1) \<in> set (matches (Seq (lit ''certnew'') (Seq any_char (lit ''cer?ReqID=''))) (m1 @ s1))"
        and m2: "(m2, g2, post) \<in> set (matches (lit ''&'') (m2 @ post))"
      unfolding re_certnew_def by (rule found_in_context) simp_all
    from m1 obtain u where "m1 = u @ ''cer?ReqID=''"
      unfolding matches_Seq_iff matches_lit by (auto split: if_splits)
    moreover from m2 have "m2 = ''&''" by (simp add: matches_lit split: if_splits)
    ultimately show ?thesis using body by (metis append.assoc)
  next
    assume "FindStringSubmatch re_request_id body = [m, i]"
    then obtain pre m1 s1 m2 g2 post where body: "body = pre @ m1 @ i @ m2 @ post"
        and m1: "(m1, [], s1) \<in> set (matches (lit ''Your Request Id is '') (m1 @ s1))"
      unfolding re_request_id_def by (rule found_in_context) simp_all
    from m1 have "m1 = ''Your Request Id is ''" by (simp add: matches_lit split: if_splits)
    with body show ?thesis by blast
  qed
qed

section \<open>The extended contract\<close>

text \<open>
  The trace has a submission whose answer gave the id: the answer was the certificate itself, which
  the code records as ready with the text none, or a page that was read without an error and names the id.
\<close>

definition assigned :: "trace \<Rightarrow> bool \<Rightarrow> string \<Rightarrow> bool" where
  "assigned tr ready i = (\<exists>cl rq res. (CHttp cl rq, AHttp (Inr res)) \<in> set tr \<and> rq_Method rq = ''POST'' \<and>
     (if rs_ContentType res = ct_pkix then ready \<and> i = ''none''
      else rs_ReadErr res = None \<and> names_id (rs_Body res) i))"

lemma assigned_mono: "assigned tr ready i \<Longrightarrow> set tr \<subseteq> set tr' \<Longrightarrow> assigned tr' ready i"
  unfolding assigned_def by blast

definition assigns :: "trace \<Rightarrow> cert_result outcome \<Rightarrow> bool" where
  "assigns tr z = (\<forall>st desc i. z = Returned (st, desc, i, None) \<longrightarrow> assigned tr (st = Ready) i)"

lemma assigns_simps [simp]:
  "assigns tr (Returned (st, desc, i, Some e))" "assigns tr (Panicked s)"
  by (simp_all add: assigns_def)

lemma assigns_mono: "assigns tr z \<Longrightarrow> set tr \<subseteq> set tr' \<Longrightarrow> assigns tr' z"
  unfolding assigns_def using assigned_mono by blast










section \<open>The status that is stored\<close>




end
