(* ===== verification/Check_Panics.thy ===== *)
theory Check_Panics
  imports Outages_Theorems
begin

text \<open>
  A flaw that reaches through every layer: an unexpected HTTP status in the answer to the check
  of a pending request is a run-time panic of the reconciliation, with either client.
\<close>

section \<open>The first exchange of a reconciliation\<close>

fun is_http :: "call \<Rightarrow> bool" where
  "is_http (CHttp cl rq) = True"
| "is_http _ = False"

lemma first_http:
  assumes "xs @ e # ys = before @ e' # rest" and "list_all (\<lambda>x. \<not> is_http (fst x)) xs"
    and "list_all (\<lambda>x. \<not> is_http (fst x)) before" and "is_http (fst e)" and "is_http (fst e')"
  shows "e = e' \<and> ys = rest"
  using assms
proof (induction xs arbitrary: before)
  case Nil
  then show ?case by (cases before) auto
next
  case (Cons x xs)
  then show ?case by (cases before) auto
qed

lemma no_http: "only_calls C p \<Longrightarrow> (\<And>c. C c \<Longrightarrow> \<not> is_http c) \<Longrightarrow> run tr p = Some z \<Longrightarrow> list_all (\<lambda>x. \<not> is_http (fst x)) tr"
  using only_calls_run by (fastforce simp: list_all_iff)

lemma GetIssuer_no_http:
  assumes "run tr (GetIssuer L f ref ns) = Some z"
  shows "list_all (\<lambda>x. \<not> is_http (fst x)) tr"
proof (rule no_http [OF GetIssuer_calls _ assms])
  show "\<not> is_http c" if "factory_call c" for c
    using that by (cases c) simp_all
qed

section \<open>The check of a pending request\<close>

lemma check_first:
  assumes "known_certsrv L srv" and "run tr (GetExistingCertificate srv rid) = Some z"
  shows "tr = [] \<and> z = Panicked nil_deref \<or> (\<exists>cl rq a tr'. tr = (CHttp cl rq, AHttp a) # tr' \<and>
     (\<forall>res. a = Inr res \<longrightarrow> rs_StatusCode res \<noteq> 200 \<longrightarrow> z = Panicked nil_deref))"
proof -
  have first: "tr = [] \<and> z = Panicked nil_deref \<or> (\<exists>cl rq a tr'. tr = (CHttp cl rq, AHttp a) # tr')"
    if "run tr (bind (ignore_request_error (NewRequest L verb url body)) (\<lambda>req. bind (http_Do cl (prep req)) f)) = Some z"
    for verb url body cl prep and f :: "gerr + http_response \<Rightarrow> cert_result prog"
    using that by (auto simp: run_ignore_request_error run_http_Do split: sum.splits)
  from assms(1) consider s where "srv = ntlm_iface L s" | s where "srv = krb_iface L s"
    by (auto simp: known_certsrv_def)
  then show ?thesis
  proof cases
    case 1
    with assms(2) have run: "run tr (ntlm_GetExistingCertificate L s rid) = Some z" by (simp add: ntlm_iface_def)
    then have "tr = [] \<and> z = Panicked nil_deref \<or> (\<exists>cl rq a tr'. tr = (CHttp cl rq, AHttp a) # tr')"
      unfolding ntlm_GetExistingCertificate_def Let_def by (rule first)
    moreover have "z = Panicked nil_deref" if "tr = (CHttp cl rq, AHttp (Inr res)) # tr'" "rs_StatusCode res \<noteq> 200"
      for cl rq res tr'
      using check_panics(1) [OF that(2) run [unfolded that(1)]] .
    ultimately show ?thesis by auto
  next
    case 2
    with assms(2) have run: "run tr (krb_GetExistingCertificate L s rid) = Some z" by (simp add: krb_iface_def)
    then have "tr = [] \<and> z = Panicked nil_deref \<or> (\<exists>cl rq a tr'. tr = (CHttp cl rq, AHttp a) # tr')"
      unfolding krb_GetExistingCertificate_def Let_def by (rule first)
    moreover have "z = Panicked nil_deref" if "tr = (CHttp cl rq, AHttp (Inr res)) # tr'" "rs_StatusCode res \<noteq> 200"
      for cl rq res tr'
      using check_panics(2) [OF that(2) run [unfolded that(1)]] .
    ultimately show ?thesis by auto
  qed
qed

lemma Issue_first:
  assumes known: "known_certsrv L (certServ i)" and pending: "ar_State (ar_Status ar) = StatePending"
    and run: "run tr (Issue L i ar) = Some x"
  shows "tr = [] \<and> (\<forall>ar' cert ca. x \<noteq> Returned (ar', cert, ca, None)) \<or>
    (\<exists>cl rq a tr'. tr = (CHttp cl rq, AHttp a) # tr' \<and>
      (\<forall>res. a = Inr res \<longrightarrow> rs_StatusCode res \<noteq> 200 \<longrightarrow> x = Panicked nil_deref))"
proof (cases "ar_Id (ar_Status ar) = ''''")
  case True
  with run pending show ?thesis by (simp add: Issue_def State_defs)
next
  case False
  with run pending have "run tr (bind (GetExistingCertificate (certServ i) (ar_Id (ar_Status ar))) (issue_response L i ar)) = Some x"
    by (simp add: Issue_def State_defs)
  then show ?thesis
  proof (cases rule: run_bind_cases)
    case (returned tr1 tr2 a)
    with check_first [OF known returned(2)] show ?thesis by auto
  next
    case (panicked s)
    with check_first [OF known panicked(1)] show ?thesis by auto
  qed
qed

text \<open>
  C39. A flaw of the reconciliation with both clients: when ADCS answers the check of a pending
  request, the first exchange of the reconciliation, with any other status than 200, a method is called
  on a nil error and the reconciliation panics. It does not come back with the retry after a failed
  \<open>Issue\<close>, and it has written nothing.
\<close>

theorem check_panics_unless_200:
  assumes "run ((CGetAR key, AGetAR (Inr ar)) # before @ (CHttp cl rq, AHttp (Inr res)) # rest)
      (AdcsRequest_Reconcile L r key) = Some z"
    and "ar_State (ar_Status ar) = StatePending"
    and "list_all (\<lambda>x. \<not> is_http (fst x)) before" and "rs_StatusCode res \<noteq> 200"
  shows "z = Panicked nil_deref \<and> writes (before @ (CHttp cl rq, AHttp (Inr res)) # rest) = []"
proof -
  let ?e = "(CHttp cl rq, AHttp (Inr res))"
  have split: "x = Panicked nil_deref"
    if "before @ ?e # rest = tr1 @ tr2 @ tr3"
      and g: "run tr1 (GetIssuer L f ref ns) = Some (Returned (Inr issuer))" and i: "run tr2 (Issue L issuer ar) = Some x"
      and tr3: "tr2 = [] \<Longrightarrow> list_all (\<lambda>x. \<not> is_http (fst x)) tr3" for tr1 tr2 tr3 f ref ns issuer x
  proof -
    have "known_certsrv L (certServ issuer)"
      using returns_sat_run [OF GetIssuer_known g] by simp
    from Issue_first [OF this assms(2) i] show ?thesis
    proof (elim disjE exE conjE)
      assume "tr2 = []"
      with that(1) tr3 GetIssuer_no_http [OF g] have "list_all (\<lambda>x. \<not> is_http (fst x)) (before @ ?e # rest)"
        by simp
      then show ?thesis by simp
    next
      fix cl' rq' a tr'
      assume tr2: "tr2 = (CHttp cl' rq', AHttp a) # tr'"
        and bad: "\<forall>res. a = Inr res \<longrightarrow> rs_StatusCode res \<noteq> 200 \<longrightarrow> x = Panicked nil_deref"
      from that(1) have "tr1 @ (CHttp cl' rq', AHttp a) # tr' @ tr3 = before @ ?e # rest" by (simp add: tr2)
      from first_http [OF this GetIssuer_no_http [OF g] assms(3)] bad assms(4) show ?thesis by simp
    qed
  qed
  from assms(1) show ?thesis
  proof (cases rule: AR_reconcile_cases)
    case (no_issuer a tr1 x)
    have "list_all (\<lambda>x. \<not> is_http (fst x)) (before @ ?e # rest)"
      using GetIssuer_no_http [OF no_issuer(2)] no_issuer(1) by simp
    then show ?thesis by simp
  next
    case (not_issued a tr1 tr2 issuer x)
    then have "x = Panicked nil_deref" using split [of tr1 tr2 "[]"] by auto
    moreover have "writes (before @ ?e # rest) = []"
      using GetIssuer_silent(1) [OF not_issued(2)] Issue_silent [OF GetIssuer_contract [OF not_issued(2)] not_issued(3)]
        not_issued(1) by simp
    ultimately show ?thesis using not_issued(4) by simp
  next
    case (no_target a tr1 tr2 issuer err ar' cert ca)
    then have eq: "before @ ?e # rest = tr1 @ tr2 @ [(CGetCR key, AGetCR (Inl err))]" "a = ar" by simp_all
    from split [OF eq(1) no_target(2) no_target(3) [unfolded eq(2)]] show ?thesis by simp
  next
    case (published a issuer rs cr tr3)
    then obtain tr1 tr2 ar' cert ca where tr: "before @ ?e # rest = tr1 @ tr2 @ (CGetCR key, AGetCR (Inr cr)) # tr3"
        and g: "run tr1 (GetIssuer L (arr_IssuerFactory r) (ar_IssuerRef (ar_Spec ar)) (meta_Namespace (ar_meta ar))) =
          Some (Returned (Inr issuer))"
        and i: "run tr2 (Issue L issuer ar) = Some (Returned rs)"
        and p: "run tr3 (publish L issuer ar' cert ca cr) = Some z"
      unfolding published_def by auto
    have "\<not> is_http c" if "publish_call c" for c using that by (cases c) simp_all
    with split [OF tr g i] no_http [OF publish_calls _ p] show ?thesis by auto
  qed simp
qed

definition broken_check :: trace where
  "broken_check = existing_trace (sample_response 500 ct_html '''' None)"

lemma broken_run:
  "run ((CGetAR sample_key, AGetAR (Inr taken)) # factory_trace @ broken_check)
     (AdcsRequest_Reconcile sample_lib sample_reconciler sample_key) = Some (Panicked nil_deref)"
proof -
  have "run (broken_check) (bind (ntlm_GetExistingCertificate sample_lib ntlm0 ''7'') f) = Some (Panicked nil_deref)"
    for f :: "cert_result \<Rightarrow> reconcile_result prog"
    using existing_run_panic by (auto simp: run_bind_iff broken_check_def)
  then show ?thesis
    unfolding start_run [OF taken_simps(1,2)] taken_issue bind_assoc .
qed

theorem check_panics_unless_200_witness:
  "\<exists>z. run ((CGetAR sample_key, AGetAR (Inr taken)) # factory_trace @ broken_check)
     (AdcsRequest_Reconcile sample_lib sample_reconciler sample_key) = Some z \<and> z = Panicked nil_deref \<and>
     writes (factory_trace @ broken_check) = []"
proof -
  let ?req = "ntlm_prepare ntlm0 (get_request existing_url)" and ?res = "sample_response 500 ct_html '''' None"
  have parts: "broken_check = (CHttp sample_client ?req, AHttp (Inr ?res)) # [(CCloseBody ?res, ADone)]"
    by (simp add: broken_check_def existing_trace_def)
  have "list_all (\<lambda>x. \<not> is_http (fst x)) factory_trace" by (simp add: factory_trace_def)
  moreover have "rs_StatusCode ?res \<noteq> 200" by (simp add: sample_response_def)
  ultimately show ?thesis
    using check_panics_unless_200 [OF broken_run [unfolded parts] taken_simps(3)] broken_run
    unfolding parts by blast
qed

end
