(* ===== verification/Connections.thy ===== *)
theory Connections
  imports Outages_Theorems "HOL-Library.Sublist"
begin

text \<open>
  How an issuer that the factory has built talks to ADCS: every exchange is traced back to the
  objects the factory read. The contract of the clients is extended by where their requests go;
  both clients interpret it with their own HTTP client, URL and credentials.
\<close>

section \<open>Where the requests of a client go\<close>

definition sent_to :: "http_client \<Rightarrow> string \<Rightarrow> (string \<times> string) option \<Rightarrow> call \<Rightarrow> bool" where
  "sent_to cl url auth c = (\<forall>cl' rq. c = CHttp cl' rq \<longrightarrow>
     cl' = cl \<and> prefix (url @ ''/'') (rq_URL rq) \<and> rq_BasicAuth rq = auth)"

lemma sent_to_simps [simp]:
  "sent_to cl url auth (CHttp cl' rq) \<longleftrightarrow> cl' = cl \<and> prefix (url @ ''/'') (rq_URL rq) \<and> rq_BasicAuth rq = auth"
  "sent_to cl url auth (CCloseBody res)"
  by (auto simp: sent_to_def)

lemma basic_auth_simps [simp]:
  "rq_BasicAuth (Header_Set k v rq) = rq_BasicAuth rq" "rq_BasicAuth (SetBasicAuth u p rq) = Some (u, p)"
  by (simp_all add: Header_Set_def SetBasicAuth_def)

lemma prepared_auth [simp]:
  "rq_BasicAuth (ntlm_prepare s rq) = Some (ntlm_username s, ntlm_password s)"
  "rq_BasicAuth (krb_prepare rq) = rq_BasicAuth rq" "rq_URL (krb_prepare rq) = rq_URL rq"
  by (simp_all add: ntlm_prepare_def krb_prepare_def)

lemma NewRequest_sent:
  "NewRequest L verb url body = Inr rq \<Longrightarrow> rq_URL rq = url \<and> rq_BasicAuth rq = None"
  by (auto simp: NewRequest_def split: option.splits)

locale directed_certsrv = adcs_certsrv srv for srv +
  fixes C :: "call \<Rightarrow> bool"
  assumes existing_directed: "only_calls C (GetExistingCertificate srv rid)"
    and request_directed: "only_calls C (RequestCertificate srv csr template)"
    and chain_directed: "only_calls C (GetCaCertificateChain srv)"
begin

lemma Issue_directed:
  assumes "certServ i = srv"
  shows "only_calls C (Issue L i ar)"
proof -
  have "only_calls C (issue_response L i ar r)" for r
    using chain_directed
    by (auto simp: issue_response_def issue_chain_def assms Let_def case_prod_beta
        intro!: only_calls_bind split: option.split sum.split)
  then show ?thesis
    using existing_directed request_directed
    by (auto simp: Issue_def assms intro!: only_calls_bind)
qed

end

abbreviation ntlm_sent :: "NtlmCertsrv \<Rightarrow> call \<Rightarrow> bool" where
  "ntlm_sent s \<equiv> sent_to (ntlm_httpClient s) (ntlm_url s) (Some (ntlm_username s, ntlm_password s))"

abbreviation krb_sent :: "KerberosCertsrv \<Rightarrow> call \<Rightarrow> bool" where
  "krb_sent s \<equiv> sent_to (krb_httpClient s) (krb_url s) None"

lemma responses_directed:
  "only_calls C (ntlm_existing_response rid res)" "only_calls C (krb_existing_response rid res)"
  "only_calls C (ntlm_ca_response L ct res)" "only_calls C (krb_ca_response ct res)"
  by (auto simp: ntlm_existing_response_def krb_existing_response_def ntlm_ca_response_def krb_ca_response_def
      err_Error_def Let_def split: option.split)

lemma ntlm_directed_calls:
  "only_calls (ntlm_sent s) (ntlm_GetExistingCertificate L s rid)"
  "only_calls (ntlm_sent s) (ntlm_RequestCertificate L s csr template)"
  "only_calls (ntlm_sent s) (ntlm_GetCaCertificateChain L s)"
proof -
  show existing: "only_calls (ntlm_sent s) (ntlm_GetExistingCertificate L s rid)" for rid
    by (auto simp: ntlm_GetExistingCertificate_def Let_def responses_directed
        intro!: only_calls_NewRequest dest!: NewRequest_sent split: sum.split)
  then show "only_calls (ntlm_sent s) (ntlm_RequestCertificate L s csr template)"
    by (auto simp: ntlm_RequestCertificate_def ntlm_request_response_def Let_def dest!: NewRequest_sent
        split: sum.split option.split)
  show "only_calls (ntlm_sent s) (ntlm_GetCaCertificateChain L s)"
    by (auto simp: ntlm_GetCaCertificateChain_def ntlm_obtainCaCertificate_def Let_def responses_directed
        dest!: NewRequest_sent split: sum.split option.split)
qed

lemma krb_directed_calls:
  "only_calls (krb_sent s) (krb_GetExistingCertificate L s rid)"
  "only_calls (krb_sent s) (krb_RequestCertificate L s csr template)"
  "only_calls (krb_sent s) (krb_GetCaCertificateChain L s)"
proof -
  show existing: "only_calls (krb_sent s) (krb_GetExistingCertificate L s rid)" for rid
    by (auto simp: krb_GetExistingCertificate_def Let_def responses_directed
        intro!: only_calls_NewRequest dest!: NewRequest_sent split: sum.split)
  then show "only_calls (krb_sent s) (krb_RequestCertificate L s csr template)"
    by (auto simp: krb_RequestCertificate_def krb_request_response_def Let_def dest!: NewRequest_sent
        split: sum.split option.split)
  show "only_calls (krb_sent s) (krb_GetCaCertificateChain L s)"
    by (auto simp: krb_GetCaCertificateChain_def krb_obtainCaCertificate_def Let_def responses_directed
        intro!: only_calls_NewRequest dest!: NewRequest_sent split: sum.split option.split)
qed

interpretation ntlm_directed: directed_certsrv "ntlm_iface L s" "ntlm_sent s" for L s
  by unfold_locales (simp_all add: ntlm_iface_def ntlm_directed_calls)

interpretation krb_directed: directed_certsrv "krb_iface L s" "krb_sent s" for L s
  by unfold_locales (simp_all add: krb_iface_def krb_directed_calls)

section \<open>What an issuer is built from\<close>

text \<open>The URL, the Secret, its namespace and the CA bundle in the specification that was read.\<close>

definition configured ::
    "IssuerFactory \<Rightarrow> IssuerReference \<Rightarrow> string \<Rightarrow> trace \<Rightarrow> string \<Rightarrow> ObjectKey \<Rightarrow> slice \<Rightarrow> CABundleReference \<Rightarrow> bool" where
  "configured f ref ns tr url secret inline bref =
     (let key = \<lparr>key_Namespace = ns, key_Name = ref_Name ref\<rparr> in
      ToLower (ref_Kind ref) = ''adcsissuer'' \<and> (\<exists>i. (CGetAI key, AGetAI (Inr i)) \<in> set tr \<and>
        url = ai_URL (ai_Spec i) \<and> inline = ai_CABundle (ai_Spec i) \<and> bref = ai_CABundleRef (ai_Spec i) \<and>
        secret = \<lparr>key_Namespace = meta_Namespace (ai_meta i), key_Name = lor_Name (ai_CredentialsRef (ai_Spec i))\<rparr>) \<or>
      ToLower (ref_Kind ref) = ''clusteradcsissuer'' \<and> (\<exists>i. (CGetCAI (key\<lparr>key_Namespace := ''''\<rparr>), AGetCAI (Inr i)) \<in> set tr \<and>
        url = cai_URL (cai_Spec i) \<and> inline = cai_CABundle (cai_Spec i) \<and> bref = cai_CABundleRef (cai_Spec i) \<and>
        secret = \<lparr>key_Namespace = ClusterResourceNamespace f, key_Name = lor_Name (cai_CredentialsRef (cai_Spec i))\<rparr>))"

text \<open>The client for this URL with these credentials and certificates, chosen by the environment.\<close>

definition client_for ::
    "lib \<Rightarrow> trace \<Rightarrow> string \<Rightarrow> string \<Rightarrow> string \<Rightarrow> string \<Rightarrow> string list \<Rightarrow> AdcsCertsrv \<Rightarrow> bool" where
  "client_for L tr url user pw realm pool srv = (\<exists>mode. (CGetenv ''ADCS_AUTH_MODE'', AString mode) \<in> set tr \<and>
     (if mode = ''kerberos'' then (CKrbLogin user realm pw, AErr None) \<in> set tr \<and>
        srv = krb_iface L \<lparr>krb_url = url, krb_httpClient =
          \<lparr>hc_auth = SpnegoClient user realm, hc_RootCAs = Some pool, hc_InsecureSkipVerify = False\<rparr>\<rparr>
      else srv = ntlm_iface L \<lparr>ntlm_url = url, ntlm_username = user, ntlm_password = pw, ntlm_httpClient =
          \<lparr>hc_auth = (if user \<noteq> '''' \<and> pw \<noteq> '''' then NtlmNegotiator else PlainTransport),
           hc_RootCAs = Some pool, hc_InsecureSkipVerify = False\<rparr>\<rparr>))"

lemma client_for_mono: "client_for L tr url user pw realm pool srv \<Longrightarrow> set tr \<subseteq> set tr' \<Longrightarrow> client_for L tr' url user pw realm pool srv"
  unfolding client_for_def by (meson subsetD)

lemma new_certsrv_client:
  assumes "run tr (new_certsrv L url user pw realm pool) = Some (Returned (Inr srv))"
  shows "client_for L tr url user pw realm pool srv"
proof -
  have "runs_sat (new_certsrv L url user pw realm pool)
      (\<lambda>tr z. \<forall>srv. z = Returned (Inr srv) \<longrightarrow> client_for L tr url user pw realm pool srv)"
    by (auto simp: new_certsrv_def NewKerberosCertsrv_def NewNtlmCertsrv_def krb_finish_def runs client_for_def
        bind_assoc ntlm_http_client_def Let_def split: option.split)
  from runs_satD [OF this assms] show ?thesis by blast
qed

definition built ::
    "lib \<Rightarrow> trace \<Rightarrow> string \<Rightarrow> ObjectKey \<Rightarrow> slice \<Rightarrow> CABundleReference \<Rightarrow> AdcsCertsrv \<Rightarrow> bool" where
  "built L tr url skey inline bref srv = (\<exists>secret user pw certs tr_b.
     (CGetSecret skey, AGetSecret (Inr secret)) \<in> set tr \<and>
     secret_Data secret ''username'' = Some user \<and> secret_Data secret ''password'' = Some pw \<and>
     run tr_b (load_certs L inline bref (key_Namespace skey)) = Some (Returned certs) \<and> set tr_b \<subseteq> set tr \<and>
     AppendCertsFromPEM L (slice_bytes certs) \<noteq> [] \<and>
     client_for L tr url user pw (case secret_Data secret ''realm'' of None \<Rightarrow> '''' | Some r \<Rightarrow> r)
       (AppendCertsFromPEM L (slice_bytes certs)) srv)"

lemma built_mono: "built L tr url skey inline bref srv \<Longrightarrow> set tr \<subseteq> set tr' \<Longrightarrow> built L tr' url skey inline bref srv"
  unfolding built_def using client_for_mono by (meson subset_trans subsetD)

lemma getUserPassword_reads:
  assumes "run tr (getUserPassword name ns) = Some (Returned (Inr (user, pw, realm)))"
  shows "\<exists>secret. (CGetSecret \<lparr>key_Namespace = ns, key_Name = name\<rparr>, AGetSecret (Inr secret)) \<in> set tr \<and>
    secret_Data secret ''username'' = Some user \<and> secret_Data secret ''password'' = Some pw \<and>
    realm = (case secret_Data secret ''realm'' of None \<Rightarrow> '''' | Some r \<Rightarrow> r)"
proof -
  have "runs_sat (getUserPassword name ns) (\<lambda>tr z. \<forall>user pw realm. z = Returned (Inr (user, pw, realm)) \<longrightarrow>
      (\<exists>secret. (CGetSecret \<lparr>key_Namespace = ns, key_Name = name\<rparr>, AGetSecret (Inr secret)) \<in> set tr \<and>
        secret_Data secret ''username'' = Some user \<and> secret_Data secret ''password'' = Some pw \<and>
        realm = (case secret_Data secret ''realm'' of None \<Rightarrow> '''' | Some r \<Rightarrow> r)))"
    by (auto simp: getUserPassword_def runs split: sum.split option.split)
  from runs_satD [OF this assms] show ?thesis by blast
qed

text \<open>The part of the construction that both kinds of issuer share.\<close>

definition connect ::
    "lib \<Rightarrow> string \<Rightarrow> ObjectKey \<Rightarrow> slice \<Rightarrow> CABundleReference \<Rightarrow> (AdcsCertsrv \<Rightarrow> Issuer) \<Rightarrow> (gerr + Issuer) prog" where
  "connect L url skey inline bref mk =
     bind (getUserPassword (key_Name skey) (key_Namespace skey)) (\<lambda>r. case r of
       Inl pwError \<Rightarrow> Ret (Inl pwError)
     | Inr (username, password, realm) \<Rightarrow>
         bind (load_certs L inline bref (key_Namespace skey)) (\<lambda>certs.
           if slice_len certs = 0 then Ret (Inl (Err ''CA Bundle required''))
           else
             (let caCertPool = AppendCertsFromPEM L (slice_bytes certs) in
              if caCertPool = [] then Ret (Inl (Err ''error loading ADCS CA bundle''))
              else
                bind (new_certsrv L url username password realm caCertPool)
                  (\<lambda>r. case r of Inl adcsErr \<Rightarrow> Ret (Inl adcsErr) | Inr srv \<Rightarrow> Ret (Inr (mk srv))))))"

lemma factory_connects:
  "getAdcsIssuer L f key =
     bind (GetAI key) (\<lambda>r. case r of Inl err \<Rightarrow> Ret (Inl err) | Inr i \<Rightarrow>
       connect L (ai_URL (ai_Spec i))
         \<lparr>key_Namespace = meta_Namespace (ai_meta i), key_Name = lor_Name (ai_CredentialsRef (ai_Spec i))\<rparr>
         (ai_CABundle (ai_Spec i)) (ai_CABundleRef (ai_Spec i))
         (\<lambda>srv. \<lparr>certServ = srv,
            RetryInterval = getInterval L (ai_RetryInterval (ai_Spec i)) defaultRetryInterval,
            StatusCheckInterval = getInterval L (ai_StatusCheckInterval (ai_Spec i)) defaultStatusCheckInterval,
            iss_AdcsTemplateName = (if ai_TemplateName (ai_Spec i) \<noteq> '''' then ai_TemplateName (ai_Spec i)
              else fac_AdcsTemplateName f)\<rparr>))"
  "getClusterAdcsIssuer L f key =
     bind (GetCAI (key\<lparr>key_Namespace := ''''\<rparr>)) (\<lambda>r. case r of Inl err \<Rightarrow> Ret (Inl err) | Inr i \<Rightarrow>
       connect L (cai_URL (cai_Spec i))
         \<lparr>key_Namespace = ClusterResourceNamespace f, key_Name = lor_Name (cai_CredentialsRef (cai_Spec i))\<rparr>
         (cai_CABundle (cai_Spec i)) (cai_CABundleRef (cai_Spec i))
         (\<lambda>srv. \<lparr>certServ = srv,
            RetryInterval = getInterval L (cai_RetryInterval (cai_Spec i)) defaultRetryInterval,
            StatusCheckInterval = getInterval L (cai_StatusCheckInterval (cai_Spec i)) defaultStatusCheckInterval,
            iss_AdcsTemplateName = (if cai_TemplateName (cai_Spec i) \<noteq> '''' then cai_TemplateName (cai_Spec i)
              else fac_AdcsTemplateName f)\<rparr>))"
  by (simp_all only: getAdcsIssuer_def getClusterAdcsIssuer_def connect_def Let_def ObjectKey.select_convs)

lemma connect_built:
  assumes "run tr (connect L url skey inline bref mk) = Some (Returned (Inr issuer))"
  shows "\<exists>srv. issuer = mk srv \<and> built L tr url skey inline bref srv"
  using assms unfolding connect_def
proof (cases rule: run_bind_cases)
  case (returned tr1 tr2 a)
  then obtain user pw realm where a: "a = Inr (user, pw, realm)" by (cases a) auto
  from returned(3) [unfolded a sum.case prod.case] show ?thesis
  proof (cases rule: run_bind_cases)
    case certs: (returned tr_b tr3 certs)
    let ?pool = "AppendCertsFromPEM L (slice_bytes certs)"
    from certs(3) have pool: "?pool \<noteq> []"
        and rest: "run tr3 (bind (new_certsrv L url user pw realm ?pool)
          (\<lambda>r. case r of Inl adcsErr \<Rightarrow> Ret (Inl adcsErr) | Inr srv \<Rightarrow> Ret (Inr (mk srv)))) = Some (Returned (Inr issuer))"
      by (auto simp: Let_def split: if_splits)
    from rest obtain tr4 srv where srv: "run tr4 (new_certsrv L url user pw realm ?pool) = Some (Returned (Inr srv))"
        "issuer = mk srv" "set tr4 \<subseteq> set tr3"
      by (auto elim!: run_bind_cases split: sum.splits)
    have skey: "\<lparr>key_Namespace = key_Namespace skey, key_Name = key_Name skey\<rparr> = skey" by simp
    from getUserPassword_reads [OF returned(2) [unfolded a], unfolded skey] obtain secret where
        secret: "(CGetSecret skey, AGetSecret (Inr secret)) \<in> set tr1"
          "secret_Data secret ''username'' = Some user" "secret_Data secret ''password'' = Some pw"
        and realm: "realm = (case secret_Data secret ''realm'' of None \<Rightarrow> '''' | Some r \<Rightarrow> r)" by blast
    have sub: "set tr1 \<subseteq> set tr" "set tr_b \<subseteq> set tr" "set tr4 \<subseteq> set tr"
      using returned(1) certs(1) srv(3) by auto
    have "client_for L tr url user pw realm ?pool srv"
      using client_for_mono [OF new_certsrv_client [OF srv(1)] sub(3)] .
    with secret sub(1,2) certs(2) pool have "built L tr url skey inline bref srv"
      unfolding built_def realm by blast
    with srv(2) show ?thesis by blast
  qed simp
qed simp

lemma issuer_built:
  assumes "run tr (GetIssuer L f ref ns) = Some (Returned (Inr issuer))"
  shows "\<exists>url skey inline bref. configured f ref ns tr url skey inline bref \<and> built L tr url skey inline bref (certServ issuer)"
proof -
  let ?key = "\<lparr>key_Namespace = ns, key_Name = ref_Name ref\<rparr>"
  from assms consider "ToLower (ref_Kind ref) = ''adcsissuer''" "run tr (getAdcsIssuer L f ?key) = Some (Returned (Inr issuer))"
    | "ToLower (ref_Kind ref) = ''clusteradcsissuer''" "run tr (getClusterAdcsIssuer L f ?key) = Some (Returned (Inr issuer))"
    by (auto simp: GetIssuer_def Let_def simp del: ToLower.simps split: if_splits)
  then show ?thesis
  proof cases
    case 1
    from 1(2) obtain i tr' where tr: "tr = (CGetAI ?key, AGetAI (Inr i)) # tr'"
        and body: "built L tr' (ai_URL (ai_Spec i))
          \<lparr>key_Namespace = meta_Namespace (ai_meta i), key_Name = lor_Name (ai_CredentialsRef (ai_Spec i))\<rparr>
          (ai_CABundle (ai_Spec i)) (ai_CABundleRef (ai_Spec i)) (certServ issuer)"
      unfolding factory_connects run_GetAI split_sum_ex by (auto dest!: connect_built)
    have "set tr' \<subseteq> set tr" unfolding tr by auto
    from built_mono [OF body this] 1(1) show ?thesis unfolding configured_def Let_def tr
      by (metis list.set_intros(1))
  next
    case 2
    from 2(2) obtain i tr' where tr: "tr = (CGetCAI (?key\<lparr>key_Namespace := ''''\<rparr>), AGetCAI (Inr i)) # tr'"
        and body: "built L tr' (cai_URL (cai_Spec i))
          \<lparr>key_Namespace = ClusterResourceNamespace f, key_Name = lor_Name (cai_CredentialsRef (cai_Spec i))\<rparr>
          (cai_CABundle (cai_Spec i)) (cai_CABundleRef (cai_Spec i)) (certServ issuer)"
      unfolding factory_connects run_GetCAI split_sum_ex by (auto dest!: connect_built)
    have "set tr' \<subseteq> set tr" unfolding tr by auto
    from built_mono [OF body this] 2(1) show ?thesis unfolding configured_def Let_def tr
      by (metis list.set_intros(1))
  qed
qed

section \<open>Authentication both ways\<close>

text \<open>What a client for these credentials sends, and over which HTTP client.\<close>

definition mutual_auth ::
    "trace \<Rightarrow> string \<Rightarrow> string \<Rightarrow> string \<Rightarrow> string list \<Rightarrow> http_client \<Rightarrow> http_request \<Rightarrow> bool" where
  "mutual_auth tr user pw realm pool cl rq = (hc_RootCAs cl = Some pool \<and> \<not> hc_InsecureSkipVerify cl \<and>
     (\<exists>mode. (CGetenv ''ADCS_AUTH_MODE'', AString mode) \<in> set tr \<and>
       (if mode = ''kerberos'' then hc_auth cl = SpnegoClient user realm \<and> (CKrbLogin user realm pw, AErr None) \<in> set tr
        else rq_BasicAuth rq = Some (user, pw) \<and>
          hc_auth cl = (if user \<noteq> '''' \<and> pw \<noteq> '''' then NtlmNegotiator else PlainTransport))))"

lemma client_exchanges:
  assumes client: "client_for L tr url user pw realm pool (certServ issuer)"
    and issue: "run tr' (Issue L issuer ar) = Some z" and sent: "(CHttp cl rq, x) \<in> set tr'"
  shows "prefix (url @ ''/'') (rq_URL rq) \<and> mutual_auth tr user pw realm pool cl rq"
proof -
  from client obtain mode where mode: "(CGetenv ''ADCS_AUTH_MODE'', AString mode) \<in> set tr"
      and srv: "if mode = ''kerberos'' then (CKrbLogin user realm pw, AErr None) \<in> set tr \<and>
        certServ issuer = krb_iface L \<lparr>krb_url = url, krb_httpClient =
          \<lparr>hc_auth = SpnegoClient user realm, hc_RootCAs = Some pool, hc_InsecureSkipVerify = False\<rparr>\<rparr>
      else certServ issuer = ntlm_iface L \<lparr>ntlm_url = url, ntlm_username = user, ntlm_password = pw, ntlm_httpClient =
          \<lparr>hc_auth = (if user \<noteq> '''' \<and> pw \<noteq> '''' then NtlmNegotiator else PlainTransport),
           hc_RootCAs = Some pool, hc_InsecureSkipVerify = False\<rparr>\<rparr>"
    unfolding client_for_def by blast
  show ?thesis
  proof (cases "mode = ''kerberos''")
    case True
    with srv have "certServ issuer = krb_iface L \<lparr>krb_url = url, krb_httpClient =
          \<lparr>hc_auth = SpnegoClient user realm, hc_RootCAs = Some pool, hc_InsecureSkipVerify = False\<rparr>\<rparr>" by simp
    from only_calls_run [OF krb_directed.Issue_directed [OF this] issue sent] True srv mode
    show ?thesis by (auto simp: mutual_auth_def)
  next
    case False
    with srv have "certServ issuer = ntlm_iface L \<lparr>ntlm_url = url, ntlm_username = user, ntlm_password = pw, ntlm_httpClient =
          \<lparr>hc_auth = (if user \<noteq> '''' \<and> pw \<noteq> '''' then NtlmNegotiator else PlainTransport),
           hc_RootCAs = Some pool, hc_InsecureSkipVerify = False\<rparr>\<rparr>" by simp
    from only_calls_run [OF ntlm_directed.Issue_directed [OF this] issue sent] False mode
    show ?thesis by (auto simp: mutual_auth_def)
  qed
qed

text \<open>
  C32. The connection is authenticated both ways, from the configuration to the wire: if the
  factory has built an issuer for a reference, then every request that \<open>Issue\<close> sends with it
  goes below the URL in the specification of the AdcsIssuer or ClusterAdcsIssuer the factory
  read, over an HTTP client that verifies the server's certificate against exactly the certificates
  of the CA bundle of that specification (at least one), and that presents the credentials of
  the Secret named there, in the issuer's own namespace or the cluster resource one: with Kerberos
  exactly when ADCS_AUTH_MODE says so, after a login with the password; otherwise with both
  credentials in every request and, unless one of them is empty, the NTLM negotiation.
\<close>

theorem issuer_verifies_the_server:
  assumes "run tr (GetIssuer L f ref ns) = Some (Returned (Inr issuer))"
    and "run tr' (Issue L issuer ar) = Some z" and "(CHttp cl rq, x) \<in> set tr'"
  shows "\<exists>url skey inline bref secret user pw certs tr_b.
    configured f ref ns tr url skey inline bref \<and> prefix (url @ ''/'') (rq_URL rq) \<and>
    (CGetSecret skey, AGetSecret (Inr secret)) \<in> set tr \<and>
    secret_Data secret ''username'' = Some user \<and> secret_Data secret ''password'' = Some pw \<and>
    run tr_b (load_certs L inline bref (key_Namespace skey)) = Some (Returned certs) \<and> set tr_b \<subseteq> set tr \<and>
    AppendCertsFromPEM L (slice_bytes certs) \<noteq> [] \<and>
    mutual_auth tr user pw (case secret_Data secret ''realm'' of None \<Rightarrow> '''' | Some r \<Rightarrow> r)
      (AppendCertsFromPEM L (slice_bytes certs)) cl rq"
proof -
  from issuer_built [OF assms(1)] obtain url skey inline bref where
      c: "configured f ref ns tr url skey inline bref" and b: "built L tr url skey inline bref (certServ issuer)" by blast
  from b obtain secret user pw certs tr_b where
      s: "(CGetSecret skey, AGetSecret (Inr secret)) \<in> set tr" "secret_Data secret ''username'' = Some user"
        "secret_Data secret ''password'' = Some pw"
        "run tr_b (load_certs L inline bref (key_Namespace skey)) = Some (Returned certs)" "set tr_b \<subseteq> set tr"
        "AppendCertsFromPEM L (slice_bytes certs) \<noteq> []"
      and client: "client_for L tr url user pw (case secret_Data secret ''realm'' of None \<Rightarrow> '''' | Some r \<Rightarrow> r)
        (AppendCertsFromPEM L (slice_bytes certs)) (certServ issuer)" unfolding built_def by blast
  from client_exchanges [OF client assms(2,3)] c s show ?thesis by blast
qed

lemma sample_factory_run:
  "run factory_trace (GetIssuer sample_lib (arr_IssuerFactory sample_reconciler) sample_ref ''ns'') =
     Some (Returned (Inr sample_built))"
  using sample_factory [of "[]" Ret] by simp

theorem issuer_verifies_the_server_witness:
  "run factory_trace (GetIssuer sample_lib (arr_IssuerFactory sample_reconciler) sample_ref ''ns'') =
     Some (Returned (Inr sample_built)) \<and>
   (CHttp sample_client submit_request, AHttp (Inr (sample_response 200 ct_html accepted_body None)))
     \<in> set (waiting_trace @ fine_chain) \<and>
   prefix ''https://adcs/'' (rq_URL submit_request) \<and>
   mutual_auth factory_trace ''u'' ''p'' '''' [''pem''] sample_client submit_request"
proof -
  have sent: "(CHttp sample_client submit_request, AHttp (Inr (sample_response 200 ct_html accepted_body None)))
     \<in> set (waiting_trace @ fine_chain)"
    by (simp add: waiting_trace_def ntlm_post_trace_def submit_request_def post_request_def sample_ntlm_eq)
  from issuer_verifies_the_server [OF sample_factory_run waiting_issue sent] sent sample_factory_run
  show ?thesis
    by (auto simp: configured_def factory_trace_def sample_defs load_certs_def)
qed

end
