(* ===== verification/Schedule.thy ===== *)
theory Schedule
  imports Issuer_Theorems Outages_Theorems
begin

text \<open>
  When an AdcsRequest is looked at again: what a reconciliation asks of the queue, traced back to
  the intervals that the issuer's specification gives.
\<close>

section \<open>The intervals of the issuer that was read\<close>

definition issuer_intervals :: "lib \<Rightarrow> trace \<Rightarrow> Duration \<Rightarrow> Duration \<Rightarrow> bool" where
  "issuer_intervals L tr retry check =
     ((\<exists>k i. (CGetAI k, AGetAI (Inr i)) \<in> set tr \<and>
         retry = getInterval L (ai_RetryInterval (ai_Spec i)) defaultRetryInterval \<and>
         check = getInterval L (ai_StatusCheckInterval (ai_Spec i)) defaultStatusCheckInterval) \<or>
      (\<exists>k i. (CGetCAI k, AGetCAI (Inr i)) \<in> set tr \<and>
         retry = getInterval L (cai_RetryInterval (cai_Spec i)) defaultRetryInterval \<and>
         check = getInterval L (cai_StatusCheckInterval (cai_Spec i)) defaultStatusCheckInterval))"

lemma issuer_intervals_mono:
  "issuer_intervals L tr retry check \<Longrightarrow> set tr \<subseteq> set tr' \<Longrightarrow> issuer_intervals L tr' retry check"
  unfolding issuer_intervals_def by blast

definition keeps_intervals :: "lib \<Rightarrow> string \<Rightarrow> string \<Rightarrow> gerr + Issuer \<Rightarrow> bool" where
  "keeps_intervals L retry check r = (\<forall>i. r = Inr i \<longrightarrow>
     RetryInterval i = getInterval L retry defaultRetryInterval \<and>
     StatusCheckInterval i = getInterval L check defaultStatusCheckInterval)"

lemma keeps_intervals_Inl [simp]: "keeps_intervals L retry check (Inl e)"
  by (simp add: keeps_intervals_def)

lemma read_then:
  "run tr (bind (GetAI key) f) = Some (Returned r) \<Longrightarrow> (\<And>x. returns_sat (f x) (P x)) \<Longrightarrow>
     \<exists>x. (CGetAI key, AGetAI x) \<in> set tr \<and> P x r"
  "run tr (bind (GetCAI key') g) = Some (Returned r) \<Longrightarrow> (\<And>y. returns_sat (g y) (Q y)) \<Longrightarrow>
     \<exists>y. (CGetCAI key', AGetCAI y) \<in> set tr \<and> Q y r"
  unfolding run_GetAI run_GetCAI by (fastforce dest: returns_sat_run)+

lemma read_intervals:
  assumes "run tr (getAdcsIssuer L f key) = Some (Returned (Inr issuer))"
  shows "issuer_intervals L tr (RetryInterval issuer) (StatusCheckInterval issuer)"
proof -
  let ?P = "\<lambda>x. case x of Inl e \<Rightarrow> (\<lambda>r. r = Inl e)
    | Inr i \<Rightarrow> keeps_intervals L (ai_RetryInterval (ai_Spec i)) (ai_StatusCheckInterval (ai_Spec i))"
  have "\<exists>x. (CGetAI key, AGetAI x) \<in> set tr \<and> ?P x (Inr issuer)"
    using assms unfolding getAdcsIssuer_def
    by (rule read_then(1)) (auto simp: keeps_intervals_def Let_def intro!: returns_sat_any split: sum.split)
  then obtain x where x: "(CGetAI key, AGetAI x) \<in> set tr" "?P x (Inr issuer)" by blast
  then show ?thesis
    by (cases x) (auto simp: issuer_intervals_def keeps_intervals_def)
qed

lemma read_cluster_intervals:
  assumes "run tr (getClusterAdcsIssuer L f key) = Some (Returned (Inr issuer))"
  shows "issuer_intervals L tr (RetryInterval issuer) (StatusCheckInterval issuer)"
proof -
  let ?P = "\<lambda>x. case x of Inl e \<Rightarrow> (\<lambda>r. r = Inl e)
    | Inr i \<Rightarrow> keeps_intervals L (cai_RetryInterval (cai_Spec i)) (cai_StatusCheckInterval (cai_Spec i))"
  have "\<exists>x. (CGetCAI (key\<lparr>key_Namespace := ''''\<rparr>), AGetCAI x) \<in> set tr \<and> ?P x (Inr issuer)"
    using assms unfolding getClusterAdcsIssuer_def
    by (rule read_then(2)) (auto simp: keeps_intervals_def Let_def intro!: returns_sat_any split: sum.split)
  then obtain x where x: "(CGetCAI (key\<lparr>key_Namespace := ''''\<rparr>), AGetCAI x) \<in> set tr" "?P x (Inr issuer)" by blast
  then show ?thesis
    by (cases x) (auto simp: issuer_intervals_def keeps_intervals_def)
qed

lemma GetIssuer_intervals:
  assumes "run tr (GetIssuer L f ref ns) = Some (Returned (Inr issuer))"
  shows "issuer_intervals L tr (RetryInterval issuer) (StatusCheckInterval issuer)"
  using assms read_intervals read_cluster_intervals
  by (auto simp: GetIssuer_def Let_def split: if_splits)

section \<open>The next attempt\<close>

lemma nothing_stored: "writes tr = [] \<Longrightarrow> (CUpdateARStatus ar', AErr None) \<notin> set tr"
  using set_writes [of "(CUpdateARStatus ar', AErr None)" tr] by auto

lemma issuer_known:
  assumes "run tr1 (GetIssuer L f ref ns) = Some (Returned (Inr issuer))"
  shows "run tr2 (Issue L issuer ar) = Some x \<Longrightarrow> writes (tr1 @ tr2) = []"
    and "issuer_intervals L (tr1 @ tr2) (RetryInterval issuer) (StatusCheckInterval issuer)"
  using GetIssuer_silent(1) [OF assms] Issue_silent [OF GetIssuer_contract [OF assms]]
    issuer_intervals_mono [OF GetIssuer_intervals [OF assms], of "tr1 @ tr2"]
  by auto

lemma published_intervals:
  assumes "published L r key ((CGetAR key, AGetAR (Inr ar)) # tr) z a issuer rs cr tr3"
  shows "issuer_intervals L tr (RetryInterval issuer) (StatusCheckInterval issuer)"
  using assms issuer_known(2) unfolding published_def by fastforce

lemma status_stored_iff:
  "writes ((CGetAR key, x) # tr) = ws \<Longrightarrow> (CUpdateARStatus a, AErr None) \<in> set tr \<longleftrightarrow> (CUpdateARStatus a, AErr None) \<in> set ws"
  using set_writes [of "(CUpdateARStatus a, AErr None)" "(CGetAR key, x) # tr"] by simp

text \<open>
  C14. The time of the next attempt is the issuer's. A reconciliation of an AdcsRequest that was
  read reports an error only when there is no usable issuer: all it has done is look for the
  issuer, the error is the one with which this failed, and nothing is written (so an unsupported
  kind of issuer is not marked as failed in the status, as a comment in the type announces, and
  the controller runtime decides when it is tried again). Otherwise it has stored a settled status and
  asks for nothing; or it asks for another attempt without an error, after the status check
  interval exactly when it has stored a pending status, and after the retry interval exactly
  when it could not store a status, a failed \<open>Issue\<close> included. The intervals are those in the
  specification of the issuer that was read, six hours and one hour where they are empty
  or malformed.
\<close>

theorem attempts_follow_the_intervals:
  assumes "run ((CGetAR key, AGetAR (Inr ar)) # tr) (AdcsRequest_Reconcile L r key) = Some (Returned (res, err))"
  shows "(\<exists>e. err = Some e \<and> res = zero_result \<and> writes tr = [] \<and>
       run tr (GetIssuer L (arr_IssuerFactory r) (ar_IssuerRef (ar_Spec ar)) (meta_Namespace (ar_meta ar))) =
         Some (Returned (Inl e))) \<or>
    (err = None \<and> res = zero_result \<and>
       (\<exists>ar'. (CUpdateARStatus ar', AErr None) \<in> set tr \<and> phase_of (ar_Status ar') = Settled)) \<or>
    (err = None \<and> Requeue res \<and> (\<exists>retry check. issuer_intervals L tr retry check \<and>
       (RequeueAfter res = check \<and>
          (\<exists>ar'. (CUpdateARStatus ar', AErr None) \<in> set tr \<and> ar_State (ar_Status ar') = StatePending) \<or>
        RequeueAfter res = retry \<and> (\<forall>ar'. (CUpdateARStatus ar', AErr None) \<notin> set tr))))"
  using assms
proof (cases rule: AR_reconcile_cases)
  case (unread err)
  then show ?thesis by simp
next
  case (no_issuer a tr1 x)
  then show ?thesis using GetIssuer_silent(1) [OF no_issuer(2)] by auto
next
  case (not_issued a tr1 tr2 issuer x)
  with issuer_known [OF not_issued(2)] have "writes tr = []"
      "issuer_intervals L tr (RetryInterval issuer) (StatusCheckInterval issuer)" by auto
  with not_issued(4) nothing_stored [of tr] show ?thesis by (auto simp: retry_later_def)
next
  case (no_target a tr1 tr2 issuer e ar' cert ca)
  with issuer_known(1) [OF no_target(2,3)] issuer_known(2) [OF no_target(2)] have "writes tr = []"
      "issuer_intervals L tr (RetryInterval issuer) (StatusCheckInterval issuer)" by auto
  with no_target(4) nothing_stored [of tr] show ?thesis by (auto simp: retry_later_def)
next
  case (published a issuer rs cr tr3)
  then obtain ar' cert ca where post: "issue_post ar (ar', cert, ca, None)"
      and w: "writes ((CGetAR key, AGetAR (Inr ar)) # tr) = writes tr3"
      and p: "run tr3 (publish L issuer ar' cert ca cr) = Some (Returned (res, err))"
    by (auto elim!: publishedE)
  have known: "ar_State (ar_Status ar') \<noteq> StateUnknown"
    using post by (auto simp: issue_post_def phase_of_def split: if_splits)
  note facts = published_intervals [OF published] status_stored_iff [OF w]
  from p show ?thesis
  proof (cases rule: publish_cases)
    case (report_failed t e)
    with facts show ?thesis by (auto simp: retry_later_def)
  next
    case (reported t x)
    with facts show ?thesis by (cases x) (auto simp: retry_later_def phase_of_def)
  next
    case (stored x)
    with facts known show ?thesis
      by (cases x) (auto simp: retry_later_def phase_of_def split: if_splits)
  qed
qed

theorem attempts_follow_the_intervals_witness:
  "\<exists>retry. issuer_intervals sample_lib (tl round2) retry (StatusCheckInterval sample_built)"
proof -
  let ?res = "\<lparr>Requeue = True, RequeueAfter = StatusCheckInterval sample_built\<rparr>"
  have "run ((CGetAR sample_key, AGetAR (Inr opened)) # tl round2)
      (AdcsRequest_Reconcile sample_lib sample_reconciler sample_key) = Some (Returned (?res, None))"
    using round2_run by (simp add: round2_def)
  moreover have "(CUpdateARStatus taken, AErr None) \<in> set (tl round2)"
    by (simp add: round2_def announce_and_store_def)
  ultimately show ?thesis
    using attempts_follow_the_intervals [of sample_key opened "tl round2" sample_lib sample_reconciler ?res None]
    by (auto simp: zero_result_def)
qed

end
