(* ===== verification/Protocol.thy ===== *)
theory Protocol
  imports Cluster_Theorems
begin

text \<open>
  The abstract protocol of one AdcsRequest, and the proof that the two controllers implement it.
  The protocol knows nothing of HTTP, of errors or of reconciliations: its state is the stored
  request, if there is one, and the outcomes that were reported to the CertificateRequest of
  the same name; its steps say when a request appears, moves on and goes away. A history of
  \<open>Cluster\<close>, with any number of reconciliations of both controllers interleaved, is mapped to a
  state of the protocol, and every event is a step of the protocol or changes nothing.
\<close>

section \<open>The protocol\<close>

record protocol =
  pr_request :: "(AdcsRequestSpec \<times> AdcsRequestStatus) option"
  pr_reported :: "State set"

definition pr_init :: protocol where
  "pr_init = \<lparr>pr_request = None, pr_reported = {}\<rparr>"

inductive protocol_step :: "protocol \<Rightarrow> protocol \<Rightarrow> bool" where
  create: "pr_request p = None \<Longrightarrow> protocol_step p (p\<lparr>pr_request := Some (spec, zero_status)\<rparr>)"
| report: "st \<in> set reported_states \<Longrightarrow> protocol_step p (p\<lparr>pr_reported := insert st (pr_reported p)\<rparr>)"
| progress: "pr_request p = Some (spec, s) \<Longrightarrow> lifecycle s t \<Longrightarrow>
    (ar_State t \<in> set reported_states \<Longrightarrow> ar_State t \<in> pr_reported p) \<Longrightarrow>
    protocol_step p (p\<lparr>pr_request := Some (spec, t)\<rparr>)"
| delete: "protocol_step p (p\<lparr>pr_request := None\<rparr>)"

section \<open>What holds of the protocol\<close>

text \<open>Every reachable state is in order: the status is one of the life cycle, and was reported.\<close>

definition in_order :: "protocol \<Rightarrow> bool" where
  "in_order p = (case pr_request p of None \<Rightarrow> True | Some (spec, s) \<Rightarrow>
     lifecycle zero_status s \<and> (ar_State s \<in> set reported_states \<longrightarrow> ar_State s \<in> pr_reported p))"

lemma protocol_keeps_order: "protocol_step p q \<Longrightarrow> in_order p \<Longrightarrow> in_order q"
  by (induction rule: protocol_step.induct)
     (auto simp: in_order_def zero_status_def lifecycle.stay intro: lifecycle_trans split: option.splits)

lemma protocol_in_order:
  assumes "protocol_step\<^sup>*\<^sup>* pr_init p"
  shows "in_order p"
  using assms
proof (induction rule: rtranclp_induct)
  case base
  show ?case by (simp add: pr_init_def in_order_def)
next
  case (step y z)
  then show ?case by (blast intro: protocol_keeps_order)
qed

lemma report_steps:
  assumes "set sts \<subseteq> set reported_states"
  shows "protocol_step\<^sup>*\<^sup>* p (p\<lparr>pr_reported := pr_reported p \<union> set sts\<rparr>)"
  using assms
proof (induction sts arbitrary: p)
  case (Cons st sts)
  let ?q = "p\<lparr>pr_reported := insert st (pr_reported p)\<rparr>"
  have "protocol_step p ?q" using Cons.prems by (intro report) simp
  moreover have "protocol_step\<^sup>*\<^sup>* ?q (?q\<lparr>pr_reported := pr_reported ?q \<union> set sts\<rparr>)"
    using Cons.IH [of ?q] Cons.prems by auto
  ultimately show ?case by (simp add: converse_rtranclp_into_rtranclp)
qed simp

section \<open>The controllers implement it\<close>

definition abs_state :: "lib \<Rightarrow> (nat \<Rightarrow> job) \<Rightarrow> ObjectKey \<Rightarrow> history \<Rightarrow> protocol" where
  "abs_state L jobs k h =
     \<lparr>pr_request = map_option (\<lambda>ar. (ar_Spec ar, ar_Status ar)) (store h k),
      pr_reported = {st. st \<in> set reported_states \<and> delivered L jobs h k st}\<rparr>"

lemma abs_init: "abs_state L jobs k [] = pr_init"
  by (simp add: abs_state_def pr_init_def delivered_def)

text \<open>An event can only add reports.\<close>

lemma event_reports:
  "protocol_step\<^sup>*\<^sup>* (abs_state L jobs k h)
     ((abs_state L jobs k h)\<lparr>pr_reported := pr_reported (abs_state L jobs k (e # h))\<rparr>)"
proof -
  let ?new = "filter (delivered L jobs (e # h) k) reported_states"
  have new: "pr_reported (abs_state L jobs k (e # h)) = pr_reported (abs_state L jobs k h) \<union> set ?new"
    by (auto simp: abs_state_def intro: delivered_mono [of L jobs h])
  show ?thesis unfolding new by (rule report_steps) auto
qed

text \<open>And then it is at most one step of the request.\<close>

lemma event_step:
  assumes "interleaved L ra rc jobs (e # h)" and "api_server (e # h)"
    and "store (e # h) k \<noteq> store h k"
  shows "protocol_step ((abs_state L jobs k h)\<lparr>pr_reported := pr_reported (abs_state L jobs k (e # h))\<rparr>)
     (abs_state L jobs k (e # h))"
proof -
  obtain n c a where e: "e = (n, c, a)" by (cases e)
  have server: "api_server h" "allows h e" using assms(2) by simp_all
  note kept = every_version_is_well_kept [OF interleaved_tail [OF assms(1)] server(1)]
  define p where "p = (abs_state L jobs k h)\<lparr>pr_reported := pr_reported (abs_state L jobs k (e # h))\<rparr>"
  have to: "abs_state L jobs k (e # h) =
      p\<lparr>pr_request := map_option (\<lambda>ar. (ar_Spec ar, ar_Status ar)) (store (e # h) k)\<rparr>"
    by (simp add: p_def abs_state_def)
  from assms(3) consider (new) x where "c = CCreateAR x" "a = AErr None" "ar_key x = k"
    | (update) x where "c = CUpdateARStatus x" "a = AErr None" "ar_key x = k"
    | (gone) x where "c = CDeleteAR x" "a = AErr None" "ar_key x = k"
    unfolding e by (cases c) (auto split: if_splits)
  then have "protocol_step p (abs_state L jobs k (e # h))"
  proof cases
    case new
    then obtain cr where "x = new_AdcsRequest L cr"
      using assms(1) by (auto simp: e elim: creation_event)
    then have "ar_Status x = zero_status" by simp
    moreover have "pr_request p = None" using server(2) new by (simp add: e p_def abs_state_def)
    ultimately show ?thesis
      unfolding to using new protocol_step.create [of p "ar_Spec x"] by (simp add: e)
  next
    case update
    with assms(1) have "interleaved L ra rc jobs ((n, CUpdateARStatus x, AErr None) # h)" by (simp add: e)
    from update_event [OF this server(1) kept] update obtain ar where
        ar: "version_read k (past n h) = Some ar" "ar_Spec x = ar_Spec ar" "lifecycle (ar_Status ar) (ar_Status x)"
        and del: "ar_State (ar_Status x) \<in> set reported_states \<Longrightarrow> delivered L jobs h k (ar_State (ar_Status x))"
      by blast
    have "store h k = Some (content ar)" using server(2) ar(1) update by (simp add: e)
    then have "pr_request p = Some (ar_Spec x, ar_Status ar)" using ar(2) by (simp add: p_def abs_state_def)
    moreover have "ar_State (ar_Status x) \<in> pr_reported p" if "ar_State (ar_Status x) \<in> set reported_states"
      using that del [OF that] by (auto simp: p_def abs_state_def intro: delivered_mono [of L jobs h])
    ultimately show ?thesis
      unfolding to using update ar(3) protocol_step.progress [of p "ar_Spec x" "ar_Status ar" "ar_Status x"]
      by (simp add: e)
  next
    case gone
    then show ?thesis unfolding to using protocol_step.delete [of p] by (simp add: e)
  qed
  then show ?thesis unfolding p_def .
qed

lemma event_steps:
  assumes "interleaved L ra rc jobs (e # h)" and "api_server (e # h)"
  shows "protocol_step\<^sup>*\<^sup>* (abs_state L jobs k h) (abs_state L jobs k (e # h))"
proof (cases "store (e # h) k = store h k")
  case True
  then have "abs_state L jobs k (e # h) =
      (abs_state L jobs k h)\<lparr>pr_reported := pr_reported (abs_state L jobs k (e # h))\<rparr>"
    by (simp add: abs_state_def)
  with event_reports [of L jobs k h e] show ?thesis by simp
next
  case False
  with event_reports event_step [OF assms False] show ?thesis
    by (blast intro: rtranclp.rtrancl_into_rtrancl)
qed

text \<open>
  C3. The controllers implement the protocol: map a history to the request stored under a name
  and the outcomes that were reported for it; then, however the reconciliations interleave and
  whatever the servers answer, the state after more events is reached from the state before
  them by steps of the protocol: a request appears with an empty status, moves along the
  life cycle, settles only in a state that was reported before, or is deleted.
  The empty history is the initial state. (Users may delete AdcsRequests; they do not create or
  edit them.)
\<close>

theorem cluster_implements_the_protocol:
  assumes "interleaved L ra rc jobs (later @ h)" and "api_server (later @ h)"
  shows "protocol_step\<^sup>*\<^sup>* (abs_state L jobs k h) (abs_state L jobs k (later @ h)) \<and>
    abs_state L jobs k [] = pr_init"
  using assms
proof (induction later)
  case (Cons e later)
  then have "protocol_step\<^sup>*\<^sup>* (abs_state L jobs k h) (abs_state L jobs k (later @ h))"
    by (auto dest: interleaved_tail)
  moreover have "protocol_step\<^sup>*\<^sup>* (abs_state L jobs k (later @ h)) (abs_state L jobs k (e # later @ h))"
    using Cons.prems by (intro event_steps) simp_all
  ultimately show ?case by (simp add: abs_init)
qed (simp add: abs_init)

theorem cluster_implements_the_protocol_witness:
  "in_order (abs_state sample_lib sample_jobs sample_key sample_history) \<and>
   pr_request (abs_state sample_lib sample_jobs sample_key sample_history) =
     Some (ar_Spec issued, ar_Status issued)"
proof -
  have "protocol_step\<^sup>*\<^sup>* pr_init (abs_state sample_lib sample_jobs sample_key sample_history)"
    using cluster_implements_the_protocol [of sample_lib sample_reconciler strict sample_jobs sample_history "[]" sample_key]
      sample_together sample_facts(1) unfolding append_Nil2 by metis
  from protocol_in_order [OF this] show ?thesis
    using sample_facts(2) by (simp add: abs_state_def)
qed

end
