(* ===== verification/Go_Heap.thy ===== *)
theory Go_Heap
  imports Main "HOL-Library.Sublist"
begin

text \<open>
  The part of memory that copying is about. A struct is a value; what two structs can share
  are the arrays behind their slices. A heap is the list of the arrays allocated so far, an
  address an index into it, and \<open>make\<close> appends. A slice is nil or a window of an array.
  Reading outside an array is \<open>None\<close>.

  The locale \<open>deep_copy\<close> is the contract of a copying function: the copy shows the same
  contents, lives in new arrays only, and every old array is as before. It passes from the
  fields of a struct to the struct and from the elements of a slice to the slice.
\<close>

section \<open>Arrays and slices\<close>

type_synonym 'c heap = "'c list"

record slice_at =
  sl_array :: nat
  sl_from :: nat
  sl_len :: nat

type_synonym header = "slice_at option"

definition alloc :: "'c \<Rightarrow> 'c heap \<Rightarrow> nat \<times> 'c heap" where
  "alloc c h = (length h, h @ [c])"

definition array_at :: "('c \<Rightarrow> 'a list option) \<Rightarrow> 'c heap \<Rightarrow> nat \<Rightarrow> 'a list option" where
  "array_at get h a = (if a < length h then get (h ! a) else None)"

definition elems :: "('c \<Rightarrow> 'a list option) \<Rightarrow> 'c heap \<Rightarrow> slice_at \<Rightarrow> 'a list option" where
  "elems get h s = (case array_at get h (sl_array s) of
     None \<Rightarrow> None
   | Some xs \<Rightarrow>
       if sl_from s + sl_len s \<le> length xs then Some (take (sl_len s) (drop (sl_from s) xs))
       else None)"

text \<open>The builtin \<open>copy\<close>: as many elements as fit.\<close>

definition go_copy :: "'a list \<Rightarrow> 'a list \<Rightarrow> 'a list" where
  "go_copy dst src = (let n = min (length dst) (length src) in take n src @ drop n dst)"

lemma go_copy_all [simp]: "length dst = length src \<Longrightarrow> go_copy dst src = src"
  by (simp add: go_copy_def)

text \<open>\<open>if in.F != nil { *out = make([]T, len(*in)); copy(*out, *in) }\<close>\<close>

definition make_copy ::
    "('c \<Rightarrow> 'a list option) \<Rightarrow> ('a list \<Rightarrow> 'c) \<Rightarrow> 'a \<Rightarrow> header \<Rightarrow> 'c heap \<Rightarrow> (header \<times> 'c heap) option" where
  "make_copy get put zero s h = (case s of
     None \<Rightarrow> Some (None, h)
   | Some r \<Rightarrow>
       (case elems get h r of
          None \<Rightarrow> None
        | Some xs \<Rightarrow>
            (let dst = replicate (length xs) zero;
                 (a, h1) = alloc (put dst) h
             in Some (Some \<lparr>sl_array = a, sl_from = 0, sl_len = length xs\<rparr>,
                      h1[a := put (go_copy dst xs)]))))"

text \<open>\<open>for i := range *in { (*in)[i].DeepCopyInto(&(*out)[i]) }\<close>\<close>

primrec copy_loop ::
    "('a \<Rightarrow> 'c heap \<Rightarrow> ('a \<times> 'c heap) option) \<Rightarrow> ('c \<Rightarrow> 'a list option) \<Rightarrow> ('a list \<Rightarrow> 'c) \<Rightarrow>
       slice_at \<Rightarrow> nat \<Rightarrow> nat list \<Rightarrow> 'c heap \<Rightarrow> 'c heap option" where
  "copy_loop into get put r a [] h = Some h"
| "copy_loop into get put r a (i # is) h = (case elems get h r of
     None \<Rightarrow> None
   | Some xs \<Rightarrow>
       if \<not> i < length xs then None
       else (case into (xs ! i) h of
          None \<Rightarrow> None
        | Some (y, h1) \<Rightarrow>
            (case array_at get h1 a of
               None \<Rightarrow> None
             | Some ys \<Rightarrow> copy_loop into get put r a is (h1[a := put (ys[i := y])]))))"

definition copy_items ::
    "('a \<Rightarrow> 'c heap \<Rightarrow> ('a \<times> 'c heap) option) \<Rightarrow> ('c \<Rightarrow> 'a list option) \<Rightarrow> ('a list \<Rightarrow> 'c) \<Rightarrow> 'a \<Rightarrow>
       header \<Rightarrow> 'c heap \<Rightarrow> (header \<times> 'c heap) option" where
  "copy_items into get put zero s h = (case s of
     None \<Rightarrow> Some (None, h)
   | Some r \<Rightarrow>
       (case elems get h r of
          None \<Rightarrow> None
        | Some xs \<Rightarrow>
            (let (a, h1) = alloc (put (replicate (length xs) zero)) h in
             case copy_loop into get put r a [0..<length xs] h1 of
               None \<Rightarrow> None
             | Some h2 \<Rightarrow> Some (Some \<lparr>sl_array = a, sl_from = 0, sl_len = length xs\<rparr>, h2))))"

section \<open>What a slice shows and what it reaches\<close>

definition flat_view :: "('c \<Rightarrow> 'a list option) \<Rightarrow> 'c heap \<Rightarrow> header \<Rightarrow> 'a list option option" where
  "flat_view get h s = (case s of None \<Rightarrow> Some None | Some r \<Rightarrow> map_option Some (elems get h r))"

definition flat_reach :: "'c heap \<Rightarrow> header \<Rightarrow> nat set" where
  "flat_reach h s = (case s of None \<Rightarrow> {} | Some r \<Rightarrow> {sl_array r})"

definition items_view ::
    "('c heap \<Rightarrow> 'a \<Rightarrow> 'v option) \<Rightarrow> ('c \<Rightarrow> 'a list option) \<Rightarrow> 'c heap \<Rightarrow> header \<Rightarrow> 'v list option option" where
  "items_view view get h s = (case s of
     None \<Rightarrow> Some None
   | Some r \<Rightarrow>
       (case elems get h r of
          None \<Rightarrow> None
        | Some xs \<Rightarrow> map_option Some (those (map (view h) xs))))"

definition items_reach ::
    "('c heap \<Rightarrow> 'a \<Rightarrow> nat set) \<Rightarrow> ('c \<Rightarrow> 'a list option) \<Rightarrow> 'c heap \<Rightarrow> header \<Rightarrow> nat set" where
  "items_reach reach get h s = (case s of
     None \<Rightarrow> {}
   | Some r \<Rightarrow>
       (case elems get h r of
          None \<Rightarrow> {}
        | Some xs \<Rightarrow> insert (sl_array r) (\<Union>x\<in>set xs. reach h x)))"

section \<open>The contract\<close>

definition agree :: "nat set \<Rightarrow> 'c heap \<Rightarrow> 'c heap \<Rightarrow> bool" where
  "agree A h h' = (\<forall>a\<in>A. a < length h' \<and> h' ! a = h ! a)"

lemma agree_subset: "agree A h h' \<Longrightarrow> B \<subseteq> A \<Longrightarrow> agree B h h'"
  by (auto simp: agree_def)

lemma agree_Un [simp]: "agree (A \<union> B) h h' \<longleftrightarrow> agree A h h' \<and> agree B h h'"
  by (auto simp: agree_def)

lemma agree_prefix: "prefix h h' \<Longrightarrow> agree {..<length h} h h'"
  by (auto simp: agree_def prefix_def nth_append)

text \<open>The copy \<open>y\<close> in \<open>h'\<close> of something that showed \<open>v\<close> in \<open>h\<close>.\<close>

definition fresh_copy ::
    "('c heap \<Rightarrow> 'a \<Rightarrow> 'v option) \<Rightarrow> ('c heap \<Rightarrow> 'a \<Rightarrow> nat set) \<Rightarrow> 'c heap \<Rightarrow> 'v \<Rightarrow> 'a \<Rightarrow> 'c heap \<Rightarrow> bool" where
  "fresh_copy view reach h v y h' =
     (prefix h h' \<and> view h' y = Some v \<and> reach h' y \<subseteq> {length h..<length h'})"

locale deep_copy =
  fixes view :: "'c heap \<Rightarrow> 'a \<Rightarrow> 'v option"
    and reach :: "'c heap \<Rightarrow> 'a \<Rightarrow> nat set"
    and copy :: "'a \<Rightarrow> 'c heap \<Rightarrow> ('a \<times> 'c heap) option"
  assumes bounded: "view h x = Some v \<Longrightarrow> reach h x \<subseteq> {..<length h}"
    and frame: "view h x = Some v \<Longrightarrow> agree (reach h x) h h' \<Longrightarrow>
      view h' x = Some v \<and> reach h' x = reach h x"
    and copies: "view h x = Some v \<Longrightarrow> \<exists>y h'. copy x h = Some (y, h') \<and> fresh_copy view reach h v y h'"
begin

lemma longer:
  "view h x = Some v \<Longrightarrow> prefix h h' \<Longrightarrow> view h' x = Some v \<and> reach h' x = reach h x"
  using frame [of h x v h'] agree_subset [OF agree_prefix [of h h'] bounded [of h x v]] by blast

lemma copyE:
  assumes "view h x = Some v"
  obtains y h' where "copy x h = Some (y, h')" "prefix h h'" "view h' y = Some v"
    "reach h' y \<subseteq> {length h..<length h'}"
  using copies [OF assms] that by (auto simp: fresh_copy_def)

text \<open>Writing through the copy leaves the original alone, and the other way round.\<close>

lemma isolated:
  assumes "view h x = Some v" and "fresh_copy view reach h v y h'"
  shows "reach h' x \<inter> reach h' y = {}"
    and "agree (- reach h' y \<inter> {..<length h'}) h' h'' \<Longrightarrow> view h'' x = Some v"
    and "agree (- reach h' x \<inter> {..<length h'}) h' h'' \<Longrightarrow> view h'' y = Some v"
proof -
  from assms(2) have pre: "prefix h h'" and vy: "view h' y = Some v"
      and new: "reach h' y \<subseteq> {length h..<length h'}" by (simp_all add: fresh_copy_def)
  from longer [OF assms(1) pre] have vx: "view h' x = Some v" and same: "reach h' x = reach h x"
    by simp_all
  from bounded [OF assms(1)] same have old: "reach h' x \<subseteq> {..<length h}" by simp
  show disjoint: "reach h' x \<inter> reach h' y = {}" using old new by fastforce
  have "reach h' x \<subseteq> - reach h' y \<inter> {..<length h'}"
    using disjoint bounded [OF vx] by blast
  then show "agree (- reach h' y \<inter> {..<length h'}) h' h'' \<Longrightarrow> view h'' x = Some v"
    using frame [OF vx] agree_subset by blast
  have "reach h' y \<subseteq> - reach h' x \<inter> {..<length h'}"
    using disjoint bounded [OF vy] by blast
  then show "agree (- reach h' x \<inter> {..<length h'}) h' h'' \<Longrightarrow> view h'' y = Some v"
    using frame [OF vy] agree_subset by blast
qed

end

section \<open>Slices of plain elements\<close>

lemma elems_agree: "sl_array r \<in> A \<Longrightarrow> agree A h h' \<Longrightarrow> elems get h r = Some xs \<Longrightarrow> elems get h' r = Some xs"
  by (auto simp: elems_def array_at_def agree_def split: option.splits if_splits)

lemma elems_bound: "elems get h r = Some xs \<Longrightarrow> sl_array r < length h"
  by (auto simp: elems_def array_at_def split: if_splits)

lemma elems_whole:
  assumes "\<And>xs. get (put xs) = Some xs"
  shows "elems get (h @ [put xs]) \<lparr>sl_array = length h, sl_from = 0, sl_len = length xs\<rparr> = Some xs"
  using assms by (simp add: elems_def array_at_def)

lemma flat_deep_copy:
  assumes gp: "\<And>xs. get (put xs) = Some xs"
  shows "deep_copy (flat_view get) flat_reach (make_copy get put zero)"
proof (unfold_locales, goal_cases)
  case (1 h x v)
  then show ?case by (auto simp: flat_view_def flat_reach_def split: option.splits dest: elems_bound)
next
  case (2 h x v h')
  then show ?case
    by (auto simp: flat_view_def flat_reach_def split: option.splits dest: elems_agree [rotated])
next
  case (3 h x v)
  show ?case
  proof (cases x)
    case None
    with 3 show ?thesis by (simp add: make_copy_def flat_view_def flat_reach_def fresh_copy_def)
  next
    case (Some r)
    with 3 obtain xs where "elems get h r = Some xs" "v = Some xs"
      by (auto simp: flat_view_def)
    with Some show ?thesis
      by (simp add: make_copy_def alloc_def Let_def fresh_copy_def flat_view_def flat_reach_def
          elems_whole [of get put, OF gp] prefix_def)
  qed
qed

section \<open>Structs\<close>

text \<open>A struct with one field that needs copying, and one with two, copied in order.\<close>

lemma deep_copy_field:
  assumes "deep_copy v r c"
    and "\<And>x y. sel (upd y x) = y" and "\<And>x y. mk (upd y x) = mk x"
  shows "deep_copy (\<lambda>h x. map_option (mk x) (v h (sel x))) (\<lambda>h x. r h (sel x))
    (\<lambda>x h. case c (sel x) h of None \<Rightarrow> None | Some (y, h1) \<Rightarrow> Some (upd y x, h1))"
proof (unfold_locales, goal_cases)
  case (1 h x w)
  then show ?case using deep_copy.bounded [OF assms(1)] by blast
next
  case (2 h x w h')
  then obtain w' where "v h (sel x) = Some w'" "w = mk x w'" by auto
  with deep_copy.frame [OF assms(1) this(1) 2(2)] show ?case by simp
next
  case (3 h x w)
  then obtain w' where "v h (sel x) = Some w'" "w = mk x w'" by auto
  from deep_copy.copyE [OF assms(1) this(1)] obtain y h' where "c (sel x) h = Some (y, h')"
      "prefix h h'" "v h' y = Some w'" "r h' y \<subseteq> {length h..<length h'}" .
  with \<open>w = mk x w'\<close> show ?case by (simp add: fresh_copy_def assms(2,3))
qed

lemma deep_copy_fields:
  assumes "deep_copy v1 r1 c1" and "deep_copy v2 r2 c2"
    and upd: "\<And>x y z. sel1 (upd y z x) = y" "\<And>x y z. sel2 (upd y z x) = z" "\<And>x y z. mk (upd y z x) = mk x"
  shows "deep_copy
    (\<lambda>h x. case v1 h (sel1 x) of None \<Rightarrow> None | Some a \<Rightarrow> map_option (mk x a) (v2 h (sel2 x)))
    (\<lambda>h x. r1 h (sel1 x) \<union> r2 h (sel2 x))
    (\<lambda>x h. case c1 (sel1 x) h of None \<Rightarrow> None | Some (y, h1) \<Rightarrow>
       (case c2 (sel2 x) h1 of None \<Rightarrow> None | Some (z, h2) \<Rightarrow> Some (upd y z x, h2)))"
proof -
  note both = deep_copy.bounded [OF assms(1)] deep_copy.bounded [OF assms(2)]
    deep_copy.frame [OF assms(1)] deep_copy.frame [OF assms(2)]
  have split: thesis
    if "(case v1 h (sel1 x) of None \<Rightarrow> None | Some a \<Rightarrow> map_option (mk x a) (v2 h (sel2 x))) = Some w"
      and "\<And>a b. v1 h (sel1 x) = Some a \<Longrightarrow> v2 h (sel2 x) = Some b \<Longrightarrow> w = mk x a b \<Longrightarrow> thesis"
    for h x w thesis
    using that by (auto split: option.splits)
  show ?thesis
  proof (unfold_locales, goal_cases)
    case (1 h x w)
    then obtain a b where "v1 h (sel1 x) = Some a" "v2 h (sel2 x) = Some b" by (rule split)
    from both(1) [OF this(1)] both(2) [OF this(2)] show ?case by simp
  next
    case (2 h x w h')
    from 2(1) obtain a b where ab: "v1 h (sel1 x) = Some a" "v2 h (sel2 x) = Some b" "w = mk x a b"
      by (rule split)
    from 2(2) have ag: "agree (r1 h (sel1 x)) h h'" "agree (r2 h (sel2 x)) h h'" by simp_all
    from both(3) [OF ab(1) ag(1)] both(4) [OF ab(2) ag(2)] ab(3) show ?case by simp
  next
    case (3 h x w)
    then obtain a b where ab: "v1 h (sel1 x) = Some a" "v2 h (sel2 x) = Some b" "w = mk x a b"
      by (rule split)
    from deep_copy.copyE [OF assms(1) ab(1)] obtain y h1 where y: "c1 (sel1 x) h = Some (y, h1)" "prefix h h1"
        "v1 h1 y = Some a" "r1 h1 y \<subseteq> {length h..<length h1}" .
    from deep_copy.longer [OF assms(2) ab(2) y(2)] have "v2 h1 (sel2 x) = Some b" by simp
    from deep_copy.copyE [OF assms(2) this] obtain z h2 where z: "c2 (sel2 x) h1 = Some (z, h2)" "prefix h1 h2"
        "v2 h2 z = Some b" "r2 h2 z \<subseteq> {length h1..<length h2}" .
    note l = prefix_length_le [OF y(2)] prefix_length_le [OF z(2)]
    from deep_copy.longer [OF assms(1) y(3) z(2)] have "v1 h2 y = Some a" "r1 h2 y = r1 h1 y" by simp_all
    moreover have "r1 h1 y \<union> r2 h2 z \<subseteq> {length h..<length h2}" using y(4) z(4) l by fastforce
    moreover have "prefix h h2" using y(2) z(2) by (rule prefix_order.trans)
    ultimately show ?case
      using y(1) z(1,3) ab(3) by (simp add: fresh_copy_def upd)
  qed
qed

section \<open>Slices of structs\<close>

lemma those_Some_iff:
  "those ys = Some vs \<longleftrightarrow> length ys = length vs \<and> (\<forall>i<length vs. ys ! i = Some (vs ! i))"
proof (induction ys arbitrary: vs)
  case (Cons y ys)
  then show ?case
    by (cases vs) (auto split: option.splits simp: All_less_Suc2)
qed auto

lemma those_map_nth: "those (map f xs) = Some vs \<Longrightarrow> j < length xs \<Longrightarrow> f (xs ! j) = Some (vs ! j)"
  by (auto simp: those_Some_iff)

lemma elems_at: "elems get h r = Some xs \<Longrightarrow> prefix h g \<Longrightarrow> elems get g r = Some xs"
  using elems_agree [of r "{..<length h}" h g] elems_bound [of get h r xs] agree_prefix [of h g] by simp

text \<open>The loop has copied the first \<open>k\<close> elements of \<open>xs\<close> into the array at \<open>length h\<close>.\<close>

definition copied_upto ::
    "('c heap \<Rightarrow> 'a \<Rightarrow> 'v option) \<Rightarrow> ('c heap \<Rightarrow> 'a \<Rightarrow> nat set) \<Rightarrow> ('c \<Rightarrow> 'a list option) \<Rightarrow> 'c heap \<Rightarrow> 'v list \<Rightarrow> nat \<Rightarrow> 'c heap \<Rightarrow> bool" where
  "copied_upto view reach get h vs k g = (prefix h g \<and> (\<exists>ys. array_at get g (length h) = Some ys \<and>
     length ys = length vs \<and>
     (\<forall>j<k. view g (ys ! j) = Some (vs ! j) \<and> reach g (ys ! j) \<subseteq> {Suc (length h)..<length g})))"

context deep_copy
begin

lemma untouched:
  assumes "view g y = Some v" and "reach g y \<subseteq> {Suc n..<length g}"
  shows "view (g[n := c]) y = Some v \<and> reach (g[n := c]) y = reach g y"
proof (rule frame [OF assms(1)])
  show "agree (reach g y) g (g[n := c])"
    using assms(2) by (auto simp: agree_def nth_list_update)
qed

lemma copy_loop_step:
  assumes gp: "\<And>xs. get (put xs) = Some xs"
    and xs: "elems get h r = Some xs" "those (map (view h) xs) = Some vs"
    and inv: "copied_upto view reach get h vs k g" and k: "k < length xs"
  obtains g' where "copied_upto view reach get h vs (Suc k) g'"
    "\<And>is. copy_loop copy get put r (length h) (k # is) g = copy_loop copy get put r (length h) is g'"
proof -
  from inv obtain ys where g: "prefix h g" "array_at get g (length h) = Some ys" "length ys = length vs"
      and sofar: "\<And>j. j < k \<Longrightarrow> view g (ys ! j) = Some (vs ! j)"
        "\<And>j. j < k \<Longrightarrow> reach g (ys ! j) \<subseteq> {Suc (length h)..<length g}"
    by (auto simp: copied_upto_def)
  have n: "length h < length g" using g(2) by (simp add: array_at_def split: if_splits)
  have vs: "length vs = length xs" "view h (xs ! k) = Some (vs ! k)"
    using xs(2) k by (auto simp: those_Some_iff)
  from longer [OF vs(2) g(1)] have "view g (xs ! k) = Some (vs ! k)" by simp
  from copyE [OF this] obtain y h1 where y: "copy (xs ! k) g = Some (y, h1)" "prefix g h1"
      "view h1 y = Some (vs ! k)" "reach h1 y \<subseteq> {length g..<length h1}" .
  let ?g' = "h1[length h := put (ys[k := y])]"
  have l: "length g \<le> length h1" using y(2) by (rule prefix_length_le)
  have "array_at get h1 (length h) = Some ys"
    using g(2) y(2) n by (auto simp: array_at_def prefix_def nth_append)
  with elems_at [OF xs(1) g(1)] y(1) k have step:
      "copy_loop copy get put r (length h) (k # is) g = copy_loop copy get put r (length h) is ?g'" for "is"
    by simp
  have "prefix h h1" using g(1) y(2) by (rule prefix_order.trans)
  then have pre: "prefix h ?g'" by (auto simp: prefix_def list_update_append)
  have arr: "array_at get ?g' (length h) = Some (ys[k := y])" using n l gp by (simp add: array_at_def)
  have "view ?g' (ys[k := y] ! j) = Some (vs ! j) \<and>
      reach ?g' (ys[k := y] ! j) \<subseteq> {Suc (length h)..<length ?g'}" if "j < Suc k" for j
  proof (cases "j = k")
    case True
    have "reach h1 y \<subseteq> {Suc (length h)..<length h1}" using y(4) n by fastforce
    with untouched [OF y(3) this] True vs(1) k g(3) show ?thesis by simp
  next
    case False
    with that have j: "j < k" by simp
    from longer [OF sofar(1) [OF j] y(2)] sofar(2) [OF j] l
    have "view h1 (ys ! j) = Some (vs ! j)" "reach h1 (ys ! j) \<subseteq> {Suc (length h)..<length h1}"
      by fastforce+
    with untouched [OF this] j show ?thesis by simp
  qed
  with pre arr g(3) have "copied_upto view reach get h vs (Suc k) ?g'"
    unfolding copied_upto_def by auto
  then show thesis using step by (rule that)
qed

lemma copy_loop_copies:
  assumes gp: "\<And>xs. get (put xs) = Some xs"
    and xs: "elems get h r = Some xs" "those (map (view h) xs) = Some vs"
    and "k \<le> length xs" and "copied_upto view reach get h vs k g"
  shows "\<exists>g'. copy_loop copy get put r (length h) [k..<length xs] g = Some g' \<and>
    copied_upto view reach get h vs (length xs) g'"
  using assms(4,5)
proof (induction k arbitrary: g rule: inc_induct)
  case base
  then show ?case by simp
next
  case (step k)
  from copy_loop_step [OF gp xs step.prems step.hyps(2)] obtain g' where
      "copied_upto view reach get h vs (Suc k) g'"
      "copy_loop copy get put r (length h) (k # [Suc k..<length xs]) g =
       copy_loop copy get put r (length h) [Suc k..<length xs] g'" by metis
  with step show ?case by (simp add: upt_conv_Cons)
qed

lemma items_bounded:
  assumes "items_view view get h x = Some v"
  shows "items_reach reach get h x \<subseteq> {..<length h}"
proof
  fix a assume "a \<in> items_reach reach get h x"
  with assms obtain r xs vs where xs: "elems get h r = Some xs" "those (map (view h) xs) = Some vs"
      and "a = sl_array r \<or> (\<exists>e\<in>set xs. a \<in> reach h e)"
    by (auto simp: items_view_def items_reach_def split: option.splits)
  then consider "a = sl_array r" | j where "j < length xs" "a \<in> reach h (xs ! j)"
    by (auto simp: in_set_conv_nth)
  then show "a \<in> {..<length h}"
  proof cases
    case 1
    then show ?thesis using elems_bound [OF xs(1)] by simp
  next
    case 2
    from those_map_nth [OF xs(2) 2(1)] have "view h (xs ! j) = Some (vs ! j)" .
    from bounded [OF this] 2 show ?thesis by blast
  qed
qed

lemma items_frame:
  assumes "items_view view get h x = Some v" and "agree (items_reach reach get h x) h h'"
  shows "items_view view get h' x = Some v \<and> items_reach reach get h' x = items_reach reach get h x"
proof (cases x)
  case (Some r)
  with assms obtain xs vs where xs: "elems get h r = Some xs" "those (map (view h) xs) = Some vs" "v = Some vs"
    by (auto simp: items_view_def split: option.splits)
  from assms(2) Some xs(1) have ag: "agree (insert (sl_array r) (\<Union>x\<in>set xs. reach h x)) h h'"
    by (simp add: items_reach_def)
  with xs(1) have xs': "elems get h' r = Some xs" by (auto intro: elems_agree)
  have same: "view h' (xs ! j) = Some (vs ! j) \<and> reach h' (xs ! j) = reach h (xs ! j)"
    if "j < length xs" for j
    using that xs(2) ag by (intro frame) (auto simp: those_Some_iff elim: agree_subset)
  then have "those (map (view h') xs) = Some vs" "\<And>e. e \<in> set xs \<Longrightarrow> reach h' e = reach h e"
    using xs(2) same by (auto simp: those_Some_iff in_set_conv_nth)
  with Some xs xs' show ?thesis by (simp add: items_view_def items_reach_def)
qed (use assms in \<open>simp add: items_view_def items_reach_def\<close>)

lemma items_copied:
  assumes gp: "\<And>xs. get (put xs) = Some xs" and "items_view view get h x = Some v"
  shows "\<exists>y h'. copy_items copy get put zero x h = Some (y, h') \<and>
    fresh_copy (items_view view get) (items_reach reach get) h v y h'"
proof (cases x)
  case None
  with assms(2) show ?thesis by (simp add: copy_items_def items_view_def items_reach_def fresh_copy_def)
next
  case (Some r)
  with assms(2) obtain xs vs where xs: "elems get h r = Some xs" "those (map (view h) xs) = Some vs" "v = Some vs"
    by (auto simp: items_view_def split: option.splits)
  let ?h1 = "h @ [put (replicate (length xs) zero)]"
  from xs(2) have len: "length vs = length xs" by (simp add: those_Some_iff)
  have "copied_upto view reach get h vs 0 ?h1"
    using gp len by (simp add: copied_upto_def array_at_def)
  from copy_loop_copies [OF gp xs(1,2) _ this] obtain g where
      g: "copy_loop copy get put r (length h) [0..<length xs] ?h1 = Some g"
        "copied_upto view reach get h vs (length xs) g" by auto
  from g(2) obtain ys where pre: "prefix h g" and ys: "array_at get g (length h) = Some ys"
      "length ys = length vs"
      "\<And>j. j < length xs \<Longrightarrow> view g (ys ! j) = Some (vs ! j)"
      "\<And>j. j < length xs \<Longrightarrow> reach g (ys ! j) \<subseteq> {Suc (length h)..<length g}"
    by (auto simp: copied_upto_def)
  let ?s = "\<lparr>sl_array = length h, sl_from = 0, sl_len = length xs\<rparr>"
  from ys(1,2) len have whole: "elems get g ?s = Some ys" by (simp add: elems_def)
  have "those (map (view g) ys) = Some vs" using ys(2,3) len by (simp add: those_Some_iff)
  moreover have "insert (length h) (\<Union>y\<in>set ys. reach g y) \<subseteq> {length h..<length g}"
    using ys(2,4) len elems_bound [OF whole] by (fastforce simp: in_set_conv_nth)
  ultimately have "fresh_copy (items_view view get) (items_reach reach get) h v (Some ?s) g"
    using pre whole xs(3) by (simp add: fresh_copy_def items_view_def items_reach_def)
  with g(1) Some xs(1) show ?thesis by (simp add: copy_items_def alloc_def Let_def)
qed

end

lemma items_deep_copy:
  assumes "deep_copy view reach into" and gp: "\<And>xs. get (put xs) = Some xs"
  shows "deep_copy (items_view view get) (items_reach reach get) (copy_items into get put zero)"
  by unfold_locales
     (use deep_copy.items_bounded [OF assms(1)] deep_copy.items_frame [OF assms(1)]
       deep_copy.items_copied [OF assms(1) gp] in \<open>blast | fast\<close>)+

end
