(* ===== verification/Deep_Copy.thy ===== *)
theory Deep_Copy
  imports Go_Heap Api_Types
begin

text \<open>
  The deep copies of \<open>src/api/v1/zz_generated.deepcopy.go\<close>. Each struct is a record with a
  parameter in place of what it shares: in memory the parameters are slice headers, and the
  same record with the contents in their place is what the struct shows. The types and the
  deep copies of \<open>ObjectMeta\<close> and \<open>ListMeta\<close> come from Kubernetes and are arguments. A pointer
  is nil or the struct it points to: \<open>new\<close> makes another struct, so two pointers can share only
  through slices.
\<close>

section \<open>Structs\<close>

record TypeMeta =
  tm_Kind :: string
  tm_APIVersion :: string

record 's CABundleReference_of =
  cabr_Name :: string
  cabr_Kind :: string
  cabr_Key :: string
  cabr_Keys :: 's

record ('b, 'r) AdcsIssuerSpec_of =
  ais_URL :: string
  ais_CredentialsRef :: LocalObjectReference
  ais_CABundle :: 'b
  ais_CABundleRef :: 'r
  ais_StatusCheckInterval :: string
  ais_RetryInterval :: string
  ais_TemplateName :: string

record ('b, 'r) ClusterAdcsIssuerSpec_of =
  cais_URL :: string
  cais_CredentialsRef :: LocalObjectReference
  cais_CABundle :: 'b
  cais_CABundleRef :: 'r
  cais_StatusCheckInterval :: string
  cais_RetryInterval :: string
  cais_TemplateName :: string

record 'b AdcsRequestSpec_of =
  ars_CSRPEM :: 'b
  ars_IssuerRef :: IssuerReference

text \<open>The statuses of the issuers have no fields.\<close>

datatype AdcsIssuerStatus = AdcsIssuerStatus

datatype ClusterAdcsIssuerStatus = ClusterAdcsIssuerStatus

record ('m, 's) AdcsIssuer_of =
  oai_TypeMeta :: TypeMeta
  oai_ObjectMeta :: 'm
  oai_Spec :: 's
  oai_Status :: AdcsIssuerStatus

record ('l, 'i) AdcsIssuerList_of =
  lai_TypeMeta :: TypeMeta
  lai_ListMeta :: 'l
  lai_Items :: 'i

record ('m, 's) ClusterAdcsIssuer_of =
  ocai_TypeMeta :: TypeMeta
  ocai_ObjectMeta :: 'm
  ocai_Spec :: 's
  ocai_Status :: ClusterAdcsIssuerStatus

record ('l, 'i) ClusterAdcsIssuerList_of =
  lcai_TypeMeta :: TypeMeta
  lcai_ListMeta :: 'l
  lcai_Items :: 'i

record ('m, 's) AdcsRequest_of =
  oar_TypeMeta :: TypeMeta
  oar_ObjectMeta :: 'm
  oar_Spec :: 's
  oar_Status :: AdcsRequestStatus

record ('l, 'i) AdcsRequestList_of =
  lar_TypeMeta :: TypeMeta
  lar_ListMeta :: 'l
  lar_Items :: 'i

type_synonym CABundleReference_mem = "header CABundleReference_of"
type_synonym AdcsIssuerSpec_mem = "(header, CABundleReference_mem) AdcsIssuerSpec_of"
type_synonym ClusterAdcsIssuerSpec_mem = "(header, CABundleReference_mem) ClusterAdcsIssuerSpec_of"
type_synonym AdcsRequestSpec_mem = "header AdcsRequestSpec_of"
type_synonym 'm AdcsIssuer_mem = "('m, AdcsIssuerSpec_mem) AdcsIssuer_of"
type_synonym 'm ClusterAdcsIssuer_mem = "('m, ClusterAdcsIssuerSpec_mem) ClusterAdcsIssuer_of"
type_synonym 'm AdcsRequest_mem = "('m, AdcsRequestSpec_mem) AdcsRequest_of"
type_synonym 'l AdcsIssuerList_mem = "('l, header) AdcsIssuerList_of"
type_synonym 'l ClusterAdcsIssuerList_mem = "('l, header) ClusterAdcsIssuerList_of"
type_synonym 'l AdcsRequestList_mem = "('l, header) AdcsRequestList_of"

text \<open>The arrays behind the slices.\<close>

datatype 'm cell =
    Bytes string
  | Strings "string list"
  | AdcsIssuers "'m AdcsIssuer_mem list"
  | ClusterAdcsIssuers "'m ClusterAdcsIssuer_mem list"
  | AdcsRequests "'m AdcsRequest_mem list"

type_synonym 'm memory = "'m cell heap"

type_synonym ('m, 'a) copier = "'a \<Rightarrow> 'm memory \<Rightarrow> ('a \<times> 'm memory) option"

fun bytes_of :: "'m cell \<Rightarrow> string option" where
  "bytes_of (Bytes xs) = Some xs"
| "bytes_of _ = None"

fun strings_of :: "'m cell \<Rightarrow> string list option" where
  "strings_of (Strings xs) = Some xs"
| "strings_of _ = None"

fun issuers_of :: "'m cell \<Rightarrow> 'm AdcsIssuer_mem list option" where
  "issuers_of (AdcsIssuers xs) = Some xs"
| "issuers_of _ = None"

fun cluster_issuers_of :: "'m cell \<Rightarrow> 'm ClusterAdcsIssuer_mem list option" where
  "cluster_issuers_of (ClusterAdcsIssuers xs) = Some xs"
| "cluster_issuers_of _ = None"

fun requests_of :: "'m cell \<Rightarrow> 'm AdcsRequest_mem list option" where
  "requests_of (AdcsRequests xs) = Some xs"
| "requests_of _ = None"

abbreviation copy_bytes :: "('m, header) copier" where
  "copy_bytes \<equiv> make_copy bytes_of Bytes (CHR 0x00)"

abbreviation copy_strings :: "('m, header) copier" where
  "copy_strings \<equiv> make_copy strings_of Strings ''''"

text \<open>\<open>DeepCopy\<close> of every type: nil for nil, else a new struct that is copied into.\<close>

definition copy_pointer :: "('m, 'a) copier \<Rightarrow> ('m, 'a option) copier" where
  "copy_pointer into p h = (case p of
     None \<Rightarrow> Some (None, h)
   | Some x \<Rightarrow> (case into x h of None \<Rightarrow> None | Some (out, h1) \<Rightarrow> Some (Some out, h1)))"

section \<open>References, specifications and statuses\<close>

definition LocalObjectReference_DeepCopyInto :: "('m, LocalObjectReference) copier" where
  "LocalObjectReference_DeepCopyInto x h = Some (x, h)"

definition LocalObjectReference_DeepCopy :: "('m, LocalObjectReference option) copier" where
  "LocalObjectReference_DeepCopy = copy_pointer LocalObjectReference_DeepCopyInto"

definition CABundleReference_DeepCopyInto :: "('m, CABundleReference_mem) copier" where
  "CABundleReference_DeepCopyInto x h =
     (let out = x in
      case copy_strings (cabr_Keys x) h of
        None \<Rightarrow> None
      | Some (keys, h1) \<Rightarrow> Some (out\<lparr>cabr_Keys := keys\<rparr>, h1))"

definition CABundleReference_DeepCopy :: "('m, CABundleReference_mem option) copier" where
  "CABundleReference_DeepCopy = copy_pointer CABundleReference_DeepCopyInto"

definition AdcsIssuerSpec_DeepCopyInto :: "('m, AdcsIssuerSpec_mem) copier" where
  "AdcsIssuerSpec_DeepCopyInto x h =
     (let out = x;
          out = out\<lparr>ais_CredentialsRef := ais_CredentialsRef x\<rparr> in
      case copy_bytes (ais_CABundle x) h of
        None \<Rightarrow> None
      | Some (bundle, h1) \<Rightarrow>
          (let out = out\<lparr>ais_CABundle := bundle\<rparr> in
           case CABundleReference_DeepCopyInto (ais_CABundleRef x) h1 of
             None \<Rightarrow> None
           | Some (ref, h2) \<Rightarrow> Some (out\<lparr>ais_CABundleRef := ref\<rparr>, h2)))"

definition AdcsIssuerSpec_DeepCopy :: "('m, AdcsIssuerSpec_mem option) copier" where
  "AdcsIssuerSpec_DeepCopy = copy_pointer AdcsIssuerSpec_DeepCopyInto"

definition ClusterAdcsIssuerSpec_DeepCopyInto :: "('m, ClusterAdcsIssuerSpec_mem) copier" where
  "ClusterAdcsIssuerSpec_DeepCopyInto x h =
     (let out = x;
          out = out\<lparr>cais_CredentialsRef := cais_CredentialsRef x\<rparr> in
      case copy_bytes (cais_CABundle x) h of
        None \<Rightarrow> None
      | Some (bundle, h1) \<Rightarrow>
          (let out = out\<lparr>cais_CABundle := bundle\<rparr> in
           case CABundleReference_DeepCopyInto (cais_CABundleRef x) h1 of
             None \<Rightarrow> None
           | Some (ref, h2) \<Rightarrow> Some (out\<lparr>cais_CABundleRef := ref\<rparr>, h2)))"

definition ClusterAdcsIssuerSpec_DeepCopy :: "('m, ClusterAdcsIssuerSpec_mem option) copier" where
  "ClusterAdcsIssuerSpec_DeepCopy = copy_pointer ClusterAdcsIssuerSpec_DeepCopyInto"

definition AdcsRequestSpec_DeepCopyInto :: "('m, AdcsRequestSpec_mem) copier" where
  "AdcsRequestSpec_DeepCopyInto x h =
     (let out = x in
      case copy_bytes (ars_CSRPEM x) h of
        None \<Rightarrow> None
      | Some (csr, h1) \<Rightarrow>
          (let out = out\<lparr>ars_CSRPEM := csr\<rparr> in
           Some (out\<lparr>ars_IssuerRef := ars_IssuerRef x\<rparr>, h1)))"

definition AdcsRequestSpec_DeepCopy :: "('m, AdcsRequestSpec_mem option) copier" where
  "AdcsRequestSpec_DeepCopy = copy_pointer AdcsRequestSpec_DeepCopyInto"

definition AdcsIssuerStatus_DeepCopyInto :: "('m, AdcsIssuerStatus) copier" where
  "AdcsIssuerStatus_DeepCopyInto x h = Some (x, h)"

definition AdcsIssuerStatus_DeepCopy :: "('m, AdcsIssuerStatus option) copier" where
  "AdcsIssuerStatus_DeepCopy = copy_pointer AdcsIssuerStatus_DeepCopyInto"

definition ClusterAdcsIssuerStatus_DeepCopyInto :: "('m, ClusterAdcsIssuerStatus) copier" where
  "ClusterAdcsIssuerStatus_DeepCopyInto x h = Some (x, h)"

definition ClusterAdcsIssuerStatus_DeepCopy :: "('m, ClusterAdcsIssuerStatus option) copier" where
  "ClusterAdcsIssuerStatus_DeepCopy = copy_pointer ClusterAdcsIssuerStatus_DeepCopyInto"

definition AdcsRequestStatus_DeepCopyInto :: "('m, AdcsRequestStatus) copier" where
  "AdcsRequestStatus_DeepCopyInto x h = Some (x, h)"

definition AdcsRequestStatus_DeepCopy :: "('m, AdcsRequestStatus option) copier" where
  "AdcsRequestStatus_DeepCopy = copy_pointer AdcsRequestStatus_DeepCopyInto"

section \<open>Objects and lists\<close>

datatype ('m, 'l) Object =
    ObjAdcsIssuer "'m AdcsIssuer_mem"
  | ObjAdcsIssuerList "'l AdcsIssuerList_mem"
  | ObjClusterAdcsIssuer "'m ClusterAdcsIssuer_mem"
  | ObjClusterAdcsIssuerList "'l ClusterAdcsIssuerList_mem"
  | ObjAdcsRequest "'m AdcsRequest_mem"
  | ObjAdcsRequestList "'l AdcsRequestList_mem"

text \<open>
  \<open>DeepCopyObject\<close> of every type: a nil pointer gives the nil interface, not an interface
  that holds a nil pointer.
\<close>

definition as_object ::
    "('a \<Rightarrow> ('m, 'l) Object) \<Rightarrow> ('a option \<times> 'm memory) option \<Rightarrow>
       (('m, 'l) Object option \<times> 'm memory) option" where
  "as_object obj c = (case c of
     None \<Rightarrow> None
   | Some (None, h) \<Rightarrow> Some (None, h)
   | Some (Some x, h) \<Rightarrow> Some (Some (obj x), h))"

text \<open>\<open>AdcsIssuer\<close>; \<open>om\<close> copies ObjectMeta, \<open>lm\<close> ListMeta, \<open>m0\<close> is the zero ObjectMeta.\<close>

definition AdcsIssuer_DeepCopyInto :: "('m, 'm) copier \<Rightarrow> ('m, 'm AdcsIssuer_mem) copier" where
  "AdcsIssuer_DeepCopyInto om x h =
     (let out = x;
          out = out\<lparr>oai_TypeMeta := oai_TypeMeta x\<rparr> in
      case om (oai_ObjectMeta x) h of
        None \<Rightarrow> None
      | Some (meta, h1) \<Rightarrow>
          (let out = out\<lparr>oai_ObjectMeta := meta\<rparr> in
           case AdcsIssuerSpec_DeepCopyInto (oai_Spec x) h1 of
             None \<Rightarrow> None
           | Some (spec, h2) \<Rightarrow>
               (let out = out\<lparr>oai_Spec := spec\<rparr> in
                Some (out\<lparr>oai_Status := oai_Status x\<rparr>, h2))))"

definition AdcsIssuer_DeepCopy :: "('m, 'm) copier \<Rightarrow> ('m, 'm AdcsIssuer_mem option) copier" where
  "AdcsIssuer_DeepCopy om = copy_pointer (AdcsIssuer_DeepCopyInto om)"

definition AdcsIssuer_DeepCopyObject ::
    "('m, 'm) copier \<Rightarrow> 'm AdcsIssuer_mem option \<Rightarrow> 'm memory \<Rightarrow> (('m, 'l) Object option \<times> 'm memory) option" where
  "AdcsIssuer_DeepCopyObject om p h = as_object ObjAdcsIssuer (AdcsIssuer_DeepCopy om p h)"

definition zero_AdcsIssuer :: "'m \<Rightarrow> 'm AdcsIssuer_mem" where
  "zero_AdcsIssuer m =
     \<lparr>oai_TypeMeta = \<lparr>tm_Kind = '''', tm_APIVersion = ''''\<rparr>, oai_ObjectMeta = m,
      oai_Spec = \<lparr>ais_URL = '''', ais_CredentialsRef = \<lparr>lor_Name = ''''\<rparr>, ais_CABundle = None,
        ais_CABundleRef = \<lparr>cabr_Name = '''', cabr_Kind = '''', cabr_Key = '''', cabr_Keys = None\<rparr>,
        ais_StatusCheckInterval = '''', ais_RetryInterval = '''', ais_TemplateName = ''''\<rparr>,
      oai_Status = AdcsIssuerStatus\<rparr>"

definition AdcsIssuerList_DeepCopyInto ::
    "('m, 'm) copier \<Rightarrow> 'm \<Rightarrow> ('m, 'l) copier \<Rightarrow> ('m, 'l AdcsIssuerList_mem) copier" where
  "AdcsIssuerList_DeepCopyInto om m0 lm x h =
     (let out = x;
          out = out\<lparr>lai_TypeMeta := lai_TypeMeta x\<rparr> in
      case lm (lai_ListMeta x) h of
        None \<Rightarrow> None
      | Some (meta, h1) \<Rightarrow>
          (let out = out\<lparr>lai_ListMeta := meta\<rparr> in
           case copy_items (AdcsIssuer_DeepCopyInto om) issuers_of AdcsIssuers (zero_AdcsIssuer m0) (lai_Items x) h1 of
             None \<Rightarrow> None
           | Some (items, h2) \<Rightarrow> Some (out\<lparr>lai_Items := items\<rparr>, h2)))"

definition AdcsIssuerList_DeepCopy ::
    "('m, 'm) copier \<Rightarrow> 'm \<Rightarrow> ('m, 'l) copier \<Rightarrow> ('m, 'l AdcsIssuerList_mem option) copier" where
  "AdcsIssuerList_DeepCopy om m0 lm = copy_pointer (AdcsIssuerList_DeepCopyInto om m0 lm)"

definition AdcsIssuerList_DeepCopyObject ::
    "('m, 'm) copier \<Rightarrow> 'm \<Rightarrow> ('m, 'l) copier \<Rightarrow> 'l AdcsIssuerList_mem option \<Rightarrow> 'm memory \<Rightarrow>
       (('m, 'l) Object option \<times> 'm memory) option" where
  "AdcsIssuerList_DeepCopyObject om m0 lm p h = as_object ObjAdcsIssuerList (AdcsIssuerList_DeepCopy om m0 lm p h)"

text \<open>\<open>ClusterAdcsIssuer\<close>; \<open>om\<close> copies ObjectMeta, \<open>lm\<close> ListMeta, \<open>m0\<close> is the zero ObjectMeta.\<close>

definition ClusterAdcsIssuer_DeepCopyInto :: "('m, 'm) copier \<Rightarrow> ('m, 'm ClusterAdcsIssuer_mem) copier" where
  "ClusterAdcsIssuer_DeepCopyInto om x h =
     (let out = x;
          out = out\<lparr>ocai_TypeMeta := ocai_TypeMeta x\<rparr> in
      case om (ocai_ObjectMeta x) h of
        None \<Rightarrow> None
      | Some (meta, h1) \<Rightarrow>
          (let out = out\<lparr>ocai_ObjectMeta := meta\<rparr> in
           case ClusterAdcsIssuerSpec_DeepCopyInto (ocai_Spec x) h1 of
             None \<Rightarrow> None
           | Some (spec, h2) \<Rightarrow>
               (let out = out\<lparr>ocai_Spec := spec\<rparr> in
                Some (out\<lparr>ocai_Status := ocai_Status x\<rparr>, h2))))"

definition ClusterAdcsIssuer_DeepCopy :: "('m, 'm) copier \<Rightarrow> ('m, 'm ClusterAdcsIssuer_mem option) copier" where
  "ClusterAdcsIssuer_DeepCopy om = copy_pointer (ClusterAdcsIssuer_DeepCopyInto om)"

definition ClusterAdcsIssuer_DeepCopyObject ::
    "('m, 'm) copier \<Rightarrow> 'm ClusterAdcsIssuer_mem option \<Rightarrow> 'm memory \<Rightarrow> (('m, 'l) Object option \<times> 'm memory) option" where
  "ClusterAdcsIssuer_DeepCopyObject om p h = as_object ObjClusterAdcsIssuer (ClusterAdcsIssuer_DeepCopy om p h)"

definition zero_ClusterAdcsIssuer :: "'m \<Rightarrow> 'm ClusterAdcsIssuer_mem" where
  "zero_ClusterAdcsIssuer m =
     \<lparr>ocai_TypeMeta = \<lparr>tm_Kind = '''', tm_APIVersion = ''''\<rparr>, ocai_ObjectMeta = m,
      ocai_Spec = \<lparr>cais_URL = '''', cais_CredentialsRef = \<lparr>lor_Name = ''''\<rparr>, cais_CABundle = None,
        cais_CABundleRef = \<lparr>cabr_Name = '''', cabr_Kind = '''', cabr_Key = '''', cabr_Keys = None\<rparr>,
        cais_StatusCheckInterval = '''', cais_RetryInterval = '''', cais_TemplateName = ''''\<rparr>,
      ocai_Status = ClusterAdcsIssuerStatus\<rparr>"

definition ClusterAdcsIssuerList_DeepCopyInto ::
    "('m, 'm) copier \<Rightarrow> 'm \<Rightarrow> ('m, 'l) copier \<Rightarrow> ('m, 'l ClusterAdcsIssuerList_mem) copier" where
  "ClusterAdcsIssuerList_DeepCopyInto om m0 lm x h =
     (let out = x;
          out = out\<lparr>lcai_TypeMeta := lcai_TypeMeta x\<rparr> in
      case lm (lcai_ListMeta x) h of
        None \<Rightarrow> None
      | Some (meta, h1) \<Rightarrow>
          (let out = out\<lparr>lcai_ListMeta := meta\<rparr> in
           case copy_items (ClusterAdcsIssuer_DeepCopyInto om) cluster_issuers_of ClusterAdcsIssuers (zero_ClusterAdcsIssuer m0) (lcai_Items x) h1 of
             None \<Rightarrow> None
           | Some (items, h2) \<Rightarrow> Some (out\<lparr>lcai_Items := items\<rparr>, h2)))"

definition ClusterAdcsIssuerList_DeepCopy ::
    "('m, 'm) copier \<Rightarrow> 'm \<Rightarrow> ('m, 'l) copier \<Rightarrow> ('m, 'l ClusterAdcsIssuerList_mem option) copier" where
  "ClusterAdcsIssuerList_DeepCopy om m0 lm = copy_pointer (ClusterAdcsIssuerList_DeepCopyInto om m0 lm)"

definition ClusterAdcsIssuerList_DeepCopyObject ::
    "('m, 'm) copier \<Rightarrow> 'm \<Rightarrow> ('m, 'l) copier \<Rightarrow> 'l ClusterAdcsIssuerList_mem option \<Rightarrow> 'm memory \<Rightarrow>
       (('m, 'l) Object option \<times> 'm memory) option" where
  "ClusterAdcsIssuerList_DeepCopyObject om m0 lm p h = as_object ObjClusterAdcsIssuerList (ClusterAdcsIssuerList_DeepCopy om m0 lm p h)"

text \<open>\<open>AdcsRequest\<close>; \<open>om\<close> copies ObjectMeta, \<open>lm\<close> ListMeta, \<open>m0\<close> is the zero ObjectMeta.\<close>

definition AdcsRequest_DeepCopyInto :: "('m, 'm) copier \<Rightarrow> ('m, 'm AdcsRequest_mem) copier" where
  "AdcsRequest_DeepCopyInto om x h =
     (let out = x;
          out = out\<lparr>oar_TypeMeta := oar_TypeMeta x\<rparr> in
      case om (oar_ObjectMeta x) h of
        None \<Rightarrow> None
      | Some (meta, h1) \<Rightarrow>
          (let out = out\<lparr>oar_ObjectMeta := meta\<rparr> in
           case AdcsRequestSpec_DeepCopyInto (oar_Spec x) h1 of
             None \<Rightarrow> None
           | Some (spec, h2) \<Rightarrow>
               (let out = out\<lparr>oar_Spec := spec\<rparr> in
                Some (out\<lparr>oar_Status := oar_Status x\<rparr>, h2))))"

definition AdcsRequest_DeepCopy :: "('m, 'm) copier \<Rightarrow> ('m, 'm AdcsRequest_mem option) copier" where
  "AdcsRequest_DeepCopy om = copy_pointer (AdcsRequest_DeepCopyInto om)"

definition AdcsRequest_DeepCopyObject ::
    "('m, 'm) copier \<Rightarrow> 'm AdcsRequest_mem option \<Rightarrow> 'm memory \<Rightarrow> (('m, 'l) Object option \<times> 'm memory) option" where
  "AdcsRequest_DeepCopyObject om p h = as_object ObjAdcsRequest (AdcsRequest_DeepCopy om p h)"

definition zero_AdcsRequest :: "'m \<Rightarrow> 'm AdcsRequest_mem" where
  "zero_AdcsRequest m =
     \<lparr>oar_TypeMeta = \<lparr>tm_Kind = '''', tm_APIVersion = ''''\<rparr>, oar_ObjectMeta = m,
      oar_Spec = \<lparr>ars_CSRPEM = None, ars_IssuerRef = \<lparr>ref_Name = '''', ref_Kind = '''', ref_Group = ''''\<rparr>\<rparr>,
      oar_Status = zero_status\<rparr>"

definition AdcsRequestList_DeepCopyInto ::
    "('m, 'm) copier \<Rightarrow> 'm \<Rightarrow> ('m, 'l) copier \<Rightarrow> ('m, 'l AdcsRequestList_mem) copier" where
  "AdcsRequestList_DeepCopyInto om m0 lm x h =
     (let out = x;
          out = out\<lparr>lar_TypeMeta := lar_TypeMeta x\<rparr> in
      case lm (lar_ListMeta x) h of
        None \<Rightarrow> None
      | Some (meta, h1) \<Rightarrow>
          (let out = out\<lparr>lar_ListMeta := meta\<rparr> in
           case copy_items (AdcsRequest_DeepCopyInto om) requests_of AdcsRequests (zero_AdcsRequest m0) (lar_Items x) h1 of
             None \<Rightarrow> None
           | Some (items, h2) \<Rightarrow> Some (out\<lparr>lar_Items := items\<rparr>, h2)))"

definition AdcsRequestList_DeepCopy ::
    "('m, 'm) copier \<Rightarrow> 'm \<Rightarrow> ('m, 'l) copier \<Rightarrow> ('m, 'l AdcsRequestList_mem option) copier" where
  "AdcsRequestList_DeepCopy om m0 lm = copy_pointer (AdcsRequestList_DeepCopyInto om m0 lm)"

definition AdcsRequestList_DeepCopyObject ::
    "('m, 'm) copier \<Rightarrow> 'm \<Rightarrow> ('m, 'l) copier \<Rightarrow> 'l AdcsRequestList_mem option \<Rightarrow> 'm memory \<Rightarrow>
       (('m, 'l) Object option \<times> 'm memory) option" where
  "AdcsRequestList_DeepCopyObject om m0 lm p h = as_object ObjAdcsRequestList (AdcsRequestList_DeepCopy om m0 lm p h)"

end
