(* ===== verification/Deep_Copy_Theorems.thy ===== *)
theory Deep_Copy_Theorems
  imports Deep_Copy
begin

text \<open>
  Every \<open>DeepCopy\<close> and \<open>DeepCopyObject\<close> keeps the contract \<open>deep_copy\<close>: what a struct shows
  through the heap, what it reaches, and that the copy shows the same and shares nothing. The
  contract is interpreted for the slices and for the structs of the package; for the objects it
  is proved from the contract of Kubernetes' metadata.
\<close>

section \<open>Slices, references and specifications\<close>

interpretation bytes: deep_copy "flat_view bytes_of" flat_reach "copy_bytes"
  by (rule flat_deep_copy) simp

interpretation strings: deep_copy "flat_view strings_of" flat_reach "copy_strings"
  by (rule flat_deep_copy) simp

definition CABundleReference_view ::
    "'m memory \<Rightarrow> CABundleReference_mem \<Rightarrow> string list option CABundleReference_of option" where
  "CABundleReference_view h x =
     map_option (\<lambda>ks. \<lparr>cabr_Name = cabr_Name x, cabr_Kind = cabr_Kind x, cabr_Key = cabr_Key x,
       cabr_Keys = ks\<rparr>) (flat_view strings_of h (cabr_Keys x))"

definition CABundleReference_reach :: "'m memory \<Rightarrow> CABundleReference_mem \<Rightarrow> nat set" where
  "CABundleReference_reach h x = flat_reach h (cabr_Keys x)"

lemma CABundleReference_deep:
  "deep_copy CABundleReference_view CABundleReference_reach CABundleReference_DeepCopyInto"
proof -
  have eqs: "CABundleReference_view = (\<lambda>h x. map_option ((\<lambda>x ks. \<lparr>cabr_Name = cabr_Name x,
      cabr_Kind = cabr_Kind x, cabr_Key = cabr_Key x, cabr_Keys = ks\<rparr>) x) (flat_view strings_of h (cabr_Keys x)))"
    "CABundleReference_reach = (\<lambda>h x. flat_reach h (cabr_Keys x))"
    "CABundleReference_DeepCopyInto = (\<lambda>x h. case copy_strings (cabr_Keys x) h of None \<Rightarrow> None
      | Some (y, h1) \<Rightarrow> Some ((\<lambda>y x. x\<lparr>cabr_Keys := y\<rparr>) y x, h1))"
    by (simp_all add: fun_eq_iff CABundleReference_view_def CABundleReference_reach_def
        CABundleReference_DeepCopyInto_def)
  show ?thesis
    unfolding eqs by (rule deep_copy_field [OF strings.deep_copy_axioms]) simp_all
qed

interpretation cab: deep_copy CABundleReference_view CABundleReference_reach CABundleReference_DeepCopyInto
  by (rule CABundleReference_deep)

definition AdcsIssuerSpec_view ::
    "'m memory \<Rightarrow> AdcsIssuerSpec_mem \<Rightarrow>
       (string option, string list option CABundleReference_of) AdcsIssuerSpec_of option" where
  "AdcsIssuerSpec_view h x = (case flat_view bytes_of h (ais_CABundle x) of
     None \<Rightarrow> None
   | Some b \<Rightarrow> map_option (\<lambda>r. \<lparr>ais_URL = ais_URL x,
       ais_CredentialsRef = ais_CredentialsRef x, ais_CABundle = b, ais_CABundleRef = r,
       ais_StatusCheckInterval = ais_StatusCheckInterval x, ais_RetryInterval = ais_RetryInterval x,
       ais_TemplateName = ais_TemplateName x\<rparr>)
       (CABundleReference_view h (ais_CABundleRef x)))"

definition AdcsIssuerSpec_reach :: "'m memory \<Rightarrow> AdcsIssuerSpec_mem \<Rightarrow> nat set" where
  "AdcsIssuerSpec_reach h x =
     flat_reach h (ais_CABundle x) \<union> CABundleReference_reach h (ais_CABundleRef x)"

lemma AdcsIssuerSpec_deep: "deep_copy AdcsIssuerSpec_view AdcsIssuerSpec_reach AdcsIssuerSpec_DeepCopyInto"
proof -
  have eqs: "AdcsIssuerSpec_view = (\<lambda>h x. case flat_view bytes_of h (ais_CABundle x) of None \<Rightarrow> None
      | Some b \<Rightarrow> map_option ((\<lambda>x b r. \<lparr>ais_URL = ais_URL x,
       ais_CredentialsRef = ais_CredentialsRef x, ais_CABundle = b, ais_CABundleRef = r,
       ais_StatusCheckInterval = ais_StatusCheckInterval x, ais_RetryInterval = ais_RetryInterval x,
       ais_TemplateName = ais_TemplateName x\<rparr>) x b)
          (CABundleReference_view h (ais_CABundleRef x)))"
    "AdcsIssuerSpec_reach = (\<lambda>h x. flat_reach h (ais_CABundle x) \<union>
       CABundleReference_reach h (ais_CABundleRef x))"
    "AdcsIssuerSpec_DeepCopyInto = (\<lambda>x h. case copy_bytes (ais_CABundle x) h of None \<Rightarrow> None
      | Some (y, h1) \<Rightarrow> (case CABundleReference_DeepCopyInto (ais_CABundleRef x) h1 of None \<Rightarrow> None
          | Some (z, h2) \<Rightarrow> Some ((\<lambda>y z x. x\<lparr>ais_CABundle := y, ais_CABundleRef := z\<rparr>) y z x, h2)))"
    by (auto simp: fun_eq_iff AdcsIssuerSpec_view_def AdcsIssuerSpec_reach_def AdcsIssuerSpec_DeepCopyInto_def Let_def
        split: option.split intro!: AdcsIssuerSpec_of.equality)
  show ?thesis
    unfolding eqs
    by (rule deep_copy_fields [OF bytes.deep_copy_axioms cab.deep_copy_axioms]) simp_all
qed

interpretation ai_spec: deep_copy AdcsIssuerSpec_view AdcsIssuerSpec_reach AdcsIssuerSpec_DeepCopyInto
  by (rule AdcsIssuerSpec_deep)

definition ClusterAdcsIssuerSpec_view ::
    "'m memory \<Rightarrow> ClusterAdcsIssuerSpec_mem \<Rightarrow>
       (string option, string list option CABundleReference_of) ClusterAdcsIssuerSpec_of option" where
  "ClusterAdcsIssuerSpec_view h x = (case flat_view bytes_of h (cais_CABundle x) of
     None \<Rightarrow> None
   | Some b \<Rightarrow> map_option (\<lambda>r. \<lparr>cais_URL = cais_URL x,
       cais_CredentialsRef = cais_CredentialsRef x, cais_CABundle = b, cais_CABundleRef = r,
       cais_StatusCheckInterval = cais_StatusCheckInterval x, cais_RetryInterval = cais_RetryInterval x,
       cais_TemplateName = cais_TemplateName x\<rparr>)
       (CABundleReference_view h (cais_CABundleRef x)))"

definition ClusterAdcsIssuerSpec_reach :: "'m memory \<Rightarrow> ClusterAdcsIssuerSpec_mem \<Rightarrow> nat set" where
  "ClusterAdcsIssuerSpec_reach h x =
     flat_reach h (cais_CABundle x) \<union> CABundleReference_reach h (cais_CABundleRef x)"

lemma ClusterAdcsIssuerSpec_deep: "deep_copy ClusterAdcsIssuerSpec_view ClusterAdcsIssuerSpec_reach ClusterAdcsIssuerSpec_DeepCopyInto"
proof -
  have eqs: "ClusterAdcsIssuerSpec_view = (\<lambda>h x. case flat_view bytes_of h (cais_CABundle x) of None \<Rightarrow> None
      | Some b \<Rightarrow> map_option ((\<lambda>x b r. \<lparr>cais_URL = cais_URL x,
       cais_CredentialsRef = cais_CredentialsRef x, cais_CABundle = b, cais_CABundleRef = r,
       cais_StatusCheckInterval = cais_StatusCheckInterval x, cais_RetryInterval = cais_RetryInterval x,
       cais_TemplateName = cais_TemplateName x\<rparr>) x b)
          (CABundleReference_view h (cais_CABundleRef x)))"
    "ClusterAdcsIssuerSpec_reach = (\<lambda>h x. flat_reach h (cais_CABundle x) \<union>
       CABundleReference_reach h (cais_CABundleRef x))"
    "ClusterAdcsIssuerSpec_DeepCopyInto = (\<lambda>x h. case copy_bytes (cais_CABundle x) h of None \<Rightarrow> None
      | Some (y, h1) \<Rightarrow> (case CABundleReference_DeepCopyInto (cais_CABundleRef x) h1 of None \<Rightarrow> None
          | Some (z, h2) \<Rightarrow> Some ((\<lambda>y z x. x\<lparr>cais_CABundle := y, cais_CABundleRef := z\<rparr>) y z x, h2)))"
    by (auto simp: fun_eq_iff ClusterAdcsIssuerSpec_view_def ClusterAdcsIssuerSpec_reach_def ClusterAdcsIssuerSpec_DeepCopyInto_def Let_def
        split: option.split intro!: ClusterAdcsIssuerSpec_of.equality)
  show ?thesis
    unfolding eqs
    by (rule deep_copy_fields [OF bytes.deep_copy_axioms cab.deep_copy_axioms]) simp_all
qed

interpretation cai_spec: deep_copy ClusterAdcsIssuerSpec_view ClusterAdcsIssuerSpec_reach ClusterAdcsIssuerSpec_DeepCopyInto
  by (rule ClusterAdcsIssuerSpec_deep)

definition AdcsRequestSpec_view ::
    "'m memory \<Rightarrow> AdcsRequestSpec_mem \<Rightarrow> string option AdcsRequestSpec_of option" where
  "AdcsRequestSpec_view h x =
     map_option (\<lambda>b. \<lparr>ars_CSRPEM = b, ars_IssuerRef = ars_IssuerRef x\<rparr>) (flat_view bytes_of h (ars_CSRPEM x))"

definition AdcsRequestSpec_reach :: "'m memory \<Rightarrow> AdcsRequestSpec_mem \<Rightarrow> nat set" where
  "AdcsRequestSpec_reach h x = flat_reach h (ars_CSRPEM x)"

lemma AdcsRequestSpec_deep:
  "deep_copy AdcsRequestSpec_view AdcsRequestSpec_reach AdcsRequestSpec_DeepCopyInto"
proof -
  have eqs: "AdcsRequestSpec_view = (\<lambda>h x. map_option ((\<lambda>x b. \<lparr>ars_CSRPEM = b,
      ars_IssuerRef = ars_IssuerRef x\<rparr>) x) (flat_view bytes_of h (ars_CSRPEM x)))"
    "AdcsRequestSpec_reach = (\<lambda>h x. flat_reach h (ars_CSRPEM x))"
    "AdcsRequestSpec_DeepCopyInto = (\<lambda>x h. case copy_bytes (ars_CSRPEM x) h of None \<Rightarrow> None
      | Some (y, h1) \<Rightarrow> Some ((\<lambda>y x. x\<lparr>ars_CSRPEM := y\<rparr>) y x, h1))"
    by (auto simp: fun_eq_iff AdcsRequestSpec_view_def AdcsRequestSpec_reach_def
        AdcsRequestSpec_DeepCopyInto_def Let_def split: option.split intro!: AdcsRequestSpec_of.equality)
  show ?thesis
    unfolding eqs by (rule deep_copy_field [OF bytes.deep_copy_axioms]) simp_all
qed

interpretation ar_spec: deep_copy AdcsRequestSpec_view AdcsRequestSpec_reach AdcsRequestSpec_DeepCopyInto
  by (rule AdcsRequestSpec_deep)

text \<open>A struct without slices is its own view.\<close>

definition plain_view :: "'c heap \<Rightarrow> 'a \<Rightarrow> 'a option" where
  "plain_view h x = Some x"

definition plain_reach :: "'c heap \<Rightarrow> 'a \<Rightarrow> nat set" where
  "plain_reach h x = {}"

lemma plain_deep: "deep_copy plain_view plain_reach (\<lambda>x h. Some (x, h))"
  by unfold_locales (auto simp: plain_view_def plain_reach_def fresh_copy_def)

section \<open>Objects and lists\<close>

type_synonym 'v AdcsIssuer_shown = "('v, (string option, string list option CABundleReference_of) AdcsIssuerSpec_of) AdcsIssuer_of"

definition AdcsIssuer_view ::
    "('m memory \<Rightarrow> 'm \<Rightarrow> 'v option) \<Rightarrow> 'm memory \<Rightarrow> 'm AdcsIssuer_mem \<Rightarrow> 'v AdcsIssuer_shown option" where
  "AdcsIssuer_view mv h x = (case mv h (oai_ObjectMeta x) of
     None \<Rightarrow> None
   | Some m \<Rightarrow> map_option (\<lambda>s. \<lparr>oai_TypeMeta = oai_TypeMeta x, oai_ObjectMeta = m,
       oai_Spec = s, oai_Status = oai_Status x\<rparr>)
       (AdcsIssuerSpec_view h (oai_Spec x)))"

definition AdcsIssuer_reach :: "('m memory \<Rightarrow> 'm \<Rightarrow> nat set) \<Rightarrow> 'm memory \<Rightarrow> 'm AdcsIssuer_mem \<Rightarrow> nat set" where
  "AdcsIssuer_reach mr h x = mr h (oai_ObjectMeta x) \<union> AdcsIssuerSpec_reach h (oai_Spec x)"

lemma AdcsIssuer_deep:
  assumes "deep_copy mv mr om"
  shows "deep_copy (AdcsIssuer_view mv) (AdcsIssuer_reach mr) (AdcsIssuer_DeepCopyInto om)"
proof -
  have eqs: "AdcsIssuer_view mv = (\<lambda>h x. case mv h (oai_ObjectMeta x) of None \<Rightarrow> None
      | Some m \<Rightarrow> map_option ((\<lambda>x m s. \<lparr>oai_TypeMeta = oai_TypeMeta x, oai_ObjectMeta = m,
       oai_Spec = s, oai_Status = oai_Status x\<rparr>) x m)
          (AdcsIssuerSpec_view h (oai_Spec x)))"
    "AdcsIssuer_reach mr = (\<lambda>h x. mr h (oai_ObjectMeta x) \<union> AdcsIssuerSpec_reach h (oai_Spec x))"
    "AdcsIssuer_DeepCopyInto om = (\<lambda>x h. case om (oai_ObjectMeta x) h of None \<Rightarrow> None
      | Some (y, h1) \<Rightarrow> (case AdcsIssuerSpec_DeepCopyInto (oai_Spec x) h1 of None \<Rightarrow> None
          | Some (z, h2) \<Rightarrow> Some ((\<lambda>y z x. x\<lparr>oai_ObjectMeta := y, oai_Spec := z\<rparr>) y z x, h2)))"
    by (auto simp: fun_eq_iff AdcsIssuer_view_def AdcsIssuer_reach_def AdcsIssuer_DeepCopyInto_def Let_def
        split: option.split intro!: AdcsIssuer_of.equality)
  show ?thesis
    unfolding eqs by (rule deep_copy_fields [OF assms AdcsIssuerSpec_deep]) simp_all
qed

definition AdcsIssuerList_view ::
    "('m memory \<Rightarrow> 'm \<Rightarrow> 'v option) \<Rightarrow> ('m memory \<Rightarrow> 'l \<Rightarrow> 'w option) \<Rightarrow> 'm memory \<Rightarrow>
       'l AdcsIssuerList_mem \<Rightarrow> ('w, 'v AdcsIssuer_shown list option) AdcsIssuerList_of option" where
  "AdcsIssuerList_view mv lv h x = (case lv h (lai_ListMeta x) of
     None \<Rightarrow> None
   | Some m \<Rightarrow> map_option (\<lambda>is. \<lparr>lai_TypeMeta = lai_TypeMeta x, lai_ListMeta = m, lai_Items = is\<rparr>)
       (items_view (AdcsIssuer_view mv) issuers_of h (lai_Items x)))"

definition AdcsIssuerList_reach ::
    "('m memory \<Rightarrow> 'm \<Rightarrow> nat set) \<Rightarrow> ('m memory \<Rightarrow> 'l \<Rightarrow> nat set) \<Rightarrow> 'm memory \<Rightarrow>
       'l AdcsIssuerList_mem \<Rightarrow> nat set" where
  "AdcsIssuerList_reach mr lr h x =
     lr h (lai_ListMeta x) \<union> items_reach (AdcsIssuer_reach mr) issuers_of h (lai_Items x)"

lemma AdcsIssuerList_deep:
  assumes "deep_copy mv mr om" and "deep_copy lv lr lm"
  shows "deep_copy (AdcsIssuerList_view mv lv) (AdcsIssuerList_reach mr lr)
    (AdcsIssuerList_DeepCopyInto om m0 lm)"
proof -
  have items: "deep_copy (items_view (AdcsIssuer_view mv) issuers_of) (items_reach (AdcsIssuer_reach mr) issuers_of)
      (copy_items (AdcsIssuer_DeepCopyInto om) issuers_of AdcsIssuers (zero_AdcsIssuer m0))"
    by (rule items_deep_copy [OF AdcsIssuer_deep [OF assms(1)]]) simp
  have eqs: "AdcsIssuerList_view mv lv = (\<lambda>h x. case lv h (lai_ListMeta x) of None \<Rightarrow> None
      | Some m \<Rightarrow> map_option ((\<lambda>x m is. \<lparr>lai_TypeMeta = lai_TypeMeta x, lai_ListMeta = m, lai_Items = is\<rparr>) x m)
          (items_view (AdcsIssuer_view mv) issuers_of h (lai_Items x)))"
    "AdcsIssuerList_reach mr lr = (\<lambda>h x. lr h (lai_ListMeta x) \<union>
       items_reach (AdcsIssuer_reach mr) issuers_of h (lai_Items x))"
    "AdcsIssuerList_DeepCopyInto om m0 lm = (\<lambda>x h. case lm (lai_ListMeta x) h of None \<Rightarrow> None
      | Some (y, h1) \<Rightarrow>
          (case copy_items (AdcsIssuer_DeepCopyInto om) issuers_of AdcsIssuers (zero_AdcsIssuer m0) (lai_Items x) h1 of
             None \<Rightarrow> None
           | Some (z, h2) \<Rightarrow> Some ((\<lambda>y z x. x\<lparr>lai_ListMeta := y, lai_Items := z\<rparr>) y z x, h2)))"
    by (auto simp: fun_eq_iff AdcsIssuerList_view_def AdcsIssuerList_reach_def AdcsIssuerList_DeepCopyInto_def Let_def
        split: option.split intro!: AdcsIssuerList_of.equality)
  show ?thesis
    unfolding eqs by (rule deep_copy_fields [OF assms(2) items]) simp_all
qed

type_synonym 'v ClusterAdcsIssuer_shown = "('v, (string option, string list option CABundleReference_of) ClusterAdcsIssuerSpec_of) ClusterAdcsIssuer_of"

definition ClusterAdcsIssuer_view ::
    "('m memory \<Rightarrow> 'm \<Rightarrow> 'v option) \<Rightarrow> 'm memory \<Rightarrow> 'm ClusterAdcsIssuer_mem \<Rightarrow> 'v ClusterAdcsIssuer_shown option" where
  "ClusterAdcsIssuer_view mv h x = (case mv h (ocai_ObjectMeta x) of
     None \<Rightarrow> None
   | Some m \<Rightarrow> map_option (\<lambda>s. \<lparr>ocai_TypeMeta = ocai_TypeMeta x, ocai_ObjectMeta = m,
       ocai_Spec = s, ocai_Status = ocai_Status x\<rparr>)
       (ClusterAdcsIssuerSpec_view h (ocai_Spec x)))"

definition ClusterAdcsIssuer_reach :: "('m memory \<Rightarrow> 'm \<Rightarrow> nat set) \<Rightarrow> 'm memory \<Rightarrow> 'm ClusterAdcsIssuer_mem \<Rightarrow> nat set" where
  "ClusterAdcsIssuer_reach mr h x = mr h (ocai_ObjectMeta x) \<union> ClusterAdcsIssuerSpec_reach h (ocai_Spec x)"

lemma ClusterAdcsIssuer_deep:
  assumes "deep_copy mv mr om"
  shows "deep_copy (ClusterAdcsIssuer_view mv) (ClusterAdcsIssuer_reach mr) (ClusterAdcsIssuer_DeepCopyInto om)"
proof -
  have eqs: "ClusterAdcsIssuer_view mv = (\<lambda>h x. case mv h (ocai_ObjectMeta x) of None \<Rightarrow> None
      | Some m \<Rightarrow> map_option ((\<lambda>x m s. \<lparr>ocai_TypeMeta = ocai_TypeMeta x, ocai_ObjectMeta = m,
       ocai_Spec = s, ocai_Status = ocai_Status x\<rparr>) x m)
          (ClusterAdcsIssuerSpec_view h (ocai_Spec x)))"
    "ClusterAdcsIssuer_reach mr = (\<lambda>h x. mr h (ocai_ObjectMeta x) \<union> ClusterAdcsIssuerSpec_reach h (ocai_Spec x))"
    "ClusterAdcsIssuer_DeepCopyInto om = (\<lambda>x h. case om (ocai_ObjectMeta x) h of None \<Rightarrow> None
      | Some (y, h1) \<Rightarrow> (case ClusterAdcsIssuerSpec_DeepCopyInto (ocai_Spec x) h1 of None \<Rightarrow> None
          | Some (z, h2) \<Rightarrow> Some ((\<lambda>y z x. x\<lparr>ocai_ObjectMeta := y, ocai_Spec := z\<rparr>) y z x, h2)))"
    by (auto simp: fun_eq_iff ClusterAdcsIssuer_view_def ClusterAdcsIssuer_reach_def ClusterAdcsIssuer_DeepCopyInto_def Let_def
        split: option.split intro!: ClusterAdcsIssuer_of.equality)
  show ?thesis
    unfolding eqs by (rule deep_copy_fields [OF assms ClusterAdcsIssuerSpec_deep]) simp_all
qed

definition ClusterAdcsIssuerList_view ::
    "('m memory \<Rightarrow> 'm \<Rightarrow> 'v option) \<Rightarrow> ('m memory \<Rightarrow> 'l \<Rightarrow> 'w option) \<Rightarrow> 'm memory \<Rightarrow>
       'l ClusterAdcsIssuerList_mem \<Rightarrow> ('w, 'v ClusterAdcsIssuer_shown list option) ClusterAdcsIssuerList_of option" where
  "ClusterAdcsIssuerList_view mv lv h x = (case lv h (lcai_ListMeta x) of
     None \<Rightarrow> None
   | Some m \<Rightarrow> map_option (\<lambda>is. \<lparr>lcai_TypeMeta = lcai_TypeMeta x, lcai_ListMeta = m, lcai_Items = is\<rparr>)
       (items_view (ClusterAdcsIssuer_view mv) cluster_issuers_of h (lcai_Items x)))"

definition ClusterAdcsIssuerList_reach ::
    "('m memory \<Rightarrow> 'm \<Rightarrow> nat set) \<Rightarrow> ('m memory \<Rightarrow> 'l \<Rightarrow> nat set) \<Rightarrow> 'm memory \<Rightarrow>
       'l ClusterAdcsIssuerList_mem \<Rightarrow> nat set" where
  "ClusterAdcsIssuerList_reach mr lr h x =
     lr h (lcai_ListMeta x) \<union> items_reach (ClusterAdcsIssuer_reach mr) cluster_issuers_of h (lcai_Items x)"

lemma ClusterAdcsIssuerList_deep:
  assumes "deep_copy mv mr om" and "deep_copy lv lr lm"
  shows "deep_copy (ClusterAdcsIssuerList_view mv lv) (ClusterAdcsIssuerList_reach mr lr)
    (ClusterAdcsIssuerList_DeepCopyInto om m0 lm)"
proof -
  have items: "deep_copy (items_view (ClusterAdcsIssuer_view mv) cluster_issuers_of) (items_reach (ClusterAdcsIssuer_reach mr) cluster_issuers_of)
      (copy_items (ClusterAdcsIssuer_DeepCopyInto om) cluster_issuers_of ClusterAdcsIssuers (zero_ClusterAdcsIssuer m0))"
    by (rule items_deep_copy [OF ClusterAdcsIssuer_deep [OF assms(1)]]) simp
  have eqs: "ClusterAdcsIssuerList_view mv lv = (\<lambda>h x. case lv h (lcai_ListMeta x) of None \<Rightarrow> None
      | Some m \<Rightarrow> map_option ((\<lambda>x m is. \<lparr>lcai_TypeMeta = lcai_TypeMeta x, lcai_ListMeta = m, lcai_Items = is\<rparr>) x m)
          (items_view (ClusterAdcsIssuer_view mv) cluster_issuers_of h (lcai_Items x)))"
    "ClusterAdcsIssuerList_reach mr lr = (\<lambda>h x. lr h (lcai_ListMeta x) \<union>
       items_reach (ClusterAdcsIssuer_reach mr) cluster_issuers_of h (lcai_Items x))"
    "ClusterAdcsIssuerList_DeepCopyInto om m0 lm = (\<lambda>x h. case lm (lcai_ListMeta x) h of None \<Rightarrow> None
      | Some (y, h1) \<Rightarrow>
          (case copy_items (ClusterAdcsIssuer_DeepCopyInto om) cluster_issuers_of ClusterAdcsIssuers (zero_ClusterAdcsIssuer m0) (lcai_Items x) h1 of
             None \<Rightarrow> None
           | Some (z, h2) \<Rightarrow> Some ((\<lambda>y z x. x\<lparr>lcai_ListMeta := y, lcai_Items := z\<rparr>) y z x, h2)))"
    by (auto simp: fun_eq_iff ClusterAdcsIssuerList_view_def ClusterAdcsIssuerList_reach_def ClusterAdcsIssuerList_DeepCopyInto_def Let_def
        split: option.split intro!: ClusterAdcsIssuerList_of.equality)
  show ?thesis
    unfolding eqs by (rule deep_copy_fields [OF assms(2) items]) simp_all
qed

type_synonym 'v AdcsRequest_shown = "('v, string option AdcsRequestSpec_of) AdcsRequest_of"

definition AdcsRequest_view ::
    "('m memory \<Rightarrow> 'm \<Rightarrow> 'v option) \<Rightarrow> 'm memory \<Rightarrow> 'm AdcsRequest_mem \<Rightarrow> 'v AdcsRequest_shown option" where
  "AdcsRequest_view mv h x = (case mv h (oar_ObjectMeta x) of
     None \<Rightarrow> None
   | Some m \<Rightarrow> map_option (\<lambda>s. \<lparr>oar_TypeMeta = oar_TypeMeta x, oar_ObjectMeta = m,
       oar_Spec = s, oar_Status = oar_Status x\<rparr>)
       (AdcsRequestSpec_view h (oar_Spec x)))"

definition AdcsRequest_reach :: "('m memory \<Rightarrow> 'm \<Rightarrow> nat set) \<Rightarrow> 'm memory \<Rightarrow> 'm AdcsRequest_mem \<Rightarrow> nat set" where
  "AdcsRequest_reach mr h x = mr h (oar_ObjectMeta x) \<union> AdcsRequestSpec_reach h (oar_Spec x)"

lemma AdcsRequest_deep:
  assumes "deep_copy mv mr om"
  shows "deep_copy (AdcsRequest_view mv) (AdcsRequest_reach mr) (AdcsRequest_DeepCopyInto om)"
proof -
  have eqs: "AdcsRequest_view mv = (\<lambda>h x. case mv h (oar_ObjectMeta x) of None \<Rightarrow> None
      | Some m \<Rightarrow> map_option ((\<lambda>x m s. \<lparr>oar_TypeMeta = oar_TypeMeta x, oar_ObjectMeta = m,
       oar_Spec = s, oar_Status = oar_Status x\<rparr>) x m)
          (AdcsRequestSpec_view h (oar_Spec x)))"
    "AdcsRequest_reach mr = (\<lambda>h x. mr h (oar_ObjectMeta x) \<union> AdcsRequestSpec_reach h (oar_Spec x))"
    "AdcsRequest_DeepCopyInto om = (\<lambda>x h. case om (oar_ObjectMeta x) h of None \<Rightarrow> None
      | Some (y, h1) \<Rightarrow> (case AdcsRequestSpec_DeepCopyInto (oar_Spec x) h1 of None \<Rightarrow> None
          | Some (z, h2) \<Rightarrow> Some ((\<lambda>y z x. x\<lparr>oar_ObjectMeta := y, oar_Spec := z\<rparr>) y z x, h2)))"
    by (auto simp: fun_eq_iff AdcsRequest_view_def AdcsRequest_reach_def AdcsRequest_DeepCopyInto_def Let_def
        split: option.split intro!: AdcsRequest_of.equality)
  show ?thesis
    unfolding eqs by (rule deep_copy_fields [OF assms AdcsRequestSpec_deep]) simp_all
qed

definition AdcsRequestList_view ::
    "('m memory \<Rightarrow> 'm \<Rightarrow> 'v option) \<Rightarrow> ('m memory \<Rightarrow> 'l \<Rightarrow> 'w option) \<Rightarrow> 'm memory \<Rightarrow>
       'l AdcsRequestList_mem \<Rightarrow> ('w, 'v AdcsRequest_shown list option) AdcsRequestList_of option" where
  "AdcsRequestList_view mv lv h x = (case lv h (lar_ListMeta x) of
     None \<Rightarrow> None
   | Some m \<Rightarrow> map_option (\<lambda>is. \<lparr>lar_TypeMeta = lar_TypeMeta x, lar_ListMeta = m, lar_Items = is\<rparr>)
       (items_view (AdcsRequest_view mv) requests_of h (lar_Items x)))"

definition AdcsRequestList_reach ::
    "('m memory \<Rightarrow> 'm \<Rightarrow> nat set) \<Rightarrow> ('m memory \<Rightarrow> 'l \<Rightarrow> nat set) \<Rightarrow> 'm memory \<Rightarrow>
       'l AdcsRequestList_mem \<Rightarrow> nat set" where
  "AdcsRequestList_reach mr lr h x =
     lr h (lar_ListMeta x) \<union> items_reach (AdcsRequest_reach mr) requests_of h (lar_Items x)"

lemma AdcsRequestList_deep:
  assumes "deep_copy mv mr om" and "deep_copy lv lr lm"
  shows "deep_copy (AdcsRequestList_view mv lv) (AdcsRequestList_reach mr lr)
    (AdcsRequestList_DeepCopyInto om m0 lm)"
proof -
  have items: "deep_copy (items_view (AdcsRequest_view mv) requests_of) (items_reach (AdcsRequest_reach mr) requests_of)
      (copy_items (AdcsRequest_DeepCopyInto om) requests_of AdcsRequests (zero_AdcsRequest m0))"
    by (rule items_deep_copy [OF AdcsRequest_deep [OF assms(1)]]) simp
  have eqs: "AdcsRequestList_view mv lv = (\<lambda>h x. case lv h (lar_ListMeta x) of None \<Rightarrow> None
      | Some m \<Rightarrow> map_option ((\<lambda>x m is. \<lparr>lar_TypeMeta = lar_TypeMeta x, lar_ListMeta = m, lar_Items = is\<rparr>) x m)
          (items_view (AdcsRequest_view mv) requests_of h (lar_Items x)))"
    "AdcsRequestList_reach mr lr = (\<lambda>h x. lr h (lar_ListMeta x) \<union>
       items_reach (AdcsRequest_reach mr) requests_of h (lar_Items x))"
    "AdcsRequestList_DeepCopyInto om m0 lm = (\<lambda>x h. case lm (lar_ListMeta x) h of None \<Rightarrow> None
      | Some (y, h1) \<Rightarrow>
          (case copy_items (AdcsRequest_DeepCopyInto om) requests_of AdcsRequests (zero_AdcsRequest m0) (lar_Items x) h1 of
             None \<Rightarrow> None
           | Some (z, h2) \<Rightarrow> Some ((\<lambda>y z x. x\<lparr>lar_ListMeta := y, lar_Items := z\<rparr>) y z x, h2)))"
    by (auto simp: fun_eq_iff AdcsRequestList_view_def AdcsRequestList_reach_def AdcsRequestList_DeepCopyInto_def Let_def
        split: option.split intro!: AdcsRequestList_of.equality)
  show ?thesis
    unfolding eqs by (rule deep_copy_fields [OF assms(2) items]) simp_all
qed

section \<open>Pointers and objects\<close>

text \<open>
  The copy shows what the original showed; they share no array; writing through one of them,
  in whatever way, does not change what the other shows.
\<close>

definition separate ::
    "('m memory \<Rightarrow> 'a \<Rightarrow> 'v option) \<Rightarrow> ('m memory \<Rightarrow> 'a \<Rightarrow> nat set) \<Rightarrow> 'a \<Rightarrow> 'a \<Rightarrow> 'v \<Rightarrow> 'm memory \<Rightarrow> bool" where
  "separate view reach x y v h =
     (view h x = Some v \<and> view h y = Some v \<and> reach h x \<inter> reach h y = {} \<and>
      (\<forall>h'. agree (- reach h y \<inter> {..<length h}) h h' \<longrightarrow> view h' x = Some v) \<and>
      (\<forall>h'. agree (- reach h x \<inter> {..<length h}) h h' \<longrightarrow> view h' y = Some v))"

definition copies_pointers ::
    "('m memory \<Rightarrow> 'a \<Rightarrow> 'v option) \<Rightarrow> ('m memory \<Rightarrow> 'a \<Rightarrow> nat set) \<Rightarrow> ('m, 'a option) copier \<Rightarrow> bool" where
  "copies_pointers view reach f =
     ((\<forall>h. f None h = Some (None, h)) \<and>
      (\<forall>h x v. view h x = Some v \<longrightarrow>
         (\<exists>y h'. f (Some x) h = Some (Some y, h') \<and> prefix h h' \<and> separate view reach x y v h')))"

definition copies_objects ::
    "('m memory \<Rightarrow> 'a \<Rightarrow> 'v option) \<Rightarrow> ('m memory \<Rightarrow> 'a \<Rightarrow> nat set) \<Rightarrow> ('a \<Rightarrow> ('m, 'l) Object) \<Rightarrow>
       ('a option \<Rightarrow> 'm memory \<Rightarrow> (('m, 'l) Object option \<times> 'm memory) option) \<Rightarrow> bool" where
  "copies_objects view reach obj f =
     ((\<forall>h. f None h = Some (None, h)) \<and>
      (\<forall>h x v. view h x = Some v \<longrightarrow>
         (\<exists>y h'. f (Some x) h = Some (Some (obj y), h') \<and> prefix h h' \<and> separate view reach x y v h')))"

lemma pointers_copied:
  assumes "deep_copy view reach into"
  shows "copies_pointers view reach (copy_pointer into)"
proof -
  have "\<exists>y h'. copy_pointer into (Some x) h = Some (Some y, h') \<and> prefix h h' \<and>
      separate view reach x y v h'" if v: "view h x = Some v" for h x v
  proof -
    from deep_copy.copies [OF assms v] obtain y h' where
        c: "into x h = Some (y, h')" "fresh_copy view reach h v y h'" by blast
    then have pre: "prefix h h'" "view h' y = Some v" by (simp_all add: fresh_copy_def)
    with deep_copy.longer [OF assms v pre(1)] deep_copy.isolated [OF assms v c(2)]
    have "separate view reach x y v h'" by (simp add: separate_def)
    with c(1) pre show ?thesis by (simp add: copy_pointer_def)
  qed
  then show ?thesis by (simp add: copies_pointers_def copy_pointer_def)
qed

lemma objects_copied:
  assumes "copies_pointers view reach f"
  shows "copies_objects view reach obj (\<lambda>p h. as_object obj (f p h))"
  using assms unfolding copies_pointers_def copies_objects_def as_object_def by fastforce

lemma copies_objectsE:
  assumes "copies_objects view reach obj f" and "view h x = Some v"
  obtains y h' where "f (Some x) h = Some (Some (obj y), h')" "separate view reach x y v h'"
  using assms unfolding copies_objects_def by fast

text \<open>
  \<open>DeepCopy\<close> of the references and specifications: nil is copied to nil; a non-nil pointer
  is copied to a new struct with the same contents, old memory is unchanged, the two share
  no array, and no later write through one of them changes what the other shows.
\<close>

theorem specifications_are_copied_deeply:
  "copies_pointers CABundleReference_view CABundleReference_reach CABundleReference_DeepCopy \<and>
   copies_pointers AdcsIssuerSpec_view AdcsIssuerSpec_reach AdcsIssuerSpec_DeepCopy \<and>
   copies_pointers ClusterAdcsIssuerSpec_view ClusterAdcsIssuerSpec_reach ClusterAdcsIssuerSpec_DeepCopy \<and>
   copies_pointers AdcsRequestSpec_view AdcsRequestSpec_reach AdcsRequestSpec_DeepCopy \<and>
   copies_pointers plain_view plain_reach LocalObjectReference_DeepCopy \<and>
   copies_pointers plain_view plain_reach AdcsRequestStatus_DeepCopy"
proof -
  have plain: "LocalObjectReference_DeepCopyInto = (\<lambda>x h. Some (x, h))"
      "AdcsRequestStatus_DeepCopyInto = (\<lambda>x h. Some (x, h))"
    by (simp_all add: fun_eq_iff LocalObjectReference_DeepCopyInto_def AdcsRequestStatus_DeepCopyInto_def)
  show ?thesis
    unfolding CABundleReference_DeepCopy_def AdcsIssuerSpec_DeepCopy_def ClusterAdcsIssuerSpec_DeepCopy_def
      AdcsRequestSpec_DeepCopy_def LocalObjectReference_DeepCopy_def AdcsRequestStatus_DeepCopy_def plain
    by (intro conjI pointers_copied CABundleReference_deep AdcsIssuerSpec_deep ClusterAdcsIssuerSpec_deep
        AdcsRequestSpec_deep plain_deep)
qed

text \<open>
  C18. \<open>DeepCopyObject\<close> of the three kinds of objects and of their lists, element by element,
  provided that Kubernetes copies its metadata deeply: the result is the untyped nil for a nil
  pointer, and otherwise an object of the same kind with the same contents that shares no
  array with the original, so that neither sees later writes to the other. This is what
  the informer caches rely on when they hand out objects.
\<close>

theorem objects_are_copied_deeply:
  assumes "deep_copy mv mr om" and "deep_copy lv lr lm"
  shows
    "copies_objects (AdcsIssuer_view mv) (AdcsIssuer_reach mr) ObjAdcsIssuer (AdcsIssuer_DeepCopyObject om) \<and>
     copies_objects (ClusterAdcsIssuer_view mv) (ClusterAdcsIssuer_reach mr) ObjClusterAdcsIssuer
       (ClusterAdcsIssuer_DeepCopyObject om) \<and>
     copies_objects (AdcsRequest_view mv) (AdcsRequest_reach mr) ObjAdcsRequest (AdcsRequest_DeepCopyObject om) \<and>
     copies_objects (AdcsIssuerList_view mv lv) (AdcsIssuerList_reach mr lr) ObjAdcsIssuerList
       (AdcsIssuerList_DeepCopyObject om m0 lm) \<and>
     copies_objects (ClusterAdcsIssuerList_view mv lv) (ClusterAdcsIssuerList_reach mr lr)
       ObjClusterAdcsIssuerList (ClusterAdcsIssuerList_DeepCopyObject om m0 lm) \<and>
     copies_objects (AdcsRequestList_view mv lv) (AdcsRequestList_reach mr lr) ObjAdcsRequestList
       (AdcsRequestList_DeepCopyObject om m0 lm)"
proof -
  note eqs = AdcsIssuer_DeepCopyObject_def [abs_def] ClusterAdcsIssuer_DeepCopyObject_def [abs_def]
    AdcsRequest_DeepCopyObject_def [abs_def] AdcsIssuerList_DeepCopyObject_def [abs_def]
    ClusterAdcsIssuerList_DeepCopyObject_def [abs_def] AdcsRequestList_DeepCopyObject_def [abs_def]
    AdcsIssuer_DeepCopy_def ClusterAdcsIssuer_DeepCopy_def AdcsRequest_DeepCopy_def
    AdcsIssuerList_DeepCopy_def ClusterAdcsIssuerList_DeepCopy_def AdcsRequestList_DeepCopy_def
  show ?thesis
    unfolding eqs
    by (intro conjI objects_copied pointers_copied AdcsIssuer_deep ClusterAdcsIssuer_deep AdcsRequest_deep
        AdcsIssuerList_deep ClusterAdcsIssuerList_deep AdcsRequestList_deep assms)
qed

text \<open>
  A list of two issuers that share one CA bundle array. Metadata is a slice of names that is
  copied like any other slice of strings.
\<close>

definition sample_mem_issuer :: "string \<Rightarrow> header AdcsIssuer_mem" where
  "sample_mem_issuer url =
     (zero_AdcsIssuer (Some \<lparr>sl_array = 1, sl_from = 0, sl_len = 1\<rparr>))\<lparr>oai_Spec :=
        (oai_Spec (zero_AdcsIssuer (None :: header)))\<lparr>ais_URL := url,
          ais_CABundle := Some \<lparr>sl_array = 0, sl_from = 1, sl_len = 3\<rparr>\<rparr>\<rparr>"

definition sample_memory :: "header memory" where
  "sample_memory = [Bytes ''-pem-'', Strings [''name''],
     AdcsIssuers [sample_mem_issuer ''https://a'', sample_mem_issuer ''https://b'']]"

definition sample_list :: "string AdcsIssuerList_mem" where
  "sample_list = \<lparr>lai_TypeMeta = \<lparr>tm_Kind = ''AdcsIssuerList'', tm_APIVersion = ''v1''\<rparr>,
     lai_ListMeta = ''5'', lai_Items = Some \<lparr>sl_array = 2, sl_from = 0, sl_len = 2\<rparr>\<rparr>"

lemma sample_list_shown:
  "\<exists>v. AdcsIssuerList_view (flat_view strings_of) plain_view sample_memory sample_list = Some v \<and>
     map_option (map (\<lambda>i. ais_CABundle (oai_Spec i))) (lai_Items v) = Some [Some ''pem'', Some ''pem'']"
  by (simp add: sample_list_def sample_memory_def sample_mem_issuer_def zero_AdcsIssuer_def
      AdcsIssuerList_view_def AdcsIssuer_view_def AdcsIssuerSpec_view_def CABundleReference_view_def
      items_view_def flat_view_def elems_def array_at_def plain_view_def)

theorem objects_are_copied_deeply_witness:
  "\<exists>y h' v.
     AdcsIssuerList_DeepCopyObject copy_strings None (\<lambda>x h. Some (x, h)) (Some sample_list) sample_memory =
       Some (Some (ObjAdcsIssuerList y), h') \<and>
     separate (AdcsIssuerList_view (flat_view strings_of) plain_view)
       (AdcsIssuerList_reach flat_reach plain_reach) sample_list y v h' \<and>
     map_option (map (\<lambda>i. ais_CABundle (oai_Spec i))) (lai_Items v) = Some [Some ''pem'', Some ''pem'']"
proof -
  from sample_list_shown obtain v where
      v: "AdcsIssuerList_view (flat_view strings_of) plain_view sample_memory sample_list = Some v"
      and items: "map_option (map (\<lambda>i. ais_CABundle (oai_Spec i))) (lai_Items v) = Some [Some ''pem'', Some ''pem'']"
    by (elim exE conjE)
  have "copies_objects (AdcsIssuerList_view (flat_view strings_of) plain_view)
      (AdcsIssuerList_reach flat_reach plain_reach) ObjAdcsIssuerList
      (AdcsIssuerList_DeepCopyObject copy_strings None (\<lambda>x h. Some (x, h)))"
    by (rule objects_are_copied_deeply [OF strings.deep_copy_axioms plain_deep, THEN conjunct2,
        THEN conjunct2, THEN conjunct2, THEN conjunct1])
  from copies_objectsE [OF this v] obtain y h' where
      "AdcsIssuerList_DeepCopyObject copy_strings None (\<lambda>x h. Some (x, h)) (Some sample_list) sample_memory =
         Some (Some (ObjAdcsIssuerList y), h')"
      "separate (AdcsIssuerList_view (flat_view strings_of) plain_view)
         (AdcsIssuerList_reach flat_reach plain_reach) sample_list y v h'" .
  with items show ?thesis by (intro exI [of _ y] exI [of _ h'] exI [of _ v] conjI)
qed

end
