(* ===== verification/Go_Flag.thy ===== *)
theory Go_Flag
  imports Go_Prelude
begin

text \<open>
  Go's package \<open>flag\<close>, as far as the program uses it: boolean and string flags, parsed from the
  command line by \<open>flag.Parse\<close>. The variables that flags set are a state of any type; a flag of
  another package only accepts or rejects its value.
\<close>

section \<open>Flags\<close>

datatype 'f flag =
    BoolVar "bool \<Rightarrow> 'f \<Rightarrow> 'f"
  | StringVar "string \<Rightarrow> 'f \<Rightarrow> 'f"
  | Foreign bool "string \<Rightarrow> bool"   \<comment> \<open>is it boolean; which values it accepts\<close>

datatype flag_error = BadSyntax | NotDefined | HelpWanted | InvalidValue | NeedsArgument

text \<open>\<open>strconv.ParseBool\<close>\<close>

definition ParseBool :: "string \<Rightarrow> bool option" where
  "ParseBool s =
     (if List.member [''1'', ''t'', ''T'', ''true'', ''TRUE'', ''True''] s then Some True
      else if List.member [''0'', ''f'', ''F'', ''false'', ''FALSE'', ''False''] s then Some False
      else None)"

definition split_flag :: "string \<Rightarrow> string \<times> string option" where
  "split_flag s =
     (let name = takeWhile (\<lambda>c. c \<noteq> CHR ''='') s; rest = dropWhile (\<lambda>c. c \<noteq> CHR ''='') s
      in (name, if rest = [] then None else Some (tl rest)))"

definition strip_minus :: "string \<Rightarrow> string" where
  "strip_minus s = (if s ! 1 = CHR ''-'' then drop 2 s else drop 1 s)"

text \<open>\<open>FlagSet.Parse\<close>: the new values of the variables, and the remaining arguments.\<close>

fun flag_parse ::
    "(string \<Rightarrow> 'f flag option) \<Rightarrow> string list \<Rightarrow> 'f \<Rightarrow> flag_error + 'f \<times> string list" where
  "flag_parse formal [] st = Inr (st, [])"
| "flag_parse formal (s # args) st =
     (if length s < 2 \<or> hd s \<noteq> CHR ''-'' then Inr (st, s # args)
      else if s = ''--'' then Inr (st, args)
      else if strip_minus s = [] \<or> hd (strip_minus s) = CHR ''-'' \<or> hd (strip_minus s) = CHR ''='' then
        Inl BadSyntax
      else (case formal (fst (split_flag (strip_minus s))) of
        None \<Rightarrow>
          Inl (if List.member [''help'', ''h''] (fst (split_flag (strip_minus s))) then HelpWanted
               else NotDefined)
      | Some (BoolVar assign) \<Rightarrow>
          (case snd (split_flag (strip_minus s)) of
             None \<Rightarrow> flag_parse formal args (assign True st)
           | Some v \<Rightarrow>
               (case ParseBool v of
                  None \<Rightarrow> Inl InvalidValue
                | Some b \<Rightarrow> flag_parse formal args (assign b st)))
      | Some (StringVar assign) \<Rightarrow>
          (case snd (split_flag (strip_minus s)) of
             Some v \<Rightarrow> flag_parse formal args (assign v st)
           | None \<Rightarrow>
               (case args of
                  [] \<Rightarrow> Inl NeedsArgument
                | v # args' \<Rightarrow> flag_parse formal args' (assign v st)))
      | Some (Foreign is_bool ok) \<Rightarrow>
          (case snd (split_flag (strip_minus s)) of
             Some v \<Rightarrow> if ok v then flag_parse formal args st else Inl InvalidValue
           | None \<Rightarrow>
               if is_bool then (if ok ''true'' then flag_parse formal args st else Inl InvalidValue)
               else
                 (case args of
                    [] \<Rightarrow> Inl NeedsArgument
                  | v # args' \<Rightarrow> if ok v then flag_parse formal args' st else Inl InvalidValue))))"

section \<open>What parsing does to the variables\<close>

definition flag_name :: "string \<Rightarrow> string" where
  "flag_name s = fst (split_flag (strip_minus s))"

definition bool_value :: "string \<Rightarrow> bool option" where
  "bool_value s = (case snd (split_flag (strip_minus s)) of None \<Rightarrow> Some True | Some v \<Rightarrow> ParseBool v)"

text \<open>What an argument that names a flag can make of the variables.\<close>

fun sets :: "string \<Rightarrow> 'f flag \<Rightarrow> 'f \<Rightarrow> 'f \<Rightarrow> bool" where
  "sets s (BoolVar assign) st st' = (\<exists>b. bool_value s = Some b \<and> st' = assign b st)"
| "sets s (StringVar assign) st st' = (\<exists>v. st' = assign v st)"
| "sets s (Foreign is_bool ok) st st' = (st' = st)"

text \<open>The first argument stops the parsing, or sets a flag and parsing goes on behind it.\<close>

lemma flag_parse_step:
  assumes "flag_parse formal (s # args) st = Inr (st', rest)"
  obtains (stop) "st' = st"
  | (flag) f args' st1 where "formal (flag_name s) = Some f" "sets s f st st1"
      "length args' \<le> length args" "set args' \<subseteq> set args"
      "flag_parse formal args' st1 = Inr (st', rest)"
proof (cases "length s < 2 \<or> hd s \<noteq> CHR ''-'' \<or> s = ''--''")
  case True
  with assms stop show thesis by (auto split: if_splits)
next
  case False
  with assms obtain f where f: "formal (flag_name s) = Some f"
    unfolding flag_parse.simps(2) flag_name_def [symmetric] by (auto split: option.splits if_splits)
  note goal = flag [OF f]
  have here: thesis if "flag_parse formal args st1 = Inr (st', rest)" "sets s f st st1" for st1
    using goal [of st1 args] that by simp
  have behind: thesis if "args = v # args'" "flag_parse formal args' st1 = Inr (st', rest)" "sets s f st st1"
    for v args' st1
    using goal [of st1 args'] that by auto
  note known = assms [unfolded flag_parse.simps(2) flag_name_def [symmetric] f option.case] False
  show thesis
  proof (cases f)
    case (BoolVar assign)
    note next_arg = here [unfolded BoolVar sets.simps bool_value_def]
    from BoolVar known next_arg show thesis
      by (auto simp del: flag_parse.simps split: option.splits if_splits)
  next
    case (StringVar assign)
    note next_arg = here [unfolded StringVar sets.simps] behind [unfolded StringVar sets.simps]
    from StringVar known next_arg show thesis
      by (auto simp del: flag_parse.simps split: option.splits if_splits list.splits)
  next
    case (Foreign is_bool ok)
    note next_arg = here [unfolded Foreign sets.simps] behind [unfolded Foreign sets.simps]
    from Foreign known next_arg show thesis
      by (auto simp del: flag_parse.simps split: option.splits if_splits list.splits)
  qed
qed

text \<open>A property of the variables that every argument keeps holds when parsing is through.\<close>

lemma flag_parse_keeps:
  assumes "flag_parse formal args st = Inr (st', rest)" and "P st"
    and "\<And>s f st st1. s \<in> set args \<Longrightarrow> formal (flag_name s) = Some f \<Longrightarrow> sets s f st st1 \<Longrightarrow> P st \<Longrightarrow> P st1"
  shows "P st'"
  using assms
proof (induction args arbitrary: st rule: length_induct)
  case (1 args)
  show ?case
  proof (cases args)
    case Nil
    with 1 show ?thesis by simp
  next
    case (Cons s tl)
    from 1(2) [unfolded Cons] show ?thesis
    proof (cases rule: flag_parse_step)
      case stop
      with 1(3) show ?thesis by simp
    next
      case (flag f args' st1)
      have "P st1" using 1(3) 1(4) [of s f st st1] flag(1,2) Cons by simp
      moreover have "length args' < length args" "set args' \<subseteq> set args" using flag(3,4) Cons by auto
      ultimately show ?thesis using 1(1) flag(5) 1(4) by blast
    qed
  qed
qed

end
