(* ===== verification/Main_Program.thy ===== *)
theory Main_Program
  imports Go_Flag AdcsRequest_Controller CertificateRequest_Theorems "HOL-Library.Sublist"
begin

text \<open>
  The main program (\<open>src/main.go\<close>): the command line, the set-up of logging, the options of the manager, the wiring of
  the four reconcilers, and the order of the start-up with its exits. The manager of
  controller-runtime is called step by step and each call may fail; a step says with which
  values it is called.
\<close>

section \<open>Constants and flags\<close>

fun Itoa :: "nat \<Rightarrow> string" where
  "Itoa n = (if n < 10 then [char_of (48 + n)] else Itoa (n div 10) @ [char_of (48 + n mod 10)])"

declare Itoa.simps [simp del]

definition defaultWebhooksPort :: nat where "defaultWebhooksPort = 9443"
definition defaultMetricsPort :: nat where "defaultMetricsPort = 8080"
definition defaultHealthCheckPort :: nat where "defaultHealthCheckPort = 8081"

record Flags =
  fl_metricsAddr :: string
  fl_healthcheckAddr :: string
  fl_webhooksPort :: string
  fl_enableLeaderElection :: bool
  fl_clusterResourceNamespace :: string
  fl_disableApprovedCheck :: bool
  fl_adcsTemplateName :: string

definition default_flags :: Flags where
  "default_flags =
     \<lparr>fl_metricsAddr = CHR '':'' # Itoa defaultMetricsPort,
      fl_healthcheckAddr = CHR '':'' # Itoa defaultHealthCheckPort,
      fl_webhooksPort = Itoa defaultWebhooksPort,
      fl_enableLeaderElection = False,
      fl_clusterResourceNamespace = ''kube-system'',
      fl_disableApprovedCheck = False,
      fl_adcsTemplateName = ''BasicSSLWebServer''\<rparr>"

definition main_flags :: "(string \<times> Flags flag) list" where
  "main_flags =
     [(''metrics-bind-address'', StringVar (\<lambda>v fl. fl\<lparr>fl_metricsAddr := v\<rparr>)),
      (''healthcheck-addr'', StringVar (\<lambda>v fl. fl\<lparr>fl_healthcheckAddr := v\<rparr>)),
      (''webhooks-port'', StringVar (\<lambda>v fl. fl\<lparr>fl_webhooksPort := v\<rparr>)),
      (''disable-approved-check'', BoolVar (\<lambda>b fl. fl\<lparr>fl_disableApprovedCheck := b\<rparr>)),
      (''enable-leader-election'', BoolVar (\<lambda>b fl. fl\<lparr>fl_enableLeaderElection := b\<rparr>)),
      (''cluster-resource-namespace'', StringVar (\<lambda>v fl. fl\<lparr>fl_clusterResourceNamespace := v\<rparr>)),
      (''adcsTemplateName'', StringVar (\<lambda>v fl. fl\<lparr>fl_adcsTemplateName := v\<rparr>))]"

text \<open>
  The flags of the other packages (\<open>zap.Options.BindFlags\<close> and controller-runtime's own) are
  the argument \<open>others\<close>: for a name, whether it is boolean and which values it accepts.
\<close>

definition all_flags :: "(string \<Rightarrow> (bool \<times> (string \<Rightarrow> bool)) option) \<Rightarrow> string \<Rightarrow> Flags flag option" where
  "all_flags others name = (case map_of main_flags name of
     Some f \<Rightarrow> Some f
   | None \<Rightarrow> (case others name of None \<Rightarrow> None | Some (b, ok) \<Rightarrow> Some (Foreign b ok)))"

text \<open>\<open>flag.Parse\<close> leaves the program with 0 after a request for help and with 2 after an error.\<close>

definition exit_of :: "flag_error \<Rightarrow> int" where
  "exit_of e = (if e = HelpWanted then 0 else 2)"

section \<open>Logging\<close>

text \<open>
  The set-up of logging, between the command line and the manager: what the loggers are built
  from, and the first message. The build replaces the variables of \<open>src/version\<close>; the flags
  of \<open>zap.Options.BindFlags\<close> change the options, so what they are after \<open>flag.Parse\<close> is an
  argument (\<open>parsed\<close>).
\<close>

record version_vars =
  BuildTime :: string
  Commit :: string
  Release :: string
  Version :: string

definition version_unset :: version_vars where
  "version_unset = \<lparr>BuildTime = ''unset'', Commit = ''unset'', Release = ''unset'', Version = ''adcs-operator''\<rparr>"

record zap_Options =
  Development :: bool

datatype zap_Opts =
    UseDevMode bool
  | WriteTo string
  | Encoder string string \<comment> \<open>the format, and the layout of the time in UTC\<close>
  | UseFlagOptions zap_Options

datatype log_call =
    SetLogger "zap_Opts list"
  | Info string "(string \<times> string) list"

definition logging_setup :: "(zap_Options \<Rightarrow> zap_Options) \<Rightarrow> version_vars \<Rightarrow> log_call list" where
  "logging_setup parsed v =
     (let opts = parsed \<lparr>Development = False\<rparr>;
          configLog = ''2006-01-02T15:04:05.999999999Z07:00'';
          logfmtEncoder = Encoder ''logfmt'' configLog;
          logger = [UseDevMode False, WriteTo ''stdout'', logfmtEncoder]
      in [SetLogger logger,
          SetLogger [UseFlagOptions opts],
          Info ''Starting ADCS Issuer''
            [(''Version'', Version v), (''BuildTime'', BuildTime v), (''Release'', Release v), (''Commit'', Commit v)]])"

text \<open>
  Two loggers are set. Whether the library keeps the first or takes the last (\<open>keep\<close>), the one in
  force does not have both the encoding chosen in the code and the options of the command line.
\<close>

fun logger_after :: "(zap_Opts list \<Rightarrow> zap_Opts list \<Rightarrow> zap_Opts list) \<Rightarrow> zap_Opts list option \<Rightarrow> log_call list \<Rightarrow>
    zap_Opts list option" where
  "logger_after keep l [] = l"
| "logger_after keep None (SetLogger new # cs) = logger_after keep (Some new) cs"
| "logger_after keep (Some old) (SetLogger new # cs) = logger_after keep (Some (keep old new)) cs"
| "logger_after keep l (Info msg kvs # cs) = logger_after keep l cs"

lemma one_logger_is_lost:
  assumes "\<And>old new. keep old new = old \<or> keep old new = new"
    and "logger_after keep None (logging_setup parsed v) = Some l"
  shows "(\<exists>f t. Encoder f t \<in> set l) \<longleftrightarrow> (\<forall>opts. UseFlagOptions opts \<notin> set l)"
  using assms(2) assms(1) [of "[UseDevMode False, WriteTo ''stdout'', Encoder ''logfmt'' ''2006-01-02T15:04:05.999999999Z07:00'']"
      "[UseFlagOptions (parsed \<lparr>Development = False\<rparr>)]"]
  by (auto simp: logging_setup_def Let_def)

section \<open>The start-up\<close>

record ManagerOptions =
  HealthProbeBindAddress :: string
  LeaderElection :: bool
  LeaderElectionID :: string

datatype setup_call =
    GetConfigOrDie
  | NewManager ManagerOptions
  | AddHealthzCheck string
  | AddReadyzCheck string
  | SetupCertificateRequest CertificateRequestReconciler
  | SetupAdcsRequest AdcsRequestReconciler
  | SetupAdcsIssuer
  | SetupClusterAdcsIssuer
  | StartManager

text \<open>\<open>healthcheck.HealthCheck\<close>: the program is healthy as long as it answers.\<close>

definition HealthCheck :: "http_request \<Rightarrow> gerr option" where
  "HealthCheck r = None"

definition setup_calls :: "Flags \<Rightarrow> setup_call list" where
  "setup_calls fl =
     [GetConfigOrDie,
      NewManager \<lparr>HealthProbeBindAddress = fl_healthcheckAddr fl,
        LeaderElection = fl_enableLeaderElection fl, LeaderElectionID = ''adcs-issuer-controller''\<rparr>,
      AddHealthzCheck ''healthz'',
      AddReadyzCheck ''readyz'',
      SetupCertificateRequest \<lparr>CheckApprovedCondition = (\<not> fl_disableApprovedCheck fl)\<rparr>,
      SetupAdcsRequest \<lparr>arr_IssuerFactory =
        \<lparr>ClusterResourceNamespace = fl_clusterResourceNamespace fl,
         fac_AdcsTemplateName = fl_adcsTemplateName fl\<rparr>\<rparr>,
      SetupAdcsIssuer,
      SetupClusterAdcsIssuer,
      StartManager]"

text \<open>The calls in order; the first that fails ends the program with exit code 1.\<close>

primrec startup :: "(setup_call \<Rightarrow> gerr option) \<Rightarrow> setup_call list \<Rightarrow> setup_call list \<times> int" where
  "startup env [] = ([], 0)"
| "startup env (c # cs) = (case env c of
     Some err \<Rightarrow> ([c], 1)
   | None \<Rightarrow> (let (made, code) = startup env cs in (c # made, code)))"

text \<open>The calls that are made and the exit code, for given arguments and answers.\<close>

definition main_program ::
    "(string \<Rightarrow> (bool \<times> (string \<Rightarrow> bool)) option) \<Rightarrow> (setup_call \<Rightarrow> gerr option) \<Rightarrow> string list \<Rightarrow>
       setup_call list \<times> int" where
  "main_program others env args = (case flag_parse (all_flags others) args default_flags of
     Inl err \<Rightarrow> ([], exit_of err)
   | Inr (fl, _) \<Rightarrow> startup env (setup_calls fl))"

section \<open>Lemmas\<close>

lemma startup_calls:
  assumes "startup env cs = (made, code)"
  shows "prefix made cs" and "code = 0 \<longleftrightarrow> made = cs \<and> (\<forall>c\<in>set cs. env c = None)"
    and "code = 0 \<or> code = 1" and "made \<noteq> [] \<Longrightarrow> \<forall>c\<in>set (butlast made). env c = None"
    and "code = 1 \<Longrightarrow> made \<noteq> [] \<and> env (last made) \<noteq> None"
  using assms
  by (induction cs arbitrary: made) (auto split: option.splits prod.splits if_splits)

lemma main_cases:
  assumes "main_program others env args = (calls, code)"
  obtains (usage) err where "calls = []" "code = exit_of err"
      "flag_parse (all_flags others) args default_flags = Inl err"
  | (start) fl rest where "flag_parse (all_flags others) args default_flags = Inr (fl, rest)"
      "startup env (setup_calls fl) = (calls, code)"
  using assms by (auto simp: main_program_def split: sum.splits)

lemma started_prefix:
  assumes "prefix calls (setup_calls fl)" and "StartManager \<in> set calls"
  shows "calls = setup_calls fl"
proof -
  from assms(1) obtain ys where ys: "setup_calls fl = calls @ ys" by (auto simp: prefix_def)
  have "StartManager \<notin> set (butlast (setup_calls fl))" by (simp add: setup_calls_def)
  with assms(2) have "ys = []" unfolding ys by (auto simp: butlast_append split: if_splits)
  with ys show ?thesis by simp
qed

lemma started_calls:
  assumes "main_program others env args = (calls, code)" and "StartManager \<in> set calls"
  shows "\<exists>fl. calls = setup_calls fl"
  using assms(1)
  by (cases rule: main_cases) (use assms(2) in \<open>auto dest!: startup_calls(1) intro: started_prefix\<close>)

lemma setup_calls_unique:
  "SetupCertificateRequest rc \<in> set (setup_calls fl) \<longleftrightarrow>
     rc = \<lparr>CheckApprovedCondition = (\<not> fl_disableApprovedCheck fl)\<rparr>"
  "SetupAdcsRequest ra \<in> set (setup_calls fl) \<longleftrightarrow> ra = \<lparr>arr_IssuerFactory =
        \<lparr>ClusterResourceNamespace = fl_clusterResourceNamespace fl,
         fac_AdcsTemplateName = fl_adcsTemplateName fl\<rparr>\<rparr>"
  by (auto simp: setup_calls_def)

text \<open>A switch of the main program is turned on only by an argument that names it.\<close>

lemma approval_kept:
  assumes "flag_parse (all_flags others) args default_flags = Inr (fl, rest)"
    and "\<forall>a\<in>set args. flag_name a = ''disable-approved-check'' \<longrightarrow> bool_value a \<noteq> Some True"
  shows "\<not> fl_disableApprovedCheck fl"
proof (rule flag_parse_keeps [OF assms(1)])
  show "\<not> fl_disableApprovedCheck default_flags" by (simp add: default_flags_def)
next
  fix s f st st1
  assume s: "s \<in> set args" and f: "all_flags others (flag_name s) = Some f" "sets s f st st1"
    and st: "\<not> fl_disableApprovedCheck st"
  show "\<not> fl_disableApprovedCheck st1"
  proof (cases "flag_name s = ''disable-approved-check''")
    case True
    with f(1) have "f = BoolVar (\<lambda>b fl. fl\<lparr>fl_disableApprovedCheck := b\<rparr>)"
      by (simp add: all_flags_def main_flags_def)
    with f(2) s assms(2) True show ?thesis by auto
  next
    case False
    with f st show ?thesis
      by (auto simp: all_flags_def main_flags_def split: if_splits option.splits)
  qed
qed

text \<open>A variable keeps its default unless an argument names its flag.\<close>

lemma field_kept:
  assumes "flag_parse (all_flags others) args default_flags = Inr (fl, rest)" and "\<forall>a\<in>set args. flag_name a \<noteq> name"
    and "P default_flags"
    and "\<And>n f s st st1. n \<noteq> name \<Longrightarrow> all_flags others n = Some f \<Longrightarrow> sets s f st st1 \<Longrightarrow> P st \<Longrightarrow> P st1"
  shows "P fl"
  using assms(1) assms(3) by (rule flag_parse_keeps) (use assms(2,4) in blast)

lemma Itoa_ports: "Itoa defaultHealthCheckPort = ''8081''"
  by (simp add: Itoa.simps defaultHealthCheckPort_def char_of_def bit_0)

lemma written_by_its_flag:
  assumes "all_flags others n = Some f" and "sets s f st st1"
  shows "n \<noteq> ''healthcheck-addr'' \<Longrightarrow> fl_healthcheckAddr st1 = fl_healthcheckAddr st"
    and "n \<noteq> ''enable-leader-election'' \<Longrightarrow> fl_enableLeaderElection st1 = fl_enableLeaderElection st"
    and "n \<noteq> ''disable-approved-check'' \<Longrightarrow> fl_disableApprovedCheck st1 = fl_disableApprovedCheck st"
    and "n \<noteq> ''cluster-resource-namespace'' \<Longrightarrow> fl_clusterResourceNamespace st1 = fl_clusterResourceNamespace st"
    and "n \<noteq> ''adcsTemplateName'' \<Longrightarrow> fl_adcsTemplateName st1 = fl_adcsTemplateName st"
  using assms by (auto simp: all_flags_def main_flags_def split: if_splits option.splits)

lemma defaults_kept:
  assumes "flag_parse (all_flags others) args default_flags = Inr (fl, rest)"
  shows "\<forall>a\<in>set args. flag_name a \<noteq> ''healthcheck-addr'' \<Longrightarrow> fl_healthcheckAddr fl = '':8081''"
    and "\<forall>a\<in>set args. flag_name a \<noteq> ''enable-leader-election'' \<Longrightarrow> \<not> fl_enableLeaderElection fl"
    and "\<forall>a\<in>set args. flag_name a \<noteq> ''disable-approved-check'' \<Longrightarrow> \<not> fl_disableApprovedCheck fl"
    and "\<forall>a\<in>set args. flag_name a \<noteq> ''cluster-resource-namespace'' \<Longrightarrow> fl_clusterResourceNamespace fl = ''kube-system''"
    and "\<forall>a\<in>set args. flag_name a \<noteq> ''adcsTemplateName'' \<Longrightarrow> fl_adcsTemplateName fl = ''BasicSSLWebServer''"
  by (rule field_kept [OF assms, where P = "\<lambda>fl. fl_healthcheckAddr fl = '':8081''"]
        field_kept [OF assms, where P = "\<lambda>fl. \<not> fl_enableLeaderElection fl"]
        field_kept [OF assms, where P = "\<lambda>fl. \<not> fl_disableApprovedCheck fl"]
        field_kept [OF assms, where P = "\<lambda>fl. fl_clusterResourceNamespace fl = ''kube-system''"]
        field_kept [OF assms, where P = "\<lambda>fl. fl_adcsTemplateName fl = ''BasicSSLWebServer''"],
      assumption, simp add: default_flags_def Itoa_ports, simp add: written_by_its_flag)+

lemma startup_stops:
  assumes "startup env cs = (made, code)" and "cs \<noteq> []"
  shows "\<exists>n. 1 \<le> n \<and> n \<le> length cs \<and> made = take n cs \<and> (\<forall>c\<in>set (butlast made). env c = None) \<and>
    (if env (last made) = None then n = length cs \<and> code = 0 else code = 1)"
  using assms
proof (induction cs arbitrary: made code)
  case (Cons c cs)
  show ?case
  proof (cases "env c = None \<and> cs \<noteq> []")
    case False
    with Cons.prems(1) show ?thesis by (intro exI [of _ 1]) (auto split: option.splits)
  next
    case True
    with Cons.prems(1) obtain made' where made: "startup env cs = (made', code)" "made = c # made'"
      by (auto split: prod.splits)
    from Cons.IH [OF made(1)] True obtain n where n: "1 \<le> n" "n \<le> length cs" "made' = take n cs"
        "\<forall>c\<in>set (butlast made'). env c = None"
        "if env (last made') = None then n = length cs \<and> code = 0 else code = 1" by blast
    from n(1,2) have "made' \<noteq> []" unfolding n(3) by auto
    show ?thesis
    proof (intro exI [of _ "Suc n"] conjI)
      show "made = take (Suc n) (c # cs)" unfolding made(2) n(3) by simp
      show "\<forall>c\<in>set (butlast made). env c = None" using n(4) True \<open>made' \<noteq> []\<close> unfolding made(2) by simp
      show "if env (last made) = None then Suc n = length (c # cs) \<and> code = 0 else code = 1"
        using n(5) \<open>made' \<noteq> []\<close> unfolding made(2) by simp
    qed (use n(2) in simp_all)
  qed
qed simp

text \<open>The address for metrics and the port for web hooks are parsed and never used.\<close>

lemma metrics_and_webhook_flags_have_no_effect:
  "setup_calls (fl\<lparr>fl_metricsAddr := a, fl_webhooksPort := p\<rparr>) = setup_calls fl"
  by (simp add: setup_calls_def)

text \<open>
  Flags that documents and manifests name and the program does not have: it then prints the
  usage and exits with 2.
\<close>

lemma unknown_flag:
  assumes "all_flags others (flag_name a) = None" and "flag_name a \<noteq> ''help''" and "flag_name a \<noteq> ''h''"
    and "2 \<le> length a" and "hd a = CHR ''-''" and "a \<noteq> ''--''"
  shows "main_program others env (a # args) = ([], 2)"
  using assms by (simp add: main_program_def flag_name_def exit_of_def)

lemmas flag_words = flag_name_def strip_minus_def split_flag_def all_flags_def main_flags_def

lemma documented_flags_are_unknown:
  "others ''enable-approved-check'' = None \<Longrightarrow> main_program others env (''-enable-approved-check=false'' # args) = ([], 2)"
  "others ''clusterResourceNamespace'' = None \<Longrightarrow> main_program others env (''-clusterResourceNamespace=x'' # args) = ([], 2)"
  "others ''metrics-addr'' = None \<Longrightarrow> main_program others env (''--metrics-addr=127.0.0.1:8080'' # args) = ([], 2)"
  "others ''health-probe-bind-address'' = None \<Longrightarrow> main_program others env (''--health-probe-bind-address=:8081'' # args) = ([], 2)"
  "others ''leader-elect'' = None \<Longrightarrow> main_program others env (''--leader-elect'' # args) = ([], 2)"
  by (rule unknown_flag; simp add: flag_words)+

section \<open>Guarantees\<close>

text \<open>The arguments of the deployment manifest.\<close>

definition sample_args :: "string list" where
  "sample_args = [''--enable-leader-election=true'', ''--cluster-resource-namespace=cert-manager'',
     ''--zap-log-level=5'', ''--disable-approved-check=false'']"

definition sample_others :: "string \<Rightarrow> (bool \<times> (string \<Rightarrow> bool)) option" where
  "sample_others name =
     (if name = ''zap-devel'' then Some (True, \<lambda>v. v = ''true'' \<or> v = ''false'')
      else if name = ''zap-log-level'' then Some (False, \<lambda>v. v \<noteq> '''') else None)"

definition sample_fl :: Flags where
  "sample_fl = default_flags\<lparr>fl_enableLeaderElection := True, fl_clusterResourceNamespace := ''cert-manager''\<rparr>"

lemma sample_parsed: "flag_parse (all_flags sample_others) sample_args default_flags = Inr (sample_fl, [])"
  by (simp add: sample_args_def strip_minus_def split_flag_def all_flags_def main_flags_def
      sample_others_def ParseBool_def sample_fl_def default_flags_def)

lemma sample_main: "main_program sample_others (\<lambda>c. None) sample_args = (setup_calls sample_fl, 0)"
  by (simp add: main_program_def sample_parsed setup_calls_def)

text \<open>
  C20. The start-up is all or nothing. A command line that is not understood ends the program
  before anything is called, with exit code 0 for a request for help and 2 for an error. Otherwise the
  nine calls of the start-up are made one after the other, up to the first that fails: the
  configuration, the manager with the health address and leader election of the flags, both
  probes, the controller of CertificateRequests with the approval gate, that of AdcsRequests with the
  namespace and template of the flags, those of the two kinds of issuer, and the manager's start.
  The exit code is 1 when the last call made has failed; else all nine were made and it is 0. A
  value whose flag no argument names is its documented default.
\<close>

theorem startup_is_all_or_nothing:
  assumes "main_program others env args = (calls, code)"
  shows "case flag_parse (all_flags others) args default_flags of
      Inl err \<Rightarrow> calls = [] \<and> code = (if err = HelpWanted then 0 else 2)
    | Inr (fl, rest) \<Rightarrow>
        (\<exists>n. 1 \<le> n \<and> n \<le> 9 \<and> calls = take n
          [GetConfigOrDie,
           NewManager \<lparr>HealthProbeBindAddress = fl_healthcheckAddr fl,
             LeaderElection = fl_enableLeaderElection fl, LeaderElectionID = ''adcs-issuer-controller''\<rparr>,
           AddHealthzCheck ''healthz'', AddReadyzCheck ''readyz'',
           SetupCertificateRequest \<lparr>CheckApprovedCondition = (\<not> fl_disableApprovedCheck fl)\<rparr>,
           SetupAdcsRequest \<lparr>arr_IssuerFactory = \<lparr>ClusterResourceNamespace = fl_clusterResourceNamespace fl,
             fac_AdcsTemplateName = fl_adcsTemplateName fl\<rparr>\<rparr>,
           SetupAdcsIssuer, SetupClusterAdcsIssuer, StartManager] \<and>
          (\<forall>c\<in>set (butlast calls). env c = None) \<and>
          (if env (last calls) = None then n = 9 \<and> code = 0 else code = 1)) \<and>
        ((\<forall>a\<in>set args. flag_name a \<noteq> ''healthcheck-addr'') \<longrightarrow> fl_healthcheckAddr fl = '':8081'') \<and>
        ((\<forall>a\<in>set args. flag_name a \<noteq> ''enable-leader-election'') \<longrightarrow> \<not> fl_enableLeaderElection fl) \<and>
        ((\<forall>a\<in>set args. flag_name a \<noteq> ''disable-approved-check'') \<longrightarrow> \<not> fl_disableApprovedCheck fl) \<and>
        ((\<forall>a\<in>set args. flag_name a \<noteq> ''cluster-resource-namespace'') \<longrightarrow>
          fl_clusterResourceNamespace fl = ''kube-system'') \<and>
        ((\<forall>a\<in>set args. flag_name a \<noteq> ''adcsTemplateName'') \<longrightarrow> fl_adcsTemplateName fl = ''BasicSSLWebServer'')"
  using assms
proof (cases rule: main_cases)
  case (usage err)
  then show ?thesis by (simp add: exit_of_def)
next
  case (start fl rest)
  have "setup_calls fl \<noteq> []" "length (setup_calls fl) = 9" by (simp_all add: setup_calls_def)
  from startup_stops [OF start(2) this(1), unfolded this(2)] defaults_kept [OF start(1)]
  show ?thesis unfolding start(1) sum.case prod.case setup_calls_def by blast
qed

theorem startup_is_all_or_nothing_witness:
  "main_program sample_others (\<lambda>c. if c = StartManager then Some (Err ''port in use'') else None) sample_args =
     ([GetConfigOrDie,
       NewManager \<lparr>HealthProbeBindAddress = '':8081'', LeaderElection = True, LeaderElectionID = ''adcs-issuer-controller''\<rparr>,
       AddHealthzCheck ''healthz'', AddReadyzCheck ''readyz'',
       SetupCertificateRequest \<lparr>CheckApprovedCondition = True\<rparr>,
       SetupAdcsRequest \<lparr>arr_IssuerFactory =
         \<lparr>ClusterResourceNamespace = ''cert-manager'', fac_AdcsTemplateName = ''BasicSSLWebServer''\<rparr>\<rparr>,
       SetupAdcsIssuer, SetupClusterAdcsIssuer, StartManager], 1)"
proof -
  let ?env = "\<lambda>c. if c = StartManager then Some (Err ''port in use'') else None"
  obtain calls code where run: "main_program sample_others ?env sample_args = (calls, code)" by fastforce
  have fl: "fl_enableLeaderElection sample_fl" "fl_clusterResourceNamespace sample_fl = ''cert-manager''"
    by (simp_all add: sample_fl_def)
  have args: "\<forall>a\<in>set sample_args. flag_name a \<noteq> ''healthcheck-addr''"
      "\<forall>a\<in>set sample_args. flag_name a \<noteq> ''adcsTemplateName''"
    by (simp_all add: sample_args_def flag_name_def strip_minus_def split_flag_def)
  have approved: "\<not> fl_disableApprovedCheck sample_fl" by (simp add: sample_fl_def default_flags_def)
  from startup_is_all_or_nothing [OF run] args obtain n where n: "1 \<le> n" "n \<le> 9"
      "calls = take n (setup_calls sample_fl)" "if ?env (last calls) = None then n = 9 \<and> code = 0 else code = 1"
      "fl_healthcheckAddr sample_fl = '':8081''"
      "fl_adcsTemplateName sample_fl = ''BasicSSLWebServer''"
    unfolding sample_parsed sum.case prod.case setup_calls_def by blast
  have "last calls \<in> set calls" using n(1,3) by (simp add: setup_calls_def)
  have "n = 9"
  proof (rule ccontr)
    assume "n \<noteq> 9"
    have "length (setup_calls sample_fl) = 9" by (simp add: setup_calls_def)
    with \<open>n \<noteq> 9\<close> n(2) have "calls = take n (butlast (setup_calls sample_fl))"
      unfolding n(3) by (simp add: take_butlast)
    then have "set calls \<subseteq> set (butlast (setup_calls sample_fl))" by (simp add: set_take_subset)
    then have "StartManager \<notin> set calls" by (auto simp: setup_calls_def)
    with n(4) \<open>n \<noteq> 9\<close> \<open>last calls \<in> set calls\<close> show False by (auto split: if_splits)
  qed
  with n(3-) fl approved show ?thesis unfolding run by (simp add: setup_calls_def)
qed

text \<open>
  C19. Approval is required unless the operator gives it up: when no argument turns the flag
  disable-approved-check on, the program sets up a controller that creates AdcsRequests only
  for CertificateRequests that are approved, whatever the other arguments are. The witness
  starts the program with the arguments of the deployment manifest.
\<close>

theorem approval_is_required_by_default:
  assumes "main_program others env args = (calls, code)"
    and "\<forall>a\<in>set args. flag_name a = ''disable-approved-check'' \<longrightarrow> bool_value a \<noteq> Some True"
    and "SetupCertificateRequest rc \<in> set calls"
    and "run ((CGetCR key, AGetCR (Inr cr)) # tr) (CertificateRequest_Reconcile L rc key) = Some z"
    and "(CCreateAR ar, x) \<in> set tr"
  shows "cm_IsApproved L cr"
  using assms(1)
proof (cases rule: main_cases)
  case (start fl rest)
  have "SetupCertificateRequest rc \<in> set (setup_calls fl)"
    using assms(3) startup_calls(1) [OF start(2)] set_mono_prefix by blast
  then have "CheckApprovedCondition rc"
    using approval_kept [OF start(1) assms(2)] by (simp add: setup_calls_unique)
  moreover from assms(4) have "processable L rc cr"
    by (cases rule: CR_reconcile_cases)
       (use assms(5) in \<open>auto simp: run_iffs status_trace_def Let_def split: if_splits\<close>)
  ultimately show ?thesis by (simp add: processable_def)
qed (use assms(3) in simp)

theorem approval_is_required_by_default_witness:
  "cm_IsApproved sample_lib approved_cr"
proof -
  have "\<forall>a\<in>set sample_args. flag_name a = ''disable-approved-check'' \<longrightarrow> bool_value a \<noteq> Some True"
    by (simp add: sample_args_def flag_name_def bool_value_def strip_minus_def split_flag_def ParseBool_def)
  moreover have "SetupCertificateRequest strict \<in> set (setup_calls sample_fl)"
    by (simp add: setup_calls_def sample_fl_def default_flags_def strict_def)
  moreover have "(CCreateAR (new_AdcsRequest sample_lib approved_cr), AErr None) \<in> set replace_trace"
    by (simp add: replace_trace_def)
  ultimately show ?thesis
    using approval_is_required_by_default [OF sample_main _ _ replace_run] by blast
qed

end
