(* ===== verification/Access.thy ===== *)
theory Access
  imports Main_Program Issuer_Controllers Issuer_Theorems AdcsRequest_Theorems
begin

text \<open>
  What the program is registered for and what it is permitted to do: the scheme that
  \<open>src/main.go\<close> builds from the registrations in \<open>src/api/v1\<close>, the kinds that the four
  controllers watch (\<open>SetupWithManager\<close>), the role that the markers \<open>+kubebuilder:rbac\<close> in the
  sources ask for. The role is compared with the permissions that
  Kubernetes documents for the calls the reconcilers make.
\<close>

section \<open>The scheme\<close>

record GroupVersionKind =
  gvk_Group :: string
  gvk_Version :: string
  gvk_Kind :: string

text \<open>\<open>SchemeBuilder.Register\<close> in the three files, in the order in which Go runs their \<open>init\<close>.\<close>

definition adcsissuer_types :: "string list" where
  "adcsissuer_types = [''AdcsIssuer'', ''AdcsIssuerList'']"

definition adcsrequest_types :: "string list" where
  "adcsrequest_types = [''AdcsRequest'', ''AdcsRequestList'']"

definition clusteradcsissuer_types :: "string list" where
  "clusteradcsissuer_types = [''ClusterAdcsIssuer'', ''ClusterAdcsIssuerList'']"

definition SchemeBuilder :: "string list" where
  "SchemeBuilder = adcsissuer_types @ adcsrequest_types @ clusteradcsissuer_types"

definition adcs_gvk :: "string \<Rightarrow> GroupVersionKind" where
  "adcs_gvk k = \<lparr>gvk_Group = GroupVersion_Group, gvk_Version = GroupVersion_Version, gvk_Kind = k\<rparr>"

definition adcs_AddToScheme :: "GroupVersionKind list \<Rightarrow> GroupVersionKind list" where
  "adcs_AddToScheme scheme = scheme @ map adcs_gvk SchemeBuilder"

text \<open>The package's \<open>init\<close>: the schemes of client-go and of cert-manager are arguments.\<close>

definition main_scheme ::
    "(GroupVersionKind list \<Rightarrow> GroupVersionKind list) \<Rightarrow> (GroupVersionKind list \<Rightarrow> GroupVersionKind list) \<Rightarrow>
       GroupVersionKind list" where
  "main_scheme clientgoscheme_AddToScheme certmanager_AddToScheme =
     (let scheme = [];
          scheme = clientgoscheme_AddToScheme scheme;
          scheme = certmanager_AddToScheme scheme;
          scheme = adcs_AddToScheme scheme
      in scheme)"

text \<open>What such a function is documented to do: it adds its kinds and keeps those there are.\<close>

definition adds :: "GroupVersionKind list \<Rightarrow> (GroupVersionKind list \<Rightarrow> GroupVersionKind list) \<Rightarrow> bool" where
  "adds kinds f = (\<forall>scheme. set scheme \<union> set kinds \<subseteq> set (f scheme))"

definition core_gvk :: "string \<Rightarrow> GroupVersionKind" where
  "core_gvk k = \<lparr>gvk_Group = '''', gvk_Version = ''v1'', gvk_Kind = k\<rparr>"

definition certificateRequestGvk :: GroupVersionKind where
  "certificateRequestGvk =
     \<lparr>gvk_Group = ''cert-manager.io'', gvk_Version = ''v1'', gvk_Kind = ''CertificateRequest''\<rparr>"

section \<open>The controllers\<close>

text \<open>The argument of \<open>For\<close> in each \<open>SetupWithManager\<close>: the controller watches objects of this kind.\<close>

definition CertificateRequest_For :: GroupVersionKind where
  "CertificateRequest_For = certificateRequestGvk"

definition AdcsRequest_For :: GroupVersionKind where
  "AdcsRequest_For = adcs_gvk ''AdcsRequest''"

definition AdcsIssuer_For :: GroupVersionKind where
  "AdcsIssuer_For = adcs_gvk ''AdcsIssuer''"

definition ClusterAdcsIssuer_For :: GroupVersionKind where
  "ClusterAdcsIssuer_For = adcs_gvk ''ClusterAdcsIssuer''"

text \<open>The argument of \<open>For\<close> in each \<open>SetupWebhookWithManager\<close>: the hooks are for objects of this kind.\<close>

definition AdcsIssuer_webhook_For :: GroupVersionKind where
  "AdcsIssuer_webhook_For = adcs_gvk ''AdcsIssuer''"

definition ClusterAdcsIssuer_webhook_For :: GroupVersionKind where
  "ClusterAdcsIssuer_webhook_For = adcs_gvk ''ClusterAdcsIssuer''"

primrec watched :: "setup_call \<Rightarrow> GroupVersionKind option" where
  "watched GetConfigOrDie = None"
| "watched (NewManager opts) = None"
| "watched (AddHealthzCheck n) = None"
| "watched (AddReadyzCheck n) = None"
| "watched (SetupCertificateRequest r) = Some CertificateRequest_For"
| "watched (SetupAdcsRequest r) = Some AdcsRequest_For"
| "watched SetupAdcsIssuer = Some AdcsIssuer_For"
| "watched SetupClusterAdcsIssuer = Some ClusterAdcsIssuer_For"
| "watched StartManager = None"

section \<open>The role\<close>

text \<open>A permission: API group, resource, verb. A rule grants the products of its lists.\<close>

type_synonym permission = "string \<times> string \<times> string"

record PolicyRule =
  pr_groups :: "string list"
  pr_resources :: "string list"
  pr_verbs :: "string list"

definition grants :: "PolicyRule list \<Rightarrow> permission \<Rightarrow> bool" where
  "grants rules = (\<lambda>(g, res, v). list_ex (\<lambda>r. List.member (pr_groups r) g \<and>
     List.member (pr_resources r) res \<and> List.member (pr_verbs r) v) rules)"

definition adcsissuer_rules :: "PolicyRule list" where
  "adcsissuer_rules =
     [\<lparr>pr_groups = [''adcs.certmanager.csf.nokia.com''], pr_resources = [''adcsissuers''],
       pr_verbs = [''get'', ''list'', ''watch'', ''create'', ''update'', ''patch'', ''delete'']\<rparr>,
      \<lparr>pr_groups = [''adcs.certmanager.csf.nokia.com''], pr_resources = [''adcsissuers/status''],
       pr_verbs = [''get'', ''update'', ''patch'']\<rparr>]"

definition adcsrequest_rules :: "PolicyRule list" where
  "adcsrequest_rules =
     [\<lparr>pr_groups = [''adcs.certmanager.csf.nokia.com''], pr_resources = [''adcsrequests''],
       pr_verbs = [''get'', ''list'', ''watch'', ''create'', ''update'', ''patch'', ''delete'']\<rparr>,
      \<lparr>pr_groups = [''adcs.certmanager.csf.nokia.com''], pr_resources = [''adcsrequests/status''],
       pr_verbs = [''get'', ''update'', ''patch'']\<rparr>]"

definition certificaterequest_rules :: "PolicyRule list" where
  "certificaterequest_rules =
     [\<lparr>pr_groups = [''cert-manager.io''], pr_resources = [''certificaterequests''],
       pr_verbs = [''get'', ''list'', ''watch'', ''update'', ''patch'']\<rparr>,
      \<lparr>pr_groups = [''cert-manager.io''],
       pr_resources = [''certificaterequests/status'', ''certificates/finalizers'', ''certificaterequests/finalizers''],
       pr_verbs = [''get'', ''update'', ''patch'']\<rparr>,
      \<lparr>pr_groups = [''''], pr_resources = [''events''], pr_verbs = [''patch'', ''create'']\<rparr>]"

definition clusteradcsissuer_rules :: "PolicyRule list" where
  "clusteradcsissuer_rules =
     [\<lparr>pr_groups = [''adcs.certmanager.csf.nokia.com''], pr_resources = [''clusteradcsissuers''],
       pr_verbs = [''get'', ''list'', ''watch'', ''create'', ''update'', ''patch'', ''delete'']\<rparr>,
      \<lparr>pr_groups = [''adcs.certmanager.csf.nokia.com''], pr_resources = [''clusteradcsissuers/status''],
       pr_verbs = [''get'', ''update'', ''patch'']\<rparr>]"

definition issuer_factory_rules :: "PolicyRule list" where
  "issuer_factory_rules =
     [\<lparr>pr_groups = [''''], pr_resources = [''secrets''], pr_verbs = [''get'', ''list'', ''watch'']\<rparr>,
      \<lparr>pr_groups = [''''], pr_resources = [''configmaps''], pr_verbs = [''get'']\<rparr>]"

definition manager_role :: "PolicyRule list" where
  "manager_role = adcsissuer_rules @ adcsrequest_rules @ certificaterequest_rules @
     clusteradcsissuer_rules @ issuer_factory_rules"

section \<open>What the calls need\<close>

text \<open>
  As Kubernetes documents: a client that reads through a cache (\<open>cached\<close>; the default of the
  manager, which \<open>src/main.go\<close> keeps) lists and watches what it reads, a direct client gets it;
  writes and events go to the server directly, a status is a resource of its own, repeated
  events are patched, and an owner reference that blocks the deletion of its owner needs
  the permission to update the owner's finalizers.
\<close>

definition read_needs :: "bool \<Rightarrow> string \<Rightarrow> string \<Rightarrow> permission list" where
  "read_needs cached g res = map (\<lambda>v. (g, res, v)) (if cached then [''list'', ''watch''] else [''get''])"

primrec needs :: "bool \<Rightarrow> call \<Rightarrow> permission list" where
  "needs cached (CHttp cl rq) = []"
| "needs cached (CCloseBody res) = []"
| "needs cached (CGetenv v) = []"
| "needs cached (CGetAR k) = read_needs cached GroupVersion_Group ''adcsrequests''"
| "needs cached (CGetCR k) = read_needs cached ''cert-manager.io'' ''certificaterequests''"
| "needs cached (CGetAI k) = read_needs cached GroupVersion_Group ''adcsissuers''"
| "needs cached (CGetCAI k) = read_needs cached GroupVersion_Group ''clusteradcsissuers''"
| "needs cached (CGetSecret k) = read_needs cached '''' ''secrets''"
| "needs cached (CGetConfigMap k) = read_needs cached '''' ''configmaps''"
| "needs cached (CCreateAR ar) =
     [(GroupVersion_Group, ''adcsrequests'', ''create''), (''cert-manager.io'', ''certificaterequests/finalizers'', ''update'')]"
| "needs cached (CDeleteAR ar) = [(GroupVersion_Group, ''adcsrequests'', ''delete'')]"
| "needs cached (CUpdateARStatus ar) = [(GroupVersion_Group, ''adcsrequests/status'', ''update'')]"
| "needs cached (CUpdateCRStatus cr) = [(''cert-manager.io'', ''certificaterequests/status'', ''update'')]"
| "needs cached (CEvent obj et rs msg) = [('''', ''events'', ''create''), ('''', ''events'', ''patch'')]"
| "needs cached CNow = []"
| "needs cached (CKrbLoadConfig path) = []"
| "needs cached (CKrbLogin user realm pass) = []"
| "needs cached CSystemCertPool = []"

text \<open>The kind of the objects a call is about.\<close>

primrec kind_of :: "call \<Rightarrow> GroupVersionKind option" where
  "kind_of (CHttp cl rq) = None"
| "kind_of (CCloseBody res) = None"
| "kind_of (CGetenv v) = None"
| "kind_of (CGetAR k) = Some (adcs_gvk ''AdcsRequest'')"
| "kind_of (CGetCR k) = Some certificateRequestGvk"
| "kind_of (CGetAI k) = Some (adcs_gvk ''AdcsIssuer'')"
| "kind_of (CGetCAI k) = Some (adcs_gvk ''ClusterAdcsIssuer'')"
| "kind_of (CGetSecret k) = Some (core_gvk ''Secret'')"
| "kind_of (CGetConfigMap k) = Some (core_gvk ''ConfigMap'')"
| "kind_of (CCreateAR ar) = Some (adcs_gvk ''AdcsRequest'')"
| "kind_of (CDeleteAR ar) = Some (adcs_gvk ''AdcsRequest'')"
| "kind_of (CUpdateARStatus ar) = Some (adcs_gvk ''AdcsRequest'')"
| "kind_of (CUpdateCRStatus cr) = Some certificateRequestGvk"
| "kind_of (CEvent obj et rs msg) =
     (case obj of OAR _ \<Rightarrow> Some (adcs_gvk ''AdcsRequest'') | OCR _ \<Rightarrow> Some certificateRequestGvk)"
| "kind_of CNow = None"
| "kind_of (CKrbLoadConfig path) = None"
| "kind_of (CKrbLogin user realm pass) = None"
| "kind_of CSystemCertPool = None"

section \<open>Lemmas\<close>

lemmas role_defs = manager_role_def adcsissuer_rules_def adcsrequest_rules_def certificaterequest_rules_def
  clusteradcsissuer_rules_def issuer_factory_rules_def

definition granted :: "permission list" where
  "granted = map (Pair GroupVersion_Group)
       [(''adcsrequests'', ''get''), (''adcsrequests'', ''list''), (''adcsrequests'', ''watch''),
        (''adcsrequests'', ''create''), (''adcsrequests'', ''delete''), (''adcsrequests/status'', ''update''),
        (''adcsissuers'', ''get''), (''adcsissuers'', ''list''), (''adcsissuers'', ''watch''),
        (''clusteradcsissuers'', ''get''), (''clusteradcsissuers'', ''list''), (''clusteradcsissuers'', ''watch'')] @
     map (Pair ''cert-manager.io'')
       [(''certificaterequests'', ''get''), (''certificaterequests'', ''list''), (''certificaterequests'', ''watch''),
        (''certificaterequests/status'', ''update''), (''certificaterequests/finalizers'', ''update'')] @
     map (Pair [])
       [(''secrets'', ''get''), (''secrets'', ''list''), (''secrets'', ''watch''), (''configmaps'', ''get''),
        (''events'', ''create''), (''events'', ''patch'')]"

lemma role_grants:
  "list_all (grants manager_role) granted"
  "\<not> grants manager_role ([], ''configmaps'', ''list'')" "\<not> grants manager_role ([], ''configmaps'', ''watch'')"
  by code_simp+

lemmas role_simps [simp] = role_grants [unfolded granted_def list.map list_all_append list.pred_inject append.simps]

lemma role_of_calls:
  assumes "p \<in> set (needs cached c)"
  shows "grants manager_role p \<longleftrightarrow> \<not> (cached \<and> (\<exists>k. c = CGetConfigMap k))"
  using assms by (cases c; cases cached; simp add: read_needs_def; elim disjE; simp)

text \<open>A ConfigMap is read only for a bundle that an issuer keeps there.\<close>

definition bundle_in_configmap :: "CABundleReference \<Rightarrow> bool" where
  "bundle_in_configmap ref = (cab_Name ref \<noteq> '''' \<and> ToLower (cab_Kind ref) = ''configmap'')"

definition bundle_read :: "trace \<Rightarrow> CABundleReference \<Rightarrow> bool" where
  "bundle_read tr ref =
     ((\<exists>k i. (CGetAI k, AGetAI (Inr i)) \<in> set tr \<and> ref = ai_CABundleRef (ai_Spec i)) \<or>
      (\<exists>k i. (CGetCAI k, AGetCAI (Inr i)) \<in> set tr \<and> ref = cai_CABundleRef (cai_Spec i)))"

lemma bundle_read_mono: "bundle_read tr1 ref \<Longrightarrow> set tr1 \<subseteq> set tr \<Longrightarrow> bundle_read tr ref"
  unfolding bundle_read_def by blast

definition no_configmap :: "call \<Rightarrow> bool" where
  "no_configmap c = (\<forall>k. c \<noteq> CGetConfigMap k)"

lemma ToLower_Secret: "ToLower ''Secret'' = ''secret''"
  by code_simp

lemma load_certs_configmap:
  "\<not> bundle_in_configmap ref \<Longrightarrow> only_calls no_configmap (load_certs L b ref ns)"
  by (auto simp: load_certs_def getCaBundle_def Let_def bundle_in_configmap_def no_configmap_def ToLower_Secret
      intro!: only_calls_bind split: sum.split)

lemma other_calls_configmap:
  "only_calls no_configmap (getUserPassword n ns)"
  "only_calls no_configmap (new_certsrv L url u p realm pool)"
  by (auto simp: getUserPassword_def new_certsrv_def NewKerberosCertsrv_def NewNtlmCertsrv_def krb_finish_def
      no_configmap_def bind_assoc Let_def intro!: only_calls_bind split: sum.split option.split)

lemma after_issuer:
  "run ((CGetAI k', AGetAI (Inr ai)) # tr) (getAdcsIssuer L f key) = Some z \<Longrightarrow>
     \<not> bundle_in_configmap (ai_CABundleRef (ai_Spec ai)) \<Longrightarrow> e \<in> set tr \<Longrightarrow> no_configmap (fst e)"
  "run ((CGetCAI k', AGetCAI (Inr cai)) # tr) (getClusterAdcsIssuer L f key) = Some z \<Longrightarrow>
     \<not> bundle_in_configmap (cai_CABundleRef (cai_Spec cai)) \<Longrightarrow> e \<in> set tr \<Longrightarrow> no_configmap (fst e)"
  unfolding getAdcsIssuer_def getClusterAdcsIssuer_def
  by (erule after_read,
      auto simp: Let_def intro!: only_calls_bind load_certs_configmap other_calls_configmap split: sum.split)+

lemma issuer_read_first:
  "run tr (getAdcsIssuer L f key) = Some z \<Longrightarrow> (CGetConfigMap k, a) \<in> set tr \<Longrightarrow>
     \<exists>ai tr'. tr = (CGetAI key, AGetAI (Inr ai)) # tr' \<and> (CGetConfigMap k, a) \<in> set tr'"
  "run tr (getClusterAdcsIssuer L f key) = Some z \<Longrightarrow> (CGetConfigMap k, a) \<in> set tr \<Longrightarrow>
     \<exists>key' cai tr'. tr = (CGetCAI key', AGetCAI (Inr cai)) # tr' \<and> (CGetConfigMap k, a) \<in> set tr'"
  unfolding getAdcsIssuer_def getClusterAdcsIssuer_def run_GetAI run_GetCAI split_sum_ex
  by auto

lemma factory_configmap:
  assumes "run tr (GetIssuer L f ref ns) = Some z" and "(CGetConfigMap k, a) \<in> set tr"
  shows "\<exists>ref. bundle_read tr ref \<and> bundle_in_configmap ref"
proof -
  from assms consider key where "run tr (getAdcsIssuer L f key) = Some z"
    | key where "run tr (getClusterAdcsIssuer L f key) = Some z"
    by (auto simp: GetIssuer_def Let_def split: if_splits)
  then show ?thesis
  proof cases
    case 1
    from issuer_read_first(1) [OF 1 assms(2)] obtain ai tr' where
      tr: "tr = (CGetAI key, AGetAI (Inr ai)) # tr'" "(CGetConfigMap k, a) \<in> set tr'" by blast
    have "bundle_in_configmap (ai_CABundleRef (ai_Spec ai))"
      using after_issuer(1) [OF 1 [unfolded tr(1)] _ tr(2)] by (auto simp: no_configmap_def)
    moreover have "bundle_read tr (ai_CABundleRef (ai_Spec ai))"
      unfolding bundle_read_def tr(1) by auto
    ultimately show ?thesis by blast
  next
    case 2
    from issuer_read_first(2) [OF 2 assms(2)] obtain key' cai tr' where
      tr: "tr = (CGetCAI key', AGetCAI (Inr cai)) # tr'" "(CGetConfigMap k, a) \<in> set tr'" by blast
    have "bundle_in_configmap (cai_CABundleRef (cai_Spec cai))"
      using after_issuer(2) [OF 2 [unfolded tr(1)] _ tr(2)] by (auto simp: no_configmap_def)
    moreover have "bundle_read tr (cai_CABundleRef (cai_Spec cai))"
      unfolding bundle_read_def tr(1) by auto
    ultimately show ?thesis by blast
  qed
qed

text \<open>The other parts of a reconciliation read no ConfigMap.\<close>

lemma rest_configmap:
  assumes "run tr (GetIssuer L f ref ns) = Some (Returned (Inr issuer))"
  shows "run tr2 (Issue L issuer ar) = Some z2 \<Longrightarrow> e \<in> set tr2 \<Longrightarrow> no_configmap (fst e)"
    and "run tr3 (publish L issuer ar' cert ca cr) = Some z3 \<Longrightarrow> e \<in> set tr3 \<Longrightarrow> no_configmap (fst e)"
proof -
  have quiet: "no_configmap c" if "web_call c \<or> publish_call c" for c
    using that by (cases c) (auto simp: no_configmap_def)
  then show "run tr2 (Issue L issuer ar) = Some z2 \<Longrightarrow> e \<in> set tr2 \<Longrightarrow> no_configmap (fst e)"
    using only_calls_run [OF adcs_certsrv.Issue_web [OF GetIssuer_contract [OF assms] refl]] by blast
  show "run tr3 (publish L issuer ar' cert ca cr) = Some z3 \<Longrightarrow> e \<in> set tr3 \<Longrightarrow> no_configmap (fst e)"
    using only_calls_run [OF publish_calls] quiet by blast
qed

lemma AR_configmap:
  assumes "run tr (AdcsRequest_Reconcile L r key) = Some z" and "(CGetConfigMap k, a) \<in> set tr"
  shows "\<exists>ref. bundle_read tr ref \<and> bundle_in_configmap ref"
proof -
  let ?e = "(CGetConfigMap k, a)"
  have clash: "\<not> no_configmap (fst ?e)" by (simp add: no_configmap_def)
  have "\<exists>tr1 f ref ns x. set tr1 \<subseteq> set tr \<and> run tr1 (GetIssuer L f ref ns) = Some x \<and> ?e \<in> set tr1"
    using assms(1)
  proof (cases rule: AR_reconcile_cases)
    case (unread err)
    with assms(2) show ?thesis by simp
  next
    case (no_issuer ar tr1 x)
    with assms(2) have "?e \<in> set tr1" "set tr1 \<subseteq> set tr" by auto
    with no_issuer(2) show ?thesis by blast
  next
    case (not_issued ar tr1 tr2 issuer x)
    have "?e \<notin> set tr2" using rest_configmap(1) [OF not_issued(2,3)] clash by blast
    with assms(2) not_issued have "?e \<in> set tr1" "set tr1 \<subseteq> set tr" by auto
    with not_issued(2) show ?thesis by blast
  next
    case (no_target ar tr1 tr2 issuer err ar' cert ca)
    have "?e \<notin> set tr2" using rest_configmap(1) [OF no_target(2,3)] clash by blast
    with assms(2) no_target have "?e \<in> set tr1" "set tr1 \<subseteq> set tr" by auto
    with no_target(2) show ?thesis by blast
  next
    case (published ar issuer res cr tr3)
    then obtain tr1 tr2 ar' cert ca where
      tr: "tr = (CGetAR key, AGetAR (Inr ar)) # tr1 @ tr2 @ (CGetCR key, AGetCR (Inr cr)) # tr3"
      and g: "run tr1 (GetIssuer L (arr_IssuerFactory r) (ar_IssuerRef (ar_Spec ar))
        (meta_Namespace (ar_meta ar))) = Some (Returned (Inr issuer))"
      and i: "run tr2 (Issue L issuer ar) = Some (Returned res)"
      and p: "run tr3 (publish L issuer ar' cert ca cr) = Some z"
      unfolding published_def by blast
    have "?e \<notin> set tr2" "?e \<notin> set tr3"
      using rest_configmap(1) [OF g i] rest_configmap(2) [OF g p] clash by blast+
    with assms(2) tr have "?e \<in> set tr1" "set tr1 \<subseteq> set tr" by auto
    with g show ?thesis by blast
  qed
  then obtain tr1 f ref ns x where "set tr1 \<subseteq> set tr" "run tr1 (GetIssuer L f ref ns) = Some x" "?e \<in> set tr1"
    by blast
  then show ?thesis using factory_configmap bundle_read_mono by blast
qed


text \<open>Secrets may be read and never written.\<close>

lemma secrets_read_only:
  "grants manager_role ([], ''secrets'', v) \<Longrightarrow> v = ''get'' \<or> v = ''list'' \<or> v = ''watch''"
  by (auto simp: grants_def role_defs)

text \<open>Each reconciler begins with its own kind, and every kind is registered.\<close>

lemmas For_defs = CertificateRequest_For_def AdcsRequest_For_def AdcsIssuer_For_def ClusterAdcsIssuer_For_def

lemma first_reads:
  "run tr (CertificateRequest_Reconcile L rc key) = Some z \<Longrightarrow> tr \<noteq> [] \<and> fst (hd tr) = CGetCR key"
  "run tr (AdcsRequest_Reconcile L ra key) = Some z \<Longrightarrow> tr \<noteq> [] \<and> fst (hd tr) = CGetAR key"
  "run tr (AdcsIssuer_Reconcile key) = Some z \<Longrightarrow> tr \<noteq> [] \<and> fst (hd tr) = CGetAI key"
  "run tr (ClusterAdcsIssuer_Reconcile key) = Some z \<Longrightarrow> tr \<noteq> [] \<and> fst (hd tr) = CGetCAI key"
  by (auto dest!: crr.reads_first arr.reads_first ai.reads_first cai.reads_first)

lemma registered:
  assumes "adds [core_gvk ''Secret'', core_gvk ''ConfigMap''] clientgo" and "adds [certificateRequestGvk] certmanager"
    and "kind_of c = Some k"
  shows "k \<in> set (main_scheme clientgo certmanager)"
proof -
  have "set (main_scheme clientgo certmanager) \<supseteq>
      {core_gvk ''Secret'', core_gvk ''ConfigMap'', certificateRequestGvk,
       adcs_gvk ''AdcsRequest'', adcs_gvk ''AdcsIssuer'', adcs_gvk ''ClusterAdcsIssuer''}"
    using assms(1,2)
    by (auto simp: main_scheme_def adcs_AddToScheme_def SchemeBuilder_def adcsissuer_types_def
        adcsrequest_types_def clusteradcsissuer_types_def adds_def Let_def)
  then show ?thesis using assms(3) by (cases c) (auto split: robject.splits)
qed

text \<open>The kinds of the hooks are those of the issuers, and registered like them.\<close>

lemma webhooks_are_for_registered_kinds:
  assumes "adds [core_gvk ''Secret'', core_gvk ''ConfigMap''] clientgo" and "adds [certificateRequestGvk] certmanager"
  shows "AdcsIssuer_webhook_For = AdcsIssuer_For" "ClusterAdcsIssuer_webhook_For = ClusterAdcsIssuer_For"
    and "{AdcsIssuer_webhook_For, ClusterAdcsIssuer_webhook_For} \<subseteq> set (main_scheme clientgo certmanager)"
  using registered [OF assms, of "CGetAI undefined"] registered [OF assms, of "CGetCAI undefined"]
  by (simp_all add: AdcsIssuer_webhook_For_def ClusterAdcsIssuer_webhook_For_def For_defs)

section \<open>Guarantees\<close>

text \<open>The kind each controller watches, with its reconciler.\<close>

definition controllers ::
    "lib \<Rightarrow> CertificateRequestReconciler \<Rightarrow> AdcsRequestReconciler \<Rightarrow> ObjectKey \<Rightarrow>
       (GroupVersionKind \<times> reconcile_result prog) list" where
  "controllers L rc ra key =
     [(CertificateRequest_For, CertificateRequest_Reconcile L rc key),
      (AdcsRequest_For, AdcsRequest_Reconcile L ra key),
      (AdcsIssuer_For, AdcsIssuer_Reconcile key),
      (ClusterAdcsIssuer_For, ClusterAdcsIssuer_Reconcile key)]"

lemma controllers_configmap:
  assumes "(g, rec) \<in> set (controllers L rc ra key)" and "run tr rec = Some z"
    and "(CGetConfigMap k, a) \<in> set tr"
  shows "\<exists>ref. bundle_read tr ref \<and> bundle_in_configmap ref"
proof -
  have "False" if "run tr (CertificateRequest_Reconcile L rc key) = Some z"
    using that by (cases rule: CR_reconcile_cases)
      (use assms(3) in \<open>auto simp: run_create_and_mark run_mark_denied status_trace_def Let_def split: if_splits\<close>)
  with assms show ?thesis
    by (auto simp: controllers_def reconcile_read_simps dest: AR_configmap)
qed

text \<open>The run of an issuer whose bundle is kept in a ConfigMap that may not be read.\<close>

definition forbidden_trace :: trace where
  "forbidden_trace =
     [(CGetAR sample_key, AGetAR (Inr (sample_ar StateUnknown ''''))),
      (CGetAI (sample_key\<lparr>key_Name := ''ca''\<rparr>), AGetAI (Inr (sample_issuer\<lparr>ai_Spec :=
         (ai_Spec sample_issuer)\<lparr>ai_CABundle := None,
           ai_CABundleRef := \<lparr>cab_Name = ''roots'', cab_Kind = ''ConfigMap'', cab_Key = '''', cab_Keys = []\<rparr>\<rparr>\<rparr>))),
      (CGetSecret \<lparr>key_Namespace = ''ns'', key_Name = ''cred''\<rparr>, AGetSecret (Inr sample_secret)),
      (CGetenv ''ADCS_AUTH_MODE'', AString ''''),
      (CGetConfigMap \<lparr>key_Namespace = ''ns'', key_Name = ''roots''\<rparr>, AGetConfigMap (Inl (Err ''forbidden'')))]"

lemma ToLower_ConfigMap: "ToLower ''ConfigMap'' = ''configmap''"
  by code_simp

lemma forbidden_run:
  "run forbidden_trace (AdcsRequest_Reconcile sample_lib sample_reconciler sample_key) =
     Some (Returned (zero_result, Some (Err ''CA Bundle required'')))"
  by (simp add: replay AdcsRequest_Reconcile_def GetIssuer_def getAdcsIssuer_def getUserPassword_def
      load_certs_def getCaBundle_def forbidden_trace_def Let_def sample_defs sample_reconciler_def sample_issuer_def
      ToLower_AdcsIssuer ToLower_ConfigMap del: ToLower.simps cong: bind_step)

text \<open>
  C21. The role that the sources ask for is the one the reconcilers need: whatever happens in
  a reconciliation, the role grants every permission that a call of it needs, reads through the
  cache and writes alike, except that ConfigMaps are not readable through the cache (the role
  grants get, and a cache lists and watches). Such a read happens only for an issuer whose CA
  bundle is referred to in a ConfigMap. Secrets are never writable. The witness is such an
  issuer: its ConfigMap may not be listed, and the reconciliation ends with an error.
\<close>

theorem calls_are_permitted:
  assumes "(g, rec) \<in> set (controllers L rc ra key)"
    and "run tr rec = Some z" and "(c, a) \<in> set tr" and "p \<in> set (needs cached c)"
  shows "(grants manager_role p \<longleftrightarrow> \<not> (cached \<and> (\<exists>k. c = CGetConfigMap k))) \<and>
    ((\<exists>k. c = CGetConfigMap k) \<longrightarrow> (\<exists>ref. bundle_read tr ref \<and> bundle_in_configmap ref)) \<and>
    (grants manager_role ('''', ''secrets'', v) \<longrightarrow> v \<in> {''get'', ''list'', ''watch''})"
  using role_of_calls [OF assms(4)] controllers_configmap [OF assms(1,2)] assms(3)
  by (auto simp: secrets_read_only)

theorem calls_are_permitted_witness:
  "\<not> grants manager_role ('''', ''configmaps'', ''list'') \<and>
   (\<exists>ref. bundle_read forbidden_trace ref \<and> bundle_in_configmap ref)"
proof -
  let ?c = "CGetConfigMap \<lparr>key_Namespace = ''ns'', key_Name = ''roots''\<rparr>"
  have "(AdcsRequest_For, AdcsRequest_Reconcile sample_lib sample_reconciler sample_key) \<in>
      set (controllers sample_lib strict sample_reconciler sample_key)"
    by (simp add: controllers_def)
  moreover have "(?c, AGetConfigMap (Inl (Err ''forbidden''))) \<in> set forbidden_trace"
    by (simp add: forbidden_trace_def)
  moreover have "('''', ''configmaps'', ''list'') \<in> set (needs True ?c)"
    by (simp add: read_needs_def)
  ultimately show ?thesis
    using calls_are_permitted [OF _ forbidden_run] by blast
qed

lemma unreadable_bundle:
  assumes "run tr (load_certs L b ref ns) = Some (Returned certs)" and "bundle_in_configmap ref"
    and "\<forall>k x. (CGetConfigMap k, AGetConfigMap (Inr x)) \<notin> set tr"
  shows "certs = b"
proof -
  have "cab_Name ref \<noteq> []" "cab_Kind ref \<noteq> []" "ToLower (cab_Kind ref) = ''configmap''"
    using assms(2) by (auto simp: bundle_in_configmap_def)
  then have "runs_sat (load_certs L b ref ns) (\<lambda>tr z.
      (\<forall>k x. (CGetConfigMap k, AGetConfigMap (Inr x)) \<notin> set tr) \<longrightarrow> z = Returned b)"
    by (auto simp: load_certs_def getCaBundle_def Let_def runs bind_assoc split: sum.split)
  from runs_satD [OF this assms(1)] assms(3) show ?thesis by simp
qed

text \<open>
  So an issuer whose bundle is only in a ConfigMap is never built while ConfigMaps cannot be
  read: the factory falls back to the empty inline bundle.
\<close>

lemma unreadable_configmap_gives_no_issuer:
  assumes "run ((CGetAI k', AGetAI (Inr ai)) # tr) (getAdcsIssuer L f key) = Some (Returned r)"
    and "bundle_in_configmap (ai_CABundleRef (ai_Spec ai))" and "slice_len (ai_CABundle (ai_Spec ai)) = 0"
    and "\<forall>k x. (CGetConfigMap k, AGetConfigMap (Inr x)) \<notin> set tr"
  shows "\<exists>err. r = Inl err"
proof -
  let ?spec = "ai_Spec ai" and ?ns = "meta_Namespace (ai_meta ai)"
  from assms(1) obtain f' where "run tr (bind (getUserPassword (lor_Name (ai_CredentialsRef ?spec)) ?ns)
      (\<lambda>r. case r of Inl pwError \<Rightarrow> Ret (Inl pwError)
        | Inr (u, p, realm) \<Rightarrow> bind (load_certs L (ai_CABundle ?spec) (ai_CABundleRef ?spec) ?ns) (\<lambda>certs.
            if slice_bytes certs = [] then Ret (Inl (Err ''CA Bundle required'')) else f' u p realm certs))) =
      Some (Returned r)"
    unfolding getAdcsIssuer_def run_GetAI Let_def by clarsimp
  then show ?thesis
  proof (cases rule: run_bind_cases)
    case (returned tr1 tr2 a)
    show ?thesis
    proof (cases a)
      case (Inr c)
      obtain u p realm where c: "c = (u, p, realm)" by (cases c)
      from returned(3) have "run tr2 (bind (load_certs L (ai_CABundle ?spec) (ai_CABundleRef ?spec) ?ns)
          (\<lambda>certs. if slice_bytes certs = [] then Ret (Inl (Err ''CA Bundle required'')) else f' u p realm certs)) =
          Some (Returned r)"
        by (simp add: Inr c)
      then show ?thesis
      proof (cases rule: run_bind_cases)
        case (returned tr3 tr4 certs)
        then have "certs = ai_CABundle ?spec"
          using assms(4) \<open>tr = tr1 @ tr2\<close> by (intro unreadable_bundle [OF _ assms(2)]) auto
        with returned(3) assms(3) show ?thesis by simp
      qed simp
    qed (use returned(3) in auto)
  qed simp
qed

text \<open>
  C22. The program knows every kind it works with: once the manager is started, the controllers
  watch exactly the four kinds, each reconciler begins by reading an object of the kind its
  controller watches, and every kind that a reconciliation reads, writes or reports on is
  registered in the scheme, when client-go and cert-manager register theirs.
\<close>

theorem controllers_watch_registered_kinds:
  assumes "adds [core_gvk ''Secret'', core_gvk ''ConfigMap''] clientgoscheme_AddToScheme"
    and "adds [certificateRequestGvk] certmanager_AddToScheme"
    and "main_program others env args = (calls, code)" and "StartManager \<in> set calls"
    and "(g, rec) \<in> set (controllers L rc ra key)" and "run tr rec = Some z"
  shows "g \<in> set (List.map_filter watched calls) \<and>
    set (List.map_filter watched calls) = fst ` set (controllers L rc ra key) \<and>
    tr \<noteq> [] \<and> kind_of (fst (hd tr)) = Some g \<and>
    set (List.map_filter (kind_of \<circ> fst) tr) \<subseteq>
      set (main_scheme clientgoscheme_AddToScheme certmanager_AddToScheme)"
proof -
  obtain fl where "calls = setup_calls fl"
    using started_calls [OF assms(3,4)] by blast
  then have w: "set (List.map_filter watched calls) = fst ` set (controllers L rc ra key)"
    by (simp add: setup_calls_def controllers_def List.map_filter_def)
  moreover have "g \<in> fst ` set (controllers L rc ra key)"
    using assms(5) by force
  moreover have "tr \<noteq> [] \<and> kind_of (fst (hd tr)) = Some g"
    using assms(5,6) by (auto simp: controllers_def For_defs dest!: first_reads)
  moreover have "set (List.map_filter (kind_of \<circ> fst) tr) \<subseteq>
      set (main_scheme clientgoscheme_AddToScheme certmanager_AddToScheme)"
    using registered [OF assms(1,2)] by (auto simp: List.map_filter_def)
  ultimately show ?thesis by simp
qed

lemma kinds_added: "adds ks (\<lambda>scheme. scheme @ ks)"
  by (simp add: adds_def)

theorem controllers_watch_registered_kinds_witness:
  "CertificateRequest_For \<in> set (main_scheme (\<lambda>scheme. scheme @ [core_gvk ''Secret'', core_gvk ''ConfigMap''])
     (\<lambda>scheme. scheme @ [certificateRequestGvk]))"
proof -
  have "(CertificateRequest_For, CertificateRequest_Reconcile sample_lib strict sample_key) \<in>
      set (controllers sample_lib strict sample_reconciler sample_key)"
    by (simp add: controllers_def)
  from controllers_watch_registered_kinds [OF kinds_added kinds_added sample_main _ this replace_run]
  show ?thesis by (auto simp: setup_calls_def List.map_filter_def)
qed

end
