(* ===== verification/Webhooks.thy ===== *)
theory Webhooks
  imports Issuer_Factory Samples
begin

text \<open>
  The admission web hooks of the issuers (\<open>src/api/v1/.adcsissuer_webhook.go\<close> and
  \<open>.clusteradcsissuer_webhook.go\<close>): the defaults that are filled in and the errors that
  validation collects. The file names keep the hooks out of the build, so the factory has
  defaults of its own; the theorem below relates the two. An error is modelled by the field and
  the value it names. The rules in the markers say when the hooks would be called.
\<close>

section \<open>Defaults\<close>

definition AdcsIssuer_Default :: "AdcsIssuer \<Rightarrow> AdcsIssuer" where
  "AdcsIssuer_Default r =
     (let r = (if ai_StatusCheckInterval (ai_Spec r) = '''' then
                 r\<lparr>ai_Spec := (ai_Spec r)\<lparr>ai_StatusCheckInterval := ''6h''\<rparr>\<rparr> else r);
          r = (if ai_RetryInterval (ai_Spec r) = '''' then
                 r\<lparr>ai_Spec := (ai_Spec r)\<lparr>ai_RetryInterval := ''1h''\<rparr>\<rparr> else r)
      in r)"

definition ClusterAdcsIssuer_Default :: "ClusterAdcsIssuer \<Rightarrow> ClusterAdcsIssuer" where
  "ClusterAdcsIssuer_Default r =
     (let r = (if cai_StatusCheckInterval (cai_Spec r) = '''' then
                 r\<lparr>cai_Spec := (cai_Spec r)\<lparr>cai_StatusCheckInterval := ''6h''\<rparr>\<rparr> else r);
          r = (if cai_RetryInterval (cai_Spec r) = '''' then
                 r\<lparr>cai_Spec := (cai_Spec r)\<lparr>cai_RetryInterval := ''1h''\<rparr>\<rparr> else r)
      in r)"

section \<open>Validation\<close>

definition word_chars :: "char list" where
  "word_chars = ''0123456789ABCDEFGHIJKLMNOPQRSTUVWXYZabcdefghijklmnopqrstuvwxyz_''"

definition re_host_chars :: re where
  "re_host_chars = Plus (Cls (OneOf (word_chars @ ''-_'')))"

text \<open>Only whether there is a match matters, so an optional group is an alternative.\<close>

definition re_url :: re where
  "re_url =
     Seq (Grp (Alt (lit ''http'') (lit ''https'')))
    (Seq (lit ''://'')
    (Seq (Grp (Seq re_host_chars (Plus (Seq (lit ''.'') re_host_chars))))
         (Alt (Grp (Seq (Star (Cls (OneOf (word_chars @ ''-.,@?^=%&amp;:/~+#''))))
                        (Cls (OneOf (word_chars @ ''-@?^=%&amp;/~+#'')))))
              Eps)))"

text \<open>\<open>field.Invalid\<close>: the path below the specification, and the value.\<close>

type_synonym invalid = "string \<times> string"

definition validateAdcsIssuer :: "lib \<Rightarrow> (slice \<Rightarrow> gerr option) \<Rightarrow> AdcsIssuer \<Rightarrow> invalid list" where
  "validateAdcsIssuer L DecodeX509CertificateBytes r =
     (let s = ai_Spec r;
          allErrs = [];
          allErrs = (if ParseDuration L (ai_RetryInterval s) = None
                     then allErrs @ [(''retryInterval'', ai_RetryInterval s)] else allErrs);
          allErrs = (if ParseDuration L (ai_StatusCheckInterval s) = None
                     then allErrs @ [(''statusCheckInterval'', ai_StatusCheckInterval s)] else allErrs);
          allErrs = (if \<not> MatchString re_url (ai_URL s)
                     then allErrs @ [(''url'', ai_URL s)] else allErrs);
          allErrs = (if DecodeX509CertificateBytes (ai_CABundle s) \<noteq> None
                     then allErrs @ [(''caBundle'', slice_bytes (ai_CABundle s))] else allErrs)
      in allErrs)"

definition validateClusterAdcsIssuer ::
    "lib \<Rightarrow> (slice \<Rightarrow> gerr option) \<Rightarrow> ClusterAdcsIssuer \<Rightarrow> invalid list" where
  "validateClusterAdcsIssuer L DecodeX509CertificateBytes r =
     (let s = cai_Spec r;
          allErrs = [];
          allErrs = (if ParseDuration L (cai_RetryInterval s) = None
                     then allErrs @ [(''retryInterval'', cai_RetryInterval s)] else allErrs);
          allErrs = (if ParseDuration L (cai_StatusCheckInterval s) = None
                     then allErrs @ [(''statusCheckInterval'', cai_StatusCheckInterval s)] else allErrs);
          allErrs = (if \<not> MatchString re_url (cai_URL s)
                     then allErrs @ [(''url'', cai_URL s)] else allErrs);
          allErrs = (if DecodeX509CertificateBytes (cai_CABundle s) \<noteq> None
                     then allErrs @ [(''caBundle'', slice_bytes (cai_CABundle s))] else allErrs)
      in allErrs)"

text \<open>
  What the validators return. The first result is declared as \<open>admission.Warnings\<close> and the
  second as the error; the code puts the API error first, which is not well typed (the files are
  not compiled), and \<open>nil\<close> second. The model keeps what is written: an API error where the warnings
  belong. Both kinds of issuer name the kind AdcsIssuer.
\<close>

record StatusError =
  se_Group :: string
  se_Kind :: string
  se_Name :: string
  se_Errors :: "invalid list"

type_synonym validation = "StatusError option \<times> gerr option"

definition AdcsIssuer_validate :: "lib \<Rightarrow> (slice \<Rightarrow> gerr option) \<Rightarrow> AdcsIssuer \<Rightarrow> validation" where
  "AdcsIssuer_validate L DecodeX509CertificateBytes r =
     (let allErrs = validateAdcsIssuer L DecodeX509CertificateBytes r in
      if length allErrs = 0 then (None, None)
      else (Some \<lparr>se_Group = ''adcs.certmanager.csf.nokia.com'', se_Kind = ''AdcsIssuer'',
                  se_Name = meta_Name (ai_meta r), se_Errors = allErrs\<rparr>, None))"

definition ClusterAdcsIssuer_validate :: "lib \<Rightarrow> (slice \<Rightarrow> gerr option) \<Rightarrow> ClusterAdcsIssuer \<Rightarrow> validation" where
  "ClusterAdcsIssuer_validate L DecodeX509CertificateBytes r =
     (let allErrs = validateClusterAdcsIssuer L DecodeX509CertificateBytes r in
      if length allErrs = 0 then (None, None)
      else (Some \<lparr>se_Group = ''adcs.certmanager.csf.nokia.com'', se_Kind = ''AdcsIssuer'',
                  se_Name = meta_Name (cai_meta r), se_Errors = allErrs\<rparr>, None))"

text \<open>The methods of \<open>webhook.Validator\<close>; an update does not look at the old object.\<close>

definition AdcsIssuer_ValidateCreate :: "lib \<Rightarrow> (slice \<Rightarrow> gerr option) \<Rightarrow> AdcsIssuer \<Rightarrow> validation" where
  "AdcsIssuer_ValidateCreate L DecodeX509CertificateBytes r = AdcsIssuer_validate L DecodeX509CertificateBytes r"

definition AdcsIssuer_ValidateUpdate ::
    "lib \<Rightarrow> (slice \<Rightarrow> gerr option) \<Rightarrow> AdcsIssuer \<Rightarrow> 'old \<Rightarrow> validation" where
  "AdcsIssuer_ValidateUpdate L DecodeX509CertificateBytes r old = AdcsIssuer_validate L DecodeX509CertificateBytes r"

definition AdcsIssuer_ValidateDelete :: "AdcsIssuer \<Rightarrow> validation" where
  "AdcsIssuer_ValidateDelete r = (None, None)"

definition ClusterAdcsIssuer_ValidateCreate ::
    "lib \<Rightarrow> (slice \<Rightarrow> gerr option) \<Rightarrow> ClusterAdcsIssuer \<Rightarrow> validation" where
  "ClusterAdcsIssuer_ValidateCreate L DecodeX509CertificateBytes r =
     ClusterAdcsIssuer_validate L DecodeX509CertificateBytes r"

definition ClusterAdcsIssuer_ValidateUpdate ::
    "lib \<Rightarrow> (slice \<Rightarrow> gerr option) \<Rightarrow> ClusterAdcsIssuer \<Rightarrow> 'old \<Rightarrow> validation" where
  "ClusterAdcsIssuer_ValidateUpdate L DecodeX509CertificateBytes r old =
     ClusterAdcsIssuer_validate L DecodeX509CertificateBytes r"

definition ClusterAdcsIssuer_ValidateDelete ::
    "lib \<Rightarrow> (slice \<Rightarrow> gerr option) \<Rightarrow> ClusterAdcsIssuer \<Rightarrow> validation" where
  "ClusterAdcsIssuer_ValidateDelete L DecodeX509CertificateBytes r =
     ClusterAdcsIssuer_validate L DecodeX509CertificateBytes r"

lemmas validation_defs = AdcsIssuer_validate_def ClusterAdcsIssuer_validate_def AdcsIssuer_ValidateCreate_def
  AdcsIssuer_ValidateUpdate_def AdcsIssuer_ValidateDelete_def ClusterAdcsIssuer_ValidateCreate_def
  ClusterAdcsIssuer_ValidateUpdate_def ClusterAdcsIssuer_ValidateDelete_def

text \<open>The second result, the error that would refuse the object, is nil in every case.\<close>

lemma hooks_return_no_error:
  "snd (AdcsIssuer_ValidateCreate L dec r) = None" "snd (AdcsIssuer_ValidateUpdate L dec r old) = None"
  "snd (AdcsIssuer_ValidateDelete r) = None"
  "snd (ClusterAdcsIssuer_ValidateCreate L dec c) = None" "snd (ClusterAdcsIssuer_ValidateUpdate L dec c old) = None"
  "snd (ClusterAdcsIssuer_ValidateDelete L dec c) = None"
  by (simp_all add: validation_defs Let_def)

section \<open>When the hooks are called\<close>

text \<open>
  The markers \<open>+kubebuilder:webhook\<close>: a hook is called for the API groups, resources and verbs
  of its rule, the mutating hook and the validating one alike.
\<close>

record WebhookRule =
  wr_groups :: "string list"
  wr_resources :: "string list"
  wr_verbs :: "string list"

definition called_for :: "WebhookRule \<Rightarrow> string \<Rightarrow> string \<Rightarrow> string \<Rightarrow> bool" where
  "called_for r g res v = (List.member (wr_groups r) g \<and> List.member (wr_resources r) res \<and>
     List.member (wr_verbs r) v)"

definition adcsissuer_mutation :: WebhookRule where
  "adcsissuer_mutation = \<lparr>wr_groups = [''adcs.certmanager.csf.nokia.com''], wr_resources = [''adcsissuer''],
     wr_verbs = [''create'', ''update'']\<rparr>"

definition adcsissuer_validation :: WebhookRule where
  "adcsissuer_validation = \<lparr>wr_groups = [''adcs.certmanager.csf.nokia.com''], wr_resources = [''adcsissuer''],
     wr_verbs = [''create'', ''update'']\<rparr>"

definition clusteradcsissuer_mutation :: WebhookRule where
  "clusteradcsissuer_mutation = \<lparr>wr_groups = [''batch.certmanager.csf.nokia.com''], wr_resources = [''clusteradcsissuers''],
     wr_verbs = [''create'', ''update'']\<rparr>"

definition clusteradcsissuer_validation :: WebhookRule where
  "clusteradcsissuer_validation = \<lparr>wr_groups = [''batch.certmanager.csf.nokia.com''], wr_resources = [''clusteradcsissuers''],
     wr_verbs = [''create'', ''update'']\<rparr>"

text \<open>
  So no hook would be called for the resources there are: one names the group that the
  program does not have, the other a resource in the singular.
\<close>

lemma hooks_match_no_resource:
  "list_all (\<lambda>r. \<not> called_for r GroupVersion_Group ''adcsissuers'' v \<and>
     \<not> called_for r GroupVersion_Group ''clusteradcsissuers'' v) 
     [adcsissuer_mutation, adcsissuer_validation, clusteradcsissuer_mutation, clusteradcsissuer_validation]"
  by (simp add: called_for_def GroupVersion_Group_def adcsissuer_mutation_def adcsissuer_validation_def
      clusteradcsissuer_mutation_def clusteradcsissuer_validation_def)

text \<open>
  And if they were: an issuer without an inline bundle, such as one that refers to a Secret or
  a ConfigMap, would be found invalid, and an issuer of the cluster even when it is deleted.
\<close>

lemma hooks_reject_bundle_references:
  assumes "DecodeX509CertificateBytes None \<noteq> None"
  shows "ai_CABundle (ai_Spec r) = None \<Longrightarrow> \<exists>e.
      fst (AdcsIssuer_ValidateCreate L DecodeX509CertificateBytes r) = Some e \<and> (''caBundle'', []) \<in> set (se_Errors e)"
    and "cai_CABundle (cai_Spec c) = None \<Longrightarrow> \<exists>e.
      fst (ClusterAdcsIssuer_ValidateDelete L DecodeX509CertificateBytes c) = Some e \<and> (''caBundle'', []) \<in> set (se_Errors e)"
  using assms
  by (simp_all add: validation_defs validateAdcsIssuer_def validateClusterAdcsIssuer_def Let_def)

section \<open>The hooks and the factory\<close>

definition as_cluster :: "AdcsIssuerSpec \<Rightarrow> ClusterAdcsIssuerSpec" where
  "as_cluster s = \<lparr>cai_URL = ai_URL s, cai_CredentialsRef = ai_CredentialsRef s, cai_CABundle = ai_CABundle s,
     cai_CABundleRef = ai_CABundleRef s, cai_StatusCheckInterval = ai_StatusCheckInterval s,
     cai_RetryInterval = ai_RetryInterval s, cai_TemplateName = ai_TemplateName s\<rparr>"

lemma hooks_agree:
  assumes "cai_Spec c = as_cluster (ai_Spec r)"
  shows "cai_Spec (ClusterAdcsIssuer_Default c) = as_cluster (ai_Spec (AdcsIssuer_Default r))"
    and "validateClusterAdcsIssuer L dec c = validateAdcsIssuer L dec r"
  using assms
  by (simp_all add: ClusterAdcsIssuer_Default_def AdcsIssuer_Default_def as_cluster_def Let_def
      validateClusterAdcsIssuer_def validateAdcsIssuer_def)

lemma default_fields:
  "ai_StatusCheckInterval (ai_Spec (AdcsIssuer_Default r)) =
     (if ai_StatusCheckInterval (ai_Spec r) = '''' then ''6h'' else ai_StatusCheckInterval (ai_Spec r))"
  "ai_RetryInterval (ai_Spec (AdcsIssuer_Default r)) =
     (if ai_RetryInterval (ai_Spec r) = '''' then ''1h'' else ai_RetryInterval (ai_Spec r))"
  by (simp_all add: AdcsIssuer_Default_def Let_def)

lemma getInterval_given: "getInterval L (if s = '''' then def else s) def = getInterval L s def"
  by (simp add: getInterval_def Let_def split: option.split)

lemma getInterval_parsed:
  "ParseDuration L s \<noteq> None \<Longrightarrow> ParseDuration L '''' = None \<Longrightarrow> Some (getInterval L s def) = ParseDuration L s"
  by (auto simp: getInterval_def Let_def)

lemma ParseDuration_Nil: "ParseDuration L '''' = None"
  by (simp add: ParseDuration_def)

lemma no_interval_errors:
  assumes "\<forall>e\<in>set (validateAdcsIssuer L dec r). fst e \<noteq> ''retryInterval'' \<and> fst e \<noteq> ''statusCheckInterval''"
  shows "ParseDuration L (ai_RetryInterval (ai_Spec r)) \<noteq> None"
    and "ParseDuration L (ai_StatusCheckInterval (ai_Spec r)) \<noteq> None"
  using assms by (auto simp: validateAdcsIssuer_def Let_def split: if_splits)

text \<open>
  C36. The web hooks and the factory agree on the intervals, so leaving the hooks out of the
  build loses nothing for them: defaulting twice is defaulting once; the intervals that the
  factory computes are the same with and without the defaults filled in; and when validation
  names no interval, the factory uses exactly the intervals that are written there, never a
  fallback. The hooks of the two kinds of issuers do the same.
\<close>

theorem webhook_and_factory_agree:
  assumes "cai_Spec c = as_cluster (ai_Spec r)"
  shows "AdcsIssuer_Default (AdcsIssuer_Default r) = AdcsIssuer_Default r \<and>
    getInterval L (ai_StatusCheckInterval (ai_Spec (AdcsIssuer_Default r))) defaultStatusCheckInterval =
      getInterval L (ai_StatusCheckInterval (ai_Spec r)) defaultStatusCheckInterval \<and>
    getInterval L (ai_RetryInterval (ai_Spec (AdcsIssuer_Default r))) defaultRetryInterval =
      getInterval L (ai_RetryInterval (ai_Spec r)) defaultRetryInterval \<and>
    ((\<forall>e\<in>set (validateAdcsIssuer L dec r). fst e \<noteq> ''retryInterval'' \<and> fst e \<noteq> ''statusCheckInterval'') \<longrightarrow>
      ParseDuration L (ai_RetryInterval (ai_Spec r)) =
        Some (getInterval L (ai_RetryInterval (ai_Spec r)) defaultRetryInterval) \<and>
      ParseDuration L (ai_StatusCheckInterval (ai_Spec r)) =
        Some (getInterval L (ai_StatusCheckInterval (ai_Spec r)) defaultStatusCheckInterval)) \<and>
    cai_Spec (ClusterAdcsIssuer_Default c) = as_cluster (ai_Spec (AdcsIssuer_Default r)) \<and>
    validateClusterAdcsIssuer L dec c = validateAdcsIssuer L dec r"
proof -
  have "AdcsIssuer_Default (AdcsIssuer_Default r) = AdcsIssuer_Default r"
    by (simp add: AdcsIssuer_Default_def Let_def)
  moreover note getInterval_given [of L "ai_StatusCheckInterval (ai_Spec r)" "''6h''"]
    getInterval_given [of L "ai_RetryInterval (ai_Spec r)" "''1h''"]
  ultimately show ?thesis
    using hooks_agree [OF assms] no_interval_errors [of L dec r] getInterval_parsed ParseDuration_Nil
    unfolding default_fields defaultStatusCheckInterval_def defaultRetryInterval_def by metis
qed

theorem webhook_and_factory_agree_witness:
  "validateAdcsIssuer sample_lib (\<lambda>s. None) (AdcsIssuer_Default sample_issuer) = [(''url'', ''https://adcs'')] \<and>
   ParseDuration sample_lib ''1h'' = Some (getInterval sample_lib ''1h'' ''1h'')"
proof -
  have url: "MatchString re_url ''https://adcs'' = False"
    by code_simp
  let ?r = "AdcsIssuer_Default sample_issuer"
  have spec: "ai_RetryInterval (ai_Spec ?r) = ''1h''" "ai_StatusCheckInterval (ai_Spec ?r) = ''6h''"
      "ai_URL (ai_Spec ?r) = ''https://adcs''"
    by (simp_all add: AdcsIssuer_Default_def sample_issuer_def)
  then have v: "validateAdcsIssuer sample_lib (\<lambda>s. None) ?r = [(''url'', ''https://adcs'')]"
    using url by (simp add: validateAdcsIssuer_def Let_def ParseDuration_1h ParseDuration_6h)
  define c where "c = \<lparr>cai_meta = sample_meta, cai_Spec = as_cluster (ai_Spec ?r)\<rparr>"
  then have "cai_Spec c = as_cluster (ai_Spec ?r)" by simp
  from webhook_and_factory_agree [OF this, of sample_lib "\<lambda>s. None"] v spec show ?thesis
    by (simp add: defaultRetryInterval_def)
qed

end
