(* ===== verification/Spec2Isabelle.thy ===== *)
theory Spec2Isabelle
  imports AdcsRequest_Theorems CertificateRequest_Theorems Certsrv_Theorems Issuer_Theorems
    Issuer_Controllers Budget Delivery Outages_Theorems Request_Ids Check_Panics Connections Schedule
    Protocol Deep_Copy_Theorems Main_Program Access Webhooks
begin

text \<open>
  A verification library for adcs-issuer, a cert-manager external issuer that obtains
  certificates from Microsoft Active Directory Certificate Services (ADCS). The program is a
  set of Kubernetes controllers. For a CertificateRequest of cert-manager that names one of
  its issuers, the first controller creates an AdcsRequest of the same name; the second
  submits the CSR of the AdcsRequest to the ADCS web service, asks again while ADCS keeps
  the request pending, and writes the outcome into the CertificateRequest. The Go code under
  \<open>src/\<close> is translated definition by definition; the names are those of the code,
  prefixed where Go's packages or receivers kept them apart.

  Layers, from the bottom:

  \<^item> \<open>Go_Prelude\<close>, \<open>Go_Regexp\<close>, \<open>Go_Url\<close>, \<open>Go_Pem\<close>, \<open>Go_Duration\<close>: what the code uses of
    Go's standard library. Errors and nil-able byte slices, \<open>strings.Split\<close> and
    \<open>ToLower\<close>, leftmost-first regular expression matching with capture groups, where the dot
    takes one UTF-8 rune, form encoding, PEM encoding, and \<open>time.ParseDuration\<close> on
    64-bit words. Round trips (form,
    base64, PEM) and bounds are proved here. Strings are lists of bytes.
  \<^item> \<open>Api_Types\<close>: the objects of \<open>src/api/v1\<close> and the fields of Kubernetes' and
    cert-manager's objects that the code touches.
  \<^item> \<open>Effects\<close>: programs as trees. A handler is a \<open>prog\<close>; each exchange with the outside
    (HTTP, the Kubernetes API, events, clock, environment variables, Kerberos login) is a
    \<open>Call\<close> whose continuation takes any answer of its kind. \<open>run tr p = Some z\<close> says that
    \<open>p\<close>, given the answers in the trace \<open>tr\<close>, makes exactly the calls of \<open>tr\<close> and comes
    to the outcome \<open>z\<close>, a returned value or a panic. A theorem about all runs therefore
    holds for every behaviour of servers, network and concurrent writers. \<open>interp\<close> runs a
    program against an environment and shows that an outcome is always reached: no loop
    of the code is unbounded, so no fuel is needed anywhere.
  \<^item> \<open>Library_Params\<close>: functions of packages outside the repository, as a record \<open>lib\<close> that
    every definition using them takes as an argument.
  \<^item> \<open>Certsrv\<close>: \<open>src/adcs/certsrv.go\<close> and \<open>consts.go\<close>; the interface \<open>AdcsCertsrv\<close> as a
    record of methods, and the locale \<open>adcs_certsrv\<close> with the laws its user relies on: a
    result is unknown exactly when there is an error, a check keeps the request id, checks
    and CA downloads never submit, a new request is one submission that carries the CSR.
  \<^item> \<open>Ntlm_Certsrv\<close>, \<open>Kerberos_Certsrv\<close>: the clients \<open>src/adcs/ntlm_certsrv.go\<close> and
    \<open>kerberos_certsrv.go\<close>, each interpreting the locale. \<open>Certsrv_Theorems\<close> states what they
    guarantee and where they agree and differ.
  \<^item> \<open>Issuer\<close>: \<open>src/issuers/issuer.go\<close>. The abstract specification of a request's status is
    the relation \<open>lifecycle\<close>, with the phases new, waiting and settled as a linear order; that
    \<open>Issue\<close> refines it is proved once inside the locale. \<open>Issuer_Factory\<close>:
    \<open>issuer_factory.go\<close>. \<open>Issuer_Theorems\<close>: their guarantees.
  \<^item> \<open>CertificateRequest_Controller\<close>, \<open>AdcsRequest_Controller\<close>, \<open>Issuer_Controllers\<close>: the four
    reconcilers of \<open>src/controllers\<close>. For each large one a case lemma lists the shapes of its
    runs, and the theorems in \<open>CertificateRequest_Theorems\<close>, \<open>AdcsRequest_Theorems\<close> and
    below follow from it. The locale \<open>reconciler\<close> is the contract with the controller
    runtime; all four reconcilers interpret it.
  \<^item> \<open>Cluster\<close>: any number of reconciliations of the two large controllers at once. A history is
    the interleaved sequence of their calls and answers; that each plays its program
    (\<open>interleaved\<close>) and that the API server keeps its documented promises (\<open>api_server\<close>: stale
    reads, optimistic concurrency) are hypotheses. One invariant of all histories is proved,
    and from it \<open>Cluster_Theorems\<close> derives what holds of every stored AdcsRequest.
  \<^item> \<open>Delivery\<close>: the locale \<open>relay\<close> extends the contract of the clients: what they return as a
    certificate or a chain is the body of a response. Both clients interpret it, and the
    delivered certificate is traced back to what ADCS sent.
  \<^item> \<open>Request_Ids\<close>: where the id of a request comes from. The locale \<open>id_reader\<close> is the
    contract of the clients for it, and what a reconciliation stores as the status of an AdcsRequest
    is traced back to the answer of ADCS that assigned the id.
  \<^item> \<open>Connections\<close>: where requests go and how they are secured. The locale \<open>directed_certsrv\<close>
    extends the contract by the URL, the HTTP client and the credentials of every exchange; the
    exchanges of an issuer that the factory has built are traced back to its specification, the
    Secret and the CA bundle that were read.
  \<^item> \<open>Check_Panics\<close>: a flaw shown of whole reconciliations, with either client.
  \<^item> \<open>Outages\<close>: a request over many reconciliations, of which some meet answers that are not
    \<open>sound\<close>. The locale \<open>responsive_certsrv\<close> extends the contract of the clients once more: on
    sound answers they come to a decision. \<open>Outages_Theorems\<close>: a request is settled as soon as
    one round meets no setback, and each setback duplicates a submission at most once.
  \<^item> \<open>Protocol\<close>: the abstract specification of both controllers together. A transition system
    without HTTP, errors or reconciliations says when a request appears, moves on, settles and
    goes away; every history of \<open>Cluster\<close> is mapped to its states, and each event is a sequence
    of its steps (\<open>cluster_implements_the_protocol\<close>).
  \<^item> \<open>Budget\<close>: what a run costs, counting all calls or only exchanges with ADCS. The locale
    \<open>frugal_certsrv\<close> extends the contract of the clients by the costs of their methods; both
    clients interpret it for both costs. A reconciliation of an AdcsRequest makes at most 22
    calls and 4 exchanges, one of a CertificateRequest at most 7 calls and no exchange.
  \<^item> \<open>Schedule\<close>: when an AdcsRequest is looked at again, traced back to the intervals in the
    specification of the issuer that was read.
  \<^item> \<open>Go_Flag\<close>, \<open>Main_Program\<close>: \<open>flag.Parse\<close>, \<open>src/main.go\<close> and \<open>src/version\<close>, from the command line
    through the set-up of logging and the wiring of the reconcilers to the start of the manager,
    with the exit codes. \<open>Access\<close>: the scheme, the kinds that the controllers watch and the web
    hooks are set up for, and the role that the markers in the sources
    ask for, compared with what the calls of the reconcilers need.
  \<^item> \<open>Go_Heap\<close>, \<open>Deep_Copy\<close>: \<open>src/api/v1/zz_generated.deepcopy.go\<close> over an explicit heap of the
    arrays behind slices. The locale \<open>deep_copy\<close> is the contract of a copying function; it is
    interpreted for slices, references and specifications. \<open>Deep_Copy_Theorems\<close>: every copy
    shows the same contents and shares nothing.
  \<^item> \<open>Webhooks\<close>: the defaults and the validation of \<open>src/api/v1/.adcsissuer_webhook.go\<close> and
    \<open>.clusteradcsissuer_webhook.go\<close> with the results as they are written, how they relate to the
    factory, and for which resources the hooks would be called.

  The theorems numbered C1, C2 and so on are the properties of the development. Each is
  preceded by what it says; a theorem with hypotheses is followed by one that applies it to
  a concrete run (\<open>Samples\<close> holds the values). The most important ones: stored statuses
  follow the life cycle; a final status is stored only after its outcome was
  delivered; certificates are delivered exactly for ready requests; one
  reconciliation submits at most one request and posts exactly the CSR; no request
  is dropped without a settled status or another attempt; an AdcsRequest is created only
  for an open, approved CertificateRequest, and the program requires the approval unless a
  flag turns this off. These hold of one reconciliation whatever the outside answers;
  for all interleavings, stored statuses move along the life cycle, every stored outcome was
  delivered, and every stored AdcsRequest has an origin, so that the controllers refine the
  abstract protocol; and over any number of rounds, an approved request is answered as soon as
  one round meets no setback. Every reconciliation ends within a fixed number of calls. Some theorems record
  flaws of the code: a ready request that is reconciled again erases the delivered certificate,
  an accepted request can be lost, a check that is answered with an unexpected HTTP status
  panics, a truncated
  certificate is taken for a good one, the NTLM client leaks a response body, and the role does
  not let the manager's cache list the ConfigMaps that issuers may refer to.

  Not modelled: log messages other than the first and the debug output of the clients, with the
  variable ENABLE_DEBUG that turns it on; the metadata of Kubernetes objects
  beyond names, UID and owner references (the deep copies take it as an argument); what
  controller-runtime does with the registered kinds, controllers, web hooks and loggers, which
  is not code of the repository; charts, manifests and scripts. Of the fields of a response only
  what the code reads is kept. Reads and writes of the API server are single calls with
  arbitrary answers, except in \<open>Cluster\<close>, where the promises relied on are written out, and in
  \<open>Outages\<close>, where each round finds what the rounds before it have stored.
\<close>

section \<open>The two controllers together\<close>

text \<open>
  The documented behaviour of cert-manager's condition functions: after a condition of a
  type has been set, a condition of this type is present with this status and this reason,
  and it is found with its reason or without asking for one. Nothing is required of the other
  conditions, so it also holds for an object with two conditions of a type, of which only
  the first is overwritten.
\<close>

definition sets_condition :: "lib \<Rightarrow> bool" where
  "sets_condition L = (\<forall>t cr ty st rs msg rs'. rs' = '''' \<or> rs' = rs \<longrightarrow>
     cm_HasCondition L (cm_SetCondition L t cr ty st rs msg) ty st rs')"

lemma sample_sets_condition: "sets_condition sample_lib"
  by (auto simp: sets_condition_def sample_has_def sample_set_def list_ex_iff)

lemma report_finished:
  assumes "sets_condition L" and "st = StateReady \<or> st = StateErrored"
  shows "finished L (report L t st cert ca cr)"
  using assms by (auto simp: finished_def report_def sets_condition_def)

text \<open>
  C17. Once the controller of AdcsRequests has reported a certificate or an error, the
  controller of CertificateRequests leaves the CertificateRequest alone for good: it reads
  it and does nothing, whatever else changed.
\<close>

theorem reported_outcome_is_final:
  assumes "sets_condition L" and "st = StateReady \<or> st = StateErrored"
    and "run ((CGetCR key, AGetCR (Inr (report L t st cert ca cr))) # tr)
      (CertificateRequest_Reconcile L r key) = Some z"
  shows "tr = [] \<and> z = Returned (zero_result, None)"
  using assms(3)
  by (cases rule: CR_reconcile_cases)
     (use report_finished [OF assms(1,2)] in \<open>auto simp: processable_def\<close>)

theorem reported_outcome_is_final_witness:
  "run [(CGetCR sample_key, AGetCR (Inr (report sample_lib 1 StateReady (Some ''c'') (Some ''ca'') (sample_cr []))))]
     (CertificateRequest_Reconcile sample_lib strict sample_key) = Some (Returned (zero_result, None))"
proof -
  let ?t = "[(CGetCR sample_key, AGetCR (Inr (report sample_lib 1 StateReady (Some ''c'') (Some ''ca'') (sample_cr []))))]"
  have "run ?t (CertificateRequest_Reconcile sample_lib strict sample_key) \<noteq> None"
    by (simp add: replay CertificateRequest_Reconcile_def GetCertificateRequest_def
        process_request_def report_def with_certificate_def sample_defs cm_consts cong: bind_step)
  then obtain z where "run ?t (CertificateRequest_Reconcile sample_lib strict sample_key) = Some z"
    by blast
  with reported_outcome_is_final [OF sample_sets_condition, of StateReady] show ?thesis by blast
qed

text \<open>An AdcsRequest as the API server stores what the first controller has created.\<close>

lemma created_request:
  assumes "content ar = new_AdcsRequest L cr"
  shows "ar_Status ar = zero_status" "ar_CSRPEM (ar_Spec ar) = cr_Request (cr_Spec cr)"
proof -
  from assms have "ar_Status (content ar) = ar_Status (new_AdcsRequest L cr)"
      "ar_Spec (content ar) = ar_Spec (new_AdcsRequest L cr)" by simp_all
  then show "ar_Status ar = zero_status" "ar_CSRPEM (ar_Spec ar) = cr_Request (cr_Spec cr)"
    by (simp_all add: new_AdcsRequest_def)
qed

text \<open>
  C2. From the CertificateRequest to its answer, through both controllers: when the first
  controller has created an AdcsRequest, the CertificateRequest was open and, where this is
  checked, approved; and when the second controller then gets at least one round without a
  setback (the API server, the network, the login or ADCS may fail in all the others), one of
  its rounds successfully reports an outcome to the CertificateRequest: a certificate
  with its chain, a rejection or an error. A certificate or an error is final for the first
  controller. All submissions on the way carry the CSR of the CertificateRequest, and there are
  at most one more than there were setbacks.
\<close>

theorem approved_requests_are_answered:
  assumes "sets_condition L"
    and "run ((CGetCR key, AGetCR (Inr cr)) # tr0) (CertificateRequest_Reconcile L rc key) = Some z0"
    and "(CCreateAR created, AErr None) \<in> set tr0" and "content ar = created"
    and "rounds L ra key ar ps" and "length (filter (setback L) ps) < length ps"
  shows "processable L rc cr \<and>
    (\<exists>(tr, z)\<in>set ps. \<exists>cr' t st cert ca. st \<in> {StateReady, StateRejected, StateErrored} \<and>
       (CGetCR key, AGetCR (Inr cr')) \<in> set tr \<and>
       (CUpdateCRStatus (report L t st cert ca cr'), AErr None) \<in> set tr \<and>
       (cert \<noteq> None \<longleftrightarrow> st = StateReady) \<and> slice_bytes ca \<noteq> [] \<and>
       (st \<noteq> StateRejected \<longrightarrow> finished L (report L t st cert ca cr'))) \<and>
    (\<forall>(tr, z)\<in>set ps. \<forall>cl rq x. (CHttp cl rq, x) \<in> set tr \<and> rq_Method rq = ''POST'' \<longrightarrow>
       Some (''CertRequest'', slice_bytes (cr_Request (cr_Spec cr))) \<in> set (parse_form (rq_Body rq))) \<and>
    submissions (concat (map fst ps)) \<le> Suc (length (filter (setback L) ps))"
proof -
  have gate: "processable L rc cr" "content ar = new_AdcsRequest L cr"
    using CR_creates_when_open [OF assms(2,3)] assms(4) by simp_all
  note new = created_request [OF gate(2)]
  from new have "open_status (ar_Status ar)" by simp
  from rounds_deliver [OF assms(5) this assms(6)] obtain tr z where p: "(tr, z) \<in> set ps"
      and d: "delivers L key tr (ar_State (ar_Status (final ar ps)))"
      and settled: "phase_of (ar_Status (final ar ps)) = Settled" by auto
  let ?st = "ar_State (ar_Status (final ar ps))"
  have st: "?st \<in> {StateReady, StateRejected, StateErrored}"
    using rounds_lifecycle [OF assms(5)] settled new unfolding lifecycle_iff
    by (auto simp: phase_of_def zero_status_def split: if_splits)
  from d obtain cr' t cert ca where out: "(CGetCR key, AGetCR (Inr cr')) \<in> set tr"
      "(CUpdateCRStatus (report L t ?st cert ca cr'), AErr None) \<in> set tr"
      "cert \<noteq> None \<longleftrightarrow> ?st = StateReady" "slice_bytes ca \<noteq> []"
    unfolding delivers_def by blast
  have "?st \<noteq> StateRejected \<longrightarrow> finished L (report L t ?st cert ca cr')"
    using st report_finished [OF assms(1), of ?st] by auto
  with p st out have answered: "\<exists>(tr, z)\<in>set ps. \<exists>cr' t st cert ca. st \<in> {StateReady, StateRejected, StateErrored} \<and>
       (CGetCR key, AGetCR (Inr cr')) \<in> set tr \<and>
       (CUpdateCRStatus (report L t st cert ca cr'), AErr None) \<in> set tr \<and>
       (cert \<noteq> None \<longleftrightarrow> st = StateReady) \<and> slice_bytes ca \<noteq> [] \<and>
       (st \<noteq> StateRejected \<longrightarrow> finished L (report L t st cert ca cr'))" by blast
  have "Some (''CertRequest'', slice_bytes (cr_Request (cr_Spec cr))) \<in> set (parse_form (rq_Body rq))"
    if "(tr, z) \<in> set ps" "(CHttp cl rq, x) \<in> set tr" "rq_Method rq = ''POST''" for tr z cl rq x
    using rounds_post_the_CSR [OF assms(5) that(1) _ that(3)] that(2) new(2) by simp
  moreover have "submissions (concat (map fst ps)) \<le> Suc (length (filter (setback L) ps))"
    using rounds_submissions [OF assms(5)] by (auto split: if_splits)
  ultimately show ?thesis
    using gate(1) answered by blast
qed

theorem approved_requests_are_answered_witness:
  "processable sample_lib strict approved_cr \<and>
   submissions (concat (map fst sample_rounds)) \<le> Suc (length (filter (setback sample_lib) sample_rounds))"
proof -
  have "(CCreateAR (new_AdcsRequest sample_lib approved_cr), AErr None) \<in> set replace_trace"
    by (simp add: replace_trace_def)
  from approved_requests_are_answered [OF sample_sets_condition replace_run this opened_simps(6)
      sample_rounds_run sample_setbacks] show ?thesis by blast
qed

text \<open>
  The contract of the reconcilers with the controller runtime: an object that is gone
  is forgotten and any other read error is reported with the zero result; and no
  reconciler returns an error together with a request to be run again, which the
  runtime would not honour.
\<close>

theorem reconcilers_report_errors_cleanly:
  assumes "run tr (AdcsRequest_Reconcile L r key) = Some (Returned (res, err))"
    and "run tr' (CertificateRequest_Reconcile L r' key') = Some (Returned (res', err'))"
  shows "(Requeue res \<longrightarrow> err = None) \<and> (Requeue res' \<longrightarrow> err' = None) \<and>
    (\<forall>e. tr = [(CGetAR key, AGetAR (Inl e))] \<longrightarrow>
       res = zero_result \<and> err = (if IsNotFound e then None else Some e)) \<and>
    (\<forall>e. tr' = [(CGetCR key', AGetCR (Inl e))] \<longrightarrow>
       res' = zero_result \<and> err' = (if IsNotFound e then None else Some e))"
  using arr.requeue_without_error [OF assms(1)] crr.requeue_without_error [OF assms(2)]
    arr.gone_is_forgotten [of key "AGetAR (Inl _)" "[]" L r]
    crr.gone_is_forgotten [of key' "AGetCR (Inl _)" "[]" L r'] assms
  by fastforce

theorem reconcilers_report_errors_cleanly_witness:
  "run [(CGetAR sample_key, AGetAR (Inl (NotFound ''req'')))]
     (AdcsRequest_Reconcile sample_lib sample_reconciler sample_key) = Some (Returned (zero_result, None))"
proof -
  have "\<exists>res err. run [(CGetAR sample_key, AGetAR (Inl (NotFound ''req'')))]
      (AdcsRequest_Reconcile sample_lib sample_reconciler sample_key) = Some (Returned (res, err))"
    by (simp add: replay AdcsRequest_Reconcile_def cong: bind_step)
  then obtain res err where r: "run [(CGetAR sample_key, AGetAR (Inl (NotFound ''req'')))]
      (AdcsRequest_Reconcile sample_lib sample_reconciler sample_key) = Some (Returned (res, err))"
    by blast
  with reconcilers_report_errors_cleanly [OF r replace_run] show ?thesis by simp
qed

text \<open>
  C37. Every reconciliation comes to an end, soon: against any environment that answers each
  call with an answer of its kind, the program reaches an outcome, and what it did is one
  of the runs the other theorems speak of. For an AdcsRequest it has made at most 22 calls, of
  which at most 4 are exchanges with ADCS; for a CertificateRequest at most 7, none with ADCS.
  Log output does not count, nor the reads of the variable ENABLE_DEBUG that decide on it.
\<close>

theorem reconciliations_terminate:
  assumes "\<And>w c. answers c (fst (env w c))"
  shows "(\<exists>tr z. run tr (AdcsRequest_Reconcile L r key) = Some z \<and>
      interp env (AdcsRequest_Reconcile L r key) w = (tr, z, snd (snd (interp env (AdcsRequest_Reconcile L r key) w))) \<and>
      length tr \<le> 22 \<and> cost exchange tr \<le> 4) \<and>
    (\<exists>tr z. run tr (CertificateRequest_Reconcile L r' key) = Some z \<and>
      interp env (CertificateRequest_Reconcile L r' key) w = (tr, z, snd (snd (interp env (CertificateRequest_Reconcile L r' key) w))) \<and>
      length tr \<le> 7 \<and> cost exchange tr = 0)"
proof -
  have ends: "\<exists>tr z. run tr p = Some z \<and> interp env p w = (tr, z, snd (snd (interp env p w))) \<and> P tr"
    if "\<And>tr z. run tr p = Some z \<Longrightarrow> P tr" for p :: "reconcile_result prog" and P
    using interp_run [of env p w, OF assms] that by (metis prod.collapse)
  show ?thesis
    using ends [OF AR_cost [of _ L r key]] ends [OF CR_cost [of _ L r' key]]
    by (simp add: costs_at_most_def cost_any_call)
qed

primrec down :: "call \<Rightarrow> answer" where
  "down (CHttp cl rq) = AHttp (Inl (Err ''down''))"
| "down (CCloseBody res) = ADone"
| "down (CGetenv v) = AString ''''"
| "down (CGetAR k) = AGetAR (Inl (Err ''down''))"
| "down (CGetCR k) = AGetCR (Inl (Err ''down''))"
| "down (CGetAI k) = AGetAI (Inl (Err ''down''))"
| "down (CGetCAI k) = AGetCAI (Inl (Err ''down''))"
| "down (CGetSecret k) = AGetSecret (Inl (Err ''down''))"
| "down (CGetConfigMap k) = AGetConfigMap (Inl (Err ''down''))"
| "down (CCreateAR ar) = AErr (Some (Err ''down''))"
| "down (CDeleteAR ar) = AErr (Some (Err ''down''))"
| "down (CUpdateARStatus ar) = AErr (Some (Err ''down''))"
| "down (CUpdateCRStatus cr) = AErr (Some (Err ''down''))"
| "down (CEvent obj et rs msg) = ADone"
| "down CNow = ATime 0"
| "down (CKrbLoadConfig path) = AErr (Some (Err ''down''))"
| "down (CKrbLogin user realm pass) = AErr (Some (Err ''down''))"
| "down CSystemCertPool = APool (Inl (Err ''down''))"

theorem reconciliations_terminate_witness:
  "\<exists>tr z. run tr (AdcsRequest_Reconcile sample_lib sample_reconciler sample_key) = Some z"
proof -
  have "answers c (fst ((down c, w)))" for c :: call and w :: unit
    by (cases c) simp_all
  from reconciliations_terminate [of "\<lambda>w c. (down c, w)" sample_lib sample_reconciler sample_key "()"] this
  show ?thesis by blast
qed

end
